(* ===== verification/Prelude.thy ===== *)
theory Prelude
  imports Main "HOL-Library.Word" "HOL-Library.Signed_Division" "HOL-Library.Monad_Syntax"
begin

unbundle bit_operations_syntax

text \<open>
  Shared vocabulary of the development: the machine-integer types of the Rust source, the
  casts the source writes as chains of \<open>as\<close>, the bit tests its flag code is made of, and the
  facts about them that the component theories use. A sized operand (byte, word, long) is
  always held in a 32-bit word, as the source does; \<open>uval\<close> and \<open>sval\<close> read its low
  \<open>n\<close> bits as an unsigned or two's complement number, and are the vocabulary in which the
  arithmetic components are specified.
\<close>

section \<open>Types and theorem collections\<close>

type_synonym u8 = "8 word"
type_synonym u16 = "16 word"
type_synonym u32 = "32 word"
type_synonym u64 = "64 word"
type_synonym u128 = "128 word"

named_theorems keeps \<open>fields that an operation leaves alone\<close>
named_theorems byte_order \<open>splitting and joining big-endian values\<close>

section \<open>Casts\<close>

definition sext8 :: "u32 \<Rightarrow> u32" where
  \<comment> \<open>\<open>value as i8 as i32 as u32\<close>\<close>
  "sext8 v = scast (ucast v :: u8)"

definition sext16 :: "u32 \<Rightarrow> u32" where
  \<comment> \<open>\<open>value as i16 as i32 as u32\<close>\<close>
  "sext16 v = scast (ucast v :: u16)"

section \<open>The question mark operator\<close>

text \<open>
  \<open>m?\<close> in a function that returns \<open>Result\<close>, over a state that is threaded through: a failure
  is returned at once, with the state it left.
\<close>

definition qbind :: "('s \<Rightarrow> ('e + 'a) \<times> 's) \<Rightarrow> ('a \<Rightarrow> 's \<Rightarrow> ('e + 'c) \<times> 's) \<Rightarrow> 's \<Rightarrow> ('e + 'c) \<times> 's" where
  "qbind m f s = (case m s of (Inl e, s) \<Rightarrow> (Inl e, s) | (Inr v, s) \<Rightarrow> f v s)"

lemma qbind_pure:
  assumes "snd (m s) = s" and "\<And>v. snd (f v s) = s"
  shows "snd (qbind m f s) = s"
proof (cases "m s")
  case (Pair r s')
  with assms show ?thesis by (cases r) (auto simp: qbind_def)
qed

lemma qbind_Inr_iff:
  "qbind m f s = (Inr v, s') \<longleftrightarrow> (\<exists>u s1. m s = (Inr u, s1) \<and> f u s1 = (Inr v, s'))"
proof (cases "m s")
  case (Pair r s')
  then show ?thesis by (cases r) (auto simp: qbind_def)
qed

section \<open>Runs that return\<close>

text \<open>
  \<open>yields P m\<close>: the run \<open>m\<close> returns, with a result that satisfies \<open>P\<close>. None is a run that
  does not come back, so a chain of steps yields only when every step does.
\<close>

definition yields :: "('r \<Rightarrow> bool) \<Rightarrow> 'r option \<Rightarrow> bool" where
  "yields P m \<longleftrightarrow> (\<exists>r. m = Some r \<and> P r)"

lemma yields_Some [simp]: "yields P (Some r) \<longleftrightarrow> P r"
  by (simp add: yields_def)

lemma yields_None [simp]: "\<not> yields P None"
  by (simp add: yields_def)

lemma yields_bind:
  "yields Q m \<Longrightarrow> (\<And>r. Q r \<Longrightarrow> yields P (f r)) \<Longrightarrow> yields P (Option.bind m f)"
  by (auto simp: yields_def)

lemma yields_bind2:
  "yields Q m \<Longrightarrow> (\<And>v s. Q (v, s) \<Longrightarrow> yields P (f v s)) \<Longrightarrow>
   yields P (Option.bind m (\<lambda>(v, s). f v s))"
  by (auto simp: yields_def)

lemma yields_mono: "yields P m \<Longrightarrow> (\<And>r. P r \<Longrightarrow> Q r) \<Longrightarrow> yields Q m"
  by (auto simp: yields_def)

lemma yields_map [simp]: "yields P (map_option f m) \<longleftrightarrow> yields (\<lambda>r. P (f r)) m"
  by (auto simp: yields_def)

section \<open>Single bits and low bit fields\<close>

lemma and_exp_iff:
  fixes x :: "'a::len word"
  assumes "n < LENGTH('a)"
  shows "x AND 2 ^ n \<noteq> 0 \<longleftrightarrow> bit x n"
proof
  assume "x AND 2 ^ n \<noteq> 0"
  then obtain m where "bit (x AND 2 ^ n) m"
    by (auto simp: bit_eq_iff)
  then have "bit x m \<and> m = n"
    by (auto simp: bit_and_iff bit_exp_iff)
  then show "bit x n" by blast
next
  assume "bit x n"
  then have "bit (x AND 2 ^ n) n"
    using assms by (simp add: bit_and_iff bit_exp_iff)
  then show "x AND 2 ^ n \<noteq> 0" by auto
qed

lemma bit_top_iff:
  assumes "0 \<le> (k :: int)" and "k < 2 ^ Suc n"
  shows "bit k n \<longleftrightarrow> 2 ^ n \<le> k"
proof -
  have "k div 2 ^ n = (if 2 ^ n \<le> k then 1 else 0)"
  proof (cases "2 ^ n \<le> k")
    case True
    have "k div 2 ^ n = 1"
      using True assms by (intro int_div_pos_eq [where r = "k - 2 ^ n"]) auto
    with True show ?thesis by simp
  next
    case False
    with assms show ?thesis by (simp add: div_pos_pos_trivial)
  qed
  then show ?thesis by (simp add: bit_iff_odd)
qed

lemma low_word_of_wide [simp]: "ucast (ucast w :: u32) = (w :: u16)"
  by (rule bit_eqI) (auto simp: bit_simps)

section \<open>Operands of a given width\<close>

definition uval :: "nat \<Rightarrow> u32 \<Rightarrow> int" where
  "uval n x = take_bit n (uint x)"

definition sval :: "nat \<Rightarrow> u32 \<Rightarrow> int" where
  "sval n x = signed_take_bit (n - 1) (uint x)"

lemma uval_nonneg [simp]: "0 \<le> uval n x"
  by (simp add: uval_def)

lemma uval_less: "uval n x < 2 ^ n"
  by (simp add: uval_def)

lemma uval_and_mask [simp]: "m \<le> n \<Longrightarrow> uval m (x AND mask n) = uval m x"
  by (simp add: uval_def take_bit_eq_mask [symmetric] unsigned_take_bit_eq
      take_bit_take_bit min_def ac_simps)

lemma uint_and_mask: "uint (x AND mask n :: u32) = uval n x"
  by (simp add: uval_def take_bit_eq_mask [symmetric] unsigned_take_bit_eq)

lemma bit_uval:
  assumes "0 < n" and "n \<le> 32"
  shows "bit x (n - 1) \<longleftrightarrow> 2 ^ (n - 1) \<le> uval n x"
proof -
  have "n - 1 < 32" using assms by simp
  then have "bit x (n - 1) \<longleftrightarrow> bit (uval n x) (n - 1)"
    using assms by (simp add: uval_def bit_take_bit_iff bit_uint_iff)
  also have "\<dots> \<longleftrightarrow> 2 ^ (n - 1) \<le> uval n x"
    using \<open>0 < n\<close> uval_less [of n x] by (intro bit_top_iff) auto
  finally show ?thesis .
qed

lemma sval_uval:
  assumes "0 < n"
  shows "sval n x = (if 2 ^ (n - 1) \<le> uval n x then uval n x - 2 ^ n else uval n x)"
proof -
  obtain m where n: "n = Suc m" using assms by (cases n) auto
  have "signed_take_bit m (uint x) = take_bit (Suc m) (uint x) - 2 ^ Suc m * of_bool (bit (uint x) m)"
    by (simp add: signed_take_bit_eq_take_bit_minus)
  moreover have "bit (uint x) m \<longleftrightarrow> bit (uval n x) m"
    by (simp add: uval_def n bit_take_bit_iff)
  moreover have "bit (uval n x) m \<longleftrightarrow> 2 ^ m \<le> uval n x"
    using uval_less [of n x] n by (intro bit_top_iff) auto
  ultimately show ?thesis
    by (simp add: sval_def uval_def n)
qed

lemma sval_range:
  assumes "0 < n"
  shows "- (2 ^ (n - 1)) \<le> sval n x \<and> sval n x < 2 ^ (n - 1)"
proof -
  have "(2 :: int) ^ n = 2 * 2 ^ (n - 1)" using assms by (cases n) auto
  moreover have "0 \<le> uval n x" "uval n x < 2 ^ n" "(0 :: int) < 2 ^ (n - 1)"
    by (simp_all add: uval_less)
  ultimately show ?thesis
    using assms by (cases "2 ^ (n - 1) \<le> uval n x") (simp_all only: sval_uval if_True if_False, linarith+)
qed

end
