(* ===== verification/Types.thy ===== *)
theory Types
  imports Prelude
begin

text \<open>
  The enumerations of \<open>src/core/types.rs\<close>: the processor models with their discriminants, the
  operand sizes with their byte counts and masks, and the result of one dispatched
  instruction.
\<close>

section \<open>Processor models\<close>

datatype cpu_type =
  Invalid | M68000 | M68010 | M68EC020 | M68020 | M68EC030 | M68030
  | M68EC040 | M68LC040 | M68040 | SCC68070 | M68060

definition all_cpu_types :: "cpu_type list" where
  "all_cpu_types = [Invalid, M68000, M68010, M68EC020, M68020, M68EC030, M68030,
     M68EC040, M68LC040, M68040, SCC68070, M68060]"

fun discriminant :: "cpu_type \<Rightarrow> nat" where
  "discriminant Invalid = 0"
| "discriminant M68000 = 1"
| "discriminant M68010 = 2"
| "discriminant M68EC020 = 3"
| "discriminant M68020 = 4"
| "discriminant M68EC030 = 5"
| "discriminant M68030 = 6"
| "discriminant M68EC040 = 7"
| "discriminant M68LC040 = 8"
| "discriminant M68040 = 9"
| "discriminant SCC68070 = 10"
| "discriminant M68060 = 11"

lemma discriminant_inject [simp]: "discriminant x = discriminant y \<longleftrightarrow> x = y"
  by (cases x; cases y) simp_all

lemma all_cpu_types_complete: "ct \<in> set all_cpu_types"
  by (cases ct) (simp_all add: all_cpu_types_def)

instantiation cpu_type :: linorder
begin

definition less_eq_cpu_type :: "cpu_type \<Rightarrow> cpu_type \<Rightarrow> bool" where
  "less_eq_cpu_type x y \<longleftrightarrow> discriminant x \<le> discriminant y"

definition less_cpu_type :: "cpu_type \<Rightarrow> cpu_type \<Rightarrow> bool" where
  "less_cpu_type x y \<longleftrightarrow> discriminant x < discriminant y"

instance
  by standard (auto simp: less_eq_cpu_type_def less_cpu_type_def)

end

section \<open>Operand sizes\<close>

datatype opsize = Size_Byte | Size_Word | Size_Long

fun size_bytes :: "opsize \<Rightarrow> u32" where
  "size_bytes Size_Byte = 1"
| "size_bytes Size_Word = 2"
| "size_bytes Size_Long = 4"

fun size_bits :: "opsize \<Rightarrow> nat" where
  "size_bits Size_Byte = 8"
| "size_bits Size_Word = 16"
| "size_bits Size_Long = 32"

fun size_mask :: "opsize \<Rightarrow> u32" where
  "size_mask Size_Byte = 0xFF"
| "size_mask Size_Word = 0xFFFF"
| "size_mask Size_Long = 0xFFFFFFFF"

fun size_msb :: "opsize \<Rightarrow> u32" where
  "size_msb Size_Byte = 0x80"
| "size_msb Size_Word = 0x8000"
| "size_msb Size_Long = 0x80000000"

lemma size_bits_range [simp]: "0 < size_bits sz" "size_bits sz \<le> 32"
  by (cases sz; simp)+

lemma size_mask_eq_mask: "size_mask sz = mask (size_bits sz)"
  by (cases sz) (simp_all add: mask_eq_exp_minus_1)

lemma size_msb_eq_exp: "size_msb sz = 2 ^ (size_bits sz - 1)"
  by (cases sz) simp_all

text \<open>The number a sized operand stands for, without and with sign.\<close>

definition uvalue :: "opsize \<Rightarrow> u32 \<Rightarrow> int" where
  "uvalue sz x = uval (size_bits sz) x"

definition svalue :: "opsize \<Rightarrow> u32 \<Rightarrow> int" where
  "svalue sz x = sval (size_bits sz) x"

lemma uvalue_bounds: "0 \<le> uvalue sz x" "uvalue sz x < 2 ^ size_bits sz"
  by (simp_all add: uvalue_def uval_less)

lemma uvalue_mask [simp]: "uvalue sz (x AND size_mask sz) = uvalue sz x"
  by (simp add: uvalue_def size_mask_eq_mask)

lemma uint_masked: "uint (x AND size_mask sz) = uvalue sz x"
  by (simp add: uvalue_def size_mask_eq_mask uint_and_mask)

lemma masked_eq_0_iff: "x AND size_mask sz = 0 \<longleftrightarrow> uvalue sz x = 0"
  by (metis uint_masked uint_0_iff)

lemma and_msb_iff: "x AND size_msb sz \<noteq> 0 \<longleftrightarrow> bit x (size_bits sz - 1)"
proof -
  have "size_bits sz - 1 < LENGTH(32)"
    by (cases sz) simp_all
  then show ?thesis
    unfolding size_msb_eq_exp by (rule and_exp_iff)
qed

lemma msb_iff_uvalue: "x AND size_msb sz \<noteq> 0 \<longleftrightarrow> 2 ^ (size_bits sz - 1) \<le> uvalue sz x"
  by (simp add: and_msb_iff uvalue_def bit_uval del: One_nat_def)

lemma svalue_eq:
  "svalue sz x = (if 2 ^ (size_bits sz - 1) \<le> uvalue sz x
     then uvalue sz x - 2 ^ size_bits sz else uvalue sz x)"
  by (simp add: svalue_def uvalue_def sval_uval del: One_nat_def)

lemma msb_iff_negative: "x AND size_msb sz \<noteq> 0 \<longleftrightarrow> svalue sz x < 0"
  using uvalue_bounds [of sz x] by (simp add: msb_iff_uvalue svalue_eq del: One_nat_def)

lemma svalue_range: "- (2 ^ (size_bits sz - 1)) \<le> svalue sz x \<and> svalue sz x < 2 ^ (size_bits sz - 1)"
  unfolding svalue_def by (rule sval_range) simp

section \<open>Result of one dispatched instruction\<close>

datatype internal_step_result =
  Step_Ok int
  | Step_AlineTrap u16
  | Step_FlineTrap u16
  | Step_TrapInstruction u8
  | Step_Breakpoint u8
  | Step_IllegalInstruction u16

section \<open>MMU faults\<close>

datatype mmu_fault_kind = ConfigurationError | IllegalOperation | AccessLevelViolation | MmuBusError

datatype mmu_fault_cause =
  PointerA | PointerB | Indirect | PageFault
  | WriteProtect | SupervisorProtect | TableWalkBusError | AccessBusError

record mmu_fault =
  mf_kind :: mmu_fault_kind
  mf_address :: u32
  mf_cause :: mmu_fault_cause

end
