(* ===== verification/Bus.thy ===== *)
theory Bus
  imports Types
begin

text \<open>
  The memory interface of \<open>src/core/memory.rs\<close>. The trait \<open>AddressBus\<close> is a record of its
  methods over a bus state (every processor operation takes such a record, as every generic
  Rust method takes its \<open>B: AddressBus\<close>), the trait's default method bodies are the
  fields of \<open>default_bus\<close>, and \<open>LinearMemoryBus\<close>, the crate's own implementation, is the
  record \<open>linear_memory_bus\<close> over \<open>linear_bus\<close>. The locale \<open>ram_bus\<close> states what the
  processor relies on when the bus is plain memory; it is interpreted on
  \<open>linear_memory_bus\<close>.
\<close>

section \<open>The trait AddressBus\<close>

datatype bus_fault_kind = BusError

record bus_fault =
  bf_kind :: bus_fault_kind
  bf_address :: u32

record 'b address_bus =
  read_byte :: "u32 \<Rightarrow> 'b \<Rightarrow> u8 \<times> 'b"
  read_word :: "u32 \<Rightarrow> 'b \<Rightarrow> u16 \<times> 'b"
  read_long :: "u32 \<Rightarrow> 'b \<Rightarrow> u32 \<times> 'b"
  write_byte :: "u32 \<Rightarrow> u8 \<Rightarrow> 'b \<Rightarrow> 'b"
  write_word :: "u32 \<Rightarrow> u16 \<Rightarrow> 'b \<Rightarrow> 'b"
  write_long :: "u32 \<Rightarrow> u32 \<Rightarrow> 'b \<Rightarrow> 'b"
  sync :: "u32 \<Rightarrow> 'b \<Rightarrow> 'b"
  try_read_byte :: "u32 \<Rightarrow> 'b \<Rightarrow> (bus_fault + u8) \<times> 'b"
  try_read_word :: "u32 \<Rightarrow> 'b \<Rightarrow> (bus_fault + u16) \<times> 'b"
  try_read_long :: "u32 \<Rightarrow> 'b \<Rightarrow> (bus_fault + u32) \<times> 'b"
  try_write_byte :: "u32 \<Rightarrow> u8 \<Rightarrow> 'b \<Rightarrow> (bus_fault + unit) \<times> 'b"
  try_write_word :: "u32 \<Rightarrow> u16 \<Rightarrow> 'b \<Rightarrow> (bus_fault + unit) \<times> 'b"
  try_write_long :: "u32 \<Rightarrow> u32 \<Rightarrow> 'b \<Rightarrow> (bus_fault + unit) \<times> 'b"
  try_read_three_bytes :: "u32 \<Rightarrow> 'b \<Rightarrow> (bus_fault + u32) \<times> 'b"
  try_write_three_bytes :: "u32 \<Rightarrow> u32 \<Rightarrow> 'b \<Rightarrow> (bus_fault + unit) \<times> 'b"
  try_read_immediate_word :: "u32 \<Rightarrow> 'b \<Rightarrow> (bus_fault + u16) \<times> 'b"
  try_read_immediate_long :: "u32 \<Rightarrow> 'b \<Rightarrow> (bus_fault + u32) \<times> 'b"
  interrupt_acknowledge :: "u8 \<Rightarrow> 'b \<Rightarrow> u32 \<times> 'b"
  ipl_hold_sample :: "'b \<Rightarrow> 'b"
  ipl_release_sample :: "'b \<Rightarrow> 'b"
  last_fetch_was_cached :: "'b \<Rightarrow> bool"
  begin_instruction_fetches :: "'b \<Rightarrow> 'b"
  instruction_fetches_were_cached :: "'b \<Rightarrow> bool"
  take_boundary_request :: "'b \<Rightarrow> bool \<times> 'b"
  reset_devices :: "'b \<Rightarrow> 'b"

definition default_try_read_three_bytes ::
  "(u32 \<Rightarrow> 'b \<Rightarrow> (bus_fault + u16) \<times> 'b) \<Rightarrow> (u32 \<Rightarrow> 'b \<Rightarrow> (bus_fault + u8) \<times> 'b) \<Rightarrow>
   u32 \<Rightarrow> 'b \<Rightarrow> (bus_fault + u32) \<times> 'b" where
  "default_try_read_three_bytes trw trb a b =
     (case trw a b of
        (Inl f, b) \<Rightarrow> (Inl f, b)
      | (Inr hi, b) \<Rightarrow>
          (case trb (a + 2) b of
             (Inl f, b) \<Rightarrow> (Inl f, b)
           | (Inr lo, b) \<Rightarrow> (Inr (push_bit 8 (ucast hi) OR ucast lo), b)))"

definition default_try_write_three_bytes ::
  "(u32 \<Rightarrow> u16 \<Rightarrow> 'b \<Rightarrow> (bus_fault + unit) \<times> 'b) \<Rightarrow> (u32 \<Rightarrow> u8 \<Rightarrow> 'b \<Rightarrow> (bus_fault + unit) \<times> 'b) \<Rightarrow>
   u32 \<Rightarrow> u32 \<Rightarrow> 'b \<Rightarrow> (bus_fault + unit) \<times> 'b" where
  "default_try_write_three_bytes tww twb a v b =
     (case tww a (ucast (drop_bit 8 v)) b of
        (Inl f, b) \<Rightarrow> (Inl f, b)
      | (Inr _, b) \<Rightarrow> twb (a + 2) (ucast v) b)"

text \<open>The trait's default methods over the six required ones.\<close>

definition infallible :: "'a \<times> 'b \<Rightarrow> (bus_fault + 'a) \<times> 'b" where
  "infallible r = (Inr (fst r), snd r)"

definition default_bus ::
  "(u32 \<Rightarrow> 'b \<Rightarrow> u8 \<times> 'b) \<Rightarrow> (u32 \<Rightarrow> 'b \<Rightarrow> u16 \<times> 'b) \<Rightarrow> (u32 \<Rightarrow> 'b \<Rightarrow> u32 \<times> 'b) \<Rightarrow>
   (u32 \<Rightarrow> u8 \<Rightarrow> 'b \<Rightarrow> 'b) \<Rightarrow> (u32 \<Rightarrow> u16 \<Rightarrow> 'b \<Rightarrow> 'b) \<Rightarrow> (u32 \<Rightarrow> u32 \<Rightarrow> 'b \<Rightarrow> 'b) \<Rightarrow>
   'b address_bus" where
  "default_bus rb rw rl wb ww wl =
     (let trb = (\<lambda>a b. infallible (rb a b));
          trw = (\<lambda>a b. infallible (rw a b));
          trl = (\<lambda>a b. infallible (rl a b));
          twb = (\<lambda>a v b. (Inr (), wb a v b));
          tww = (\<lambda>a v b. (Inr (), ww a v b));
          twl = (\<lambda>a v b. (Inr (), wl a v b))
      in \<lparr> read_byte = rb, read_word = rw, read_long = rl,
           write_byte = wb, write_word = ww, write_long = wl,
           sync = (\<lambda>_ b. b),
           try_read_byte = trb, try_read_word = trw, try_read_long = trl,
           try_write_byte = twb, try_write_word = tww, try_write_long = twl,
           try_read_three_bytes = default_try_read_three_bytes trw trb,
           try_write_three_bytes = default_try_write_three_bytes tww twb,
           try_read_immediate_word = trw, try_read_immediate_long = trl,
           interrupt_acknowledge = (\<lambda>_ b. (0xFFFFFFFF, b)),
           ipl_hold_sample = (\<lambda>b. b), ipl_release_sample = (\<lambda>b. b),
           last_fetch_was_cached = (\<lambda>b. True), begin_instruction_fetches = (\<lambda>b. b),
           instruction_fetches_were_cached = (\<lambda>b. True),
           take_boundary_request = (\<lambda>b. (False, b)), reset_devices = (\<lambda>b. b) \<rparr>)"

section \<open>Big-endian words\<close>

definition be16 :: "u8 \<Rightarrow> u8 \<Rightarrow> u16" where
  "be16 b0 b1 = push_bit 8 (ucast b0) OR ucast b1"

definition be32 :: "u8 \<Rightarrow> u8 \<Rightarrow> u8 \<Rightarrow> u8 \<Rightarrow> u32" where
  "be32 b0 b1 b2 b3 =
     push_bit 24 (ucast b0) OR push_bit 16 (ucast b1) OR push_bit 8 (ucast b2) OR ucast b3"

lemma be16_split [byte_order]: "be16 (ucast (drop_bit 8 v)) (ucast v) = v"
  unfolding be16_def
  by (rule bit_word_eqI) (auto simp: bit_simps)

lemma be32_split [byte_order]:
  fixes v :: u32
  shows "be32 (ucast (drop_bit 24 v)) (ucast (drop_bit 16 v)) (ucast (drop_bit 8 v)) (ucast v) = v"
proof (rule bit_word_eqI)
  fix n :: nat
  assume "n < LENGTH(32)"
  then consider "n < 8" | "8 \<le> n" "n < 16" | "16 \<le> n" "n < 24" | "24 \<le> n" "n < 32"
    by fastforce
  then show "bit (be32 (ucast (drop_bit 24 v)) (ucast (drop_bit 16 v)) (ucast (drop_bit 8 v)) (ucast v)) n
      = bit v n"
    by cases (auto simp: be32_def bit_simps)
qed

lemma be32_halves [byte_order]:
  "be32 b0 b1 b2 b3 = push_bit 16 (ucast (be16 b0 b1)) OR ucast (be16 b2 b3)"
proof (rule bit_word_eqI)
  fix n :: nat
  assume "n < LENGTH(32)"
  then consider "n < 8" | "8 \<le> n" "n < 16" | "16 \<le> n" "n < 24" | "24 \<le> n" "n < 32"
    by fastforce
  then show "bit (be32 b0 b1 b2 b3) n
      = bit (push_bit 16 (ucast (be16 b0 b1)) OR ucast (be16 b2 b3) :: u32) n"
    by cases (auto simp: be32_def be16_def bit_simps dest: bit_imp_le_length)
qed

section \<open>LinearMemoryBus\<close>

record linear_bus =
  lb_memory :: "u8 list"
  lb_wrap_mask :: nat
  lb_power_of_two_len :: bool
  lb_instruction_version :: u64

definition is_power_of_two :: "nat \<Rightarrow> bool" where
  "is_power_of_two n \<longleftrightarrow> list_ex (\<lambda>k. n = 2 ^ k) [0..<64]"

text \<open>The constructor asserts that the buffer is not empty: None is the panic.\<close>

definition lb_from_vec :: "u8 list \<Rightarrow> linear_bus option" where
  "lb_from_vec memory =
     (if memory = [] then None
      else Some \<lparr> lb_memory = memory, lb_wrap_mask = length memory - 1,
                  lb_power_of_two_len = is_power_of_two (length memory),
                  lb_instruction_version = 1 \<rparr>)"

definition lb_new :: "nat \<Rightarrow> linear_bus option" where
  "lb_new n = lb_from_vec (replicate n 0)"

definition lb_index :: "linear_bus \<Rightarrow> u32 \<Rightarrow> nat" where
  "lb_index b address =
     (if lb_power_of_two_len b then unat address AND lb_wrap_mask b
      else unat address mod length (lb_memory b))"

definition lb_bump_instruction_version :: "linear_bus \<Rightarrow> linear_bus" where
  "lb_bump_instruction_version b =
     (let v = lb_instruction_version b + 1
      in b\<lparr>lb_instruction_version := if v = 0 then 1 else v\<rparr>)"

definition lb_read_index :: "nat \<Rightarrow> linear_bus \<Rightarrow> u8" where
  "lb_read_index i b = lb_memory b ! i"

definition lb_write_index :: "nat \<Rightarrow> u8 \<Rightarrow> linear_bus \<Rightarrow> linear_bus" where
  "lb_write_index i v b = b\<lparr>lb_memory := (lb_memory b)[i := v]\<rparr>"

fun lb_load_loop :: "u32 \<Rightarrow> u8 list \<Rightarrow> linear_bus \<Rightarrow> linear_bus" where
  "lb_load_loop a [] b = b"
| "lb_load_loop a (v # vs) b = lb_load_loop (a + 1) vs (lb_write_index (lb_index b a) v b)"

definition lb_load :: "u32 \<Rightarrow> u8 list \<Rightarrow> linear_bus \<Rightarrow> linear_bus" where
  "lb_load a data b =
     (if lb_memory b = [] then b
      else lb_bump_instruction_version (lb_load_loop a data b))"

definition lb_read_byte :: "u32 \<Rightarrow> linear_bus \<Rightarrow> u8 \<times> linear_bus" where
  "lb_read_byte a b = (lb_read_index (lb_index b a) b, b)"

definition lb_read_word :: "u32 \<Rightarrow> linear_bus \<Rightarrow> u16 \<times> linear_bus" where
  "lb_read_word a b =
     (be16 (lb_read_index (lb_index b a) b) (lb_read_index (lb_index b (a + 1)) b), b)"

definition lb_read_long :: "u32 \<Rightarrow> linear_bus \<Rightarrow> u32 \<times> linear_bus" where
  "lb_read_long a b =
     (be32 (lb_read_index (lb_index b a) b) (lb_read_index (lb_index b (a + 1)) b)
           (lb_read_index (lb_index b (a + 2)) b) (lb_read_index (lb_index b (a + 3)) b), b)"

definition lb_write_byte :: "u32 \<Rightarrow> u8 \<Rightarrow> linear_bus \<Rightarrow> linear_bus" where
  "lb_write_byte a v b = lb_bump_instruction_version (lb_write_index (lb_index b a) v b)"

definition lb_write_word :: "u32 \<Rightarrow> u16 \<Rightarrow> linear_bus \<Rightarrow> linear_bus" where
  "lb_write_word a v b =
     (let i0 = lb_index b a; i1 = lb_index b (a + 1)
      in lb_bump_instruction_version
           (lb_write_index i1 (ucast v) (lb_write_index i0 (ucast (drop_bit 8 v)) b)))"

definition lb_write_long :: "u32 \<Rightarrow> u32 \<Rightarrow> linear_bus \<Rightarrow> linear_bus" where
  "lb_write_long a v b =
     (let i0 = lb_index b a; i1 = lb_index b (a + 1);
          i2 = lb_index b (a + 2); i3 = lb_index b (a + 3)
      in lb_bump_instruction_version
           (lb_write_index i3 (ucast v) (lb_write_index i2 (ucast (drop_bit 8 v))
              (lb_write_index i1 (ucast (drop_bit 16 v))
                 (lb_write_index i0 (ucast (drop_bit 24 v)) b)))))"

definition linear_memory_bus :: "linear_bus address_bus" where
  "linear_memory_bus =
     default_bus lb_read_byte lb_read_word lb_read_long lb_write_byte lb_write_word lb_write_long"

text \<open>
  The invariant of the private fields, and what the unchecked accesses rely on: the index
  is inside the buffer whichever of the two wrapping paths computes it.
\<close>

definition lb_inv :: "linear_bus \<Rightarrow> bool" where
  "lb_inv b \<longleftrightarrow> lb_memory b \<noteq> [] \<and> lb_wrap_mask b = length (lb_memory b) - 1 \<and>
     lb_power_of_two_len b = is_power_of_two (length (lb_memory b))"

lemma lb_inv_from_vec: "lb_from_vec memory = Some b \<Longrightarrow> lb_inv b"
  by (auto simp: lb_from_vec_def lb_inv_def split: if_splits)

lemma lb_index_eq:
  assumes "lb_inv b"
  shows "lb_index b a = unat a mod length (lb_memory b)"
proof (cases "lb_power_of_two_len b")
  case True
  then obtain k where k: "length (lb_memory b) = 2 ^ k"
    using assms by (auto simp: lb_inv_def is_power_of_two_def list_ex_iff)
  then have "lb_wrap_mask b = mask k"
    using assms by (simp add: lb_inv_def mask_eq_exp_minus_1)
  then show ?thesis
    using True k by (simp add: lb_index_def take_bit_eq_mask [symmetric] take_bit_eq_mod)
next
  case False
  then show ?thesis by (simp add: lb_index_def)
qed

lemma lb_write_index_simps [simp]:
  "length (lb_memory (lb_write_index i v b)) = length (lb_memory b)"
  "lb_wrap_mask (lb_write_index i v b) = lb_wrap_mask b"
  "lb_power_of_two_len (lb_write_index i v b) = lb_power_of_two_len b"
  "lb_memory (lb_write_index i v b) = (lb_memory b)[i := v]"
  by (simp_all add: lb_write_index_def)

lemma lb_bump_simps [simp]:
  "lb_memory (lb_bump_instruction_version b) = lb_memory b"
  "lb_wrap_mask (lb_bump_instruction_version b) = lb_wrap_mask b"
  "lb_power_of_two_len (lb_bump_instruction_version b) = lb_power_of_two_len b"
  "lb_instruction_version (lb_bump_instruction_version b) \<noteq> 0"
  by (simp_all add: lb_bump_instruction_version_def Let_def)

lemma lb_inv_write_index [simp]: "lb_inv (lb_write_index i v b) \<longleftrightarrow> lb_inv b"
  by (simp add: lb_inv_def del: length_0_conv length_greater_0_conv flip: length_0_conv)

lemma lb_inv_bump [simp]: "lb_inv (lb_bump_instruction_version b) \<longleftrightarrow> lb_inv b"
  by (simp add: lb_inv_def)

lemma lb_inv_load: "lb_inv b \<Longrightarrow> lb_inv (lb_load a data b)"
proof -
  have "lb_inv b \<Longrightarrow> lb_inv (lb_load_loop a data b)" for a b
    by (induction a data b rule: lb_load_loop.induct) simp_all
  then show "lb_inv b \<Longrightarrow> lb_inv (lb_load a data b)"
    by (simp add: lb_load_def)
qed

section \<open>Plain memory as an interface\<close>

text \<open>
  A bus is plain memory when its addresses name slots of a byte store, every access is the
  big-endian sequence of the byte accesses, and no access fails. Two addresses may share a
  slot (a mirrored or wrapping address space), so a wide value written reads back when its
  slots are distinct.
\<close>

locale ram_bus =
  fixes B :: "'b address_bus"
    and ok :: "'b \<Rightarrow> bool"
    and slot :: "'b \<Rightarrow> u32 \<Rightarrow> nat"
    and cell :: "'b \<Rightarrow> nat \<Rightarrow> u8"
  assumes read_byte_law: "ok b \<Longrightarrow> read_byte B a b = (cell b (slot b a), b)"
    and read_word_law:
      "ok b \<Longrightarrow> read_word B a b = (be16 (cell b (slot b a)) (cell b (slot b (a + 1))), b)"
    and read_long_law:
      "ok b \<Longrightarrow> read_long B a b = (be32 (cell b (slot b a)) (cell b (slot b (a + 1)))
          (cell b (slot b (a + 2))) (cell b (slot b (a + 3))), b)"
    and write_byte_law:
      "ok b \<Longrightarrow> ok (write_byte B a v8 b) \<and> slot (write_byte B a v8 b) = slot b \<and>
        cell (write_byte B a v8 b) = (cell b)(slot b a := v8)"
    and write_word_law:
      "ok b \<Longrightarrow> ok (write_word B a v16 b) \<and> slot (write_word B a v16 b) = slot b \<and>
        cell (write_word B a v16 b) =
          (cell b)(slot b a := ucast (drop_bit 8 v16), slot b (a + 1) := ucast v16)"
    and write_long_law:
      "ok b \<Longrightarrow> ok (write_long B a v32 b) \<and> slot (write_long B a v32 b) = slot b \<and>
        cell (write_long B a v32 b) =
          (cell b)(slot b a := ucast (drop_bit 24 v32), slot b (a + 1) := ucast (drop_bit 16 v32),
                   slot b (a + 2) := ucast (drop_bit 8 v32), slot b (a + 3) := ucast v32)"
    and try_read_law:
      "try_read_byte B a b = infallible (read_byte B a b)"
      "try_read_word B a b = infallible (read_word B a b)"
      "try_read_long B a b = infallible (read_long B a b)"
    and try_write_law:
      "try_write_byte B a v8 b = (Inr (), write_byte B a v8 b)"
      "try_write_word B a v16 b = (Inr (), write_word B a v16 b)"
      "try_write_long B a v32 b = (Inr (), write_long B a v32 b)"
begin

lemma byte_roundtrip:
  "ok b \<Longrightarrow> try_read_byte B a (snd (try_write_byte B a v b)) = (Inr v, write_byte B a v b)"
  by (simp add: try_read_law try_write_law infallible_def read_byte_law write_byte_law)

lemma word_roundtrip:
  assumes "ok b" and "slot b a \<noteq> slot b (a + 1)"
  shows "try_read_word B a (snd (try_write_word B a v b)) = (Inr v, write_word B a v b)"
  using assms
  by (simp add: try_read_law try_write_law infallible_def read_word_law write_word_law be16_split)

lemma long_roundtrip:
  assumes "ok b" and "distinct (List.map (slot b) [a, a + 1, a + 2, a + 3])"
  shows "try_read_long B a (snd (try_write_long B a v b)) = (Inr v, write_long B a v b)"
  using assms
  by (simp add: try_read_law try_write_law infallible_def read_long_law write_long_law be32_split)

lemma long_frame:
  assumes "ok b" and "slot b x \<notin> set (List.map (slot b) [a, a + 1, a + 2, a + 3])"
  shows "fst (try_read_byte B x (snd (try_write_long B a v b))) = fst (try_read_byte B x b)"
  using assms
  by (simp add: try_read_law try_write_law infallible_def read_byte_law write_long_law)

lemma read_long_halves:
  assumes "ok b"
  shows "fst (read_long B a b) =
    push_bit 16 (ucast (fst (read_word B a b))) OR ucast (fst (read_word B (a + 2) b))"
  using assms by (simp add: read_long_law read_word_law be32_halves ac_simps)

end

definition lb_cell :: "linear_bus \<Rightarrow> nat \<Rightarrow> u8" where
  "lb_cell b i = (if i < length (lb_memory b) then lb_memory b ! i else 0)"

lemma lb_index_less: "lb_inv b \<Longrightarrow> lb_index b a < length (lb_memory b)"
  by (simp add: lb_index_eq) (simp add: lb_inv_def)

lemma lb_cell_write_index:
  "i < length (lb_memory b) \<Longrightarrow> lb_cell (lb_write_index i v b) = (lb_cell b)(i := v)"
  by (auto simp: lb_cell_def fun_eq_iff)

lemma lb_read_index_cell: "lb_inv b \<Longrightarrow> lb_read_index (lb_index b a) b = lb_cell b (lb_index b a)"
  by (simp add: lb_read_index_def lb_cell_def lb_index_less)

lemma lb_cell_bump [simp]: "lb_cell (lb_bump_instruction_version b) = lb_cell b"
  by (simp add: lb_cell_def fun_eq_iff)

lemma lb_index_simps [simp]:
  "lb_index (lb_write_index i v b) = lb_index b"
  "lb_index (lb_bump_instruction_version b) = lb_index b"
  by (simp_all add: lb_index_def fun_eq_iff)

lemmas lb_ops = lb_read_byte_def lb_read_word_def lb_read_long_def lb_write_byte_def
  lb_write_word_def lb_write_long_def

lemmas linear_memory_bus_defs = linear_memory_bus_def default_bus_def Let_def

interpretation lb: ram_bus linear_memory_bus lb_inv lb_index lb_cell
  by unfold_locales
    (simp_all add: linear_memory_bus_defs lb_ops lb_read_index_cell lb_index_less
      lb_cell_write_index)

section \<open>The linear memory stays in bounds and keeps what is written\<close>

text \<open>
  A block of \<open>n\<close> consecutive addresses names different bytes of the buffer when the buffer
  has at least \<open>n\<close> bytes, unless the 32-bit address itself wraps inside the block and the
  buffer length does not divide the address space.
\<close>

definition lb_block_ok :: "linear_bus \<Rightarrow> u32 \<Rightarrow> nat \<Rightarrow> bool" where
  "lb_block_ok b a n \<longleftrightarrow> n \<le> length (lb_memory b) \<and>
     (is_power_of_two (length (lb_memory b)) \<or> unat a + n \<le> 2 ^ 32)"

lemma add_mod_distinct:
  fixes x :: nat
  assumes "i < j" and "j < n"
  shows "(x + i) mod n \<noteq> (x + j) mod n"
proof
  assume "(x + i) mod n = (x + j) mod n"
  then have "n dvd (x + j) - (x + i)"
    using assms by (metis mod_eq_dvd_iff_nat add_le_cancel_left less_imp_le)
  then have "n dvd j - i" by simp
  with assms show False by (auto dest: dvd_imp_le)
qed

lemma lb_slot_offset:
  assumes "lb_inv b" and "lb_block_ok b a n" and "k < n" and "n \<le> 2 ^ 32"
  shows "lb_index b (a + of_nat k) = (unat a + k) mod length (lb_memory b) \<or>
    (2 ^ 32 \<le> length (lb_memory b) \<and> lb_index b (a + of_nat k) = unat (a + of_nat k))"
proof (cases "unat a + n \<le> 2 ^ 32")
  case True
  then have "unat (a + of_nat k) = unat a + k"
    using assms by (simp add: unat_word_ariths unat_of_nat)
  then show ?thesis using assms by (simp add: lb_index_eq)
next
  case False
  then obtain m where m: "length (lb_memory b) = 2 ^ m"
    using assms by (auto simp: lb_block_ok_def is_power_of_two_def list_ex_iff)
  show ?thesis
  proof (cases "m \<le> 32")
    case True
    then have "(2 :: nat) ^ m dvd 2 ^ 32" by (rule le_imp_power_dvd)
    then have "unat (a + of_nat k) mod 2 ^ m = (unat a + k) mod 2 ^ m"
      using assms by (simp add: unat_word_ariths unat_of_nat mod_mod_cancel mod_add_eq)
    then show ?thesis using assms by (simp add: lb_index_eq m)
  next
    case False
    then have "(2 :: nat) ^ 32 \<le> 2 ^ m" by (intro power_increasing) auto
    moreover have "unat (a + of_nat k) < 2 ^ 32"
      using unsigned_less [of "a + of_nat k"] by simp
    ultimately show ?thesis using assms by (simp add: lb_index_eq m)
  qed
qed

lemma lb_slots_distinct:
  assumes "lb_inv b" and "lb_block_ok b a n" and "i < j" and "j < n" and "n \<le> 2 ^ 31"
  shows "lb_index b (a + of_nat i) \<noteq> lb_index b (a + of_nat j)"
proof (cases "2 ^ 32 \<le> length (lb_memory b)")
  case True
  have less: "unat x < length (lb_memory b)" for x :: u32
  proof -
    have "unat x < 2 ^ 32" using unsigned_less [of x] by simp
    with True show ?thesis by simp
  qed
  have "(of_nat i :: u32) \<noteq> of_nat j"
    using assms by (simp add: word_unat_eq_iff unat_of_nat)
  then have "unat (a + of_nat i) \<noteq> unat (a + of_nat j)" by (simp flip: word_unat_eq_iff)
  then show ?thesis
    using assms less by (simp add: lb_index_eq)
next
  case False
  have "lb_index b (a + of_nat i) = (unat a + i) mod length (lb_memory b)"
    "lb_index b (a + of_nat j) = (unat a + j) mod length (lb_memory b)"
    using assms False lb_slot_offset [of b a n i] lb_slot_offset [of b a n j] by auto
  then show ?thesis
    using assms add_mod_distinct [of i j "length (lb_memory b)" "unat a"]
    by (simp add: lb_block_ok_def)
qed

lemma lb_slots4:
  assumes "lb_inv b" and "lb_block_ok b a 4"
  shows "distinct (List.map (lb_index b) [a, a + 1, a + 2, a + 3])"
  using lb_slots_distinct [OF assms, of 0 1] lb_slots_distinct [OF assms, of 0 2]
    lb_slots_distinct [OF assms, of 0 3] lb_slots_distinct [OF assms, of 1 2]
    lb_slots_distinct [OF assms, of 1 3] lb_slots_distinct [OF assms, of 2 3]
  by simp

text \<open>
  C4. The unchecked buffer accesses of the linear memory bus stay in bounds: from the
  constructor on, through every write and load, the index that either wrapping path computes
  is the address modulo the buffer length, which is never zero.
\<close>

theorem linear_bus_index_in_bounds:
  assumes "lb_inv b"
  shows "lb_index b a < length (lb_memory b) \<and> lb_index b a = unat a mod length (lb_memory b) \<and>
    lb_inv (lb_write_byte a v8 b) \<and> lb_inv (lb_write_word a v16 b) \<and>
    lb_inv (lb_write_long a v32 b) \<and> lb_inv (lb_load a data b) \<and>
    (lb_from_vec memory = Some b' \<longrightarrow> lb_inv b')"
  using assms lb_index_less [OF assms, of a] lb_index_eq [OF assms, of a]
  by (simp add: lb_inv_load lb_inv_from_vec lb_ops)

text \<open>
  C5. Memory keeps what is written: a byte, a word or a long written to the linear memory bus
  reads back through the fallible accessors the processor uses, and a long write leaves every
  byte outside its four slots alone, also where the access wraps around the end of the buffer.
\<close>

theorem linear_bus_roundtrip:
  assumes "lb_inv b" and "lb_block_ok b a 4"
  shows "try_read_byte linear_memory_bus a (snd (try_write_byte linear_memory_bus a v8 b))
      = (Inr v8, lb_write_byte a v8 b) \<and>
    try_read_word linear_memory_bus a (snd (try_write_word linear_memory_bus a v16 b))
      = (Inr v16, lb_write_word a v16 b) \<and>
    try_read_long linear_memory_bus a (snd (try_write_long linear_memory_bus a v32 b))
      = (Inr v32, lb_write_long a v32 b) \<and>
    (\<forall>x. lb_index b x \<notin> set (List.map (lb_index b) [a, a + 1, a + 2, a + 3]) \<longrightarrow>
      fst (try_read_byte linear_memory_bus x (snd (try_write_long linear_memory_bus a v32 b)))
      = fst (try_read_byte linear_memory_bus x b))"
  using lb.byte_roundtrip [OF assms(1), of a v8] lb.word_roundtrip [OF assms(1), of a v16]
    lb.long_roundtrip [OF assms(1), of a v32] lb_slots4 [OF assms]
    lb.long_frame [OF assms(1), of _ a v32]
  by (simp add: linear_memory_bus_defs)

text \<open>A small concrete bus: twelve bytes, not a power of two.\<close>

definition sample_bus :: linear_bus where
  "sample_bus = the (lb_from_vec [0x10, 0x21, 0x32, 0x43, 0x54, 0x65, 0x76, 0x87, 0x98, 0xA9, 0xBA, 0xCB])"

lemma lb_inv_sample_bus: "lb_inv sample_bus"
  by (simp add: sample_bus_def lb_from_vec_def lb_inv_def)

lemma lb_block_ok_sample_bus: "lb_block_ok sample_bus 10 4"
  by (simp add: lb_block_ok_def sample_bus_def lb_from_vec_def)

lemma linear_bus_index_in_bounds_witness:
  "lb_inv sample_bus \<and> lb_index sample_bus 14 < length (lb_memory sample_bus)"
  by (rule conjI [OF lb_inv_sample_bus
    linear_bus_index_in_bounds [OF lb_inv_sample_bus, where a = 14, THEN conjunct1]])

lemma linear_bus_roundtrip_witness:
  "lb_block_ok sample_bus 10 4 \<and>
   try_read_long linear_memory_bus 10 (snd (try_write_long linear_memory_bus 10 0xDEADBEEF sample_bus))
     = (Inr 0xDEADBEEF, lb_write_long 10 0xDEADBEEF sample_bus)"
  using linear_bus_roundtrip [OF lb_inv_sample_bus lb_block_ok_sample_bus, where ?v32.0 = "0xDEADBEEF"]
    lb_block_ok_sample_bus by blast

end
