(* ===== verification/Atc.thy ===== *)
theory Atc
  imports Types
begin

text \<open>
  The two caches the processor state carries: the address translation cache of
  \<open>src/mmu/atc.rs\<close> and the branch cache of the 68060 timing state
  (\<open>src/core/timing_060.rs\<close>). Rust's fixed arrays are functions from the index. The locale
  \<open>translation_cache\<close> is the contract the MMU relies on: a hit was inserted, since the last
  flush, for the same page and privilege, and never bypasses a permission. It is
  interpreted on the direct-mapped cache of the code.
\<close>

section \<open>Address translation cache\<close>

record atc_entry =
  ae_valid :: bool
  ae_tag :: u32
  ae_phys_page :: u32
  ae_write_protected :: bool
  ae_supervisor_only :: bool

record atc =
  atc_entries :: "nat \<Rightarrow> atc_entry"

definition atc_default :: atc where
  "atc_default = \<lparr> atc_entries = (\<lambda>_. \<lparr> ae_valid = False, ae_tag = 0, ae_phys_page = 0,
     ae_write_protected = False, ae_supervisor_only = False \<rparr>) \<rparr>"

definition atc_tag :: "u32 \<Rightarrow> bool \<Rightarrow> u32" where
  "atc_tag page_frame supervisor = push_bit 1 page_frame OR (if supervisor then 1 else 0)"

definition atc_index :: "u32 \<Rightarrow> nat" where
  "atc_index page_frame = unat (page_frame AND 63)"

definition atc_lookup :: "atc \<Rightarrow> u32 \<Rightarrow> bool \<Rightarrow> bool \<Rightarrow> u32 option" where
  "atc_lookup c page_frame supervisor write =
     (let e = atc_entries c (atc_index page_frame)
      in if \<not> ae_valid e \<or> ae_tag e \<noteq> atc_tag page_frame supervisor then None
         else if (write \<and> ae_write_protected e) \<or> (\<not> supervisor \<and> ae_supervisor_only e) then None
         else Some (ae_phys_page e))"

definition atc_insert :: "u32 \<Rightarrow> bool \<Rightarrow> u32 \<Rightarrow> bool \<Rightarrow> bool \<Rightarrow> atc \<Rightarrow> atc" where
  "atc_insert page_frame supervisor phys_page write_protected supervisor_only c =
     c\<lparr> atc_entries := (atc_entries c)(atc_index page_frame :=
          \<lparr> ae_valid = True, ae_tag = atc_tag page_frame supervisor, ae_phys_page = phys_page,
            ae_write_protected = write_protected, ae_supervisor_only = supervisor_only \<rparr>) \<rparr>"

definition atc_flush_all :: "atc \<Rightarrow> atc" where
  "atc_flush_all c = c\<lparr> atc_entries := (\<lambda>i. (atc_entries c i)\<lparr> ae_valid := False \<rparr>) \<rparr>"

definition atc_flush_page :: "u32 \<Rightarrow> atc \<Rightarrow> atc" where
  "atc_flush_page page_frame c =
     (let i = atc_index page_frame; e = atc_entries c i
      in if drop_bit 1 (ae_tag e) = page_frame
         then c\<lparr> atc_entries := (atc_entries c)(i := e\<lparr> ae_valid := False \<rparr>) \<rparr>
         else c)"

text \<open>Page frames are logical addresses shifted right by a page size: they leave the top bit clear.\<close>

definition frame_ok :: "u32 \<Rightarrow> bool" where
  "frame_ok f \<longleftrightarrow> f < 2 ^ 31"

lemma frame_not_top:
  assumes "frame_ok f"
  shows "\<not> bit f 31"
proof -
  have "uint f < 2 ^ 31"
    using assms by (simp add: frame_ok_def word_less_def)
  then have "take_bit 31 (uint f) = uint f"
    by (intro take_bit_int_eq_self) simp_all
  moreover have "bit f 31 = bit (uint f) 31" by (simp add: bit_uint_iff)
  moreover have "\<not> bit (take_bit 31 (uint f)) 31" by (simp add: bit_take_bit_iff)
  ultimately show ?thesis by simp
qed

lemma bit_atc_tag: "bit (atc_tag f s) n \<longleftrightarrow> (case n of 0 \<Rightarrow> s | Suc m \<Rightarrow> n < 32 \<and> bit f m)"
  unfolding atc_tag_def bit_or_iff bit_push_bit_iff
  by (cases n; cases s) (simp_all add: bit_1_iff)

lemma drop_atc_tag: "frame_ok f \<Longrightarrow> drop_bit 1 (atc_tag f s) = f"
proof (rule bit_word_eqI)
  fix n :: nat
  assume f: "frame_ok f" and "n < LENGTH(32)"
  then have "n < 31 \<or> n = 31" by auto
  then show "bit (drop_bit 1 (atc_tag f s)) n = bit f n"
    using frame_not_top [OF f] by (auto simp: bit_drop_bit_eq bit_atc_tag)
qed

lemma atc_tag_inject:
  assumes "frame_ok f" and "frame_ok f'"
  shows "atc_tag f s = atc_tag f' s' \<longleftrightarrow> f = f' \<and> s = s'"
proof
  assume eq: "atc_tag f s = atc_tag f' s'"
  then have "f = f'" using assms by (metis drop_atc_tag)
  moreover have "s = s'" using eq bit_atc_tag [of f s 0] bit_atc_tag [of f' s' 0] by simp
  ultimately show "f = f' \<and> s = s'" ..
qed simp

section \<open>The contract of a translation cache\<close>

locale translation_cache =
  fixes lookup :: "'c \<Rightarrow> u32 \<Rightarrow> bool \<Rightarrow> bool \<Rightarrow> u32 option"
    and insert :: "u32 \<Rightarrow> bool \<Rightarrow> u32 \<Rightarrow> bool \<Rightarrow> bool \<Rightarrow> 'c \<Rightarrow> 'c"
    and flush_all :: "'c \<Rightarrow> 'c"
    and flush_page :: "u32 \<Rightarrow> 'c \<Rightarrow> 'c"
    and wf_frame :: "u32 \<Rightarrow> bool"
  assumes insert_same:
      "lookup (insert f s p wp so c) f s w = (if (w \<and> wp) \<or> (\<not> s \<and> so) then None else Some p)"
    and insert_other:
      "wf_frame f \<Longrightarrow> wf_frame f' \<Longrightarrow> (f', s') \<noteq> (f, s) \<Longrightarrow>
       lookup (insert f s p wp so c) f' s' w = Some q \<Longrightarrow> lookup c f' s' w = Some q"
    and flush_all_none: "lookup (flush_all c) f s w = None"
    and flush_page_same: "wf_frame f \<Longrightarrow> lookup (flush_page f c) f s w = None"
    and flush_page_other:
      "wf_frame f \<Longrightarrow> wf_frame f' \<Longrightarrow> f' \<noteq> f \<Longrightarrow> lookup (flush_page f c) f' s w = lookup c f' s w"
begin

text \<open>A cache is coherent with a table when every hit is what the table allows.\<close>

definition coherent :: "(u32 \<Rightarrow> bool \<Rightarrow> bool \<Rightarrow> u32 \<Rightarrow> bool) \<Rightarrow> 'c \<Rightarrow> bool" where
  "coherent table c \<longleftrightarrow>
     (\<forall>f s w q. wf_frame f \<longrightarrow> lookup c f s w = Some q \<longrightarrow> table f s w q)"

lemma coherent_flush_all: "coherent table (flush_all c)"
  by (simp add: coherent_def flush_all_none)

lemma coherent_insert:
  assumes "coherent table c" and "wf_frame f"
    and "\<And>w. \<not> (w \<and> wp) \<Longrightarrow> \<not> (\<not> s \<and> so) \<Longrightarrow> table f s w p"
  shows "coherent table (insert f s p wp so c)"
  unfolding coherent_def
proof (intro allI impI)
  fix f' s' w q
  assume wf: "wf_frame f'" and hit: "lookup (insert f s p wp so c) f' s' w = Some q"
  show "table f' s' w q"
  proof (cases "(f', s') = (f, s)")
    case True
    with hit assms(3) [of w] show ?thesis by (auto simp: insert_same split: if_splits)
  next
    case False
    from insert_other [OF assms(2) wf False hit] assms(1) wf show ?thesis
      by (simp add: coherent_def)
  qed
qed

text \<open>
  The mapping of one page changes: invalidating that page is enough to be coherent again.
\<close>

lemma coherent_flush_page:
  assumes "coherent table c" and "wf_frame f"
    and "\<And>f' s w q. f' \<noteq> f \<Longrightarrow> table f' s w q \<Longrightarrow> table' f' s w q"
  shows "coherent table' (flush_page f c)"
  unfolding coherent_def
proof (intro allI impI)
  fix f' s w q
  assume wf: "wf_frame f'" and hit: "lookup (flush_page f c) f' s w = Some q"
  then have "f' \<noteq> f" using flush_page_same assms(2) by auto
  with hit wf assms show "table' f' s w q"
    by (auto simp: coherent_def flush_page_other)
qed

end

lemma atc_insert_other:
  assumes "frame_ok f" and "frame_ok f'" and "(f', s') \<noteq> (f, s)"
    and "atc_lookup (atc_insert f s p wp so c) f' s' w = Some q"
  shows "atc_lookup c f' s' w = Some q"
proof (cases "atc_index f' = atc_index f")
  case True
  with assms atc_tag_inject [of f f' s s'] show ?thesis
    by (simp add: atc_lookup_def atc_insert_def Let_def)
next
  case False
  with assms(4) show ?thesis by (simp add: atc_lookup_def atc_insert_def Let_def)
qed

lemma atc_flush_page_other:
  assumes "frame_ok f" and "frame_ok f'" and "f' \<noteq> f"
  shows "atc_lookup (atc_flush_page f c) f' s w = atc_lookup c f' s w"
proof (cases "atc_index f' = atc_index f \<and> drop_bit 1 (ae_tag (atc_entries c (atc_index f))) = f")
  case True
  then have "ae_tag (atc_entries c (atc_index f)) \<noteq> atc_tag f' s"
    using assms drop_atc_tag [of f' s] by auto
  with True show ?thesis by (simp add: atc_lookup_def atc_flush_page_def Let_def)
next
  case False
  then show ?thesis by (auto simp: atc_lookup_def atc_flush_page_def Let_def)
qed

lemma atc_flush_page_same:
  assumes "frame_ok f"
  shows "atc_lookup (atc_flush_page f c) f s w = None"
proof (cases "drop_bit 1 (ae_tag (atc_entries c (atc_index f))) = f")
  case True
  then show ?thesis by (simp add: atc_lookup_def atc_flush_page_def Let_def)
next
  case False
  then have "ae_tag (atc_entries c (atc_index f)) \<noteq> atc_tag f s"
    using assms drop_atc_tag [of f s] by auto
  with False show ?thesis by (simp add: atc_lookup_def atc_flush_page_def Let_def)
qed

lemma atc_insert_same:
  "atc_lookup (atc_insert f s p wp so c) f s w = (if (w \<and> wp) \<or> (\<not> s \<and> so) then None else Some p)"
  by (simp add: atc_lookup_def atc_insert_def)

lemma atc_flush_all_none: "atc_lookup (atc_flush_all c) f s w = None"
  by (simp add: atc_lookup_def atc_flush_all_def)

interpretation atc: translation_cache atc_lookup atc_insert atc_flush_all atc_flush_page frame_ok
  by (rule translation_cache.intro)
    (fact atc_insert_same atc_insert_other atc_flush_all_none atc_flush_page_same
      atc_flush_page_other)+

section \<open>Branch cache of the 68060\<close>

record branch_cache060 =
  bc_tags :: "nat \<Rightarrow> u32"
  bc_state :: "nat \<Rightarrow> u8"

definition bc_slot :: "u32 \<Rightarrow> nat" where
  "bc_slot pc = unat (drop_bit 1 pc AND 0xFF)"

definition bc_clear_all :: "branch_cache060 \<Rightarrow> branch_cache060" where
  "bc_clear_all c = c\<lparr> bc_state := (\<lambda>_. 0) \<rparr>"

definition bc_clear_user :: "branch_cache060 \<Rightarrow> branch_cache060" where
  "bc_clear_user c =
     c\<lparr> bc_state := (\<lambda>i. if bc_state c i AND 8 \<noteq> 0 then 0 else bc_state c i) \<rparr>"

definition bc_predict :: "branch_cache060 \<Rightarrow> u32 \<Rightarrow> bool option" where
  "bc_predict c pc =
     (let i = bc_slot pc
      in if bc_state c i AND 4 \<noteq> 0 \<and> bc_tags c i = pc
         then Some (2 \<le> bc_state c i AND 3) else None)"

definition bc_update :: "u32 \<Rightarrow> bool \<Rightarrow> bool \<Rightarrow> branch_cache060 \<Rightarrow> branch_cache060" where
  "bc_update pc taken user c =
     (let i = bc_slot pc;
          hit = bc_state c i AND 4 \<noteq> 0 \<and> bc_tags c i = pc
      in if hit then
           let counter = bc_state c i AND 3;
               counter = (if taken then min (counter + 1) 3
                          else if counter = 0 then 0 else counter - 1)
           in c\<lparr> bc_state := (bc_state c)(i := (bc_state c i AND NOT 3) OR counter) \<rparr>
         else if taken then
           c\<lparr> bc_tags := (bc_tags c)(i := pc),
              bc_state := (bc_state c)(i := 4 OR (if user then 8 else 0) OR 2) \<rparr>
         else c)"

record pending_head060 =
  ph_def_mask :: u16
  ph_defines_ccr :: bool
  ph_accessed_mem :: bool
  ph_head_cached :: bool

record oep060_timing =
  branch_cache :: branch_cache060
  pending_head :: "pending_head060 option"

end
