(* ===== verification/Float_X80.thy ===== *)
theory Float_X80
  imports Types
begin

unbundle bit_operations_syntax

text \<open>
  The 80-bit extended format of \<open>src/fpu/types.rs\<close>: a sign, a 15-bit biased exponent and a
  64-bit significand whose integer bit is explicit, its classification, and the conversions
  from and to binary64. A binary64 value is its 64-bit pattern (\<open>to_bits\<close>, \<open>from_bits\<close>).
\<close>

section \<open>Leading zeros\<close>

definition leading_zeros :: "'a::len word \<Rightarrow> nat" where
  "leading_zeros w = length (takeWhile (\<lambda>i. \<not> bit w i) (rev [0..<LENGTH('a)]))"

lemma leading_zeros_top:
  fixes w :: "'a::len word"
  assumes "w \<noteq> 0"
  shows "leading_zeros w < LENGTH('a)" and "bit w (LENGTH('a) - 1 - leading_zeros w)"
    and "LENGTH('a) - 1 - leading_zeros w < j \<Longrightarrow> \<not> bit w j"
proof -
  define l where "l = rev [0..<LENGTH('a)]"
  define k where "k = leading_zeros w"
  have l: "length l = LENGTH('a)" "\<And>i. i < LENGTH('a) \<Longrightarrow> l ! i = LENGTH('a) - 1 - i"
    by (simp_all add: l_def rev_nth)
  have k: "k = length (takeWhile (\<lambda>i. \<not> bit w i) l)" by (simp add: k_def leading_zeros_def l_def)
  obtain b where b: "bit w b" using assms by (auto simp: bit_eq_iff)
  then have "b < LENGTH('a)" by (rule bit_imp_le_length)
  then have "b \<in> set l" by (simp add: l_def)
  with b have "takeWhile (\<lambda>i. \<not> bit w i) l \<noteq> l" by (metis (mono_tags, lifting) set_takeWhileD)
  then have less: "k < length l"
    unfolding k by (metis length_takeWhile_le linorder_neqE_nat linorder_not_less takeWhile_eq_take take_all)
  have top: "bit w (l ! k)" using nth_length_takeWhile [of "\<lambda>i. \<not> bit w i" l] less by (simp add: k)
  show "leading_zeros w < LENGTH('a)" using less l by (simp add: k_def)
  show "bit w (LENGTH('a) - 1 - leading_zeros w)" using top less l by (simp add: k_def)
  show "\<not> bit w j" if "LENGTH('a) - 1 - leading_zeros w < j"
  proof (cases "j < LENGTH('a)")
    case True
    define i where "i = LENGTH('a) - 1 - j"
    have i: "i < k" "i < LENGTH('a)" "l ! i = j" using that True l by (auto simp: i_def k_def)
    have "takeWhile (\<lambda>i. \<not> bit w i) l ! i = l ! i" using i by (intro takeWhile_nth) (simp add: k)
    moreover have "takeWhile (\<lambda>i. \<not> bit w i) l ! i \<in> set (takeWhile (\<lambda>i. \<not> bit w i) l)"
      using i by (intro nth_mem) (simp add: k)
    ultimately show ?thesis using set_takeWhileD [of j "\<lambda>i. \<not> bit w i" l] i by simp
  qed (use bit_imp_le_length in blast)
qed

lemma leading_zeros_bounds:
  fixes w :: "'a::len word"
  assumes "w \<noteq> 0"
  shows "2 ^ (LENGTH('a) - 1 - leading_zeros w) \<le> uint w" and "uint w < 2 ^ (LENGTH('a) - leading_zeros w)"
proof -
  let ?t = "LENGTH('a) - 1 - leading_zeros w"
  have t: "LENGTH('a) - leading_zeros w = Suc ?t" using leading_zeros_top(1) [OF assms] by simp
  have take: "take_bit (Suc ?t) (uint w) = uint w"
    using leading_zeros_top(3) [OF assms]
    by (intro bit_eqI) (auto simp: bit_take_bit_iff bit_uint_iff dest: not_less_eq [THEN iffD1])
  show u: "uint w < 2 ^ (LENGTH('a) - leading_zeros w)"
    unfolding t by (metis take take_bit_int_less_exp)
  have "bit (uint w) ?t" using leading_zeros_top(2) [OF assms] by (simp add: bit_uint_iff)
  moreover have "uint w < 2 ^ Suc ?t" using u unfolding t .
  ultimately show "2 ^ ?t \<le> uint w" using bit_top_iff [of "uint w" ?t] by simp
qed

lemma normalized:
  fixes w :: "'a::len word"
  assumes "w \<noteq> 0"
  shows "uint (push_bit (leading_zeros w) w) = uint w * 2 ^ leading_zeros w"
    and "2 ^ (LENGTH('a) - 1) \<le> uint (push_bit (leading_zeros w) w)"
proof -
  let ?k = "leading_zeros w"
  have k: "?k < LENGTH('a)" by (rule leading_zeros_top [OF assms])
  have "uint w * 2 ^ ?k < 2 ^ (LENGTH('a) - ?k) * 2 ^ ?k"
    using leading_zeros_bounds(2) [OF assms] by simp
  also have "\<dots> = 2 ^ LENGTH('a)" using k by (simp flip: power_add)
  finally show e: "uint (push_bit ?k w) = uint w * 2 ^ ?k"
  proof -
    assume l: "uint w * 2 ^ ?k < 2 ^ LENGTH('a)"
    have "uint (push_bit ?k w) = take_bit LENGTH('a) (push_bit ?k (uint w))" by (rule unsigned_push_bit_eq)
    also have "\<dots> = uint w * 2 ^ ?k" using l by (simp add: take_bit_eq_mod push_bit_eq_mult)
    finally show ?thesis .
  qed
  have "2 ^ (LENGTH('a) - 1) = 2 ^ (LENGTH('a) - 1 - ?k) * (2 :: int) ^ ?k"
    using k by (simp flip: power_add)
  also have "\<dots> \<le> uint w * 2 ^ ?k" using leading_zeros_bounds(1) [OF assms] by simp
  finally show "2 ^ (LENGTH('a) - 1) \<le> uint (push_bit ?k w)" unfolding e .
qed

section \<open>The format\<close>

record float_x80 =
  mantissa :: u64
  sign_exp :: u16

definition default_nan :: float_x80 where
  "default_nan = \<lparr> mantissa = 0xFFFFFFFFFFFFFFFF, sign_exp = 0x7FFF \<rparr>"

definition sign_bits :: "bool \<Rightarrow> u16" where
  "sign_bits sign = (if sign then 0x8000 else 0)"

definition fzero :: "bool \<Rightarrow> float_x80" where
  "fzero sign = \<lparr> mantissa = 0, sign_exp = sign_bits sign \<rparr>"

definition infinity :: "bool \<Rightarrow> float_x80" where
  "infinity sign = \<lparr> mantissa = 0x8000000000000000, sign_exp = sign_bits sign OR 0x7FFF \<rparr>"

definition fsign :: "float_x80 \<Rightarrow> bool" where "fsign x \<longleftrightarrow> bit (sign_exp x) 15"
definition biased_exp :: "float_x80 \<Rightarrow> u16" where "biased_exp x = sign_exp x AND 0x7FFF"

definition is_nan :: "float_x80 \<Rightarrow> bool" where
  "is_nan x \<longleftrightarrow> biased_exp x = 0x7FFF \<and> push_bit 1 (mantissa x) \<noteq> 0"

definition is_signaling_nan :: "float_x80 \<Rightarrow> bool" where
  "is_signaling_nan x \<longleftrightarrow> is_nan x \<and> mantissa x AND 0x4000000000000000 = 0"

definition is_inf :: "float_x80 \<Rightarrow> bool" where
  "is_inf x \<longleftrightarrow> biased_exp x = 0x7FFF \<and> push_bit 1 (mantissa x) = 0"

definition is_zero :: "float_x80 \<Rightarrow> bool" where
  "is_zero x \<longleftrightarrow> biased_exp x = 0 \<and> mantissa x = 0"

definition is_denormal :: "float_x80 \<Rightarrow> bool" where
  "is_denormal x \<longleftrightarrow> biased_exp x = 0 \<and> mantissa x \<noteq> 0"

definition quiet :: "float_x80 \<Rightarrow> float_x80" where
  "quiet x = x\<lparr> mantissa := mantissa x OR 0x4000000000000000 \<rparr>"

definition from_extended :: "u16 \<Rightarrow> u64 \<Rightarrow> float_x80" where
  "from_extended exp_word m = \<lparr> mantissa = m, sign_exp = exp_word \<rparr>"

definition to_extended :: "float_x80 \<Rightarrow> u16 \<times> u64" where
  "to_extended x = (sign_exp x, mantissa x)"

section \<open>Binary64\<close>

definition f64_sign :: "bool \<Rightarrow> u64" where
  "f64_sign sign = (if sign then 0x8000000000000000 else 0)"

definition f64_infinity :: "bool \<Rightarrow> u64" where
  "f64_infinity sign = f64_sign sign OR 0x7FF0000000000000"

definition f64_nan :: u64 where "f64_nan = 0x7FF8000000000000"

definition to_f64 :: "float_x80 \<Rightarrow> u64" where
  "to_f64 x =
     (let sign = fsign x; exp = int (unat (biased_exp x)); biased = exp - 16383 + 1023
      in if exp = 0 \<and> mantissa x = 0 then f64_sign sign
         else if exp = 0x7FFF then
           if push_bit 1 (mantissa x) = 0 then f64_infinity sign else f64_nan
         else if biased \<le> 0 \<or> biased \<ge> 2047 then
           if biased \<ge> 2047 then f64_infinity sign else f64_sign sign
         else
           let frac = drop_bit 12 (push_bit 1 (mantissa x))
           in f64_sign sign OR push_bit 52 (word_of_int biased) OR frac)"

definition from_f64 :: "u64 \<Rightarrow> float_x80" where
  "from_f64 bits =
     (let sign = sign_bits (bit bits 63); exp = unat (drop_bit 52 bits AND 0x7FF);
          frac = bits AND 0x000FFFFFFFFFFFFF
      in if exp = 0x7FF then
           \<lparr> mantissa = (if frac = 0 then 0x8000000000000000 else 0xC000000000000000 OR push_bit 11 frac),
             sign_exp = sign OR 0x7FFF \<rparr>
         else if exp = 0 then
           if frac = 0 then \<lparr> mantissa = 0, sign_exp = sign \<rparr>
           else
             let lz = leading_zeros frac; true_exp = -1074 + (63 - int lz)
             in \<lparr> mantissa = push_bit lz frac, sign_exp = sign OR word_of_int (true_exp + 16383) \<rparr>
         else
           \<lparr> mantissa = 0x8000000000000000 OR push_bit 11 frac,
             sign_exp = sign OR word_of_int (int exp - 1023 + 16383) \<rparr>)"

section \<open>Fields of a packed value\<close>

lemma bit_sign_bits [simp]: "bit (sign_bits s) n \<longleftrightarrow> s \<and> n = 15"
proof -
  have c: "(0x8000 :: u16) = 2 ^ 15" by simp
  show ?thesis by (cases s) (simp_all only: sign_bits_def c bit_exp_iff if_True if_False, auto)
qed

lemma bit_f64_sign [simp]: "bit (f64_sign s) n \<longleftrightarrow> s \<and> n = 63"
proof -
  have c: "(0x8000000000000000 :: u64) = 2 ^ 63" by simp
  show ?thesis by (cases s) (simp_all only: f64_sign_def c bit_exp_iff if_True if_False, auto)
qed

lemma u16_masks: "(0x7FFF :: u16) = mask 15" and u64_masks: "(0x7FF :: u64) = mask 11"
    "(0x000FFFFFFFFFFFFF :: u64) = mask 52" "(0x8000000000000000 :: u64) = 2 ^ 63"
    "(0x4000000000000000 :: u64) = 2 ^ 62" "(0xC000000000000000 :: u64) = 2 ^ 63 OR 2 ^ 62"
  by (simp_all add: mask_eq_exp_minus_1)

lemma packed_fields:
  assumes "b \<le> 0x7FFF"
  shows "fsign \<lparr> mantissa = m, sign_exp = sign_bits s OR word_of_nat b \<rparr> = s"
    and "biased_exp \<lparr> mantissa = m, sign_exp = sign_bits s OR word_of_nat b \<rparr> = word_of_nat b"
proof -
  have "b < 2 ^ 15" using assms by simp
  then have t: "take_bit 15 (word_of_nat b :: u16) = word_of_nat b"
    by (simp add: take_bit_of_nat take_bit_nat_eq_self)
  define w :: u16 where "w = word_of_nat b"
  have b: "\<not> bit w n" if "15 \<le> n" for n
    using that t unfolding w_def by (metis bit_take_bit_iff not_less)
  show "fsign \<lparr> mantissa = m, sign_exp = sign_bits s OR word_of_nat b \<rparr> = s"
    unfolding w_def [symmetric] using b by (simp add: fsign_def bit_or_iff)
  have "biased_exp \<lparr> mantissa = m, sign_exp = sign_bits s OR word_of_nat b \<rparr> =
      (sign_bits s OR w) AND mask 15" by (simp add: biased_exp_def mask_eq_exp_minus_1 w_def)
  also have "\<dots> = w"
    using b by (intro bit_word_eqI) (auto simp: bit_and_iff bit_or_iff bit_mask_iff not_less [symmetric])
  also have "\<dots> = word_of_nat b" by (rule w_def)
  finally show "biased_exp \<lparr> mantissa = m, sign_exp = sign_bits s OR word_of_nat b \<rparr> = word_of_nat b" .
qed

lemma unat_small16: "b \<le> 0x7FFF \<Longrightarrow> unat (word_of_nat b :: u16) = b"
  by (simp add: unsigned_of_nat take_bit_nat_eq_self)

text \<open>The sign, exponent and fraction of a binary64 pattern.\<close>

definition f64_exp :: "u64 \<Rightarrow> nat" where "f64_exp bits = unat (drop_bit 52 bits AND 0x7FF)"
definition f64_frac :: "u64 \<Rightarrow> u64" where "f64_frac bits = bits AND 0x000FFFFFFFFFFFFF"

lemma f64_exp_le: "f64_exp bits \<le> 0x7FF"
proof -
  have "drop_bit 52 bits AND 0x7FF \<le> (0x7FF :: u64)" by (rule word_and_le1)
  then show ?thesis by (simp add: f64_exp_def word_le_nat_alt)
qed

lemma bit_f64_frac: "bit (f64_frac bits) n \<longleftrightarrow> n < 52 \<and> bit bits n"
  unfolding f64_frac_def u64_masks(2) by (auto simp: bit_simps)

lemma f64_assemble: "f64_sign (bit bits 63) OR push_bit 52 (word_of_nat (f64_exp bits)) OR f64_frac bits = bits"
proof -
  have e: "word_of_nat (f64_exp bits) = drop_bit 52 bits AND (mask 11 :: u64)"
    by (simp add: f64_exp_def mask_eq_exp_minus_1)
  show ?thesis
  proof (rule bit_word_eqI)
    fix n assume n: "n < LENGTH(64)"
    consider "n < 52" | "52 \<le> n" "n < 63" | "n = 63" using n by fastforce
    then show "bit (f64_sign (bit bits 63) OR push_bit 52 (word_of_nat (f64_exp bits)) OR f64_frac bits) n = bit bits n"
      unfolding e by cases (auto simp: bit_simps bit_f64_frac)
  qed
qed

lemma from_f64_normal:
  assumes "f64_exp bits \<noteq> 0" and "f64_exp bits \<noteq> 0x7FF"
  shows "to_f64 (from_f64 bits) = bits"
proof -
  let ?e = "f64_exp bits"
  have le: "?e + 15360 \<le> 0x7FFF" "?e < 0x7FF" using assms f64_exp_le [of bits] by simp_all
  have w: "(word_of_int (int ?e - 1023 + 16383) :: u16) = word_of_nat (?e + 15360)"
    by simp
  have x: "from_f64 bits = \<lparr> mantissa = 0x8000000000000000 OR push_bit 11 (f64_frac bits),
      sign_exp = sign_bits (bit bits 63) OR word_of_nat (?e + 15360) \<rparr>" (is "_ = ?x")
    unfolding from_f64_def Let_def f64_exp_def [symmetric] f64_frac_def [symmetric] w using assms by simp
  have frac: "drop_bit 12 (push_bit 12 (f64_frac bits)) = f64_frac bits"
    by (rule bit_word_eqI) (auto simp: bit_simps bit_f64_frac)
  have "word_of_int (int (?e + 15360) - 16383 + 1023) = (word_of_nat ?e :: u64)" by simp
  with le assms packed_fields(2) [OF le(1), of _ "bit bits 63"] show ?thesis
    unfolding x to_f64_def Let_def packed_fields [OF le(1)] unat_small16 [OF le(1)]
    by (simp add: frac f64_assemble)
qed

lemma from_f64_special:
  assumes "f64_exp bits = 0x7FF"
  shows "to_f64 (from_f64 bits) = (if f64_frac bits = 0 then bits else f64_nan)"
proof -
  let ?m = "if f64_frac bits = 0 then 0x8000000000000000 else 0xC000000000000000 OR push_bit 11 (f64_frac bits)"
  have w: "(0x7FFF :: u16) = word_of_nat 0x7FFF" by simp
  have x: "from_f64 bits = \<lparr> mantissa = ?m, sign_exp = sign_bits (bit bits 63) OR word_of_nat 0x7FFF \<rparr>"
    unfolding from_f64_def Let_def f64_exp_def [symmetric] f64_frac_def [symmetric] w [symmetric]
    using assms by simp
  have m: "push_bit 1 ?m = 0 \<longleftrightarrow> f64_frac bits = 0"
  proof -
    define g where "g = (0xC000000000000000 OR push_bit 11 (f64_frac bits) :: u64)"
    have "bit g 62" unfolding g_def u64_masks(5) by (simp only: bit_or_iff bit_exp_iff) simp
    then have "bit (push_bit 1 g) 63" by (simp only: bit_push_bit_iff) simp
    then have "push_bit 1 g \<noteq> 0" by (metis bit_0_eq bot_apply bot_bool_def)
    moreover have "push_bit 1 (0x8000000000000000 :: u64) = 0" by simp
    ultimately show ?thesis unfolding g_def [symmetric] by (cases "f64_frac bits = 0") (simp_all only: if_True if_False, simp_all)
  qed
  have i: "bits = f64_infinity (bit bits 63)" if "f64_frac bits = 0"
  proof -
    have "push_bit 52 (word_of_nat 0x7FF) = (0x7FF0000000000000 :: u64)" by (simp add: push_bit_eq_mult)
    then show ?thesis using f64_assemble [of bits] that assms by (simp add: f64_infinity_def)
  qed
  show ?thesis
    using m i unfolding x to_f64_def Let_def packed_fields [OF order.refl] unat_small16 [OF order.refl]
    by (auto simp del: of_nat_numeral)
qed

lemma from_f64_tiny:
  assumes "f64_exp bits = 0"
  shows "to_f64 (from_f64 bits) = f64_sign (bit bits 63)"
proof (cases "f64_frac bits = 0")
  case True
  have x: "from_f64 bits = \<lparr> mantissa = 0, sign_exp = sign_bits (bit bits 63) OR word_of_nat 0 \<rparr>"
    unfolding from_f64_def Let_def f64_exp_def [symmetric] f64_frac_def [symmetric] using assms True by simp
  show ?thesis unfolding x to_f64_def Let_def packed_fields [OF le0] unat_small16 [OF le0] by simp
next
  case False
  define lz where "lz = leading_zeros (f64_frac bits)"
  have lz: "lz < 64" "bit (f64_frac bits) (63 - lz)" using leading_zeros_top [OF False] by (simp_all add: lz_def)
  then have "63 - lz < 52" by (simp add: bit_f64_frac)
  with lz(1) have lo: "12 \<le> lz" by arith
  define b where "b = 15372 - lz"
  have b: "b \<le> 0x7FFF" "int b = 15372 - int lz" "0 < b" using lz by (simp_all add: b_def of_nat_diff)
  have w: "(word_of_int (-1074 + (63 - int lz) + 16383) :: u16) = word_of_nat b"
  proof -
    have e: "-1074 + (63 - int lz) + 16383 = int b" using b(2) by simp
    show ?thesis unfolding e by (rule of_int_of_nat_eq)
  qed
  have x: "from_f64 bits = \<lparr> mantissa = push_bit lz (f64_frac bits), sign_exp = sign_bits (bit bits 63) OR word_of_nat b \<rparr>"
    unfolding from_f64_def Let_def f64_exp_def [symmetric] f64_frac_def [symmetric] lz_def [symmetric] w
    using assms False by simp
  show ?thesis
    using b lo unfolding x to_f64_def Let_def packed_fields [OF b(1)] unat_small16 [OF b(1)] by simp
qed

text \<open>
  C28. A binary64 value that is loaded into a register and stored again comes back bit for bit
  when it is normal, an infinity or a zero; a NaN comes back as the quiet NaN of the host; and
  every subnormal comes back as a zero of its sign, although the source documents the round
  trip as exact.
\<close>

theorem binary64_roundtrip:
  "to_f64 (from_f64 bits) =
    (if f64_exp bits = 0 then f64_sign (bit bits 63)
     else if f64_exp bits = 0x7FF \<and> f64_frac bits \<noteq> 0 then f64_nan else bits)"
proof (cases "f64_exp bits = 0 \<or> f64_exp bits = 0x7FF")
  case True
  then show ?thesis using from_f64_tiny [of bits] from_f64_special [of bits] by auto
next
  case False
  then show ?thesis using from_f64_normal [of bits] by simp
qed

end
