(* ===== verification/Cpu_State.thy ===== *)
theory Cpu_State
  imports Bus Atc Float_X80
begin

text \<open>
  The processor state of \<open>src/core/cpu.rs\<close> and its operations that do not touch the bus:
  the record \<open>cpu_core\<close> (fields of \<open>CpuCore\<close> under their Rust names; the decode table, the FastMem window and the trace-JIT filters are not part of
  it), \<open>set_cpu_type\<close>, the stack-pointer banks, the status register, the control registers
  of MOVEC, reset, the condition tests and the interrupt check of
  \<open>src/core/interrupts.rs\<close>. A \<open>machine\<close> is a processor together with its bus. The flag
  fields are the \<open>u32\<close> encodings of the source: Z inverted, X and C at bit 8, N and V at
  bit 7.
\<close>

section \<open>The state\<close>

record cpu_core =
  dar :: "nat \<Rightarrow> u32"
  dar_save :: "nat \<Rightarrow> u32"
  sr_save :: u16
  ppc :: u32
  pc :: u32
  sp :: "nat \<Rightarrow> u32"
  vbr :: u32
  sfc :: u32
  dfc :: u32
  cacr :: u32
  caar :: u32
  cacr_pending_ops :: u32
  itt0 :: u32
  itt1 :: u32
  dtt0 :: u32
  dtt1 :: u32
  ir :: u32
  fpr :: "nat \<Rightarrow> float_x80"
  fpiar :: u32
  fpsr :: u32
  fpcr :: u32
  t1_flag :: u32
  t0_flag :: u32
  s_flag :: u32
  m_flag :: u32
  x_flag :: u32
  n_flag :: u32
  not_z_flag :: u32
  v_flag :: u32
  c_flag :: u32
  int_mask :: u32
  int_level :: u32
  stopped :: u32
  change_of_flow :: bool
  loop_mode :: bool
  loop_body_word :: u16
  loop_dbcc_word :: u16
  prefetch_queue :: "nat \<Rightarrow> u16"
  prefetch_count :: u8
  consume_without_prefetch :: bool
  pending_sync_clocks :: u32
  precise_bus :: bool
  cpu_model :: cpu_type
  address_mask :: u32
  sr_mask :: u32
  instr_mode :: u32
  run_mode :: u32
  exception_processing :: bool
  instruction_exception_vector :: "u32 option"
  bitfield_mem_wide_span :: bool
  last_exception_vector :: "u32 option"
  has_pmmu :: bool
  pmmu_enabled :: bool
  is_pre_68020 :: bool
  reset_cycles :: u32
  cyc_reset :: int
  mmu_crp_aptr :: u32
  mmu_crp_limit :: u32
  mmu_srp_aptr :: u32
  mmu_srp_limit :: u32
  mmu_tc :: u32
  mmu_sr :: u32
  mmu_tt0 :: u32
  mmu_tt1 :: u32
  dacr0 :: u32
  dacr1 :: u32
  iacr0 :: u32
  iacr1 :: u32
  pcr :: u32
  buscr :: u32
  atc :: Atc.atc
  pending_fault_cause :: "mmu_fault_cause option"
  mmu_fc_override :: "u8 option"
  mmu_read_override :: "(u32 \<times> u32) option"
  mmu_write_suppress :: "u32 option"
  pending_fault_wdata :: u32
  fault_resume :: "(u32 \<times> u16 \<times> (nat \<Rightarrow> u32)) option"
  cycles_remaining :: int
  initial_cycles :: int
  oep060 :: oep060_timing
  emulate_unimplemented_060 :: bool
  sst_m68000_compat :: bool
  fpu_just_reset :: bool
  fpu_present :: bool

record 'b machine = cpu_core +
  bus :: 'b

subsection \<open>Constants\<close>

abbreviation (input) XFLAG_SET :: u32 where "XFLAG_SET \<equiv> 0x100"
abbreviation (input) NFLAG_SET :: u32 where "NFLAG_SET \<equiv> 0x80"
abbreviation (input) VFLAG_SET :: u32 where "VFLAG_SET \<equiv> 0x80"
abbreviation (input) CFLAG_SET :: u32 where "CFLAG_SET \<equiv> 0x100"
abbreviation (input) SFLAG_SET :: u32 where "SFLAG_SET \<equiv> 4"
abbreviation (input) MFLAG_SET :: u32 where "MFLAG_SET \<equiv> 2"

abbreviation (input) RUN_MODE_NORMAL :: u32 where "RUN_MODE_NORMAL \<equiv> 0"
abbreviation (input) RUN_MODE_BERR_AERR_RESET :: u32 where "RUN_MODE_BERR_AERR_RESET \<equiv> 1"

definition PCR_060_RESET :: u32 where "PCR_060_RESET = 0x04300100"

section \<open>Simple predicates and register accessors\<close>

definition is_040 :: "'a cpu_core_scheme \<Rightarrow> bool" where
  "is_040 s \<longleftrightarrow> cpu_model s \<in> {M68EC040, M68LC040, M68040}"

definition is_060 :: "'a cpu_core_scheme \<Rightarrow> bool" where
  "is_060 s \<longleftrightarrow> cpu_model s = M68060"

definition trap_unimpl_060 :: "'a cpu_core_scheme \<Rightarrow> bool" where
  "trap_unimpl_060 s \<longleftrightarrow> cpu_model s = M68060 \<and> \<not> emulate_unimplemented_060 s"

definition tc_enable :: "'a cpu_core_scheme \<Rightarrow> bool" where
  "tc_enable s \<longleftrightarrow>
     (if is_040 s \<or> is_060 s then mmu_tc s AND 0x8000 \<noteq> 0 else mmu_tc s AND 0x80000000 \<noteq> 0)"

definition address :: "u32 \<Rightarrow> 'a cpu_core_scheme \<Rightarrow> u32" where
  "address addr s = addr AND address_mask s"

definition faulted :: "'a cpu_core_scheme \<Rightarrow> bool" where
  "faulted s \<longleftrightarrow> run_mode s = RUN_MODE_BERR_AERR_RESET"

definition is_supervisor :: "'a cpu_core_scheme \<Rightarrow> bool" where
  "is_supervisor s \<longleftrightarrow> s_flag s \<noteq> 0"

definition is_stopped :: "'a cpu_core_scheme \<Rightarrow> bool" where
  "is_stopped s \<longleftrightarrow> stopped s \<noteq> 0 \<and> run_mode s \<noteq> RUN_MODE_BERR_AERR_RESET"

definition is_halted :: "'a cpu_core_scheme \<Rightarrow> bool" where
  "is_halted s \<longleftrightarrow> stopped s \<noteq> 0 \<and> run_mode s = RUN_MODE_BERR_AERR_RESET"

definition flag_x :: "'a cpu_core_scheme \<Rightarrow> bool" where "flag_x s \<longleftrightarrow> x_flag s \<noteq> 0"
definition flag_n :: "'a cpu_core_scheme \<Rightarrow> bool" where "flag_n s \<longleftrightarrow> n_flag s \<noteq> 0"
definition flag_z :: "'a cpu_core_scheme \<Rightarrow> bool" where "flag_z s \<longleftrightarrow> not_z_flag s = 0"
definition flag_v :: "'a cpu_core_scheme \<Rightarrow> bool" where "flag_v s \<longleftrightarrow> v_flag s \<noteq> 0"
definition flag_c :: "'a cpu_core_scheme \<Rightarrow> bool" where "flag_c s \<longleftrightarrow> c_flag s \<noteq> 0"

lemmas flag_defs = flag_x_def flag_n_def flag_z_def flag_v_def flag_c_def

definition d_reg :: "nat \<Rightarrow> 'a cpu_core_scheme \<Rightarrow> u32" where
  "d_reg reg s = dar s (reg AND 7)"

definition set_d :: "nat \<Rightarrow> u32 \<Rightarrow> 'a cpu_core_scheme \<Rightarrow> 'a cpu_core_scheme" where
  "set_d reg value s = s\<lparr> dar := (dar s)(reg AND 7 := value) \<rparr>"

definition a_reg :: "nat \<Rightarrow> 'a cpu_core_scheme \<Rightarrow> u32" where
  "a_reg reg s = dar s (8 + (reg AND 7))"

definition set_a :: "nat \<Rightarrow> u32 \<Rightarrow> 'a cpu_core_scheme \<Rightarrow> 'a cpu_core_scheme" where
  "set_a reg value s = s\<lparr> dar := (dar s)(8 + (reg AND 7) := value) \<rparr>"

definition get_usp :: "'a cpu_core_scheme \<Rightarrow> u32" where
  "get_usp s = (if s_flag s = 0 then dar s 15 else sp s 0)"

definition set_usp :: "u32 \<Rightarrow> 'a cpu_core_scheme \<Rightarrow> 'a cpu_core_scheme" where
  "set_usp value s =
     (if s_flag s = 0 then s\<lparr> dar := (dar s)(15 := value) \<rparr> else s\<lparr> sp := (sp s)(0 := value) \<rparr>)"

lemma nat_and_7_less [simp]: "(n :: nat) AND 7 < 8"
proof -
  have "n AND 7 = take_bit 3 n" by (simp add: take_bit_eq_mask mask_eq_exp_minus_1)
  then show ?thesis by (simp add: take_bit_eq_mod)
qed

text \<open>The data and address registers are the two halves of one array.\<close>

lemma d_reg_set_d [simp]: "d_reg i (set_d j v s) = (if i AND 7 = j AND 7 then v else d_reg i s)"
  by (simp add: d_reg_def set_d_def)

lemma a_reg_set_a [simp]: "a_reg i (set_a j v s) = (if i AND 7 = j AND 7 then v else a_reg i s)"
  by (simp add: a_reg_def set_a_def)

lemma and_7_neq_8 [simp]: "(n :: nat) AND 7 \<noteq> 8 + m"
  using nat_and_7_less [of n] by (metis not_add_less1)

lemma d_reg_set_a [simp]: "d_reg i (set_a j v s) = d_reg i s"
  by (simp add: d_reg_def set_a_def)

lemma a_reg_set_d [simp]: "a_reg i (set_d j v s) = a_reg i s"
  using and_7_neq_8 [of j "i AND 7"] by (simp add: a_reg_def set_d_def eq_commute)

section \<open>Stack pointer banking\<close>

definition sp_index :: "'a cpu_core_scheme \<Rightarrow> nat" where
  "sp_index s =
     (if cpu_model s = M68060 then unat (s_flag s)
      else unat (s_flag s OR (drop_bit 1 (s_flag s) AND m_flag s)))"

definition backup_sp :: "'a cpu_core_scheme \<Rightarrow> 'a cpu_core_scheme" where
  "backup_sp s = s\<lparr> sp := (sp s)(sp_index s := dar s 15) \<rparr>"

definition restore_sp :: "'a cpu_core_scheme \<Rightarrow> 'a cpu_core_scheme" where
  "restore_sp s = s\<lparr> dar := (dar s)(15 := sp s (sp_index s)) \<rparr>"

definition set_s_flag :: "u32 \<Rightarrow> 'a cpu_core_scheme \<Rightarrow> 'a cpu_core_scheme" where
  "set_s_flag value s = restore_sp ((backup_sp s)\<lparr> s_flag := value \<rparr>)"

definition set_sm_flag :: "u32 \<Rightarrow> 'a cpu_core_scheme \<Rightarrow> 'a cpu_core_scheme" where
  "set_sm_flag value s =
     restore_sp ((backup_sp s)\<lparr> s_flag := value AND SFLAG_SET, m_flag := value AND MFLAG_SET \<rparr>)"

definition set_sm_flag_nosp :: "u32 \<Rightarrow> 'a cpu_core_scheme \<Rightarrow> 'a cpu_core_scheme" where
  "set_sm_flag_nosp value s = s\<lparr> s_flag := value AND SFLAG_SET, m_flag := value AND MFLAG_SET \<rparr>"

section \<open>Status register\<close>

definition get_sr :: "'a cpu_core_scheme \<Rightarrow> u16" where
  "get_sr s =
     ucast (t1_flag s AND 0x8000) OR ucast (t0_flag s AND 0x4000)
     OR ucast (push_bit 11 (s_flag s AND SFLAG_SET)) OR ucast (push_bit 11 (m_flag s AND MFLAG_SET))
     OR ucast (int_mask s AND 0x0700)
     OR ucast (drop_bit 4 (x_flag s AND XFLAG_SET)) OR ucast (drop_bit 4 (n_flag s AND NFLAG_SET))
     OR (if not_z_flag s = 0 then 4 else 0)
     OR ucast (drop_bit 6 (v_flag s AND VFLAG_SET)) OR ucast (drop_bit 8 (c_flag s AND CFLAG_SET))"

definition set_ccr_internal :: "u8 \<Rightarrow> 'a cpu_core_scheme \<Rightarrow> 'a cpu_core_scheme" where
  "set_ccr_internal ccr s = s\<lparr>
     x_flag := (if ccr AND 0x10 \<noteq> 0 then XFLAG_SET else 0),
     n_flag := (if ccr AND 0x08 \<noteq> 0 then NFLAG_SET else 0),
     not_z_flag := (if ccr AND 0x04 \<noteq> 0 then 0 else 1),
     v_flag := (if ccr AND 0x02 \<noteq> 0 then VFLAG_SET else 0),
     c_flag := (if ccr AND 0x01 \<noteq> 0 then CFLAG_SET else 0) \<rparr>"

text \<open>The S and M bits that an SR value selects: M is forced clear with S clear.\<close>

definition sr_sm :: "u16 \<Rightarrow> u32" where
  "sr_sm sr = (let sm = ucast (drop_bit 11 sr AND 6) :: u32
               in if sm AND SFLAG_SET = 0 then sm AND NOT MFLAG_SET else sm)"

definition set_sr_fields :: "u16 \<Rightarrow> 'a cpu_core_scheme \<Rightarrow> 'a cpu_core_scheme" where
  "set_sr_fields sr s = set_ccr_internal (ucast sr)
     (s\<lparr> t1_flag := ucast sr AND 0x8000, t0_flag := ucast sr AND 0x4000,
         int_mask := ucast sr AND 0x0700 \<rparr>)"

definition set_sr :: "u16 \<Rightarrow> 'a cpu_core_scheme \<Rightarrow> 'a cpu_core_scheme" where
  "set_sr sr0 s =
     (let sr = sr0 AND ucast (sr_mask s) in set_sm_flag (sr_sm sr) (set_sr_fields sr s))"

definition set_sr_noint_nosp :: "u16 \<Rightarrow> 'a cpu_core_scheme \<Rightarrow> 'a cpu_core_scheme" where
  "set_sr_noint_nosp sr0 s =
     (let sr = sr0 AND ucast (sr_mask s) in set_sm_flag_nosp (sr_sm sr) (set_sr_fields sr s))"

definition get_ccr :: "'a cpu_core_scheme \<Rightarrow> u8" where
  "get_ccr s = ucast (get_sr s AND 0xFF)"

definition set_ccr :: "u8 \<Rightarrow> 'a cpu_core_scheme \<Rightarrow> 'a cpu_core_scheme" where
  "set_ccr ccr s = set_ccr_internal ccr s"

section \<open>Condition tests and interrupt check\<close>

definition test_condition :: "u8 \<Rightarrow> 'a cpu_core_scheme \<Rightarrow> bool" where
  "test_condition cond s =
     (let k = cond AND 0x0F in
      if k = 0x0 then True
      else if k = 0x1 then False
      else if k = 0x2 then \<not> flag_c s \<and> \<not> flag_z s
      else if k = 0x3 then flag_c s \<or> flag_z s
      else if k = 0x4 then \<not> flag_c s
      else if k = 0x5 then flag_c s
      else if k = 0x6 then \<not> flag_z s
      else if k = 0x7 then flag_z s
      else if k = 0x8 then \<not> flag_v s
      else if k = 0x9 then flag_v s
      else if k = 0xA then \<not> flag_n s
      else if k = 0xB then flag_n s
      else if k = 0xC then flag_n s = flag_v s
      else if k = 0xD then flag_n s \<noteq> flag_v s
      else if k = 0xE then \<not> flag_z s \<and> flag_n s = flag_v s
      else if k = 0xF then flag_z s \<or> flag_n s \<noteq> flag_v s
      else True)"

definition set_irq :: "u8 \<Rightarrow> 'a cpu_core_scheme \<Rightarrow> 'a cpu_core_scheme" where
  "set_irq level s = s\<lparr> int_level := ucast (level AND 7) \<rparr>"

definition check_interrupts :: "'a cpu_core_scheme \<Rightarrow> bool" where
  "check_interrupts s \<longleftrightarrow> (let m = drop_bit 8 (int_mask s) in int_level s = 7 \<or> m < int_level s)"

section \<open>Configuration and reset\<close>

definition clear_execution_pipeline_state :: "'a cpu_core_scheme \<Rightarrow> 'a cpu_core_scheme" where
  "clear_execution_pipeline_state s = s\<lparr> oep060 := (oep060 s)\<lparr> pending_head := None \<rparr> \<rparr>"

definition set_cpu_type :: "cpu_type \<Rightarrow> 'a cpu_core_scheme \<Rightarrow> 'a cpu_core_scheme" where
  "set_cpu_type ct s0 =
     (let s = (clear_execution_pipeline_state s0)
                \<lparr> cpu_model := ct, is_pre_68020 := ct \<in> {M68000, M68010, SCC68070} \<rparr>
      in case ct of
           M68000 \<Rightarrow> s\<lparr> address_mask := 0x00FFFFFF, sr_mask := 0xA71F, has_pmmu := False \<rparr>
         | M68010 \<Rightarrow> s\<lparr> address_mask := 0x00FFFFFF, sr_mask := 0xA71F, has_pmmu := False \<rparr>
         | SCC68070 \<Rightarrow> s\<lparr> address_mask := 0xFFFFFFFF, sr_mask := 0xA71F, has_pmmu := False \<rparr>
         | M68EC020 \<Rightarrow> s\<lparr> address_mask := 0xFFFFFFFF, sr_mask := 0xF71F, has_pmmu := False \<rparr>
         | M68020 \<Rightarrow> s\<lparr> address_mask := 0xFFFFFFFF, sr_mask := 0xF71F, has_pmmu := False \<rparr>
         | M68EC030 \<Rightarrow> s\<lparr> address_mask := 0xFFFFFFFF, sr_mask := 0xF71F, has_pmmu := False \<rparr>
         | M68030 \<Rightarrow> s\<lparr> address_mask := 0xFFFFFFFF, sr_mask := 0xF71F, has_pmmu := True \<rparr>
         | M68EC040 \<Rightarrow> s\<lparr> address_mask := 0xFFFFFFFF, sr_mask := 0xF71F, has_pmmu := False \<rparr>
         | M68LC040 \<Rightarrow> s\<lparr> address_mask := 0xFFFFFFFF, sr_mask := 0xF71F, has_pmmu := False \<rparr>
         | M68040 \<Rightarrow> s\<lparr> address_mask := 0xFFFFFFFF, sr_mask := 0xF71F, has_pmmu := True \<rparr>
         | M68060 \<Rightarrow> s\<lparr> address_mask := 0xFFFFFFFF, sr_mask := 0xB71F, has_pmmu := True \<rparr>
         | Invalid \<Rightarrow> s)"

text \<open>A new processor, attached to its bus.\<close>

definition oep060_default :: oep060_timing where
  "oep060_default = \<lparr> branch_cache = \<lparr> bc_tags = (\<lambda>_. 0), bc_state = (\<lambda>_. 0) \<rparr>,
     pending_head = None \<rparr>"

definition cpu_new :: "'b \<Rightarrow> 'b machine" where
  "cpu_new b = set_cpu_type M68000 \<lparr>
     dar = (\<lambda>_. 0), dar_save = (\<lambda>_. 0), sr_save = 0, ppc = 0, pc = 0, sp = (\<lambda>_. 0),
     vbr = 0, sfc = 0, dfc = 0, cacr = 0, caar = 0, cacr_pending_ops = 0,
     itt0 = 0, itt1 = 0, dtt0 = 0, dtt1 = 0, ir = 0, fpr = (\<lambda>_. fzero False), fpiar = 0, fpsr = 0, fpcr = 0,
     t1_flag = 0, t0_flag = 0, s_flag = SFLAG_SET, m_flag = 0, x_flag = 0, n_flag = 0,
     not_z_flag = 1, v_flag = 0, c_flag = 0, int_mask = 0x0700, int_level = 0, stopped = 0,
     change_of_flow = False, loop_mode = False, loop_body_word = 0, loop_dbcc_word = 0,
     prefetch_queue = (\<lambda>_. 0), prefetch_count = 0, consume_without_prefetch = False,
     pending_sync_clocks = 0, precise_bus = True, cpu_model = M68000,
     address_mask = 0x00FFFFFF, sr_mask = 0xA71F, instr_mode = 0, run_mode = 0,
     exception_processing = False, instruction_exception_vector = None,
     bitfield_mem_wide_span = False, last_exception_vector = None, has_pmmu = False,
     pmmu_enabled = False, is_pre_68020 = True, reset_cycles = 0, cyc_reset = 132,
     mmu_crp_aptr = 0, mmu_crp_limit = 0, mmu_srp_aptr = 0, mmu_srp_limit = 0,
     mmu_tc = 0, mmu_sr = 0, mmu_tt0 = 0, mmu_tt1 = 0, dacr0 = 0, dacr1 = 0,
     iacr0 = 0, iacr1 = 0, pcr = PCR_060_RESET, buscr = 0, atc = atc_default,
     pending_fault_cause = None, mmu_fc_override = None, mmu_read_override = None,
     mmu_write_suppress = None, pending_fault_wdata = 0, fault_resume = None,
     cycles_remaining = 0, initial_cycles = 0, oep060 = oep060_default,
     emulate_unimplemented_060 = False, sst_m68000_compat = False, fpu_just_reset = True, fpu_present = True, bus = b \<rparr>"

definition pulse_reset :: "'a cpu_core_scheme \<Rightarrow> 'a cpu_core_scheme" where
  "pulse_reset s0 =
     (let s = (clear_execution_pipeline_state s0)\<lparr> stopped := 0, t1_flag := 0, t0_flag := 0,
                m_flag := 0, run_mode := 0, instr_mode := 0, vbr := 0, cacr := 0 \<rparr>;
          s = s\<lparr> cacr_pending_ops := cacr_pending_ops s OR (0x008 OR 0x800) \<rparr>;
          s = s\<lparr> pcr := PCR_060_RESET, buscr := 0,
                 oep060 := (oep060 s)\<lparr> branch_cache := bc_clear_all (branch_cache (oep060 s)) \<rparr> \<rparr>;
          s = s\<lparr> mmu_tc := 0, pmmu_enabled := False, itt0 := 0, itt1 := 0, dtt0 := 0, dtt1 := 0,
                 mmu_tt0 := 0, mmu_tt1 := 0, atc := atc_flush_all (atc s) \<rparr>;
          s = s\<lparr> prefetch_queue := (\<lambda>_. 0), prefetch_count := 0,
                 consume_without_prefetch := False, pending_sync_clocks := 0 \<rparr>;
          s = s\<lparr> x_flag := 0, n_flag := 0, v_flag := 0, c_flag := 0, not_z_flag := 0 \<rparr>;
          s = set_s_flag SFLAG_SET s
      in s\<lparr> int_mask := 0x0700 \<rparr>)"

definition prefetch_enabled :: "'a cpu_core_scheme \<Rightarrow> bool" where
  "prefetch_enabled s \<longleftrightarrow> precise_bus s \<and> cpu_model s \<in> {M68000, M68010}"

definition set_precise_bus :: "bool \<Rightarrow> 'a cpu_core_scheme \<Rightarrow> 'a cpu_core_scheme" where
  "set_precise_bus precise s =
     (if precise_bus s = precise then s
      else (clear_execution_pipeline_state s)\<lparr> precise_bus := precise, prefetch_count := 0,
             pending_sync_clocks := 0, consume_without_prefetch := False, loop_mode := False \<rparr>)"

definition internal_cycles :: "u32 \<Rightarrow> 'a cpu_core_scheme \<Rightarrow> 'a cpu_core_scheme" where
  "internal_cycles clocks s =
     (if prefetch_enabled s then s\<lparr> pending_sync_clocks := pending_sync_clocks s + clocks \<rparr> else s)"

definition invalidate_prefetch :: "'a cpu_core_scheme \<Rightarrow> 'a cpu_core_scheme" where
  "invalidate_prefetch s = s\<lparr> prefetch_count := 0 \<rparr>"

definition scale_cycles_for_cpu_type :: "int \<Rightarrow> 'a cpu_core_scheme \<Rightarrow> int" where
  "scale_cycles_for_cpu_type cycles s =
     (if cpu_model s \<in> {M68000, M68010, Invalid} then cycles
      else max ((cycles * 5 + 7) sdiv 8) 2)"

definition end_faulted_instruction :: "'a cpu_core_scheme \<Rightarrow> 'a cpu_core_scheme" where
  "end_faulted_instruction s0 =
     (let s = (case fault_resume s0 of
                 Some (handler_pc, handler_sr, handler_dar) \<Rightarrow>
                   (set_sr_noint_nosp handler_sr (s0\<lparr> fault_resume := None, pc := handler_pc \<rparr>))
                     \<lparr> dar := handler_dar \<rparr>
               | None \<Rightarrow> s0)
      in if stopped s \<noteq> 0 then s else s\<lparr> run_mode := RUN_MODE_NORMAL \<rparr>)"

section \<open>Control registers (MOVEC)\<close>

definition read_control_register :: "u16 \<Rightarrow> 'a cpu_core_scheme \<Rightarrow> u32" where
  "read_control_register reg s =
     (if reg = 0x000 then sfc s
      else if reg = 0x001 then dfc s
      else if reg = 0x002 then cacr s
      else if reg = 0x003 then mmu_tc s
      else if reg = 0x004 then itt0 s
      else if reg = 0x005 then itt1 s
      else if reg = 0x006 then dtt0 s
      else if reg = 0x007 then dtt1 s
      else if reg = 0x008 \<and> is_060 s then buscr s
      else if reg = 0x008 then dacr0 s
      else if reg = 0x009 then dacr1 s
      else if reg = 0x00A then iacr0 s
      else if reg = 0x00B then iacr1 s
      else if reg = 0x800 then (if s_flag s = 0 then dar s 15 else sp s 0)
      else if reg = 0x801 then vbr s
      else if reg = 0x802 then caar s
      else if reg = 0x803 then (if s_flag s \<noteq> 0 \<and> m_flag s \<noteq> 0 then dar s 15 else sp s 6)
      else if reg = 0x804 then (if s_flag s \<noteq> 0 \<and> m_flag s = 0 then dar s 15 else sp s 4)
      else if reg = 0x805 then mmu_sr s
      else if reg = 0x806 then mmu_crp_aptr s
      else if reg = 0x807 then mmu_srp_aptr s
      else if reg = 0x808 \<and> is_060 s then pcr s
      else 0)"

definition update_branch_cache ::
  "(branch_cache060 \<Rightarrow> branch_cache060) \<Rightarrow> 'a cpu_core_scheme \<Rightarrow> 'a cpu_core_scheme" where
  "update_branch_cache f s = s\<lparr> oep060 := (oep060 s)\<lparr> branch_cache := f (branch_cache (oep060 s)) \<rparr> \<rparr>"

text \<open>
  Writing CACR: the persistent bits and the clear strobes of each model (68020: EI, FI and
  CEI, CI; 68030 adds the data cache; 68040: IE, DE; 68060: its own set), and the immediate
  branch-cache clears of the 68060.
\<close>

definition cacr_masks :: "'a cpu_core_scheme \<Rightarrow> u32 \<times> u32" where
  "cacr_masks s =
     (if cpu_model s \<in> {M68EC020, M68020} then (0x001 OR 0x002, 0x004 OR 0x008)
      else if cpu_model s \<in> {M68EC030, M68030} then
        (0x001 OR 0x002 OR 0x010 OR 0x100 OR 0x200 OR 0x1000 OR 0x2000,
         0x004 OR 0x008 OR 0x400 OR 0x800)
      else if cpu_model s = M68060 then
        (0x80000000 OR 0x40000000 OR 0x20000000 OR 0x10000000 OR 0x08000000 OR 0x00800000
           OR 0x8000 OR 0x4000 OR 0x2000, 0)
      else (0x8000 OR 0x80000000, 0))"

definition write_cacr :: "u32 \<Rightarrow> 'a cpu_core_scheme \<Rightarrow> 'a cpu_core_scheme" where
  "write_cacr value s0 =
     (let s = (if cpu_model s0 = M68060 then
                 let s = (if value AND 0x00400000 \<noteq> 0 then update_branch_cache bc_clear_all s0
                          else if value AND 0x00200000 \<noteq> 0 then update_branch_cache bc_clear_user s0
                          else s0)
                 in if cacr s AND 0x00800000 \<noteq> 0 \<and> value AND 0x00800000 = 0
                    then update_branch_cache bc_clear_all s else s
               else s0);
          (persist, strobes) = cacr_masks s
      in s\<lparr> cacr := value AND persist,
            cacr_pending_ops := cacr_pending_ops s OR (value AND strobes) \<rparr>)"

definition write_tc :: "u32 \<Rightarrow> 'a cpu_core_scheme \<Rightarrow> 'a cpu_core_scheme" where
  "write_tc value s0 =
     (let s = s0\<lparr> mmu_tc := (if is_040 s0 then value AND 0xC000
                             else if is_060 s0 then value AND 0xFFFE else value) \<rparr>
      in s\<lparr> pmmu_enabled := tc_enable s \<rparr>)"

definition write_control_register :: "u16 \<Rightarrow> u32 \<Rightarrow> 'a cpu_core_scheme \<Rightarrow> 'a cpu_core_scheme" where
  "write_control_register reg value s0 =
     (let s =
        (if reg = 0x000 then s0\<lparr> sfc := value AND 7 \<rparr>
         else if reg = 0x001 then s0\<lparr> dfc := value AND 7 \<rparr>
         else if reg = 0x002 then write_cacr value s0
         else if reg = 0x003 then write_tc value s0
         else if reg = 0x004 then s0\<lparr> itt0 := value AND 0xFFFFE364 \<rparr>
         else if reg = 0x005 then s0\<lparr> itt1 := value AND 0xFFFFE364 \<rparr>
         else if reg = 0x006 then s0\<lparr> dtt0 := value AND 0xFFFFE364 \<rparr>
         else if reg = 0x007 then s0\<lparr> dtt1 := value AND 0xFFFFE364 \<rparr>
         else if reg = 0x008 \<and> is_060 s0 then
           s0\<lparr> buscr := (buscr s0 AND 0x50000000) OR (value AND 0xA0000000) \<rparr>
         else if reg = 0x008 then s0\<lparr> dacr0 := value \<rparr>
         else if reg = 0x009 then s0\<lparr> dacr1 := value \<rparr>
         else if reg = 0x00A then s0\<lparr> iacr0 := value \<rparr>
         else if reg = 0x00B then s0\<lparr> iacr1 := value \<rparr>
         else if reg = 0x800 then
           (if s_flag s0 = 0 then s0\<lparr> dar := (dar s0)(15 := value) \<rparr>
            else s0\<lparr> sp := (sp s0)(0 := value) \<rparr>)
         else if reg = 0x801 then s0\<lparr> vbr := value \<rparr>
         else if reg = 0x802 then s0\<lparr> caar := value \<rparr>
         else if reg = 0x803 then
           (if s_flag s0 \<noteq> 0 \<and> m_flag s0 \<noteq> 0 then s0\<lparr> dar := (dar s0)(15 := value) \<rparr>
            else s0\<lparr> sp := (sp s0)(6 := value) \<rparr>)
         else if reg = 0x804 then
           (if s_flag s0 \<noteq> 0 \<and> m_flag s0 = 0 then s0\<lparr> dar := (dar s0)(15 := value) \<rparr>
            else s0\<lparr> sp := (sp s0)(4 := value) \<rparr>)
         else if reg = 0x805 then s0\<lparr> mmu_sr := value \<rparr>
         else if reg = 0x806 then s0\<lparr> mmu_crp_aptr := value \<rparr>
         else if reg = 0x807 then s0\<lparr> mmu_srp_aptr := value \<rparr>
         else if reg = 0x808 \<and> is_060 s0 then
           s0\<lparr> pcr := (pcr s0 AND NOT (0x80 OR 0x02 OR 0x01)) OR (value AND (0x80 OR 0x02 OR 0x01)) \<rparr>
         else s0)
      in if reg \<in> {0x003, 0x004, 0x005, 0x006, 0x007, 0x806, 0x807}
         then s\<lparr> atc := atc_flush_all (atc s) \<rparr> else s)"

section \<open>Properties of the status register and the stack banks\<close>

text \<open>The encodings every operation keeps the flag fields in.\<close>

definition flags_wf :: "'a cpu_core_scheme \<Rightarrow> bool" where
  "flags_wf s \<longleftrightarrow> x_flag s \<in> {0, XFLAG_SET} \<and> n_flag s \<in> {0, NFLAG_SET} \<and>
     v_flag s \<in> {0, VFLAG_SET} \<and> c_flag s \<in> {0, CFLAG_SET} \<and>
     s_flag s \<in> {0, SFLAG_SET} \<and> m_flag s \<in> {0, MFLAG_SET} \<and>
     t1_flag s \<in> {0, 0x8000} \<and> t0_flag s \<in> {0, 0x4000} \<and>
     int_mask s AND 0x700 = int_mask s"

lemma bit_exp32: "m < 32 \<Longrightarrow> bit (2 ^ m :: u32) n \<longleftrightarrow> n = m"
  by (auto simp: bit_exp_iff)

lemma bit_exp16: "m < 16 \<Longrightarrow> bit (2 ^ m :: u16) n \<longleftrightarrow> n = m"
  by (auto simp: bit_exp_iff)

lemma bit_sr_constants:
  "bit (0x8000 :: u32) n \<longleftrightarrow> n = 15" "bit (0x4000 :: u32) n \<longleftrightarrow> n = 14"
  "bit (0x700 :: u32) n \<longleftrightarrow> n = 8 \<or> n = 9 \<or> n = 10" "bit (0x100 :: u32) n \<longleftrightarrow> n = 8"
  "bit (0x80 :: u32) n \<longleftrightarrow> n = 7" "bit (4 :: u32) n \<longleftrightarrow> n = 2" "bit (2 :: u32) n \<longleftrightarrow> n = 1"
  "bit (4 :: u16) n \<longleftrightarrow> n = 2" "bit (6 :: u16) n \<longleftrightarrow> n = 1 \<or> n = 2"
proof -
  have "(0x700 :: u32) = 2 ^ 8 OR 2 ^ 9 OR 2 ^ 10" by simp
  then show "bit (0x700 :: u32) n \<longleftrightarrow> n = 8 \<or> n = 9 \<or> n = 10"
    by (simp only: bit_or_iff bit_exp32 simp_thms)
  have "(6 :: u16) = 2 ^ 1 OR 2 ^ 2" by simp
  then show "bit (6 :: u16) n \<longleftrightarrow> n = 1 \<or> n = 2"
    by (simp only: bit_or_iff bit_exp16 simp_thms)
qed (use bit_exp32 [of 15 n] bit_exp32 [of 14 n] bit_exp32 [of 8 n] bit_exp32 [of 7 n]
    bit_exp32 [of 2 n] bit_exp32 [of 1 n] bit_exp16 [of 2 n] in simp_all)

lemma bit_sr_field:
  "bit (ucast (x AND 0x8000 :: u32) :: u16) n \<longleftrightarrow> n = 15 \<and> bit x 15"
  "bit (ucast (x AND 0x4000 :: u32) :: u16) n \<longleftrightarrow> n = 14 \<and> bit x 14"
  "bit (ucast (push_bit 11 (x AND 4 :: u32)) :: u16) n \<longleftrightarrow> n = 13 \<and> bit x 2"
  "bit (ucast (push_bit 11 (x AND 2 :: u32)) :: u16) n \<longleftrightarrow> n = 12 \<and> bit x 1"
  "bit (ucast (x AND 0x700 :: u32) :: u16) n \<longleftrightarrow> (n = 8 \<or> n = 9 \<or> n = 10) \<and> bit x n"
  "bit (ucast (drop_bit 4 (x AND 0x100 :: u32)) :: u16) n \<longleftrightarrow> n = 4 \<and> bit x 8"
  "bit (ucast (drop_bit 4 (x AND 0x80 :: u32)) :: u16) n \<longleftrightarrow> n = 3 \<and> bit x 7"
  "bit (ucast (drop_bit 6 (x AND 0x80 :: u32)) :: u16) n \<longleftrightarrow> n = 1 \<and> bit x 7"
  "bit (ucast (drop_bit 8 (x AND 0x100 :: u32)) :: u16) n \<longleftrightarrow> n = 0 \<and> bit x 8"
  "bit (if z then 4 else 0 :: u16) n \<longleftrightarrow> n = 2 \<and> z"
  unfolding bit_ucast_iff bit_push_bit_iff bit_drop_bit_eq bit_and_iff bit_sr_constants o_def
  by (cases z; auto simp: bit_sr_constants simp del: bit_numeral_word_iff)+

lemma bit_get_sr:
  "bit (get_sr s) n \<longleftrightarrow>
     (n = 15 \<and> bit (t1_flag s) 15) \<or> (n = 14 \<and> bit (t0_flag s) 14) \<or>
     (n = 13 \<and> bit (s_flag s) 2) \<or> (n = 12 \<and> bit (m_flag s) 1) \<or>
     ((n = 8 \<or> n = 9 \<or> n = 10) \<and> bit (int_mask s) n) \<or>
     (n = 4 \<and> bit (x_flag s) 8) \<or> (n = 3 \<and> bit (n_flag s) 7) \<or>
     (n = 2 \<and> not_z_flag s = 0) \<or> (n = 1 \<and> bit (v_flag s) 7) \<or> (n = 0 \<and> bit (c_flag s) 8)"
  unfolding get_sr_def bit_or_iff bit_sr_field by (simp only: disj_assoc)

lemma bit_sr_sm: "bit (sr_sm sr) n \<longleftrightarrow> (n = 2 \<and> bit sr 13) \<or> (n = 1 \<and> bit sr 12 \<and> bit sr 13)"
proof -
  have sm: "bit (ucast (drop_bit 11 sr AND 6) :: u32) n \<longleftrightarrow> (n = 1 \<and> bit sr 12) \<or> (n = 2 \<and> bit sr 13)" for n
    unfolding bit_ucast_iff bit_drop_bit_eq bit_and_iff bit_sr_constants o_def by auto
  have "(ucast (drop_bit 11 sr AND 6) AND (4 :: u32) = 0) \<longleftrightarrow> \<not> bit sr 13"
  proof -
    have "y AND 4 \<noteq> 0 \<longleftrightarrow> bit y 2" for y :: u32
      using and_exp_iff [of 2 y] by simp
    then have "y AND 4 = 0 \<longleftrightarrow> \<not> bit y 2" for y :: u32 by blast
    then show ?thesis by (simp only: sm) simp
  qed
  then show ?thesis
    by (cases "bit sr 13")
      (simp_all add: sr_sm_def Let_def sm bit_and_iff bit_not_iff bit_sr_constants
        del: bit_numeral_word_iff, auto)
qed

lemma bit_test_u8:
  fixes x :: u16
  shows "(ucast x :: u8) AND 0x10 \<noteq> 0 \<longleftrightarrow> bit x 4" "(ucast x :: u8) AND 0x08 \<noteq> 0 \<longleftrightarrow> bit x 3"
    "(ucast x :: u8) AND 0x04 \<noteq> 0 \<longleftrightarrow> bit x 2" "(ucast x :: u8) AND 0x02 \<noteq> 0 \<longleftrightarrow> bit x 1"
    "(ucast x :: u8) AND 0x01 \<noteq> 0 \<longleftrightarrow> bit x 0"
  using and_exp_iff [of 4 "ucast x :: u8"] and_exp_iff [of 3 "ucast x :: u8"]
    and_exp_iff [of 2 "ucast x :: u8"] and_exp_iff [of 1 "ucast x :: u8"]
    and_exp_iff [of 0 "ucast x :: u8"]
  by (simp_all add: bit_ucast_iff)

lemma ucast_and_exp:
  fixes x :: u16
  shows "(ucast x :: u32) AND 0x8000 = (if bit x 15 then 0x8000 else 0)"
    "(ucast x :: u32) AND 0x4000 = (if bit x 14 then 0x4000 else 0)"
  by (rule bit_word_eqI;
      auto simp: bit_and_iff bit_ucast_iff bit_sr_constants simp del: bit_numeral_word_iff)+

lemma sr_sm_and:
  "sr_sm sr AND SFLAG_SET = (if bit sr 13 then SFLAG_SET else 0)"
  "sr_sm sr AND MFLAG_SET = (if bit sr 12 \<and> bit sr 13 then MFLAG_SET else 0)"
  by (rule bit_word_eqI;
      auto simp: bit_and_iff bit_sr_sm bit_sr_constants simp del: bit_numeral_word_iff)+

lemma set_sr_fields_simps [simp]:
  "x_flag (set_sr_fields sr s) = (if bit sr 4 then XFLAG_SET else 0)"
  "n_flag (set_sr_fields sr s) = (if bit sr 3 then NFLAG_SET else 0)"
  "not_z_flag (set_sr_fields sr s) = (if bit sr 2 then 0 else 1)"
  "v_flag (set_sr_fields sr s) = (if bit sr 1 then VFLAG_SET else 0)"
  "c_flag (set_sr_fields sr s) = (if bit sr 0 then CFLAG_SET else 0)"
  "t1_flag (set_sr_fields sr s) = (if bit sr 15 then 0x8000 else 0)"
  "t0_flag (set_sr_fields sr s) = (if bit sr 14 then 0x4000 else 0)"
  "int_mask (set_sr_fields sr s) = ucast sr AND 0x700"
  "dar (set_sr_fields sr s) = dar s" "sp (set_sr_fields sr s) = sp s"
  "s_flag (set_sr_fields sr s) = s_flag s" "m_flag (set_sr_fields sr s) = m_flag s"
  "cpu_model (set_sr_fields sr s) = cpu_model s" "sr_mask (set_sr_fields sr s) = sr_mask s"
  "sp_index (set_sr_fields sr s) = sp_index s"
  unfolding set_sr_fields_def set_ccr_internal_def bit_test_u8
  by (simp_all add: ucast_and_exp sp_index_def)

lemma set_sm_flag_simps [simp]:
  "s_flag (set_sm_flag v s) = v AND SFLAG_SET" "m_flag (set_sm_flag v s) = v AND MFLAG_SET"
  "t1_flag (set_sm_flag v s) = t1_flag s" "t0_flag (set_sm_flag v s) = t0_flag s"
  "int_mask (set_sm_flag v s) = int_mask s" "x_flag (set_sm_flag v s) = x_flag s"
  "n_flag (set_sm_flag v s) = n_flag s" "not_z_flag (set_sm_flag v s) = not_z_flag s"
  "v_flag (set_sm_flag v s) = v_flag s" "c_flag (set_sm_flag v s) = c_flag s"
  "sr_mask (set_sm_flag v s) = sr_mask s" "cpu_model (set_sm_flag v s) = cpu_model s"
  by (simp_all add: set_sm_flag_def restore_sp_def backup_sp_def)

text \<open>The value that a write of \<open>sr\<close> leaves in the status register.\<close>

definition sr_stored :: "u16 \<Rightarrow> 'a cpu_core_scheme \<Rightarrow> u16" where
  "sr_stored sr s = (let v = sr AND ucast (sr_mask s)
     in if bit v 13 then v else v AND NOT 0x1000)"

lemma bit_0x1000: "bit (0x1000 :: u16) n \<longleftrightarrow> n = 12"
  using bit_exp16 [of 12 n] by simp

lemma u16_eqI:
  fixes x y :: u16
  assumes "list_all (\<lambda>n. bit x n \<longleftrightarrow> bit y n) [0, 1, 2, 3, 4, 5, 6, 7, 8, 9, 10, 11, 12, 13, 14, 15]"
  shows "x = y"
proof (rule bit_word_eqI)
  fix n :: nat
  assume "n < LENGTH(16)"
  then have "n < 16" by simp
  then have "n \<in> set [0, 1, 2, 3, 4, 5, 6, 7, 8, 9, 10, 11, 12, 13, 14, 15]"
    by (simp only: list.set insert_iff empty_iff) presburger
  with assms show "bit x n = bit y n"
    unfolding list_all_iff by blast
qed

lemma get_set_sr_masked:
  assumes "list_all (\<lambda>n. \<not> bit v n) [5, 6, 7, 11]"
  shows "get_sr (set_sm_flag (sr_sm v) (set_sr_fields v s)) = (if bit v 13 then v else v AND NOT 0x1000)"
  using assms
  by (intro u16_eqI) (simp add: bit_get_sr sr_sm_and bit_and_iff bit_not_iff bit_0x1000
      bit_ucast_iff bit_sr_constants del: bit_numeral_word_iff)

definition sr_mask_ok :: "'a cpu_core_scheme \<Rightarrow> bool" where
  "sr_mask_ok s \<longleftrightarrow> sr_mask s \<in> {0xA71F, 0xF71F, 0xB71F}"

lemma sr_mask_ok_set_cpu_type: "ct \<noteq> Invalid \<Longrightarrow> sr_mask_ok (set_cpu_type ct s)"
  by (cases ct) (simp_all add: sr_mask_ok_def set_cpu_type_def Let_def)

lemma sr_mask_bits:
  assumes "sr_mask_ok s"
  shows "list_all (\<lambda>n. \<not> bit (sr AND ucast (sr_mask s) :: u16) n) [5, 6, 7, 11]"
  using assms by (auto simp: sr_mask_ok_def bit_and_iff)

lemma get_set_sr:
  assumes "sr_mask_ok s"
  shows "get_sr (set_sr sr s) = sr_stored sr s"
  unfolding set_sr_def sr_stored_def Let_def
  by (rule get_set_sr_masked) (rule sr_mask_bits [OF assms])

lemma flags_wf_set_sr: "flags_wf (set_sr sr s)"
  by (simp add: flags_wf_def set_sr_def Let_def sr_sm_and)

text \<open>
  The logical stack pointers. Bank 0 is the user, 4 the interrupt and 6 the master stack
  pointer; the one the status register selects lives in A7, the others in the array.
\<close>

definition bank :: "'a cpu_core_scheme \<Rightarrow> nat \<Rightarrow> u32" where
  "bank s = (sp s)(sp_index s := dar s 15)"

lemma bank_set_sm_flag: "bank (set_sm_flag v s) = bank s"
  by (auto simp: bank_def set_sm_flag_def restore_sp_def backup_sp_def sp_index_def fun_eq_iff)

lemma bank_set_s_flag: "bank (set_s_flag v s) = bank s"
  by (auto simp: bank_def set_s_flag_def restore_sp_def backup_sp_def sp_index_def fun_eq_iff)

lemma a7_is_bank: "dar s 15 = bank s (sp_index s)"
  by (simp add: bank_def)

lemma dar_set_sm_flag: "i \<noteq> 15 \<Longrightarrow> dar (set_sm_flag v s) i = dar s i"
  by (simp add: set_sm_flag_def restore_sp_def backup_sp_def)

lemma bank_set_sr [simp]: "bank (set_sr sr s) = bank s"
  by (simp add: set_sr_def Let_def bank_set_sm_flag) (simp add: bank_def)

lemma dar_set_sr: "i \<noteq> 15 \<Longrightarrow> dar (set_sr sr s) i = dar s i"
  by (simp add: set_sr_def Let_def dar_set_sm_flag)

definition stack_of_sr :: "cpu_type \<Rightarrow> u16 \<Rightarrow> nat" where
  "stack_of_sr ct v = (if \<not> bit v 13 then 0 else if ct \<noteq> M68060 \<and> bit v 12 then 6 else 4)"

lemma sp_index_set_sr:
  "sp_index (set_sr sr s) = stack_of_sr (cpu_model s) (sr AND ucast (sr_mask s))"
  by (simp add: sp_index_def set_sr_def Let_def sr_sm_and stack_of_sr_def)

section \<open>Properties\<close>

text \<open>
  C6. Writing the status register stores exactly the implemented bits, with the master bit
  forced clear in user mode; it keeps the flag encodings well-formed, and it is a pure change
  of view on the three stack pointers: each logical stack pointer keeps its value, A7 becomes
  the one the new status selects (a single supervisor stack on the 68060), and every other
  register is untouched.
\<close>

theorem set_sr_correct:
  assumes "sr_mask_ok s"
  shows "get_sr (set_sr sr s) = sr_stored sr s \<and> flags_wf (set_sr sr s) \<and>
    bank (set_sr sr s) = bank s \<and>
    dar (set_sr sr s) 15 = bank s (stack_of_sr (cpu_model s) (sr AND ucast (sr_mask s))) \<and>
    (\<forall>i. i \<noteq> 15 \<longrightarrow> dar (set_sr sr s) i = dar s i)"
  using get_set_sr [OF assms] flags_wf_set_sr [of sr s] sp_index_set_sr [of sr s]
  by (simp add: a7_is_bank dar_set_sr)

lemma sr_mask_ok_new: "sr_mask_ok (set_cpu_type M68040 (cpu_new sample_bus))"
  by (rule sr_mask_ok_set_cpu_type) simp

lemma set_sr_correct_witness:
  "sr_mask_ok (set_cpu_type M68040 (cpu_new sample_bus)) \<and>
   get_sr (set_sr 0x3015 (set_cpu_type M68040 (cpu_new sample_bus)))
     = sr_stored 0x3015 (set_cpu_type M68040 (cpu_new sample_bus))"
  using set_sr_correct [OF sr_mask_ok_new, where sr = "0x3015"] sr_mask_ok_new by simp

end
