(* ===== verification/Mmu.thy ===== *)
theory Mmu
  imports Cpu_State
begin

unbundle bit_operations_syntax

text \<open>
  The PMMU of \<open>src/mmu\<close>: transparent translation registers (\<open>ttr.rs\<close>), the 68030 table walk
  with its address translation and PTEST, the 68040/68060 walk in front of the translation
  cache, and the entry point \<open>translate\<close> (\<open>translation.rs\<close>). Table fetches are
  \<open>try_read_long\<close> on the bus of the machine. Then the theorems: the walk never reaches its
  \<open>unreachable!\<close>, PTEST agrees with the translation, and a coherent cache is
  invisible: the cached translation is the walk.
\<close>

section \<open>Transparent translation registers\<close>

definition ttr_matches :: "u32 \<Rightarrow> u32 \<Rightarrow> u8 \<Rightarrow> bool \<Rightarrow> bool" where
  "ttr_matches ttr addr fc write =
     (if ttr AND 0x8000 = 0 then False
      else
        let base = drop_bit 24 (ttr AND 0xFF000000);
            addr_mask = drop_bit 16 ttr AND 0xFF;
            fc_base = ucast (drop_bit 8 ttr AND 7) :: u8;
            fc_mask = ucast (drop_bit 2 ttr AND 7) :: u8;
            addr_high = drop_bit 24 addr AND 0xFF
        in addr_high AND NOT addr_mask = base AND NOT addr_mask \<and>
           fc AND NOT fc_mask = fc_base AND NOT fc_mask)"

definition ttr_matches_040 :: "u32 \<Rightarrow> u32 \<Rightarrow> bool \<Rightarrow> bool" where
  "ttr_matches_040 ttr addr supervisor =
     (if ttr AND 0x8000 = 0 then False
      else
        let base = drop_bit 24 (ttr AND 0xFF000000);
            addr_mask = drop_bit 16 ttr AND 0xFF;
            addr_high = drop_bit 24 addr AND 0xFF
        in if addr_high AND NOT addr_mask \<noteq> base AND NOT addr_mask then False
           else
             let sf = drop_bit 13 ttr AND 3
             in if sf = 0 then \<not> supervisor else if sf = 1 then supervisor else True)"

definition compute_function_code :: "bool \<Rightarrow> 'a cpu_core_scheme \<Rightarrow> u8" where
  "compute_function_code instruction s =
     (case mmu_fc_override s of
        Some fc \<Rightarrow> fc
      | None \<Rightarrow> (if is_supervisor s then (if instruction then 6 else 5)
                 else (if instruction then 2 else 1)))"

definition check_transparent_translation ::
  "u32 \<Rightarrow> bool \<Rightarrow> bool \<Rightarrow> 'a cpu_core_scheme \<Rightarrow> u32 option" where
  "check_transparent_translation addr write instruction s =
     (let fc = compute_function_code instruction s
      in if cpu_model s = M68030 then
           if ttr_matches (mmu_tt0 s) addr fc write then Some addr
           else if ttr_matches (mmu_tt1 s) addr fc write then Some addr
           else None
         else if is_040 s then
           let supervisor = fc AND 4 \<noteq> 0
           in if instruction then
                if ttr_matches_040 (itt0 s) addr supervisor then Some addr
                else if ttr_matches_040 (itt1 s) addr supervisor then Some addr
                else None
              else
                if ttr_matches_040 (dtt0 s) addr supervisor then Some addr
                else if ttr_matches_040 (dtt1 s) addr supervisor then Some addr
                else None
         else None)"

section \<open>Faults and physical reads\<close>

definition buserr :: "u32 \<Rightarrow> mmu_fault" where
  "buserr a = \<lparr> mf_kind = MmuBusError, mf_address = a, mf_cause = TableWalkBusError \<rparr>"

definition access_fault_cause :: "u32 \<Rightarrow> mmu_fault_cause \<Rightarrow> mmu_fault" where
  "access_fault_cause a c = \<lparr> mf_kind = AccessLevelViolation, mf_address = a, mf_cause = c \<rparr>"

definition access_fault :: "u32 \<Rightarrow> mmu_fault" where
  "access_fault a = access_fault_cause a PageFault"

definition config_fault :: "u32 \<Rightarrow> mmu_fault" where
  "config_fault a = \<lparr> mf_kind = ConfigurationError, mf_address = a, mf_cause = PageFault \<rparr>"

text \<open>The bus has one kind of fault, so the other arm of \<open>read_u32_phys\<close> cannot be taken.\<close>

definition read_u32_phys :: "'b address_bus \<Rightarrow> u32 \<Rightarrow> 'b \<Rightarrow> (mmu_fault + u32) \<times> 'b" where
  "read_u32_phys B addr b =
     (case try_read_long B addr b of
        (Inr v, b) \<Rightarrow> (Inr v, b)
      | (Inl f, b) \<Rightarrow> (Inl (case bf_kind f of BusError \<Rightarrow> buserr (bf_address f)), b))"

section \<open>The 68030 walk\<close>

record desc030 =
  d3_dt :: u32
  d3_field :: u32
  d3_wp :: bool
  d3_sup :: bool

definition read_desc_030 ::
  "'b address_bus \<Rightarrow> u32 \<Rightarrow> u32 \<Rightarrow> bool \<Rightarrow> 'b \<Rightarrow> (mmu_fault + desc030) \<times> 'b" where
  "read_desc_030 B base index long b =
     (if long then
        let at = base + index * 8
        in case read_u32_phys B at b of
             (Inl f, b) \<Rightarrow> (Inl f, b)
           | (Inr hi, b) \<Rightarrow>
               (case read_u32_phys B (at + 4) b of
                  (Inl f, b) \<Rightarrow> (Inl f, b)
                | (Inr lo, b) \<Rightarrow>
                    (Inr \<lparr> d3_dt = hi AND 3, d3_field = lo, d3_wp = hi AND 4 \<noteq> 0,
                           d3_sup = hi AND 0x100 \<noteq> 0 \<rparr>, b))
      else
        case read_u32_phys B (base + index * 4) b of
          (Inl f, b) \<Rightarrow> (Inl f, b)
        | (Inr e, b) \<Rightarrow>
            (Inr \<lparr> d3_dt = e AND 3, d3_field = e, d3_wp = e AND 4 \<noteq> 0, d3_sup = False \<rparr>, b))"

text \<open>How a walk ends. \<open>WUnreachable\<close> is the macro after the loop.\<close>

datatype walk030_end =
  WPage u32 u32
  | WInvalid bool
  | WLevelStop
  | WBusErr u32
  | WConfig
  | WUnreachable

record walk030 =
  w_end :: walk030_end
  w_wp :: bool
  w_sup :: bool
  w_levels :: nat
  w_desc_addr :: u32

definition top_index :: "u32 \<Rightarrow> nat \<Rightarrow> nat \<Rightarrow> u32" where
  "top_index addr left_shift bits = drop_bit (32 - bits) (push_bit (left_shift mod 32) addr)"

text \<open>
  The loop over the configured levels: each element of the list is a level, \<open>None\<close> the
  function-code level and \<open>Some bits\<close> an address level. \<open>max_levels\<close> is None for
  \<open>u32::MAX\<close>, which the at most five levels never reach.
\<close>

fun walk_030_loop ::
  "'b address_bus \<Rightarrow> u32 \<Rightarrow> u32 \<Rightarrow> nat option \<Rightarrow> nat option list \<Rightarrow> u32 \<Rightarrow> bool \<Rightarrow> nat \<Rightarrow>
   walk030 \<Rightarrow> 'b \<Rightarrow> walk030 \<times> 'b" where
  "walk_030_loop B logical fc max_levels [] ptr long consumed w b = (w\<lparr> w_end := WUnreachable \<rparr>, b)"
| "walk_030_loop B logical fc max_levels (l # ls) ptr long consumed w b =
     (if (case max_levels of Some m \<Rightarrow> m \<le> w_levels w | None \<Rightarrow> False)
      then (w\<lparr> w_end := WLevelStop \<rparr>, b)
      else
        let (index, consumed) = (case l of None \<Rightarrow> (fc, consumed)
               | Some bits \<Rightarrow> (top_index logical consumed bits, consumed + bits));
            w = w\<lparr> w_desc_addr := ptr + index * (if long then 8 else 4) \<rparr>
        in case read_desc_030 B ptr index long b of
             (Inl f, b) \<Rightarrow> (w\<lparr> w_end := WBusErr (mf_address f) \<rparr>, b)
           | (Inr d, b) \<Rightarrow>
               let w = w\<lparr> w_levels := w_levels w + 1 \<rparr>
               in if d3_dt d = 0 then (w\<lparr> w_end := WInvalid False \<rparr>, b)
                  else if d3_dt d = 1 then
                    (w\<lparr> w_wp := w_wp w \<or> d3_wp d, w_sup := w_sup w \<or> d3_sup d,
                        w_end := WPage (d3_field d) (of_nat consumed) \<rparr>, b)
                  else if ls \<noteq> [] then
                    walk_030_loop B logical fc max_levels ls (d3_field d AND 0xFFFFFFF0)
                      (d3_dt d = 3) consumed
                      (w\<lparr> w_wp := w_wp w \<or> d3_wp d, w_sup := w_sup w \<or> d3_sup d \<rparr>) b
                  else
                    let w = w\<lparr> w_desc_addr := d3_field d AND 0xFFFFFFFC \<rparr>
                    in case read_desc_030 B (w_desc_addr w) 0 (d3_dt d = 3) b of
                         (Inl f, b) \<Rightarrow> (w\<lparr> w_end := WBusErr (mf_address f) \<rparr>, b)
                       | (Inr t, b) \<Rightarrow>
                           (w\<lparr> w_wp := w_wp w \<or> d3_wp t, w_sup := w_sup w \<or> d3_sup t,
                               w_end := (if d3_dt t = 1 then WPage (d3_field t) (of_nat consumed)
                                         else WInvalid True) \<rparr>, b))"

definition tc_levels :: "u32 \<Rightarrow> nat option list" where
  "tc_levels tc =
     (let ti = [unat (drop_bit 12 tc AND 0xF), unat (drop_bit 8 tc AND 0xF),
                unat (drop_bit 4 tc AND 0xF), unat (tc AND 0xF)]
      in (if tc AND 0x01000000 \<noteq> 0 then [None] else [])
         @ List.map Some (takeWhile (\<lambda>n. n \<noteq> 0) ti))"

definition walk_030 ::
  "'b address_bus \<Rightarrow> u32 \<Rightarrow> u32 \<Rightarrow> nat option \<Rightarrow> 'b machine \<Rightarrow> walk030 \<times> 'b machine" where
  "walk_030 B logical fc max_levels s =
     (let supervisor = fc AND 4 \<noteq> 0;
          use_srp = mmu_tc s AND 0x02000000 \<noteq> 0 \<and> supervisor;
          (root_aptr, root_limit) =
            (if use_srp then (mmu_srp_aptr s, mmu_srp_limit s)
             else (mmu_crp_aptr s, mmu_crp_limit s));
          consumed = unat (drop_bit 16 (mmu_tc s) AND 0xF);
          w = \<lparr> w_end = WConfig, w_wp = False, w_sup = False, w_levels = 0,
                w_desc_addr = root_aptr \<rparr>
      in if root_limit AND 3 \<notin> {2, 3} then (w, s)
         else if tc_levels (mmu_tc s) = [] then (w, s)
         else
           let (w, b) = walk_030_loop B logical fc max_levels (tc_levels (mmu_tc s))
                          (root_aptr AND 0xFFFFFFF0) (root_limit AND 3 = 3) consumed w (bus s)
           in (w, s\<lparr> bus := b \<rparr>))"

definition low_bits :: "u32 \<Rightarrow> u32 \<Rightarrow> u32" where
  "low_bits addr shift =
     (if 32 \<le> shift then 0 else drop_bit (unat shift) (push_bit (unat shift) addr))"

text \<open>The result of a translation; \<open>None\<close> in the first component is a Rust panic.\<close>

definition translate_030 ::
  "'b address_bus \<Rightarrow> u32 \<Rightarrow> bool \<Rightarrow> bool \<Rightarrow> bool \<Rightarrow> 'b machine \<Rightarrow> (mmu_fault + u32) option \<times> 'b machine"
  where
  "translate_030 B logical write supervisor instruction s =
     (let fc = (if supervisor then (if instruction then 6 else 5)
                else (if instruction then 2 else 1));
          (w, s) = walk_030 B logical fc None s
      in (case w_end w of
            WPage field consumed \<Rightarrow>
              if w_sup w \<and> \<not> supervisor then Some (Inl (access_fault_cause logical SupervisorProtect))
              else if write \<and> w_wp w then Some (Inl (access_fault_cause logical WriteProtect))
              else Some (Inr (low_bits logical consumed + (field AND 0xFFFFFF00)))
          | WInvalid indirect \<Rightarrow>
              Some (Inl (if indirect then access_fault_cause logical Indirect else access_fault logical))
          | WBusErr at \<Rightarrow> Some (Inl (buserr at))
          | WConfig \<Rightarrow> Some (Inl (config_fault logical))
          | WLevelStop \<Rightarrow> Some (Inl (config_fault logical))
          | WUnreachable \<Rightarrow> None, s))"

definition ptest_030 ::
  "'b address_bus \<Rightarrow> u32 \<Rightarrow> u32 \<Rightarrow> bool \<Rightarrow> u32 \<Rightarrow> 'b machine \<Rightarrow> (u16 \<times> u32) option \<times> 'b machine" where
  "ptest_030 B logical fc write level s =
     (if level = 0 then
        let fc8 = ucast fc :: u8;
            t = ttr_matches (mmu_tt0 s) logical fc8 write \<or> ttr_matches (mmu_tt1 s) logical fc8 write
        in (Some (if t then 0x40 else 0, 0), s)
      else
        let (w, s) = walk_030 B logical fc (Some (unat level)) s;
            sr = of_nat (w_levels w) AND 7 :: u16;
            sr = (if w_wp w then sr OR 0x0800 else sr);
            sr = (if w_sup w \<and> fc AND 4 = 0 then sr OR 0x2000 else sr)
        in (case w_end w of
              WPage _ _ \<Rightarrow> Some (sr, w_desc_addr w)
            | WLevelStop \<Rightarrow> Some (sr, w_desc_addr w)
            | WInvalid _ \<Rightarrow> Some (sr OR 0x0400, w_desc_addr w)
            | WBusErr _ \<Rightarrow> Some (sr OR 0x8000, w_desc_addr w)
            | WConfig \<Rightarrow> Some (sr OR 0x8000, w_desc_addr w)
            | WUnreachable \<Rightarrow> None, s))"

section \<open>The 68040 walk and its cache\<close>

record page040 =
  p4_phys_page :: u32
  p4_write_protected :: bool
  p4_supervisor_only :: bool

definition page_bits :: "u32 \<Rightarrow> nat" where
  "page_bits tc = (if tc AND 0x4000 \<noteq> 0 then 13 else 12)"

text \<open>The three descriptor fetches, up to and including the resident check.\<close>

definition walk_040 ::
  "'b address_bus \<Rightarrow> u32 \<Rightarrow> u32 \<Rightarrow> u32 \<Rightarrow> 'b \<Rightarrow> (mmu_fault + page040) \<times> 'b" where
  "walk_040 B tc root logical =
     qbind (read_u32_phys B ((root AND 0xFFFFFE00) + (drop_bit 25 logical AND 0x7F) * 4)) (\<lambda>root_desc.
     if root_desc AND 3 < 2 then Pair (Inl (access_fault_cause logical PointerA))
     else
     qbind (read_u32_phys B
       ((root_desc AND 0xFFFFFE00) + (drop_bit 18 logical AND 0x7F) * 4)) (\<lambda>ptr_desc.
     if ptr_desc AND 3 < 2 then Pair (Inl (access_fault_cause logical PointerB))
     else
     let (page_table_mask, page_idx) =
           (if page_bits tc = 13 then (0xFFFFFF80, drop_bit 13 logical AND 0x1F)
            else (0xFFFFFF00, drop_bit 12 logical AND 0x3F))
     in
     qbind (read_u32_phys B ((ptr_desc AND page_table_mask) + page_idx * 4)) (\<lambda>page_desc.
     let was_indirect = page_desc AND 3 = 2
     in
     qbind (if was_indirect then read_u32_phys B (page_desc AND 0xFFFFFFFC)
            else Pair (Inr page_desc)) (\<lambda>page_desc.
     if page_desc AND 3 = 0 then
       Pair (Inl (access_fault_cause logical (if was_indirect then Indirect else PageFault)))
     else
       Pair (Inr \<lparr> p4_phys_page = page_desc AND NOT (mask (page_bits tc)),
                   p4_write_protected = (root_desc OR ptr_desc OR page_desc) AND 4 \<noteq> 0,
                   p4_supervisor_only = page_desc AND 0x80 \<noteq> 0 \<rparr>)))))"

definition translate_040 ::
  "'b address_bus \<Rightarrow> u32 \<Rightarrow> bool \<Rightarrow> bool \<Rightarrow> 'b machine \<Rightarrow> (mmu_fault + u32) \<times> 'b machine" where
  "translate_040 B logical write supervisor s =
     (let pb = page_bits (mmu_tc s);
          page_mask = mask pb;
          page_frame = drop_bit pb logical
      in case atc_lookup (atc s) page_frame supervisor write of
           Some phys_page \<Rightarrow> (Inr (phys_page OR (logical AND page_mask)), s)
         | None \<Rightarrow>
             let root = (if supervisor then mmu_srp_aptr s else mmu_crp_aptr s);
                 (r, b) = walk_040 B (mmu_tc s) root logical (bus s);
                 s = s\<lparr> bus := b \<rparr>
             in case r of
                  Inl f \<Rightarrow> (Inl f, s)
                | Inr p \<Rightarrow>
                    if write \<and> p4_write_protected p then
                      (Inl (access_fault_cause logical WriteProtect), s)
                    else if \<not> supervisor \<and> p4_supervisor_only p then
                      (Inl (access_fault_cause logical SupervisorProtect), s)
                    else
                      (Inr (p4_phys_page p OR (logical AND page_mask)),
                       s\<lparr> atc := atc_insert page_frame supervisor (p4_phys_page p)
                                   (p4_write_protected p) (p4_supervisor_only p) (atc s) \<rparr>))"

section \<open>Translation\<close>

definition translate ::
  "'b address_bus \<Rightarrow> u32 \<Rightarrow> bool \<Rightarrow> bool \<Rightarrow> bool \<Rightarrow> 'b machine \<Rightarrow> (mmu_fault + u32) option \<times> 'b machine"
  where
  "translate B logical write supervisor0 instruction0 s =
     (if \<not> pmmu_enabled s \<or> \<not> has_pmmu s then (Some (Inr logical), s)
      else
        let (supervisor, instruction) =
              (case mmu_fc_override s of
                 Some fc \<Rightarrow> (fc AND 4 \<noteq> 0, fc AND 3 = 2)
               | None \<Rightarrow> (supervisor0, instruction0))
        in case check_transparent_translation logical write instruction s of
             Some phys \<Rightarrow> (Some (Inr phys), s)
           | None \<Rightarrow>
               if is_040 s \<or> is_060 s then
                 let (r, s) = translate_040 B logical write supervisor s in (Some r, s)
               else translate_030 B logical write supervisor instruction s)"

section \<open>The walk ends by a descriptor\<close>

lemma walk_030_loop_end:
  "ls \<noteq> [] \<Longrightarrow>
   w_end (fst (walk_030_loop B logical fc m ls ptr long consumed w b)) \<noteq> WUnreachable \<and>
   (m = None \<longrightarrow> w_end (fst (walk_030_loop B logical fc m ls ptr long consumed w b)) \<noteq> WLevelStop)"
proof (induction ls arbitrary: ptr long consumed w b)
  case (Cons l ls)
  obtain index consumed' where ic: "(case l of None \<Rightarrow> (fc, consumed)
      | Some bits \<Rightarrow> (top_index logical consumed bits, consumed + bits)) = (index, consumed')"
    by fastforce
  obtain r b' where r: "read_desc_030 B ptr index long b = (r, b')" by fastforce
  show ?case
  proof (cases r)
    case (Inr d)
    obtain r2 b2 where "read_desc_030 B (d3_field d AND 0xFFFFFFFC) 0 (d3_dt d = 3) b' = (r2, b2)"
      by fastforce
    then show ?thesis
      using Cons.IH by (cases r2) (simp_all add: Let_def ic r Inr)
  qed (simp add: Let_def ic r)
qed simp

lemma walk_030_end:
  "w_end (fst (walk_030 B logical fc m s)) \<noteq> WUnreachable \<and>
   (m = None \<longrightarrow> w_end (fst (walk_030 B logical fc m s)) \<noteq> WLevelStop)"
proof -
  have "w_end (fst (let (w, b) = walk_030_loop B logical fc m (tc_levels (mmu_tc s)) p l c w b
      in (w, s\<lparr> bus := b \<rparr>))) \<noteq> WUnreachable \<and> (m = None \<longrightarrow>
    w_end (fst (let (w, b) = walk_030_loop B logical fc m (tc_levels (mmu_tc s)) p l c w b
      in (w, s\<lparr> bus := b \<rparr>))) \<noteq> WLevelStop)" if "tc_levels (mmu_tc s) \<noteq> []" for p l c w b
    using walk_030_loop_end [OF that, of B logical fc m p l c w b] by (simp add: split_def Let_def)
  then show ?thesis
    by (simp add: walk_030_def Let_def split: prod.split)
qed

lemma translate_030_total: "fst (translate_030 B logical write supervisor instruction s) \<noteq> None"
proof -
  obtain w s' where w: "walk_030 B logical
      (if supervisor then (if instruction then 6 else 5) else (if instruction then 2 else 1)) None s
      = (w, s')" by fastforce
  then have "w_end w \<noteq> WUnreachable" by (metis walk_030_end fst_conv)
  then show ?thesis
    by (cases "w_end w") (simp_all add: translate_030_def w Let_def)
qed

lemma translate_total: "fst (translate B logical write supervisor instruction s) \<noteq> None"
  using translate_030_total [of B logical]
  by (simp add: translate_def split_def Let_def del: not_None_eq split: option.split)

lemma ptest_030_total: "fst (ptest_030 B logical fc write level s) \<noteq> None"
proof (cases "level = 0")
  case False
  obtain w s' where w: "walk_030 B logical fc (Some (unat level)) s = (w, s')" by fastforce
  then have "w_end w \<noteq> WUnreachable" by (metis walk_030_end fst_conv)
  with False show ?thesis
    by (cases "w_end w") (simp_all add: ptest_030_def w Let_def)
qed (simp add: ptest_030_def Let_def)

section \<open>PTEST agrees with the translation\<close>

lemma length_tc_levels: "length (tc_levels tc) \<le> 5"
  using length_takeWhile_le [of "\<lambda>n. n \<noteq> 0"
      "[unat (drop_bit 12 tc AND 0xF), unat (drop_bit 8 tc AND 0xF),
        unat (drop_bit 4 tc AND 0xF), unat (tc AND 0xF)]"]
  by (simp add: tc_levels_def Let_def del: takeWhile.simps)

lemma walk_030_loop_unlimited:
  "w_levels w + length ls \<le> m \<Longrightarrow>
   walk_030_loop B logical fc (Some m) ls ptr long consumed w b =
   walk_030_loop B logical fc None ls ptr long consumed w b"
proof (induction ls arbitrary: ptr long consumed w b)
  case (Cons l ls)
  obtain index consumed' where ic: "(case l of None \<Rightarrow> (fc, consumed)
      | Some bits \<Rightarrow> (top_index logical consumed bits, consumed + bits)) = (index, consumed')"
    by fastforce
  obtain r b' where r: "read_desc_030 B ptr index long b = (r, b')" by fastforce
  show ?case
    using Cons.prems by (cases r) (simp_all add: Let_def ic r Cons.IH)
qed simp

lemma walk_030_unlimited: "5 \<le> m \<Longrightarrow> walk_030 B logical fc (Some m) s = walk_030 B logical fc None s"
  using length_tc_levels [of "mmu_tc s"]
  by (simp add: walk_030_def Let_def walk_030_loop_unlimited split: prod.split)

text \<open>The error bits of the MMUSR: B 15, S 13, W 11, I 10.\<close>

definition mmusr_ok :: "bool \<Rightarrow> u16 \<Rightarrow> bool" where
  "mmusr_ok write sr \<longleftrightarrow>
     \<not> bit sr 15 \<and> \<not> bit sr 13 \<and> \<not> bit sr 10 \<and> (write \<longrightarrow> \<not> bit sr 11)"

definition fc_of :: "bool \<Rightarrow> bool \<Rightarrow> u32" where
  "fc_of supervisor instruction =
     (if supervisor then (if instruction then 6 else 5) else (if instruction then 2 else 1))"

lemma bit_levels: "n \<in> {10, 11, 13, 15} \<Longrightarrow> \<not> bit (of_nat k AND 7 :: u16) n"
  by (auto simp: bit_and_iff)

lemma bit_mmusr_constants:
  "bit (0x8000 :: u16) n \<longleftrightarrow> n = 15" "bit (0x2000 :: u16) n \<longleftrightarrow> n = 13"
  "bit (0x0800 :: u16) n \<longleftrightarrow> n = 11" "bit (0x0400 :: u16) n \<longleftrightarrow> n = 10"
  using bit_exp16 [of 15 n] bit_exp16 [of 13 n] bit_exp16 [of 11 n] bit_exp16 [of 10 n]
  by simp_all

lemma mmusr_ok_or:
  "mmusr_ok write (sr OR 0x8000) \<longleftrightarrow> False"
  "mmusr_ok write (sr OR 0x0400) \<longleftrightarrow> False"
  "mmusr_ok write (sr OR 0x2000) \<longleftrightarrow> False"
  "mmusr_ok write (sr OR 0x0800) \<longleftrightarrow> \<not> write \<and> mmusr_ok write sr"
  unfolding mmusr_ok_def bit_or_iff bit_mmusr_constants by auto

lemma mmusr_ok_levels: "mmusr_ok write (of_nat k AND 7)"
  by (simp add: mmusr_ok_def bit_and_iff)

lemma ptest_agrees:
  assumes "5 \<le> unat level"
  shows "\<exists>r sr a s'. translate_030 B logical write supervisor instruction s = (Some r, s') \<and>
    ptest_030 B logical (fc_of supervisor instruction) write level s = (Some (sr, a), s') \<and>
    ((\<exists>phys. r = Inr phys) \<longleftrightarrow> mmusr_ok write sr)"
proof -
  obtain w s' where w: "walk_030 B logical (fc_of supervisor instruction) None s = (w, s')"
    by fastforce
  then have e: "w_end w \<noteq> WUnreachable" "w_end w \<noteq> WLevelStop"
    by (metis walk_030_end fst_conv)+
  have l: "level \<noteq> 0" using assms by auto
  have f: "fc_of sup instruction AND 4 = 0 \<longleftrightarrow> \<not> sup" for sup
    by (simp add: fc_of_def)
  show ?thesis
    using e unfolding translate_030_def ptest_030_def fc_of_def [symmetric] Let_def
      walk_030_unlimited [OF assms] w
    by (cases "w_end w"; cases "w_sup w"; cases "w_wp w"; cases supervisor)
      (simp_all add: l f mmusr_ok_or mmusr_ok_levels)
qed

section \<open>The translation cache is invisible\<close>

text \<open>Reading the bus does not change it: memory holds the tables, no device does.\<close>

definition reads_pure :: "'b address_bus \<Rightarrow> 'b \<Rightarrow> bool" where
  "reads_pure B b \<longleftrightarrow> (\<forall>a. snd (try_read_long B a b) = b)"

text \<open>What the tables alone say of an access, and the table a cache has to agree with.\<close>

definition uncached_040 ::
  "'b address_bus \<Rightarrow> u32 \<Rightarrow> u32 \<Rightarrow> u32 \<Rightarrow> bool \<Rightarrow> bool \<Rightarrow> 'b \<Rightarrow> mmu_fault + u32" where
  "uncached_040 B tc root logical write supervisor b =
     (case fst (walk_040 B tc root logical b) of
        Inl f \<Rightarrow> Inl f
      | Inr p \<Rightarrow>
          if write \<and> p4_write_protected p then Inl (access_fault_cause logical WriteProtect)
          else if \<not> supervisor \<and> p4_supervisor_only p then
            Inl (access_fault_cause logical SupervisorProtect)
          else Inr (p4_phys_page p OR (logical AND mask (page_bits tc))))"

definition root_040 :: "bool \<Rightarrow> 'a cpu_core_scheme \<Rightarrow> u32" where
  "root_040 supervisor s = (if supervisor then mmu_srp_aptr s else mmu_crp_aptr s)"

definition table_040 ::
  "'b address_bus \<Rightarrow> 'b machine \<Rightarrow> u32 \<Rightarrow> bool \<Rightarrow> bool \<Rightarrow> u32 \<Rightarrow> bool" where
  "table_040 B s f supervisor write q \<longleftrightarrow>
     (\<forall>logical. drop_bit (page_bits (mmu_tc s)) logical = f \<longrightarrow>
        (\<exists>p. fst (walk_040 B (mmu_tc s) (root_040 supervisor s) logical (bus s)) = Inr p \<and>
             p4_phys_page p = q \<and> \<not> (write \<and> p4_write_protected p) \<and>
             \<not> (\<not> supervisor \<and> p4_supervisor_only p)))"

definition atc_coherent :: "'b address_bus \<Rightarrow> 'b machine \<Rightarrow> bool" where
  "atc_coherent B s \<longleftrightarrow> atc.coherent (table_040 B s) (atc s)"

lemma read_u32_phys_pure: "reads_pure B b \<Longrightarrow> snd (read_u32_phys B a b) = b"
  by (auto simp: reads_pure_def read_u32_phys_def split: prod.splits sum.splits)
    (metis snd_conv)+

lemma read_u32_phys_eq:
  "reads_pure B b \<Longrightarrow> read_u32_phys B a b = (fst (read_u32_phys B a b), b)"
  by (metis prod.collapse read_u32_phys_pure)

lemma walk_040_pure:
  assumes "reads_pure B b"
  shows "snd (walk_040 B tc root logical b) = b"
  unfolding walk_040_def
  by (auto simp: Let_def read_u32_phys_pure [OF assms] intro!: qbind_pure)

lemma page_frame_eq:
  fixes l l' :: u32
  assumes "drop_bit n l = drop_bit n l'" and "n \<le> m"
  shows "drop_bit m l = drop_bit m l'"
proof -
  have "drop_bit m x = drop_bit (m - n) (drop_bit n x)" for x :: u32
    using assms(2) by (simp only: drop_bit_drop_bit) simp
  with assms(1) show ?thesis by metis
qed

text \<open>The walk depends on the page frame only; a failure names the address itself.\<close>

lemma walk_040_frame:
  assumes "drop_bit (page_bits tc) l = drop_bit (page_bits tc) l'"
    and "walk_040 B tc root l b = (Inr p, b')"
  shows "walk_040 B tc root l' b = (Inr p, b')"
proof -
  have "drop_bit 25 l = drop_bit 25 l'" "drop_bit 18 l = drop_bit 18 l'" "drop_bit 13 l = drop_bit 13 l'"
    "page_bits tc \<noteq> 13 \<Longrightarrow> drop_bit 12 l = drop_bit 12 l'"
    using assms(1) by (auto simp: page_bits_def intro: page_frame_eq split: if_splits)
  with assms(2) show ?thesis
    unfolding walk_040_def Let_def
    by (cases "page_bits tc = 13")
      (fastforce simp: qbind_Inr_iff split: if_splits)+
qed

lemma frame_ok_page: "frame_ok (drop_bit (page_bits tc) l)"
proof -
  have "drop_bit n l < 2 ^ 31" if "1 \<le> n" for n
  proof -
    have "unat l div 2 ^ n \<le> unat l div 2 ^ 1"
      using that by (intro div_le_mono2 power_increasing) auto
    also have "\<dots> < 2 ^ 31" using unsigned_less [of l, where 'a = nat] by (simp add: less_mult_imp_div_less)
    finally show ?thesis
      by (simp add: word_less_nat_alt unat_drop_bit_eq) (simp add: drop_bit_eq_div)
  qed
  then show ?thesis by (simp add: frame_ok_def page_bits_def)
qed

lemma table_040_walk:
  assumes "walk_040 B (mmu_tc s) (root_040 supervisor s) logical (bus s) = (Inr p, b')"
    and "\<not> (write \<and> p4_write_protected p)" and "\<not> (\<not> supervisor \<and> p4_supervisor_only p)"
  shows "table_040 B s (drop_bit (page_bits (mmu_tc s)) logical) supervisor write (p4_phys_page p)"
  unfolding table_040_def
  by (intro allI impI exI [of _ p]) (use assms walk_040_frame [OF _ assms(1)] in auto)

lemma atc_coherent_update:
  "atc_coherent B (s\<lparr> atc := c \<rparr>) \<longleftrightarrow> atc.coherent (table_040 B s) c"
proof -
  have "table_040 B (s\<lparr> atc := c \<rparr>) = table_040 B s"
    by (simp add: fun_eq_iff table_040_def root_040_def)
  then show ?thesis by (simp add: atc_coherent_def)
qed

lemma root_040_atc [simp]: "root_040 supervisor (s\<lparr> atc := c \<rparr>) = root_040 supervisor s"
  by (cases supervisor) (simp_all add: root_040_def)

lemma translate_040_hit:
  "atc_lookup (atc s) (drop_bit (page_bits (mmu_tc s)) logical) supervisor write = Some q \<Longrightarrow>
   translate_040 B logical write supervisor s = (Inr (q OR (logical AND mask (page_bits (mmu_tc s)))), s)"
  by (simp add: translate_040_def Let_def)

definition fill_040 :: "u32 \<Rightarrow> bool \<Rightarrow> page040 \<Rightarrow> 'b machine \<Rightarrow> Atc.atc" where
  "fill_040 logical supervisor p s =
     atc_insert (drop_bit (page_bits (mmu_tc s)) logical) supervisor
       (p4_phys_page p) (p4_write_protected p) (p4_supervisor_only p) (atc s)"

definition permits_040 :: "bool \<Rightarrow> bool \<Rightarrow> page040 \<Rightarrow> bool" where
  "permits_040 write supervisor p \<longleftrightarrow>
     \<not> (write \<and> p4_write_protected p) \<and> \<not> (\<not> supervisor \<and> p4_supervisor_only p)"

lemma translate_040_miss:
  assumes "atc_lookup (atc s) (drop_bit (page_bits (mmu_tc s)) logical) supervisor write = None"
    and "walk_040 B (mmu_tc s) (root_040 supervisor s) logical (bus s) = (r, bus s)"
  shows "translate_040 B logical write supervisor s =
    (uncached_040 B (mmu_tc s) (root_040 supervisor s) logical write supervisor (bus s),
     s\<lparr> atc := (case r of
        Inr p \<Rightarrow> if permits_040 write supervisor p then fill_040 logical supervisor p s else atc s
      | Inl _ \<Rightarrow> atc s) \<rparr>)"
  using assms
  unfolding translate_040_def uncached_040_def root_040_def [symmetric] Let_def
  by (cases r) (simp_all add: permits_040_def fill_040_def)

lemma coherent_fill_040:
  assumes "atc_coherent B s" and "permits_040 write supervisor p"
    and "walk_040 B (mmu_tc s) (root_040 supervisor s) logical (bus s) = (Inr p, bus s)"
  shows "atc.coherent (table_040 B s) (fill_040 logical supervisor p s)"
  unfolding fill_040_def
proof (rule atc.coherent_insert)
  show "table_040 B s (drop_bit (page_bits (mmu_tc s)) logical) supervisor w (p4_phys_page p)"
    if "\<not> (w \<and> p4_write_protected p)" "\<not> (\<not> supervisor \<and> p4_supervisor_only p)" for w
    using assms(3) that by (rule table_040_walk)
qed (use assms in \<open>simp_all add: atc_coherent_def frame_ok_page\<close>)

lemma translate_040_coherent:
  assumes coh: "atc_coherent B s" and pure: "reads_pure B (bus s)"
  shows "\<exists>c. translate_040 B logical write supervisor s =
      (uncached_040 B (mmu_tc s) (root_040 supervisor s) logical write supervisor (bus s),
       s\<lparr> atc := c \<rparr>) \<and> atc_coherent B (s\<lparr> atc := c \<rparr>)"
proof (cases "atc_lookup (atc s) (drop_bit (page_bits (mmu_tc s)) logical) supervisor write")
  case (Some q)
  with coh have "table_040 B s (drop_bit (page_bits (mmu_tc s)) logical) supervisor write q"
    by (auto simp: atc_coherent_def atc.coherent_def frame_ok_page)
  then have "uncached_040 B (mmu_tc s) (root_040 supervisor s) logical write supervisor (bus s)
      = Inr (q OR (logical AND mask (page_bits (mmu_tc s))))"
    by (auto simp: table_040_def uncached_040_def)
  with coh show ?thesis
    by (intro exI [of _ "atc s"]) (simp add: translate_040_hit [OF Some])
next
  case None
  obtain r where r: "walk_040 B (mmu_tc s) (root_040 supervisor s) logical (bus s) = (r, bus s)"
    using walk_040_pure [OF pure] by (metis prod.collapse)
  define c where "c = (case r of
      Inr p \<Rightarrow> if permits_040 write supervisor p then fill_040 logical supervisor p s else atc s
    | Inl _ \<Rightarrow> atc s)"
  have "atc.coherent (table_040 B s) c"
    using r coh coherent_fill_040 [OF coh, of "write" supervisor _ logical]
    by (cases r) (simp_all add: c_def atc_coherent_def)
  then show ?thesis
    by (intro exI [of _ c]) (simp add: translate_040_miss [OF None r] c_def atc_coherent_update)
qed

text \<open>A sequence of accesses, as a program makes them: the results of each.\<close>

fun translate_040_all ::
  "'b address_bus \<Rightarrow> (u32 \<times> bool \<times> bool) list \<Rightarrow> 'b machine \<Rightarrow> (mmu_fault + u32) list \<times> 'b machine" where
  "translate_040_all B [] s = ([], s)"
| "translate_040_all B ((l, w, super) # as) s =
     (let (r, s) = translate_040 B l w super s; (rs, s) = translate_040_all B as s in (r # rs, s))"

lemma translate_040_all_coherent:
  assumes "atc_coherent B s" and "reads_pure B (bus s)"
  shows "fst (translate_040_all B as s) =
    List.map (\<lambda>(l, w, super). uncached_040 B (mmu_tc s) (root_040 super s) l w super (bus s)) as"
  using assms
proof (induction as arbitrary: s)
  case (Cons a as)
  obtain l w super where a: "a = (l, w, super)" by (cases a)
  obtain c where c: "translate_040 B l w super s =
      (uncached_040 B (mmu_tc s) (root_040 super s) l w super (bus s), s\<lparr> atc := c \<rparr>)"
    "atc_coherent B (s\<lparr> atc := c \<rparr>)"
    using translate_040_coherent [OF Cons.prems] by blast
  have "fst (translate_040_all B as (s\<lparr> atc := c \<rparr>)) =
    List.map (\<lambda>(l, w, super). uncached_040 B (mmu_tc s) (root_040 super s) l w super (bus s)) as"
    using Cons.IH [OF c(2)] Cons.prems by simp
  then show ?case
    by (auto simp: a c split: prod.split)
qed simp

lemma atc_coherent_flushed: "atc_coherent B (s\<lparr> atc := atc_flush_all c \<rparr>)"
  by (simp add: atc_coherent_update atc.coherent_flush_all)

text \<open>Every write to a register that defines the tables leaves a coherent cache.\<close>

lemma atc_coherent_movec:
  assumes "reg \<in> {0x003, 0x004, 0x005, 0x006, 0x007, 0x806, 0x807}"
  shows "atc_coherent B (write_control_register reg value s)"
  using assms
  by (simp add: write_control_register_def Let_def atc_coherent_flushed)


section \<open>Properties\<close>

text \<open>
  C1. Translation through the PMMU always produces a physical address or a fault: on every
  model and every table contents the 68030 walk ends before the \<open>unreachable!\<close> behind its
  loop, and so does PTEST.
\<close>

theorem translation_never_panics:
  "fst (translate B logical write supervisor instruction s) \<noteq> None \<and>
   fst (ptest_030 B logical fc write level s) \<noteq> None"
  by (simp only: translate_total ptest_030_total simp_thms)

text \<open>
  C2. A PTEST of at least five levels agrees with the 68030 translation of the same access:
  it reads the same descriptors from the bus, and the translation succeeds exactly when the
  status it reports has no bus error, no invalid descriptor, no supervisor violation and,
  for a write, no write protection.
\<close>

theorem ptest_agrees_with_translation:
  assumes "5 \<le> unat level"
  shows "\<exists>r sr a s'. translate_030 B logical write supervisor instruction s = (Some r, s') \<and>
    ptest_030 B logical (fc_of supervisor instruction) write level s = (Some (sr, a), s') \<and>
    ((\<exists>phys. r = Inr phys) \<longleftrightarrow> mmusr_ok write sr)"
  using assms by (rule ptest_agrees)

text \<open>
  C3. The translation cache of the 68040 and 68060 is invisible while the tables stand
  still: after any register write that flushes it, every sequence of accesses gets, access
  by access, the address or the fault that the three-level walk alone gives.
\<close>

theorem atc_is_invisible:
  assumes "reg \<in> {0x003, 0x004, 0x005, 0x006, 0x007, 0x806, 0x807}"
    and "s = write_control_register reg value s0"
    and "reads_pure B (bus s)"
  shows "fst (translate_040_all B accesses s) =
    List.map (\<lambda>(logical, write, supervisor). uncached_040 B (mmu_tc s)
      (root_040 supervisor s) logical write supervisor (bus s)) accesses"
proof (rule translate_040_all_coherent)
  show "atc_coherent B s"
    unfolding assms(2) by (rule atc_coherent_movec) (rule assms(1))
qed (rule assms(3))

lemma reads_pure_linear: "reads_pure linear_memory_bus b"
  by (simp add: reads_pure_def linear_memory_bus_defs infallible_def lb_read_long_def)

lemma ptest_agrees_with_translation_witness:
  "5 \<le> unat (7 :: u32) \<and>
   (\<exists>r sr a s'. translate_030 linear_memory_bus 0x1234 True False False (cpu_new sample_bus)
       = (Some r, s') \<and>
     ptest_030 linear_memory_bus 0x1234 (fc_of False False) True 7 (cpu_new sample_bus)
       = (Some (sr, a), s') \<and> ((\<exists>phys. r = Inr phys) \<longleftrightarrow> mmusr_ok True sr))"
  using ptest_agrees_with_translation [of "7" linear_memory_bus "0x1234" True False False "cpu_new sample_bus"]
  by simp

lemma atc_is_invisible_witness:
  "reads_pure linear_memory_bus (bus (write_control_register 0x806 0 (cpu_new sample_bus))) \<and>
   fst (translate_040_all linear_memory_bus [(0x1000, False, False), (0x1004, True, False)]
     (write_control_register 0x806 0 (cpu_new sample_bus))) =
   List.map (\<lambda>(logical, write, supervisor). uncached_040 linear_memory_bus
       (mmu_tc (write_control_register 0x806 0 (cpu_new sample_bus)))
       (root_040 supervisor (write_control_register 0x806 0 (cpu_new sample_bus)))
       logical write supervisor (bus (write_control_register 0x806 0 (cpu_new sample_bus))))
     [(0x1000, False, False), (0x1004, True, False)]"
  by (intro conjI reads_pure_linear atc_is_invisible [of "0x806" _ 0 "cpu_new sample_bus"])
    (simp_all add: reads_pure_linear)

end
