(* ===== verification/Memory.thy ===== *)
theory Memory
  imports Mmu
begin

unbundle bit_operations_syntax

text \<open>
  The memory accesses of \<open>src/core/cpu.rs\<close>: the internal-clock report, the prefetch queue,
  the fault triggers, and the byte, word, three-byte and long accesses with their alignment,
  page-straddling, translation and fault paths; the stack operations of
  \<open>src/core/execute.rs\<close>. An access can fault, delivering a fault builds an exception frame, and
  that frame is written with these same accesses: the recursion is open here. Every operation
  takes the delivery \<open>dl\<close> of a fault event as an argument, and \<open>Exceptions\<close> closes the knot.
  The result is an option: None is a run that does not come back (the host stack overflows).
\<close>

section \<open>Fault events\<close>

datatype fault_event =
  Ev_Bus_Error u32 bool bool u32 "mmu_fault_cause option"
  | Ev_Address_Error u32 bool bool
  | Ev_Exception u32

type_synonym 'b delivery = "fault_event \<Rightarrow> 'b machine \<Rightarrow> 'b machine option"

definition flush_sync :: "'b address_bus \<Rightarrow> 'b machine \<Rightarrow> 'b machine" where
  "flush_sync B s =
     (if pending_sync_clocks s > 0
      then s\<lparr> pending_sync_clocks := 0, bus := sync B (pending_sync_clocks s) (bus s) \<rparr> else s)"

definition ipl_poll_point :: "'b address_bus \<Rightarrow> 'b machine \<Rightarrow> 'b machine" where
  "ipl_poll_point B s = (if prefetch_enabled s then s\<lparr> bus := ipl_hold_sample B (bus s) \<rparr> else s)"

text \<open>One fallible bus access of a machine.\<close>

definition on_bus :: "('b \<Rightarrow> (bus_fault + 'v) \<times> 'b) \<Rightarrow> 'b machine \<Rightarrow> (bus_fault + 'v) \<times> 'b machine" where
  "on_bus f s = (case f (bus s) of (r, b) \<Rightarrow> (r, s\<lparr> bus := b \<rparr>))"

section \<open>Fault triggers\<close>

text \<open>The handler-entry state that the run loop re-asserts when the faulted instruction ends.\<close>

definition mark_faulted :: "'a cpu_core_scheme \<Rightarrow> 'a cpu_core_scheme" where
  "mark_faulted s =
     s\<lparr> fault_resume := Some (pc s, get_sr s, dar s), run_mode := RUN_MODE_BERR_AERR_RESET \<rparr>"

definition rollback :: "'a cpu_core_scheme \<Rightarrow> 'a cpu_core_scheme" where
  "rollback s = (set_sr_noint_nosp (sr_save s) s)\<lparr> dar := dar_save s \<rparr>"

definition double_fault :: "'a cpu_core_scheme \<Rightarrow> 'a cpu_core_scheme" where
  "double_fault s = s\<lparr> stopped := 1, run_mode := RUN_MODE_BERR_AERR_RESET \<rparr>"

definition trigger_address_error ::
  "'b delivery \<Rightarrow> u32 \<Rightarrow> bool \<Rightarrow> bool \<Rightarrow> 'b machine \<Rightarrow> 'b machine option" where
  "trigger_address_error dl addr write instruction s =
     (if faulted s then Some s
      else do {
        s \<leftarrow> dl (Ev_Address_Error addr write instruction) (rollback s);
        Some (mark_faulted s)
      })"

definition trigger_address_error_no_rollback ::
  "'b delivery \<Rightarrow> u32 \<Rightarrow> bool \<Rightarrow> bool \<Rightarrow> 'b machine \<Rightarrow> 'b machine option" where
  "trigger_address_error_no_rollback dl addr write instruction s =
     (if faulted s then Some s
      else do {
        s \<leftarrow> dl (Ev_Address_Error addr write instruction) s;
        Some (s\<lparr> run_mode := RUN_MODE_BERR_AERR_RESET \<rparr>)
      })"

definition trigger_bus_error ::
  "'b delivery \<Rightarrow> u32 \<Rightarrow> bool \<Rightarrow> bool \<Rightarrow> u32 \<Rightarrow> 'b machine \<Rightarrow> 'b machine option" where
  "trigger_bus_error dl addr write instruction sz s =
     (if faulted s then Some s
      else if exception_processing s then Some (double_fault s)
      else do {
        let s = (rollback s)\<lparr> exception_processing := True \<rparr>;
        let cause = pending_fault_cause s;
        s \<leftarrow> dl (Ev_Bus_Error addr write instruction sz cause) (s\<lparr> pending_fault_cause := None \<rparr>);
        Some (mark_faulted (s\<lparr> exception_processing := False \<rparr>))
      })"

definition trigger_bus_error_no_rollback ::
  "'b delivery \<Rightarrow> u32 \<Rightarrow> bool \<Rightarrow> bool \<Rightarrow> 'b machine \<Rightarrow> 'b machine option" where
  "trigger_bus_error_no_rollback dl addr write instruction s =
     (if faulted s then Some s
      else if exception_processing s then Some (double_fault s)
      else do {
        let s = s\<lparr> exception_processing := True \<rparr>;
        let cause = pending_fault_cause s;
        s \<leftarrow> dl (Ev_Bus_Error addr write instruction 2 cause) (s\<lparr> pending_fault_cause := None \<rparr>);
        Some (mark_faulted (s\<lparr> exception_processing := False \<rparr>))
      })"

definition handle_mmu_fault ::
  "'b delivery \<Rightarrow> mmu_fault \<Rightarrow> bool \<Rightarrow> bool \<Rightarrow> u32 \<Rightarrow> 'b machine \<Rightarrow> 'b machine option" where
  "handle_mmu_fault dl fault write instruction sz s =
     do {
       let s = s\<lparr> pending_fault_cause := Some (mf_cause fault) \<rparr>;
       s \<leftarrow> (case mf_kind fault of
              MmuBusError \<Rightarrow> trigger_bus_error dl (mf_address fault) write instruction sz s
            | ConfigurationError \<Rightarrow> do { s \<leftarrow> dl (Ev_Exception 56) s; Some (mark_faulted s) }
            | IllegalOperation \<Rightarrow> do { s \<leftarrow> dl (Ev_Exception 57) s; Some (mark_faulted s) }
            | AccessLevelViolation \<Rightarrow>
                trigger_bus_error dl (mf_address fault) write instruction sz s);
       Some (s\<lparr> mmu_fc_override := None \<rparr>)
     }"

definition handle_mmu_fetch_fault ::
  "'b delivery \<Rightarrow> mmu_fault \<Rightarrow> 'b machine \<Rightarrow> 'b machine option" where
  "handle_mmu_fetch_fault dl fault s =
     (case mf_kind fault of
        MmuBusError \<Rightarrow> trigger_bus_error_no_rollback dl (mf_address fault) False True s
      | ConfigurationError \<Rightarrow>
          do { s \<leftarrow> dl (Ev_Exception 56) s; Some (s\<lparr> run_mode := RUN_MODE_BERR_AERR_RESET \<rparr>) }
      | IllegalOperation \<Rightarrow>
          do { s \<leftarrow> dl (Ev_Exception 57) s; Some (s\<lparr> run_mode := RUN_MODE_BERR_AERR_RESET \<rparr>) }
      | AccessLevelViolation \<Rightarrow>
          do { s \<leftarrow> dl (Ev_Exception 58) s; Some (s\<lparr> run_mode := RUN_MODE_BERR_AERR_RESET \<rparr>) })"

section \<open>Data accesses\<close>

definition mmu_page_mask :: "'a cpu_core_scheme \<Rightarrow> u32" where
  "mmu_page_mask s =
     (if is_040 s \<or> is_060 s then (if mmu_tc s AND 0x4000 \<noteq> 0 then 0x1FFF else 0xFFF)
      else mask (max 8 (unat (drop_bit 20 (mmu_tc s) AND 0xF))))"

definition word_aligned_cpu :: "'a cpu_core_scheme \<Rightarrow> bool" where
  "word_aligned_cpu s \<longleftrightarrow> cpu_model s \<in> {M68000, M68010, SCC68070}"

definition mmu_on :: "'a cpu_core_scheme \<Rightarrow> bool" where
  "mmu_on s \<longleftrightarrow> has_pmmu s \<and> pmmu_enabled s"

text \<open>The physical address of a data access, or None when its translation faulted.\<close>

definition data_translate ::
  "'b address_bus \<Rightarrow> 'b delivery \<Rightarrow> bool \<Rightarrow> u32 \<Rightarrow> u32 \<Rightarrow> 'b machine \<Rightarrow> (u32 option \<times> 'b machine) option"
  where
  "data_translate B dl write sz addr s =
     (if mmu_on s then
        case translate B addr write (is_supervisor s) False s of
          (None, _) \<Rightarrow> None
        | (Some (Inr p), s) \<Rightarrow> Some (Some (address p s), s)
        | (Some (Inl f), s) \<Rightarrow> do { s \<leftarrow> handle_mmu_fault dl f write False sz s; Some (None, s) }
      else Some (Some addr, s))"

text \<open>The bus transaction that ends a read or a write, at its width in bytes.\<close>

definition bus_read ::
  "('b \<Rightarrow> (bus_fault + 'v) \<times> 'b) \<Rightarrow> 'v \<Rightarrow> 'b delivery \<Rightarrow> u32 \<Rightarrow> u32 \<Rightarrow> 'b machine \<Rightarrow> ('v \<times> 'b machine) option"
  where
  "bus_read f zero dl addr sz s =
     (case on_bus f s of
        (Inr v, s) \<Rightarrow> Some (v, s)
      | (Inl _, s) \<Rightarrow> do { s \<leftarrow> trigger_bus_error dl addr False False sz s; Some (zero, s) })"

definition bus_write ::
  "('b \<Rightarrow> (bus_fault + unit) \<times> 'b) \<Rightarrow> 'b delivery \<Rightarrow> u32 \<Rightarrow> u32 \<Rightarrow> 'b machine \<Rightarrow> 'b machine option" where
  "bus_write f dl addr sz s =
     (case on_bus f s of
        (Inr _, s) \<Rightarrow> Some s
      | (Inl _, s) \<Rightarrow> trigger_bus_error dl addr True False sz s)"

text \<open>The one-shot completion that an RTE of a 68030 fault frame left for a read or a write.\<close>

definition read_overridden :: "u32 \<Rightarrow> 'a cpu_core_scheme \<Rightarrow> u32 option" where
  "read_overridden addr s =
     (case mmu_read_override s of Some (a, v) \<Rightarrow> if a = addr then Some v else None | None \<Rightarrow> None)"

definition read_8 ::
  "'b address_bus \<Rightarrow> 'b delivery \<Rightarrow> u32 \<Rightarrow> 'b machine \<Rightarrow> (u8 \<times> 'b machine) option" where
  "read_8 B dl addr0 s0 =
     (if faulted s0 then Some (0, s0)
      else
        let s = flush_sync B s0; addr = address addr0 s
        in case read_overridden addr s of
             Some v \<Rightarrow> Some (ucast v, s\<lparr> mmu_read_override := None \<rparr>)
           | None \<Rightarrow> do {
               (p, s) \<leftarrow> data_translate B dl False 1 addr s;
               (case p of None \<Rightarrow> Some (0, s)
                | Some addr \<Rightarrow> bus_read (try_read_byte B addr) 0 dl addr 1 s)
             })"

definition read_16 ::
  "'b address_bus \<Rightarrow> 'b delivery \<Rightarrow> u32 \<Rightarrow> 'b machine \<Rightarrow> (u16 \<times> 'b machine) option" where
  "read_16 B dl addr0 s0 =
     (if faulted s0 then Some (0, s0)
      else
        let s = flush_sync B s0; addr = address addr0 s
        in if word_aligned_cpu s \<and> addr AND 1 \<noteq> 0 then
             do { s \<leftarrow> trigger_address_error dl addr False False s; Some (0, s) }
           else if mmu_on s \<and> addr AND mmu_page_mask s = mmu_page_mask s then
             do {
               (hi, s) \<leftarrow> read_8 B dl addr s;
               if faulted s then Some (0, s)
               else do {
                 (lo, s) \<leftarrow> read_8 B dl (addr + 1) s;
                 Some (push_bit 8 (ucast hi) OR ucast lo, s)
               }
             }
           else
             case read_overridden addr s of
               Some v \<Rightarrow> Some (ucast v, s\<lparr> mmu_read_override := None \<rparr>)
             | None \<Rightarrow> do {
                 (p, s) \<leftarrow> data_translate B dl False 2 addr s;
                 (case p of None \<Rightarrow> Some (0, s)
                  | Some addr \<Rightarrow> bus_read (try_read_word B addr) 0 dl addr 2 s)
               })"

definition read_32 ::
  "'b address_bus \<Rightarrow> 'b delivery \<Rightarrow> u32 \<Rightarrow> 'b machine \<Rightarrow> (u32 \<times> 'b machine) option" where
  "read_32 B dl addr0 s0 =
     (if faulted s0 then Some (0, s0)
      else
        let s = flush_sync B s0; addr = address addr0 s
        in if word_aligned_cpu s \<and> addr AND 1 \<noteq> 0 then
             do { s \<leftarrow> trigger_address_error dl addr False False s; Some (0, s) }
           else if mmu_on s \<and> mmu_page_mask s - 3 < addr AND mmu_page_mask s then
             do {
               (hi, s) \<leftarrow> read_16 B dl addr s;
               if faulted s then Some (0, s)
               else do {
                 (lo, s) \<leftarrow> read_16 B dl (addr + 2) s;
                 Some (push_bit 16 (ucast hi) OR ucast lo, s)
               }
             }
           else
             case read_overridden addr s of
               Some v \<Rightarrow> Some (v, s\<lparr> mmu_read_override := None \<rparr>)
             | None \<Rightarrow> do {
                 (p, s) \<leftarrow> data_translate B dl False 4 addr s;
                 (case p of None \<Rightarrow> Some (0, s)
                  | Some addr \<Rightarrow> bus_read (try_read_long B addr) 0 dl addr 4 s)
               })"

definition read_24 ::
  "'b address_bus \<Rightarrow> 'b delivery \<Rightarrow> u32 \<Rightarrow> 'b machine \<Rightarrow> (u32 \<times> 'b machine) option" where
  "read_24 B dl addr0 s0 =
     (if faulted s0 then Some (0, s0)
      else
        let s = flush_sync B s0; addr = address addr0 s
        in if mmu_on s \<and> mmu_page_mask s - 2 < addr AND mmu_page_mask s then
             do {
               (hi, s) \<leftarrow> read_16 B dl addr s;
               if faulted s then Some (0, s)
               else do {
                 (lo, s) \<leftarrow> read_8 B dl (addr + 2) s;
                 Some (push_bit 8 (ucast hi) OR ucast lo, s)
               }
             }
           else
             case read_overridden addr s of
               Some v \<Rightarrow> Some (v AND 0x00FFFFFF, s\<lparr> mmu_read_override := None \<rparr>)
             | None \<Rightarrow> do {
                 (p, s) \<leftarrow> data_translate B dl False 3 addr s;
                 (case p of None \<Rightarrow> Some (0, s)
                  | Some addr \<Rightarrow> do {
                      (v, s) \<leftarrow> bus_read (try_read_three_bytes B addr) 0 dl addr 3 s;
                      Some (v AND 0x00FFFFFF, s) })
               })"

definition write_8 ::
  "'b address_bus \<Rightarrow> 'b delivery \<Rightarrow> u32 \<Rightarrow> u8 \<Rightarrow> 'b machine \<Rightarrow> 'b machine option" where
  "write_8 B dl addr0 v s0 =
     (if faulted s0 then Some s0
      else
        let s = flush_sync B s0; addr = address addr0 s
        in if mmu_write_suppress s = Some addr then Some (s\<lparr> mmu_write_suppress := None \<rparr>)
           else do {
             (p, s) \<leftarrow> data_translate B dl True 1 addr (s\<lparr> pending_fault_wdata := ucast v \<rparr>);
             (case p of None \<Rightarrow> Some s
              | Some addr \<Rightarrow> bus_write (try_write_byte B addr v) dl addr 1 s)
           })"

definition write_16 ::
  "'b address_bus \<Rightarrow> 'b delivery \<Rightarrow> u32 \<Rightarrow> u16 \<Rightarrow> 'b machine \<Rightarrow> 'b machine option" where
  "write_16 B dl addr0 v s0 =
     (if faulted s0 then Some s0
      else
        let s = flush_sync B s0; addr = address addr0 s
        in if word_aligned_cpu s \<and> addr AND 1 \<noteq> 0 then
             trigger_address_error dl addr True False s
           else if mmu_on s \<and> addr AND mmu_page_mask s = mmu_page_mask s then
             do {
               s \<leftarrow> write_8 B dl addr (ucast (drop_bit 8 v)) s;
               if faulted s then Some s else write_8 B dl (addr + 1) (ucast v) s
             }
           else if mmu_write_suppress s = Some addr then Some (s\<lparr> mmu_write_suppress := None \<rparr>)
           else do {
             (p, s) \<leftarrow> data_translate B dl True 2 addr (s\<lparr> pending_fault_wdata := ucast v \<rparr>);
             (case p of None \<Rightarrow> Some s
              | Some addr \<Rightarrow> bus_write (try_write_word B addr v) dl addr 2 s)
           })"

definition write_24 ::
  "'b address_bus \<Rightarrow> 'b delivery \<Rightarrow> u32 \<Rightarrow> u32 \<Rightarrow> 'b machine \<Rightarrow> 'b machine option" where
  "write_24 B dl addr0 v s0 =
     (if faulted s0 then Some s0
      else
        let s = flush_sync B s0; addr = address addr0 s
        in if mmu_on s \<and> mmu_page_mask s - 2 < addr AND mmu_page_mask s then
             do {
               s \<leftarrow> write_16 B dl addr (ucast (drop_bit 8 v)) s;
               if faulted s then Some s else write_8 B dl (addr + 2) (ucast v) s
             }
           else if mmu_write_suppress s = Some addr then Some (s\<lparr> mmu_write_suppress := None \<rparr>)
           else do {
             (p, s) \<leftarrow> data_translate B dl True 3 addr
                         (s\<lparr> pending_fault_wdata := v AND 0x00FFFFFF \<rparr>);
             (case p of None \<Rightarrow> Some s
              | Some addr \<Rightarrow>
                  bus_write (try_write_three_bytes B addr (v AND 0x00FFFFFF)) dl addr 3 s)
           })"

definition write_32 ::
  "'b address_bus \<Rightarrow> 'b delivery \<Rightarrow> u32 \<Rightarrow> u32 \<Rightarrow> 'b machine \<Rightarrow> 'b machine option" where
  "write_32 B dl addr0 v s0 =
     (if faulted s0 then Some s0
      else
        let s = flush_sync B s0; addr = address addr0 s
        in if word_aligned_cpu s \<and> addr AND 1 \<noteq> 0 then
             trigger_address_error dl addr True False s
           else if mmu_on s \<and> mmu_page_mask s - 3 < addr AND mmu_page_mask s then
             do {
               s \<leftarrow> write_16 B dl addr (ucast (drop_bit 16 v)) s;
               if faulted s then Some s else write_16 B dl (addr + 2) (ucast v) s
             }
           else if mmu_write_suppress s = Some addr then Some (s\<lparr> mmu_write_suppress := None \<rparr>)
           else do {
             (p, s) \<leftarrow> data_translate B dl True 4 addr (s\<lparr> pending_fault_wdata := v \<rparr>);
             (case p of None \<Rightarrow> Some s
              | Some addr \<Rightarrow> bus_write (try_write_long B addr v) dl addr 4 s)
           })"

section \<open>Stack operations\<close>

definition push_16 ::
  "'b address_bus \<Rightarrow> 'b delivery \<Rightarrow> u16 \<Rightarrow> 'b machine \<Rightarrow> 'b machine option" where
  "push_16 B dl v s =
     (let s = s\<lparr> dar := (dar s)(15 := dar s 15 - 2) \<rparr> in write_16 B dl (dar s 15) v s)"

definition push_32 ::
  "'b address_bus \<Rightarrow> 'b delivery \<Rightarrow> u32 \<Rightarrow> 'b machine \<Rightarrow> 'b machine option" where
  "push_32 B dl v s =
     (let s = s\<lparr> dar := (dar s)(15 := dar s 15 - 4) \<rparr> in write_32 B dl (dar s 15) v s)"

definition pull_16 ::
  "'b address_bus \<Rightarrow> 'b delivery \<Rightarrow> 'b machine \<Rightarrow> (u16 \<times> 'b machine) option" where
  "pull_16 B dl s = do {
     (v, s) \<leftarrow> read_16 B dl (dar s 15) s;
     Some (v, s\<lparr> dar := (dar s)(15 := dar s 15 + 2) \<rparr>)
   }"

definition pull_32 ::
  "'b address_bus \<Rightarrow> 'b delivery \<Rightarrow> 'b machine \<Rightarrow> (u32 \<times> 'b machine) option" where
  "pull_32 B dl s = do {
     (v, s) \<leftarrow> read_32 B dl (dar s 15) s;
     Some (v, s\<lparr> dar := (dar s)(15 := dar s 15 + 4) \<rparr>)
   }"

section \<open>Prefetch queue\<close>

definition prefetch_read ::
  "'b address_bus \<Rightarrow> 'b delivery \<Rightarrow> u32 \<Rightarrow> 'b machine \<Rightarrow> (u16 option \<times> 'b machine) option" where
  "prefetch_read B dl addr0 s0 =
     (let s = flush_sync B s0; addr = address addr0 s
      in case on_bus (try_read_word B addr) s of
           (Inr v, s) \<Rightarrow> Some (Some v, s)
         | (Inl _, s) \<Rightarrow> do { s \<leftarrow> trigger_bus_error dl addr False True 2 s; Some (None, s) })"

definition set_queue :: "nat \<Rightarrow> u16 \<Rightarrow> u8 \<Rightarrow> 'a cpu_core_scheme \<Rightarrow> 'a cpu_core_scheme" where
  "set_queue slot w n s = s\<lparr> prefetch_queue := (prefetch_queue s)(slot := w), prefetch_count := n \<rparr>"

definition prefetch_first ::
  "'b address_bus \<Rightarrow> 'b delivery \<Rightarrow> 'b machine \<Rightarrow> 'b machine option" where
  "prefetch_first B dl s0 =
     (if \<not> prefetch_enabled s0 then Some s0
      else
        let s = s0\<lparr> prefetch_count := 0 \<rparr>
        in if pc s AND 1 \<noteq> 0 then Some s
           else do {
             (w, s) \<leftarrow> prefetch_read B dl (pc s) s;
             Some (case w of Some w \<Rightarrow> set_queue 0 w 1 s | None \<Rightarrow> s)
           })"

definition prefetch_second ::
  "'b address_bus \<Rightarrow> 'b delivery \<Rightarrow> 'b machine \<Rightarrow> 'b machine option" where
  "prefetch_second B dl s =
     (if \<not> prefetch_enabled s \<or> prefetch_count s \<noteq> 1 then Some s
      else if pc s AND 1 \<noteq> 0 \<or> run_mode s = RUN_MODE_BERR_AERR_RESET then Some s
      else do {
        (w, s) \<leftarrow> prefetch_read B dl (pc s + 2) s;
        Some (case w of Some w \<Rightarrow> set_queue 1 w 2 s | None \<Rightarrow> s)
      })"

definition full_prefetch ::
  "'b address_bus \<Rightarrow> 'b delivery \<Rightarrow> 'b machine \<Rightarrow> 'b machine option" where
  "full_prefetch B dl s = do { s \<leftarrow> prefetch_first B dl s; prefetch_second B dl s }"

definition top_up_prefetch_one ::
  "'b address_bus \<Rightarrow> 'b delivery \<Rightarrow> 'b machine \<Rightarrow> 'b machine option" where
  "top_up_prefetch_one B dl s =
     (if loop_mode s then Some s
      else if \<not> prefetch_enabled s \<or> pc s AND 1 \<noteq> 0 \<or> 2 \<le> prefetch_count s then Some s
      else if run_mode s = RUN_MODE_BERR_AERR_RESET then Some s
      else
        let slot = unat (prefetch_count s)
        in do {
             (w, s) \<leftarrow> prefetch_read B dl (pc s + 2 * of_nat slot) s;
             Some (case w of Some w \<Rightarrow> set_queue slot w (prefetch_count s + 1) s | None \<Rightarrow> s)
           })"

text \<open>
  The top-up loop ends after two rounds: a round that queues no word ends it, and the queue
  holds two. The recursion counts the rounds that can still queue one.
\<close>

fun top_up_loop ::
  "nat \<Rightarrow> 'b address_bus \<Rightarrow> 'b delivery \<Rightarrow> 'b machine \<Rightarrow> 'b machine option" where
  "top_up_loop 0 B dl s = Some s"
| "top_up_loop (Suc n) B dl s =
     (if prefetch_count s < 2 then
        do {
          s' \<leftarrow> top_up_prefetch_one B dl s;
          if prefetch_count s' = prefetch_count s then Some s' else top_up_loop n B dl s'
        }
      else Some s)"

definition top_up_prefetch ::
  "'b address_bus \<Rightarrow> 'b delivery \<Rightarrow> 'b machine \<Rightarrow> 'b machine option" where
  "top_up_prefetch B dl s =
     (if loop_mode s then Some s
      else if \<not> prefetch_enabled s \<or> pc s AND 1 \<noteq> 0 \<or> stopped s \<noteq> 0 then Some s
      else if run_mode s = RUN_MODE_BERR_AERR_RESET then Some s
      else top_up_loop 2 B dl s)"

definition consume_imm_16_no_prefetch ::
  "'b address_bus \<Rightarrow> 'b delivery \<Rightarrow> 'b machine \<Rightarrow> (u16 \<times> 'b machine) option" where
  "consume_imm_16_no_prefetch B dl s =
     (if 0 < prefetch_count s then
        Some (prefetch_queue s 0,
              s\<lparr> prefetch_queue := (prefetch_queue s)(0 := prefetch_queue s 1),
                 prefetch_count := prefetch_count s - 1, pc := pc s + 2 \<rparr>)
      else do {
        (w, s) \<leftarrow> prefetch_read B dl (pc s) s;
        Some (case w of Some w \<Rightarrow> (w, s\<lparr> pc := pc s + 2 \<rparr>) | None \<Rightarrow> (0, s))
      })"

definition read_long_predec_68000 ::
  "'b address_bus \<Rightarrow> 'b delivery \<Rightarrow> u32 \<Rightarrow> 'b machine \<Rightarrow> (u32 \<times> 'b machine) option" where
  "read_long_predec_68000 B dl addr s = do {
     (lo, s) \<leftarrow> read_16 B dl (addr + 2) s;
     (hi, s) \<leftarrow> read_16 B dl addr s;
     Some (push_bit 16 (ucast hi) OR ucast lo, s)
   }"

definition write_long_mm_interleaved_68000 ::
  "'b address_bus \<Rightarrow> 'b delivery \<Rightarrow> u32 \<Rightarrow> u32 \<Rightarrow> 'b machine \<Rightarrow> 'b machine option" where
  "write_long_mm_interleaved_68000 B dl addr v s = do {
     s \<leftarrow> write_16 B dl (addr + 2) (ucast (v AND 0xFFFF)) s;
     s \<leftarrow> top_up_prefetch B dl (ipl_poll_point B s);
     write_16 B dl addr (ucast (drop_bit 16 v)) s
   }"

section \<open>Reset\<close>

definition reset :: "'b address_bus \<Rightarrow> 'b machine \<Rightarrow> 'b machine" where
  "reset B s0 =
     (let s = pulse_reset s0;
          (ssp, b) = read_long B 0 (bus s);
          s = s\<lparr> bus := b, dar := (dar s)(15 := ssp), sp := (sp s)(4 := ssp, 6 := ssp) \<rparr>;
          (pc', b) = read_long B 4 (bus s);
          s = invalidate_prefetch (s\<lparr> bus := b, pc := pc' \<rparr>)
      in s\<lparr> cycles_remaining := cycles_remaining s - cyc_reset s \<rparr>)"

end
