(* ===== verification/Exceptions.thy ===== *)
theory Exceptions
  imports Memory
begin

unbundle bit_operations_syntax

text \<open>
  Exception processing: the stack frames of \<open>src/core/exceptions.rs\<close> for every processor
  model, the vector jump and the interrupt entry of \<open>src/core/execute.rs\<close>, and the delivery of
  fault events, which closes the recursion that \<open>Memory\<close> leaves open. \<open>deliver n\<close> allows
  \<open>n\<close> nested deliveries; a frame is the list of its pushes.
\<close>

section \<open>Frames\<close>

datatype frame_item =
  Push16 u16
  | Push32 u32
  | Raw16 u16
  | Raw32 u32
  | Fake16
  | Fake32

definition lower_sp :: "u32 \<Rightarrow> 'a cpu_core_scheme \<Rightarrow> 'a cpu_core_scheme" where
  "lower_sp n s = s\<lparr> dar := (dar s)(15 := dar s 15 - n) \<rparr>"

definition push_16_raw :: "'b address_bus \<Rightarrow> u16 \<Rightarrow> 'b machine \<Rightarrow> 'b machine" where
  "push_16_raw B v s0 =
     (let s = lower_sp 2 s0 in s\<lparr> bus := write_word B (address (dar s 15) s) v (bus s) \<rparr>)"

definition push_32_raw :: "'b address_bus \<Rightarrow> u32 \<Rightarrow> 'b machine \<Rightarrow> 'b machine" where
  "push_32_raw B v s0 =
     (let s = lower_sp 4 s0 in s\<lparr> bus := write_long B (address (dar s 15) s) v (bus s) \<rparr>)"

fun push_item :: "'b address_bus \<Rightarrow> 'b delivery \<Rightarrow> frame_item \<Rightarrow> 'b machine \<Rightarrow> 'b machine option" where
  "push_item B dl (Push16 v) s = push_16 B dl v s"
| "push_item B dl (Push32 v) s = push_32 B dl v s"
| "push_item B dl (Raw16 v) s = Some (push_16_raw B v s)"
| "push_item B dl (Raw32 v) s = Some (push_32_raw B v s)"
| "push_item B dl Fake16 s = Some (lower_sp 2 s)"
| "push_item B dl Fake32 s = Some (lower_sp 4 s)"

fun push_frame ::
  "'b address_bus \<Rightarrow> 'b delivery \<Rightarrow> frame_item list \<Rightarrow> 'b machine \<Rightarrow> 'b machine option" where
  "push_frame B dl [] s = Some s"
| "push_frame B dl (i # is) s = do { s \<leftarrow> push_item B dl i s; push_frame B dl is s }"

definition push_exception_frame_68000 ::
  "'b address_bus \<Rightarrow> 'b delivery \<Rightarrow> u32 \<Rightarrow> u16 \<Rightarrow> 'b machine \<Rightarrow> 'b machine option" where
  "push_exception_frame_68000 B dl stacked_pc sr s0 =
     (let s = lower_sp 6 s0; sp = dar s 15
      in do {
        s \<leftarrow> write_16 B dl (sp + 4) (ucast (stacked_pc AND 0xFFFF)) s;
        s \<leftarrow> write_16 B dl sp sr s;
        write_16 B dl (sp + 2) (ucast (drop_bit 16 stacked_pc)) s
      })"

section \<open>Vector jump\<close>

definition jump_vector ::
  "'b address_bus \<Rightarrow> 'b delivery \<Rightarrow> u32 \<Rightarrow> 'b machine \<Rightarrow> 'b machine option" where
  "jump_vector B dl vector s0 =
     (let s = clear_execution_pipeline_state s0;
          s = s\<lparr> bus := ipl_release_sample B (bus s), loop_mode := False,
                 last_exception_vector := Some vector, instruction_exception_vector := Some vector \<rparr>
      in do {
        (v, s) \<leftarrow> read_32 B dl (push_bit 2 vector + vbr s) s;
        s \<leftarrow> prefetch_first B dl (s\<lparr> pc := v \<rparr>);
        prefetch_second B dl (internal_cycles 2 s)
      })"

definition exception_cycles :: "u32 \<Rightarrow> int" where
  "exception_cycles vector =
     (if vector = 0 \<or> vector = 1 then 40
      else if vector = 2 \<or> vector = 3 then 50
      else if vector = 4 then 34
      else if vector = 5 then 38
      else if vector = 6 then 40
      else if vector = 7 then 34
      else if vector = 8 then 34
      else if vector = 9 then 34
      else if vector = 10 \<or> vector = 11 then 34
      else if 24 \<le> vector \<and> vector \<le> 31 then 44
      else 34)"

text \<open>Supervisor mode with tracing off: the entry of every exception.\<close>

definition enter_supervisor :: "'a cpu_core_scheme \<Rightarrow> 'a cpu_core_scheme" where
  "enter_supervisor s = (set_s_flag SFLAG_SET s)\<lparr> t1_flag := 0, t0_flag := 0 \<rparr>"

definition vector_word :: "u32 \<Rightarrow> u16" where
  "vector_word vector = push_bit 2 (ucast vector)"

section \<open>Bus and address errors\<close>

definition fslw_060 :: "bool \<Rightarrow> bool \<Rightarrow> u32 \<Rightarrow> u16 \<Rightarrow> mmu_fault_cause option \<Rightarrow> u32" where
  "fslw_060 write instruction sz fc cause =
     (if write then 0x00800000 else 0x01000000)
     OR (if sz = 1 then push_bit 21 1 else if sz = 2 then push_bit 21 2 else 0)
     OR push_bit 16 (ucast (fc AND 7))
     OR (if instruction then 0x8000 else 0)
     OR (case cause of
           Some PointerA \<Rightarrow> 0x1000
         | Some PointerB \<Rightarrow> 0x0800
         | Some Indirect \<Rightarrow> 0x0400
         | Some PageFault \<Rightarrow> 0x0200
         | Some WriteProtect \<Rightarrow> 0x0080
         | Some SupervisorProtect \<Rightarrow> 0x0100
         | Some TableWalkBusError \<Rightarrow> 0x0040
         | Some AccessBusError \<Rightarrow> (if write then 0x0010 else 0x0020)
         | None \<Rightarrow> (if write then 0x0010 else 0x0020))"

definition function_code :: "bool \<Rightarrow> bool \<Rightarrow> u16" where
  "function_code supervisor instruction =
     (if supervisor then (if instruction then 6 else 5) else (if instruction then 2 else 1))"

definition status_word_68000 :: "u16 \<Rightarrow> bool \<Rightarrow> bool \<Rightarrow> u16" where
  "status_word_68000 fc write instruction =
     fc OR (if write then 0 else 0x10) OR (if instruction then 0 else 0x08)"

text \<open>Group-0 frame of the 68000, and the format-8 placeholder of the 68010.\<close>

definition frame_68000 :: "u16 \<Rightarrow> u32 \<Rightarrow> u16 \<Rightarrow> 'a cpu_core_scheme \<Rightarrow> frame_item list" where
  "frame_68000 status_word addr old_sr s =
     [Raw16 status_word, Raw32 addr, Raw16 (ucast (ir s)), Raw16 old_sr, Raw32 (ppc s)]"

definition frame_68010 :: "u32 \<Rightarrow> u16 \<Rightarrow> 'a cpu_core_scheme \<Rightarrow> frame_item list" where
  "frame_68010 vector old_sr s =
     replicate 8 Fake32
     @ [Raw16 0, Fake16, Raw16 0, Fake16, Raw16 0, Fake16, Raw32 0, Raw16 0,
        Raw16 (0x8000 OR vector_word vector), Raw32 (ppc s), Raw16 old_sr]"

definition address_error_frame ::
  "u16 \<Rightarrow> u32 \<Rightarrow> u16 \<Rightarrow> 'a cpu_core_scheme \<Rightarrow> frame_item list" where
  "address_error_frame status_word addr old_sr s =
     (if cpu_model s = M68000 then frame_68000 status_word addr old_sr s
      else if cpu_model s \<in> {M68010, SCC68070} then frame_68010 3 old_sr s
      else if is_040 s then
        [Raw32 (addr AND NOT 1), Raw16 (0x2000 OR vector_word 3), Raw32 (ppc s), Raw16 old_sr]
      else [Raw16 (vector_word 3), Raw32 (ppc s), Raw16 old_sr])"

definition exception_address_error ::
  "'b address_bus \<Rightarrow> 'b delivery \<Rightarrow> u32 \<Rightarrow> bool \<Rightarrow> bool \<Rightarrow> 'b machine \<Rightarrow> (int \<times> 'b machine) option" where
  "exception_address_error B dl addr write instruction s0 =
     (let old_sr = get_sr s0;
          s = enter_supervisor s0;
          fc = function_code (old_sr AND 0x2000 \<noteq> 0) instruction
      in do {
        s \<leftarrow> push_frame B dl
               (address_error_frame (status_word_68000 fc write instruction) addr old_sr s) s;
        s \<leftarrow> jump_vector B dl 3 s;
        Some (50, s)
      })"

definition frame_060 ::
  "bool \<Rightarrow> bool \<Rightarrow> u32 \<Rightarrow> u16 \<Rightarrow> mmu_fault_cause option \<Rightarrow> u32 \<Rightarrow> u16 \<Rightarrow> 'a cpu_core_scheme \<Rightarrow>
   frame_item list" where
  "frame_060 write instruction sz fc cause addr old_sr s =
     [Push32 (fslw_060 write instruction sz fc cause), Push32 addr,
      Push16 (0x4000 OR vector_word 2), Push32 (ppc s), Push16 old_sr]"

definition frame_040 ::
  "bool \<Rightarrow> u32 \<Rightarrow> u16 \<Rightarrow> mmu_fault_cause option \<Rightarrow> u32 \<Rightarrow> u16 \<Rightarrow> u32 \<Rightarrow> 'a cpu_core_scheme \<Rightarrow>
   frame_item list" where
  "frame_040 write sz fc cause addr old_sr fault_wdata s =
     (let rw = (if write then 0 else 0x0100);
          atc = (if cause \<noteq> None then 0x0400 else 0);
          szb = (if sz = 1 then 0x0020 else if sz = 2 then 0x0040 else 0) :: u16;
          ssw = rw OR atc OR szb OR (fc AND 7);
          wb3s = (if write then 0x0080 OR szb OR (fc AND 7) else 0)
      in replicate 3 (Push32 0)
         @ [Push32 0, Push32 0, Push32 0, Push32 0,
            Push32 (if write then fault_wdata else 0), Push32 (if write then addr else 0),
            Push32 addr, Push16 0, Push16 0, Push16 wb3s, Push16 ssw, Push32 addr,
            Push16 (0x7000 OR vector_word 2), Push32 (ppc s), Push16 old_sr])"

definition frame_030 ::
  "bool \<Rightarrow> bool \<Rightarrow> u32 \<Rightarrow> u16 \<Rightarrow> u32 \<Rightarrow> u16 \<Rightarrow> u32 \<Rightarrow> 'a cpu_core_scheme \<Rightarrow> frame_item list" where
  "frame_030 write instruction sz fc addr old_sr fault_wdata s =
     (let data_fault = \<not> instruction;
          ssw = (fc AND 7) OR
            (if data_fault then
               0x0100 OR (if \<not> write then 0x0040 else 0)
               OR (if sz = 1 then 0x0010 else if sz = 2 then 0x0020 else if sz = 3 then 0x0030 else 0)
             else 0x4000 OR 0x1000)
      in replicate 9 (Push32 0) @ [Push16 0] @ replicate 3 (Push16 0)
         @ [Push32 0, Push32 0, Push32 (if data_fault then 0 else addr), Push32 0, Push32 0,
            Push32 (if write then fault_wdata else 0), Push32 0,
            Push32 (if data_fault then addr else 0), Push16 0, Push16 0, Push16 ssw, Push16 0,
            Push16 (0xB000 OR vector_word 2), Push32 (ppc s), Push16 old_sr])"

definition bus_error_frame ::
  "bool \<Rightarrow> bool \<Rightarrow> u32 \<Rightarrow> u16 \<Rightarrow> mmu_fault_cause option \<Rightarrow> u32 \<Rightarrow> u16 \<Rightarrow> u32 \<Rightarrow> 'a cpu_core_scheme \<Rightarrow>
   frame_item list" where
  "bus_error_frame write instruction sz fc cause addr old_sr fault_wdata s =
     (if cpu_model s = M68000 then
        frame_68000 (status_word_68000 fc write instruction) addr old_sr s
      else if cpu_model s \<in> {M68010, SCC68070} then frame_68010 2 old_sr s
      else if is_060 s then frame_060 write instruction sz fc cause addr old_sr s
      else if is_040 s then frame_040 write sz fc cause addr old_sr fault_wdata s
      else frame_030 write instruction sz fc addr old_sr fault_wdata s)"

definition exception_bus_error ::
  "'b address_bus \<Rightarrow> 'b delivery \<Rightarrow> u32 \<Rightarrow> bool \<Rightarrow> bool \<Rightarrow> u32 \<Rightarrow> mmu_fault_cause option \<Rightarrow>
   'b machine \<Rightarrow> (int \<times> 'b machine) option" where
  "exception_bus_error B dl addr write instruction sz cause s0 =
     (let old_sr = get_sr s0;
          fault_wdata = pending_fault_wdata s0;
          s = enter_supervisor s0;
          fc = (case mmu_fc_override s of
                  Some ofc \<Rightarrow> ucast ofc
                | None \<Rightarrow> function_code (old_sr AND 0x2000 \<noteq> 0) instruction);
          s = s\<lparr> mmu_fc_override := None \<rparr>
      in do {
        s \<leftarrow> push_frame B dl
               (bus_error_frame write instruction sz fc cause addr old_sr fault_wdata s) s;
        s \<leftarrow> jump_vector B dl 2 s;
        Some (50, s)
      })"

section \<open>Exceptions with a short frame\<close>

definition stacked_pc_of :: "u32 \<Rightarrow> 'a cpu_core_scheme \<Rightarrow> u32" where
  "stacked_pc_of vector s =
     (if vector = 7 \<or> vector = 9 \<or> vector = 5 \<or> (32 \<le> vector \<and> vector < 32 + 16)
         \<or> (24 \<le> vector \<and> vector \<le> 31)
      then pc s else ppc s)"

definition take_exception ::
  "'b address_bus \<Rightarrow> 'b delivery \<Rightarrow> u32 \<Rightarrow> 'b machine \<Rightarrow> (int \<times> 'b machine) option" where
  "take_exception B dl vector s0 =
     (if exception_processing s0 then Some (0, double_fault s0)
      else
        let s = internal_cycles 4 (s0\<lparr> exception_processing := True \<rparr>);
            old_sr = get_sr s;
            s = enter_supervisor s;
            stacked_pc = stacked_pc_of vector s
        in do {
          s \<leftarrow> (if cpu_model s = M68000 then push_exception_frame_68000 B dl stacked_pc old_sr s
                else push_frame B dl
                       [Push16 (vector_word vector), Push32 stacked_pc, Push16 old_sr] s);
          s \<leftarrow> jump_vector B dl vector s;
          Some (exception_cycles vector, s\<lparr> exception_processing := False \<rparr>)
        })"

definition take_group2_exception ::
  "'b address_bus \<Rightarrow> 'b delivery \<Rightarrow> u32 \<Rightarrow> 'b machine \<Rightarrow> (int \<times> 'b machine) option" where
  "take_group2_exception B dl vector s0 =
     (let old_sr = get_sr s0; s = enter_supervisor s0; next_pc = pc s
      in do {
        s \<leftarrow> (if cpu_model s = M68000 then push_exception_frame_68000 B dl next_pc old_sr s
              else if cpu_model s \<in> {M68010, SCC68070} then
                push_frame B dl [Push16 (vector_word vector), Push32 next_pc, Push16 old_sr] s
              else
                push_frame B dl
                  [Push32 (ppc s), Push16 (0x2000 OR (vector_word vector AND 0x0FFF)),
                   Push32 next_pc, Push16 old_sr] s);
        s \<leftarrow> jump_vector B dl vector s;
        Some (exception_cycles vector, s)
      })"

section \<open>Delivery\<close>

fun deliver :: "nat \<Rightarrow> 'b address_bus \<Rightarrow> 'b delivery" where
  "deliver 0 B ev s = None"
| "deliver (Suc n) B ev s =
     map_option snd
       (case ev of
          Ev_Bus_Error addr write instruction sz cause \<Rightarrow>
            exception_bus_error B (deliver n B) addr write instruction sz cause s
        | Ev_Address_Error addr write instruction \<Rightarrow>
            exception_address_error B (deliver n B) addr write instruction s
        | Ev_Exception vector \<Rightarrow> take_exception B (deliver n B) vector s)"

section \<open>Instruction exceptions\<close>

definition trap ::
  "'b address_bus \<Rightarrow> 'b delivery \<Rightarrow> u8 \<Rightarrow> 'b machine \<Rightarrow> (int \<times> 'b machine) option" where
  "trap B dl trap_num s = take_exception B dl (32 + ucast (trap_num AND 0xF)) s"

definition exception_chk ::
  "'b address_bus \<Rightarrow> 'b delivery \<Rightarrow> 'b machine \<Rightarrow> (int \<times> 'b machine) option" where
  "exception_chk B dl s = take_group2_exception B dl 6 s"

definition exception_zero_divide ::
  "'b address_bus \<Rightarrow> 'b delivery \<Rightarrow> 'b machine \<Rightarrow> (int \<times> 'b machine) option" where
  "exception_zero_divide B dl s = take_group2_exception B dl 5 s"

definition exception_privilege ::
  "'b address_bus \<Rightarrow> 'b delivery \<Rightarrow> 'b machine \<Rightarrow> (int \<times> 'b machine) option" where
  "exception_privilege B dl s = take_exception B dl 8 s"

definition exception_trace ::
  "'b address_bus \<Rightarrow> 'b delivery \<Rightarrow> 'b machine \<Rightarrow> (int \<times> 'b machine) option" where
  "exception_trace B dl s =
     take_group2_exception B dl 9 (internal_cycles 4 (s\<lparr> stopped := stopped s AND NOT 1 \<rparr>))"

definition take_fp_unimp_060 ::
  "'b address_bus \<Rightarrow> 'b delivery \<Rightarrow> u32 \<Rightarrow> 'b machine \<Rightarrow> (int \<times> 'b machine) option" where
  "take_fp_unimp_060 B dl ea s0 =
     (let s = s0\<lparr> fpiar := ppc s0 \<rparr>; old_sr = get_sr s; s = enter_supervisor s
      in do {
        s \<leftarrow> push_frame B dl [Push32 ea, Push16 (0x2000 OR (vector_word 11 AND 0x0FFF)),
               Push32 (pc s), Push16 old_sr] s;
        s \<leftarrow> jump_vector B dl 11 s;
        Some (exception_cycles 11, s)
      })"

definition take_fp_disabled_060 ::
  "'b address_bus \<Rightarrow> 'b delivery \<Rightarrow> 'b machine \<Rightarrow> (int \<times> 'b machine) option" where
  "take_fp_disabled_060 B dl s0 =
     (let old_sr = get_sr s0; s = enter_supervisor s0
      in do {
        s \<leftarrow> push_frame B dl [Push32 (ppc s), Push32 0, Push16 (0x4000 OR (vector_word 11 AND 0x0FFF)),
               Push32 (ppc s), Push16 old_sr] s;
        s \<leftarrow> jump_vector B dl 11 s;
        Some (exception_cycles 11, s)
      })"

definition take_aline_exception ::
  "'b address_bus \<Rightarrow> 'b delivery \<Rightarrow> 'b machine \<Rightarrow> (int \<times> 'b machine) option" where
  "take_aline_exception B dl s = take_exception B dl 10 (s\<lparr> pc := ppc s \<rparr>)"

definition take_fline_exception ::
  "'b address_bus \<Rightarrow> 'b delivery \<Rightarrow> 'b machine \<Rightarrow> (int \<times> 'b machine) option" where
  "take_fline_exception B dl s = take_exception B dl 11 (s\<lparr> pc := ppc s \<rparr>)"

definition take_trap_exception ::
  "'b address_bus \<Rightarrow> 'b delivery \<Rightarrow> u8 \<Rightarrow> 'b machine \<Rightarrow> (int \<times> 'b machine) option" where
  "take_trap_exception B dl trap_num s = trap B dl trap_num s"

definition take_bkpt_exception ::
  "'b address_bus \<Rightarrow> 'b delivery \<Rightarrow> 'b machine \<Rightarrow> (int \<times> 'b machine) option" where
  "take_bkpt_exception B dl s = take_exception B dl 4 (s\<lparr> pc := ppc s \<rparr>)"

definition take_illegal_exception ::
  "'b address_bus \<Rightarrow> 'b delivery \<Rightarrow> 'b machine \<Rightarrow> (int \<times> 'b machine) option" where
  "take_illegal_exception B dl s = take_exception B dl 4 (s\<lparr> pc := ppc s \<rparr>)"

section \<open>Tracing\<close>

definition trace_t0_sr_write :: "'a cpu_core_scheme \<Rightarrow> 'a cpu_core_scheme" where
  "trace_t0_sr_write s = (if \<not> is_pre_68020 s then s\<lparr> change_of_flow := True \<rparr> else s)"

definition trace_t0_68040_sync :: "'a cpu_core_scheme \<Rightarrow> 'a cpu_core_scheme" where
  "trace_t0_68040_sync s = (if is_040 s then s\<lparr> change_of_flow := True \<rparr> else s)"

definition check_trace :: "'a cpu_core_scheme \<Rightarrow> bool \<times> 'a cpu_core_scheme" where
  "check_trace s =
     (sr_save s AND 0x8000 \<noteq> 0 \<or> (sr_save s AND 0x4000 \<noteq> 0 \<and> change_of_flow s),
      s\<lparr> change_of_flow := False \<rparr>)"

section \<open>Interrupts\<close>

definition iack_vector :: "u32 \<Rightarrow> u8 \<Rightarrow> u32" where
  "iack_vector response level =
     (if response = 0xFFFFFFFF then 24 + ucast level else response AND 0xFF)"

definition acknowledge :: "'b address_bus \<Rightarrow> u8 \<Rightarrow> 'b machine \<Rightarrow> u32 \<times> 'b machine" where
  "acknowledge B level s =
     (case interrupt_acknowledge B level (bus s) of (r, b) \<Rightarrow> (iack_vector r level, s\<lparr> bus := b \<rparr>))"

definition interrupt_frame ::
  "'b address_bus \<Rightarrow> 'b delivery \<Rightarrow> u8 \<Rightarrow> u32 \<Rightarrow> u16 \<Rightarrow> 'b machine \<Rightarrow> (u32 \<times> 'b machine) option" where
  "interrupt_frame B dl level stacked_pc old_sr s0 =
     (if cpu_model s0 = M68000 then
        let s = lower_sp 6 (internal_cycles 6 s0); sp = dar s 15
        in do {
          s \<leftarrow> write_16 B dl (sp + 4) (ucast (stacked_pc AND 0xFFFF)) s;
          let (vector, s) = acknowledge B level (flush_sync B (internal_cycles 4 s));
          s \<leftarrow> write_16 B dl sp old_sr (internal_cycles 4 s);
          s \<leftarrow> write_16 B dl (sp + 2) (ucast (drop_bit 16 stacked_pc)) s;
          Some (vector, s)
        }
      else if cpu_model s0 = M68010 then
        let (vector, s) = acknowledge B level (flush_sync B (internal_cycles 12 s0));
            s = lower_sp 8 s; sp = dar s 15
        in do {
          s \<leftarrow> write_16 B dl (sp + 4) (ucast (stacked_pc AND 0xFFFF)) s;
          s \<leftarrow> write_16 B dl sp old_sr s;
          s \<leftarrow> write_16 B dl (sp + 2) (ucast (drop_bit 16 stacked_pc)) s;
          s \<leftarrow> write_16 B dl (sp + 6) (vector_word vector) s;
          Some (vector, s)
        }
      else
        let (vector, s) = acknowledge B level s0
        in do {
          s \<leftarrow> push_frame B dl [Push16 (vector_word vector), Push32 stacked_pc, Push16 old_sr] s;
          Some (vector, s)
        })"

definition service_interrupt ::
  "'b address_bus \<Rightarrow> 'b delivery \<Rightarrow> u8 \<Rightarrow> 'b machine \<Rightarrow> 'b machine option" where
  "service_interrupt B dl level s0 =
     (let old_sr = get_sr s0;
          s = set_s_flag SFLAG_SET (s0\<lparr> t1_flag := 0, t0_flag := 0 \<rparr>);
          s = s\<lparr> int_mask := push_bit 8 (ucast level AND 7) \<rparr>;
          stacked_pc = pc s
      in do {
        (vector, s) \<leftarrow> interrupt_frame B dl level stacked_pc old_sr s;
        s \<leftarrow> (if cpu_model s \<in> {M68EC020, M68020, M68EC030, M68030, M68EC040, M68LC040, M68040}
                 \<and> m_flag s \<noteq> 0
              then push_frame B dl
                     [Push16 (0x1000 OR (vector_word vector AND 0x0FFF)), Push32 stacked_pc,
                      Push16 (old_sr OR 0x2000)] (set_sm_flag SFLAG_SET s)
              else if cpu_model s = M68060 \<and> m_flag s \<noteq> 0 then Some (s\<lparr> m_flag := 0 \<rparr>)
              else Some s);
        s \<leftarrow> jump_vector B dl vector s;
        let s = s\<lparr> stopped := 0 \<rparr>;
        Some (s\<lparr> cycles_remaining :=
                  cycles_remaining s - (if cpu_model s = M68010 then 46 else 44) \<rparr>)
      })"

definition check_and_service_interrupts ::
  "'b address_bus \<Rightarrow> 'b delivery \<Rightarrow> 'b machine \<Rightarrow> (bool \<times> 'b machine) option" where
  "check_and_service_interrupts B dl s =
     (let mask_level = drop_bit 8 (int_mask s) AND 7; level = int_level s AND 7
      in if level = 7 \<or> mask_level < level then
           do {
             s \<leftarrow> service_interrupt B dl (ucast level) s;
             Some (True, s\<lparr> int_level := 0 \<rparr>)
           }
         else Some (False, s))"

section \<open>Stop and halt\<close>

definition stopped_supervisor_check ::
  "'b address_bus \<Rightarrow> 'b delivery \<Rightarrow> 'b machine \<Rightarrow> (int option \<times> 'b machine) option" where
  "stopped_supervisor_check B dl s =
     (if stopped s \<noteq> 1 \<or> s_flag s \<noteq> 0 then Some (None, s)
      else
        let s = internal_cycles 4 (s\<lparr> stopped := 0 \<rparr>)
        in do {
          (c, s) \<leftarrow> exception_privilege B dl (s\<lparr> ppc := pc s - 4 \<rparr>);
          Some (Some (4 + c), s)
        })"

definition halt :: "'a cpu_core_scheme \<Rightarrow> 'a cpu_core_scheme" where
  "halt s = (let s = clear_execution_pipeline_state s in s\<lparr> stopped := stopped s OR 2 \<rparr>)"

definition stop :: "u16 \<Rightarrow> 'a cpu_core_scheme \<Rightarrow> 'a cpu_core_scheme" where
  "stop new_sr s =
     (let s = set_sr new_sr (clear_execution_pipeline_state s) in s\<lparr> stopped := stopped s OR 1 \<rparr>)"

end
