(* ===== verification/Delivery.thy ===== *)
theory Delivery
  imports Exceptions
begin

unbundle bit_operations_syntax

text \<open>
  Termination of fault delivery. \<open>served\<close> and \<open>serves_faults\<close> say which events a delivery
  brings back, by the model, the vector base and the exception-processing flag; every access
  and every exception returns when its events are served, and four levels of \<open>deliver\<close> serve
  everything as long as vector fetches are aligned. The locale \<open>finer_delivery\<close> compares two
  deliveries: with more fuel every operation returns what it returned before. The last
  section shows the exception: an odd vector base on a word-aligned processor.
\<close>

section \<open>Fault delivery comes back\<close>

text \<open>
  What no access and no exception changes: the model, the vector base and the
  exception-processing flag (a delivery that sets the flag clears it again).
\<close>

definition entry_key :: "'a cpu_core_scheme \<Rightarrow> cpu_type \<times> u32 \<times> bool" where
  "entry_key s = (cpu_model s, vbr s, exception_processing s)"

definition has_key :: "cpu_type \<times> u32 \<times> bool \<Rightarrow> 'a cpu_core_scheme \<Rightarrow> bool" where
  "has_key k s \<longleftrightarrow> entry_key s = k"

definition served :: "'b delivery \<Rightarrow> fault_event \<Rightarrow> cpu_type \<times> u32 \<times> bool \<Rightarrow> bool" where
  "served dl ev k \<longleftrightarrow> (\<forall>s. has_key k s \<longrightarrow> yields (has_key k) (dl ev s))"

definition serves_faults :: "'b delivery \<Rightarrow> cpu_type \<times> u32 \<times> bool \<Rightarrow> bool" where
  "serves_faults dl k \<longleftrightarrow> (case k of (m, v, ep) \<Rightarrow>
     (\<forall>vec. served dl (Ev_Exception vec) k) \<and>
     (\<not> ep \<longrightarrow> (\<forall>a w i z c. served dl (Ev_Bus_Error a w i z c) (m, v, True))))"

definition serves_misaligned :: "'b delivery \<Rightarrow> cpu_type \<times> u32 \<times> bool \<Rightarrow> bool" where
  "serves_misaligned dl k \<longleftrightarrow> (\<forall>a w i. served dl (Ev_Address_Error a w i) k)"

lemma has_key_update [simp]:
  "has_key k (s\<lparr> pending_sync_clocks := a1 \<rparr>) \<longleftrightarrow> has_key k s"
  "has_key k (s\<lparr> bus := a2 \<rparr>) \<longleftrightarrow> has_key k s"
  "has_key k (s\<lparr> fault_resume := a3 \<rparr>) \<longleftrightarrow> has_key k s"
  "has_key k (s\<lparr> run_mode := a4 \<rparr>) \<longleftrightarrow> has_key k s"
  "has_key k (s\<lparr> dar := a5 \<rparr>) \<longleftrightarrow> has_key k s"
  "has_key k (s\<lparr> stopped := a6 \<rparr>) \<longleftrightarrow> has_key k s"
  "has_key k (s\<lparr> pending_fault_cause := a7 \<rparr>) \<longleftrightarrow> has_key k s"
  "has_key k (s\<lparr> mmu_fc_override := a8 \<rparr>) \<longleftrightarrow> has_key k s"
  "has_key k (s\<lparr> mmu_read_override := a9 \<rparr>) \<longleftrightarrow> has_key k s"
  "has_key k (s\<lparr> mmu_write_suppress := a10 \<rparr>) \<longleftrightarrow> has_key k s"
  "has_key k (s\<lparr> pending_fault_wdata := a11 \<rparr>) \<longleftrightarrow> has_key k s"
  "has_key k (s\<lparr> pc := a12 \<rparr>) \<longleftrightarrow> has_key k s"
  "has_key k (s\<lparr> loop_mode := a13 \<rparr>) \<longleftrightarrow> has_key k s"
  "has_key k (s\<lparr> prefetch_count := a14 \<rparr>) \<longleftrightarrow> has_key k s"
  "has_key k (s\<lparr> prefetch_queue := a15 \<rparr>) \<longleftrightarrow> has_key k s"
  "has_key k (s\<lparr> last_exception_vector := a16 \<rparr>) \<longleftrightarrow> has_key k s"
  "has_key k (s\<lparr> instruction_exception_vector := a17 \<rparr>) \<longleftrightarrow> has_key k s"
  "has_key k (s\<lparr> oep060 := a18 \<rparr>) \<longleftrightarrow> has_key k s"
  "has_key k (s\<lparr> t1_flag := a19 \<rparr>) \<longleftrightarrow> has_key k s"
  "has_key k (s\<lparr> t0_flag := a20 \<rparr>) \<longleftrightarrow> has_key k s"
  "has_key k (s\<lparr> atc := a21 \<rparr>) \<longleftrightarrow> has_key k s"
  by (simp_all add: has_key_def entry_key_def)

lemma has_key_ops [simp]:
  "has_key k (flush_sync B s) \<longleftrightarrow> has_key k s"
  "has_key k (internal_cycles n s) \<longleftrightarrow> has_key k s"
  "has_key k (lower_sp n s) \<longleftrightarrow> has_key k s"
  "has_key k (push_16_raw B v16 s) \<longleftrightarrow> has_key k s"
  "has_key k (push_32_raw B v32 s) \<longleftrightarrow> has_key k s"
  "has_key k (clear_execution_pipeline_state s) \<longleftrightarrow> has_key k s"
  "has_key k (mark_faulted s) \<longleftrightarrow> has_key k s"
  "has_key k (double_fault s) \<longleftrightarrow> has_key k s"
  "has_key k (rollback s) \<longleftrightarrow> has_key k s"
  "has_key k (set_s_flag f s) \<longleftrightarrow> has_key k s"
  "has_key k (enter_supervisor s) \<longleftrightarrow> has_key k s"
  "has_key k (set_queue slot w c s) \<longleftrightarrow> has_key k s"
  by (simp_all add: has_key_def entry_key_def flush_sync_def internal_cycles_def lower_sp_def push_16_raw_def
    push_32_raw_def clear_execution_pipeline_state_def mark_faulted_def double_fault_def rollback_def
    set_sr_noint_nosp_def set_sr_fields_def set_ccr_internal_def set_sm_flag_nosp_def set_s_flag_def
    restore_sp_def backup_sp_def enter_supervisor_def set_queue_def Let_def)


lemma entry_key_walk_030 [simp]: "entry_key (snd (walk_030 B logical fc m s)) = entry_key s"
  by (simp add: walk_030_def entry_key_def Let_def split: prod.split)

lemma entry_key_translate_040 [simp]: "entry_key (snd (translate_040 B l w su s)) = entry_key s"
  by (simp add: translate_040_def entry_key_def Let_def split: prod.split sum.split option.split)

lemma entry_key_translate_030 [simp]: "entry_key (snd (translate_030 B l w su i s)) = entry_key s"
  using entry_key_walk_030 [of B l _ None s]
  by (simp add: translate_030_def Let_def split_def)

lemma entry_key_translate [simp]: "entry_key (snd (translate B l w su i s)) = entry_key s"
  using entry_key_translate_040 [of B l w _ s]
  by (simp add: translate_def Let_def split_def split: option.split)

lemma entry_key_on_bus [simp]: "entry_key (snd (on_bus f s)) = entry_key s"
  by (simp add: on_bus_def entry_key_def split: prod.split)

lemma has_key_bus_step:
  "has_key k s \<Longrightarrow> translate B a w su i s = (r, s1) \<Longrightarrow> has_key k s1"
  "has_key k s \<Longrightarrow> on_bus f s = (r', s2) \<Longrightarrow> has_key k s2"
  by (metis entry_key_translate has_key_def snd_conv) (metis entry_key_on_bus has_key_def snd_conv)

text \<open>The postcondition of a step with a value.\<close>

definition has_key2 :: "cpu_type \<times> u32 \<times> bool \<Rightarrow> 'v \<times> 'b machine \<Rightarrow> bool" where
  "has_key2 k r \<longleftrightarrow> has_key k (snd r)"

lemma has_key2_Pair [simp]: "has_key2 k (v, s) \<longleftrightarrow> has_key k s"
  by (simp add: has_key2_def)

lemma yields_dl: "served dl ev k \<Longrightarrow> has_key k s \<Longrightarrow> yields (has_key k) (dl ev s)"
  by (simp add: served_def)

lemma trigger_address_error_yields:
  assumes "serves_misaligned dl k" and "has_key k s"
  shows "yields (has_key k) (trigger_address_error dl a w i s)"
  using assms unfolding trigger_address_error_def serves_misaligned_def
  by (auto intro!: yields_bind [OF yields_dl])

lemma has_key_ep: "has_key (m, v, e) (s\<lparr> exception_processing := e' \<rparr>) \<longleftrightarrow>
    e = e' \<and> (\<exists>e''. has_key (m, v, e'') s)"
  by (auto simp: has_key_def entry_key_def)

lemma trigger_bus_error_yields:
  assumes d: "serves_faults dl k" and k: "has_key k s"
  shows "yields (has_key k) (trigger_bus_error dl a w i z s)"
proof -
  obtain m v e where mve: "k = (m, v, e)" by (cases k)
  have ep: "exception_processing s = e" using k by (simp add: mve has_key_def entry_key_def)
  show ?thesis
  proof (cases e)
    case True
    then show ?thesis using k ep by (simp add: trigger_bus_error_def)
  next
    case False
    have "has_key (m, v, True) ((rollback s)\<lparr> exception_processing := True, pending_fault_cause := c \<rparr>)" for c
      using k by (auto simp: mve has_key_ep)
    moreover have "served dl (Ev_Bus_Error a w i z c) (m, v, True)" for c
      using d False by (simp add: serves_faults_def mve)
    ultimately have "yields (has_key (m, v, True)) (dl (Ev_Bus_Error a w i z c)
        ((rollback s)\<lparr> exception_processing := True, pending_fault_cause := c' \<rparr>))" for c c'
      by (intro yields_dl) auto
    then show ?thesis
      using False k ep
      by (auto simp: trigger_bus_error_def Let_def mve has_key_ep intro!: yields_bind)
  qed
qed

lemma handle_mmu_fault_yields:
  assumes d: "serves_faults dl k" and k: "has_key k s"
  shows "yields (has_key k) (handle_mmu_fault dl f w i z s)"
proof -
  have "yields (has_key k) (dl (Ev_Exception vec) (s\<lparr> pending_fault_cause := c \<rparr>))" for vec c
    using d k by (intro yields_dl) (auto simp: serves_faults_def split: prod.splits)
  then show ?thesis
    unfolding handle_mmu_fault_def Let_def
    by (cases "mf_kind f")
      (auto intro!: yields_bind [OF trigger_bus_error_yields [OF d]]
        trigger_bus_error_yields [OF d] yields_bind [of "has_key k"] simp: k)
qed

lemma data_translate_yields:
  assumes d: "serves_faults dl k" and k: "has_key k s"
  shows "yields (has_key2 k) (data_translate B dl w z a s)"
proof (cases "mmu_on s")
  case True
  obtain r s' where r: "translate B a w (is_supervisor s) False s = (r, s')" by fastforce
  note k' = has_key_bus_step(1) [OF k r]
  obtain q where q: "r = Some q" using r translate_total by (metis fst_conv option.exhaust)
  show ?thesis
    using True k' handle_mmu_fault_yields [OF d k']
    by (cases q) (auto simp: data_translate_def r q intro!: yields_bind [of "has_key k"])
qed (simp add: data_translate_def k)

lemma bus_read_yields:
  assumes d: "serves_faults dl k" and k: "has_key k s"
  shows "yields (has_key2 k) (bus_read f z dl a n s)"
proof -
  obtain r s' where r: "on_bus f s = (r, s')" by fastforce
  note k' = has_key_bus_step(2) [OF k r]
  show ?thesis
    using k' trigger_bus_error_yields [OF d, of s']
    by (cases r) (auto simp: bus_read_def r intro!: yields_bind [of "has_key k"])
qed

lemma bus_write_yields:
  assumes d: "serves_faults dl k" and k: "has_key k s"
  shows "yields (has_key k) (bus_write f dl a n s)"
proof -
  obtain r s' where r: "on_bus f s = (r, s')" by fastforce
  note k' = has_key_bus_step(2) [OF k r]
  show ?thesis
    using k' trigger_bus_error_yields [OF d, of s'] by (cases r) (auto simp: bus_write_def r)
qed

lemma prefetch_read_yields:
  assumes d: "serves_faults dl k" and k: "has_key k s"
  shows "yields (has_key2 k) (prefetch_read B dl a s)"
proof -
  obtain r s' where r: "on_bus (try_read_word B (address a (flush_sync B s))) (flush_sync B s) = (r, s')"
    by fastforce
  have k': "has_key k s'" using k by (intro has_key_bus_step(2) [OF _ r]) simp
  show ?thesis
    using k' trigger_bus_error_yields [OF d, of s']
    by (cases r) (auto simp: prefetch_read_def Let_def r intro!: yields_bind [of "has_key k"])
qed

text \<open>
  An access that is aligned, or on a processor that does not check, or whose misalignment is
  served too.
\<close>

definition aligned_for :: "'b delivery \<Rightarrow> u32 \<Rightarrow> cpu_type \<times> u32 \<times> bool \<Rightarrow> bool" where
  "aligned_for dl a k \<longleftrightarrow>
     fst k \<notin> {M68000, M68010, SCC68070} \<or> \<not> bit a 0 \<or> serves_misaligned dl k"

lemma and_1_iff: "(x :: u32) AND 1 \<noteq> 0 \<longleftrightarrow> bit x 0"
  using and_exp_iff [of 0 x] by simp

lemma aligned_address: "aligned_for dl a k \<Longrightarrow> aligned_for dl (address a s) k"
  by (auto simp: aligned_for_def address_def bit_and_iff)

lemma bit0_add_even: "\<not> bit (y :: u32) 0 \<Longrightarrow> bit (x + y) 0 \<longleftrightarrow> bit x 0"
  by (simp add: bit_0)

lemma word_aligned_key: "has_key k s \<Longrightarrow> word_aligned_cpu s \<longleftrightarrow> fst k \<in> {M68000, M68010, SCC68070}"
  by (auto simp: word_aligned_cpu_def has_key_def entry_key_def)

lemma misaligned_yields:
  assumes "aligned_for dl a k" and "has_key k s" and "word_aligned_cpu s" and "a AND 1 \<noteq> 0"
  shows "yields (has_key k) (trigger_address_error dl a w i s)"
  using assms
  by (intro trigger_address_error_yields) (auto simp: aligned_for_def word_aligned_key and_1_iff)

lemma aligned_add_2: "aligned_for dl a k \<Longrightarrow> aligned_for dl (a + 2) k"
  using bit0_add_even [of 2 a] by (simp add: aligned_for_def)

lemma read_8_yields:
  assumes d: "serves_faults dl k" and k: "has_key k s"
  shows "yields (has_key2 k) (read_8 B dl a s)"
  using k unfolding read_8_def Let_def
  by (auto split: option.split intro!: yields_bind2 [OF data_translate_yields [OF d]]
      bus_read_yields [OF d])

lemma read_16_yields:
  assumes d: "serves_faults dl k" and k: "has_key k s" and a: "aligned_for dl a k"
  shows "yields (has_key2 k) (read_16 B dl a s)"
  using k unfolding read_16_def Let_def
  by (auto split: option.split intro!: yields_bind2 [OF data_translate_yields [OF d]]
      bus_read_yields [OF d] yields_bind2 [OF read_8_yields [OF d]]
      yields_bind [OF misaligned_yields [OF aligned_address [OF a]]])

lemma read_32_yields:
  assumes d: "serves_faults dl k" and k: "has_key k s" and a: "aligned_for dl a k"
  shows "yields (has_key2 k) (read_32 B dl a s)"
  using k aligned_address [OF a] aligned_add_2 [OF aligned_address [OF a]]
  unfolding read_32_def Let_def
  by (auto split: option.split intro!: yields_bind2 [OF data_translate_yields [OF d]]
      bus_read_yields [OF d] yields_bind2 [OF read_16_yields [OF d]]
      yields_bind [OF misaligned_yields [OF aligned_address [OF a]]])

lemma write_8_yields:
  assumes d: "serves_faults dl k" and k: "has_key k s"
  shows "yields (has_key k) (write_8 B dl a v s)"
  using k unfolding write_8_def Let_def
  by (auto split: option.split intro!: yields_bind2 [OF data_translate_yields [OF d]]
      bus_write_yields [OF d])

lemma write_16_yields:
  assumes d: "serves_faults dl k" and k: "has_key k s" and a: "aligned_for dl a k"
  shows "yields (has_key k) (write_16 B dl a v s)"
  using k unfolding write_16_def Let_def
  by (auto split: option.split intro!: yields_bind2 [OF data_translate_yields [OF d]]
      bus_write_yields [OF d] yields_bind [OF write_8_yields [OF d]] write_8_yields [OF d]
      misaligned_yields [OF aligned_address [OF a]])

lemma write_32_yields:
  assumes d: "serves_faults dl k" and k: "has_key k s" and a: "aligned_for dl a k"
  shows "yields (has_key k) (write_32 B dl a v s)"
  using k aligned_address [OF a] aligned_add_2 [OF aligned_address [OF a]]
  unfolding write_32_def Let_def
  by (auto split: option.split intro!: yields_bind2 [OF data_translate_yields [OF d]]
      bus_write_yields [OF d] yields_bind [OF write_16_yields [OF d]] write_16_yields [OF d]
      misaligned_yields [OF aligned_address [OF a]])

lemma prefetch_yields:
  assumes d: "serves_faults dl k" and k: "has_key k s"
  shows "yields (has_key k) (prefetch_first B dl s)" and "yields (has_key k) (prefetch_second B dl s)"
  using k unfolding prefetch_first_def prefetch_second_def Let_def
  by (auto split: option.split intro!: yields_bind2 [OF prefetch_read_yields [OF d]])

text \<open>The vector table is even, or the processor does not care.\<close>

definition even_vectors :: "cpu_type \<times> u32 \<times> bool \<Rightarrow> bool" where
  "even_vectors k \<longleftrightarrow> fst k \<notin> {M68000, M68010, SCC68070} \<or> \<not> bit (fst (snd k)) 0"

lemma jump_vector_yields:
  assumes d: "serves_faults dl k" and k: "has_key k s" and v: "even_vectors k"
  shows "yields (has_key k) (jump_vector B dl vec s)"
proof -
  have "vbr s = fst (snd k)" using k by (auto simp: has_key_def entry_key_def)
  moreover have "\<not> bit (push_bit 2 vec) 0" by (simp add: bit_push_bit_iff)
  ultimately have a: "aligned_for dl (push_bit 2 vec + vbr s) k"
    using v bit0_add_even [of "vbr s" "push_bit 2 vec"]
    by (auto simp: even_vectors_def aligned_for_def)
  have "vbr (clear_execution_pipeline_state s) = vbr s"
    by (simp add: clear_execution_pipeline_state_def)
  with a k show ?thesis
    unfolding jump_vector_def Let_def
    by (auto intro!: yields_bind2 [OF read_32_yields [OF d]] yields_bind [OF prefetch_yields(1) [OF d]]
        prefetch_yields(2) [OF d])
qed


definition free_align :: "'b delivery \<Rightarrow> cpu_type \<times> u32 \<times> bool \<Rightarrow> bool" where
  "free_align dl k \<longleftrightarrow> fst k \<notin> {M68000, M68010, SCC68070} \<or> serves_misaligned dl k"

lemma free_align_aligned: "free_align dl k \<Longrightarrow> aligned_for dl a k"
  by (auto simp: free_align_def aligned_for_def)

fun raw_item :: "frame_item \<Rightarrow> bool" where
  "raw_item (Push16 _) = False"
| "raw_item (Push32 _) = False"
| "raw_item _ = True"

lemma push_yields:
  assumes d: "serves_faults dl k" and k: "has_key k s" and a: "free_align dl k"
  shows "yields (has_key k) (push_16 B dl v16 s)" and "yields (has_key k) (push_32 B dl v32 s)"
  using k unfolding push_16_def push_32_def Let_def
  by (auto intro!: write_16_yields [OF d] write_32_yields [OF d] free_align_aligned [OF a])

lemma push_item_yields:
  assumes d: "serves_faults dl k" and k: "has_key k s" and i: "raw_item i \<or> free_align dl k"
  shows "yields (has_key k) (push_item B dl i s)"
  using i k
  by (cases i) (auto intro: push_yields [OF d])

lemma push_frame_yields:
  assumes d: "serves_faults dl k" and k: "has_key k s"
    and i: "list_all raw_item fr \<or> free_align dl k"
  shows "yields (has_key k) (push_frame B dl fr s)"
  using k i
  by (induction fr arbitrary: s) (auto intro!: yields_bind [OF push_item_yields [OF d]])

lemma push_frame_68000_yields:
  assumes d: "serves_faults dl k" and k: "has_key k s" and i: "free_align dl k"
  shows "yields (has_key k) (push_exception_frame_68000 B dl p sr s)"
  using k free_align_aligned [OF i]
  unfolding push_exception_frame_68000_def Let_def
  by (auto intro!: yields_bind [OF write_16_yields [OF d]] write_16_yields [OF d])

lemma exception_bus_error_yields:
  assumes d: "serves_faults dl k" and k: "has_key k s" and v: "even_vectors k"
  shows "yields (has_key2 k) (exception_bus_error B dl a w i z c s)"
proof -
  have "fst k = cpu_model s" using k by (auto simp: has_key_def entry_key_def)
  then have "list_all raw_item (bus_error_frame w i z fc c a sr wd
      ((enter_supervisor s)\<lparr> mmu_fc_override := None \<rparr>)) \<or> free_align dl k" for fc sr wd
    by (auto simp: bus_error_frame_def frame_68000_def frame_68010_def free_align_def
        enter_supervisor_def set_s_flag_def restore_sp_def backup_sp_def numeral_eq_Suc)
  then show ?thesis
    using k unfolding exception_bus_error_def Let_def
    by (auto intro!: yields_bind [OF push_frame_yields [OF d]] yields_bind [OF jump_vector_yields [OF d _ v]])
qed

lemma exception_address_error_yields:
  assumes d: "serves_faults dl k" and k: "has_key k s" and v: "even_vectors k"
  shows "yields (has_key2 k) (exception_address_error B dl a w i s)"
proof -
  have "list_all raw_item (address_error_frame st a sr s')" for st sr and s' :: "'b machine"
    by (auto simp: address_error_frame_def frame_68000_def frame_68010_def numeral_eq_Suc)
  then show ?thesis
    using k unfolding exception_address_error_def Let_def
    by (auto intro!: yields_bind [OF push_frame_yields [OF d]] yields_bind [OF jump_vector_yields [OF d _ v]])
qed

lemma take_exception_nested_yields:
  assumes "has_key (m, v, True) s"
  shows "yields (has_key2 (m, v, True)) (take_exception B dl vec s)"
  using assms by (auto simp: take_exception_def has_key_def entry_key_def double_fault_def)

lemma take_exception_yields:
  assumes d: "serves_faults dl (m, v, True)" and a: "free_align dl (m, v, True)"
    and k: "has_key (m, v, False) s" and v: "even_vectors (m, v, False)"
  shows "yields (has_key2 (m, v, False)) (take_exception B dl vec s)"
proof -
  have ep: "\<not> exception_processing s" using k by (auto simp: has_key_def entry_key_def)
  have k': "has_key (m, v, True) (enter_supervisor (internal_cycles 4 (s\<lparr> exception_processing := True \<rparr>)))"
    using k by (auto simp: has_key_ep)
  have v': "even_vectors (m, v, True)" using v by (simp add: even_vectors_def)
  show ?thesis
    using k' ep unfolding take_exception_def Let_def
    by (auto simp: has_key_ep intro!: yields_bind [of "has_key (m, v, True)"]
        push_frame_68000_yields [OF d _ a] push_yields [OF d _ a] jump_vector_yields [OF d _ v'])
qed

section \<open>Four levels of delivery are enough\<close>

lemma served_deliver:
  assumes "\<And>s. has_key k s \<Longrightarrow> yields (has_key2 k)
    (case ev of
        Ev_Bus_Error a w i z c \<Rightarrow> exception_bus_error B (deliver n B) a w i z c s
      | Ev_Address_Error a w i \<Rightarrow> exception_address_error B (deliver n B) a w i s
      | Ev_Exception vec \<Rightarrow> take_exception B (deliver n B) vec s)"
  shows "served (deliver (Suc n) B) ev k"
  using assms
  by (cases ev) (auto simp: served_def has_key2_def [abs_def])

lemma deliver_1: "serves_faults (deliver (Suc n) B) (m, v, True)"
  by (auto simp: serves_faults_def intro!: served_deliver take_exception_nested_yields)

lemma deliver_2:
  assumes "even_vectors (m, v, True)"
  shows "served (deliver (Suc (Suc n)) B) (Ev_Bus_Error a w i z c) (m, v, True)"
    and "serves_misaligned (deliver (Suc (Suc n)) B) (m, v, True)"
  using assms
  by (auto simp: serves_misaligned_def intro!: served_deliver
      exception_bus_error_yields exception_address_error_yields deliver_1)

lemma deliver_3:
  assumes "even_vectors (m, v, False)"
  shows "serves_faults (deliver (Suc (Suc (Suc n))) B) (m, v, False)"
proof -
  have v: "even_vectors (m, v, True)" using assms by (simp add: even_vectors_def)
  then have u: "free_align (deliver (Suc (Suc n)) B) (m, v, True)"
    by (simp add: free_align_def deliver_2)
  have e: "served (deliver (Suc (Suc (Suc n))) B) (Ev_Exception vec) (m, v, False)" for vec
    using deliver_1 u assms by (intro served_deliver) (auto intro!: take_exception_yields)
  show ?thesis
    using e deliver_2(1) [OF v, of "Suc n" B] by (simp add: serves_faults_def)
qed

lemma deliver_4:
  assumes "even_vectors k" and "4 \<le> n"
  shows "serves_faults (deliver n B) k" and "serves_misaligned (deliver n B) k"
    and "served (deliver n B) ev k"
proof -
  obtain m v e where k: "k = (m, v, e)" by (cases k)
  define n' where "n' = n - 4"
  then have n: "n = Suc (Suc (Suc (Suc n')))" using assms(2) by simp
  have "serves_faults (deliver (Suc (Suc (Suc n'))) B) k"
    using assms(1) by (cases e) (auto simp: k intro: deliver_1 deliver_3)
  then have b: "served (deliver n B) (Ev_Bus_Error a w i z c) k"
    "served (deliver n B) (Ev_Address_Error a w i) k" for a w i z c
    using assms(1) unfolding n
    by (auto intro!: served_deliver exception_bus_error_yields exception_address_error_yields)
  show f: "serves_faults (deliver n B) k"
    using assms(1) unfolding n by (cases e) (auto simp: k intro: deliver_1 deliver_3)
  show "serves_misaligned (deliver n B) k" using b by (simp add: serves_misaligned_def)
  show "served (deliver n B) ev k"
    using b f by (cases ev) (auto simp: serves_faults_def k)
qed


lemma has_key_update2 [simp]:
  "has_key k (s\<lparr> int_mask := b1 \<rparr>) \<longleftrightarrow> has_key k s" "has_key k (s\<lparr> m_flag := b2 \<rparr>) \<longleftrightarrow> has_key k s"
  "has_key k (s\<lparr> cycles_remaining := b3 \<rparr>) \<longleftrightarrow> has_key k s" "has_key k (set_sm_flag b4 s) \<longleftrightarrow> has_key k s"
  by (simp_all add: has_key_def entry_key_def set_sm_flag_def restore_sp_def backup_sp_def)

lemma acknowledge_key: "has_key k s \<Longrightarrow> acknowledge B l s = (v, s') \<Longrightarrow> has_key k s'"
  by (auto simp: acknowledge_def has_key_def entry_key_def split: prod.splits)

lemma interrupt_frame_yields:
  assumes d: "serves_faults dl k" and k: "has_key k s" and a: "free_align dl k"
  shows "yields (has_key2 k) (interrupt_frame B dl l p sr s)"
  using k free_align_aligned [OF a]
  unfolding interrupt_frame_def Let_def
  by (auto split: prod.split intro!: yields_bind [OF write_16_yields [OF d]]
      yields_bind [OF push_yields(1) [OF d _ a]] yields_bind [OF push_yields(2) [OF d _ a]]
      dest!: acknowledge_key [rotated])

lemma service_interrupt_yields:
  assumes d: "serves_faults dl k" and k: "has_key k s" and a: "free_align dl k" and v: "even_vectors k"
  shows "yields (has_key k) (service_interrupt B dl l s)"
  using k unfolding service_interrupt_def Let_def
  by (auto intro!: yields_bind2 [OF interrupt_frame_yields [OF d _ a]] yields_bind [of "has_key k"]
      push_yields [OF d _ a] jump_vector_yields [OF d _ v])

lemma take_group2_yields:
  assumes d: "serves_faults dl k" and k: "has_key k s" and a: "free_align dl k" and v: "even_vectors k"
  shows "yields (has_key2 k) (take_group2_exception B dl vec s)"
  using k unfolding take_group2_exception_def Let_def
  by (auto intro!: yields_bind [of "has_key k"] push_frame_68000_yields [OF d _ a]
      push_yields [OF d _ a] jump_vector_yields [OF d _ v])

lemma deliver_free_align: "even_vectors k \<Longrightarrow> 4 \<le> n \<Longrightarrow> free_align (deliver n B) k"
  by (simp add: free_align_def deliver_4)

lemma yields_not_None: "yields P m \<Longrightarrow> m \<noteq> None"
  by (auto simp: yields_def)

section \<open>An odd vector base on a word-aligned processor\<close>

definition odd_entry :: "'a cpu_core_scheme \<Rightarrow> bool" where
  "odd_entry s \<longleftrightarrow> word_aligned_cpu s \<and> bit (vbr s) 0 \<and> bit (address_mask s) 0 \<and> \<not> faulted s"

lemma odd_entry_ops [simp]:
  "odd_entry (push_16_raw B v16 s) = odd_entry s" "odd_entry (push_32_raw B v32 s) = odd_entry s"
  "odd_entry (lower_sp n s) = odd_entry s" "odd_entry (rollback s) = odd_entry s"
  "odd_entry (flush_sync B s) = odd_entry s" "odd_entry (enter_supervisor s) = odd_entry s"
  "odd_entry (clear_execution_pipeline_state s) = odd_entry s"
  "odd_entry (s\<lparr> bus := c1, loop_mode := c2, last_exception_vector := c3, instruction_exception_vector := c4 \<rparr>)
     = odd_entry s"
  by (simp_all add: odd_entry_def word_aligned_cpu_def faulted_def push_16_raw_def push_32_raw_def
    lower_sp_def rollback_def set_sr_noint_nosp_def set_sr_fields_def set_ccr_internal_def
    set_sm_flag_nosp_def flush_sync_def enter_supervisor_def set_s_flag_def restore_sp_def
    backup_sp_def clear_execution_pipeline_state_def Let_def)

lemma odd_entry_raw_frame:
  "list_all raw_item fr \<Longrightarrow> odd_entry s \<Longrightarrow> \<exists>s'. push_frame B dl fr s = Some s' \<and> odd_entry s'"
proof (induction fr arbitrary: s)
  case (Cons i fr)
  then show ?case by (cases i) simp_all
qed simp

lemma read_32_odd:
  assumes "odd_entry s" and "bit a 0"
    and "\<And>a w i s. odd_entry s \<Longrightarrow> dl (Ev_Address_Error a w i) s = None"
  shows "read_32 B dl a s = None"
proof -
  have "odd_entry (flush_sync B s)" using assms(1) by simp
  then have "address a (flush_sync B s) AND 1 \<noteq> 0" "word_aligned_cpu (flush_sync B s)"
    "\<not> faulted (flush_sync B s)"
    using assms(2) by (auto simp: and_1_iff address_def bit_and_iff odd_entry_def)
  moreover have "dl (Ev_Address_Error (address a (flush_sync B s)) False False)
      (rollback (flush_sync B s)) = None"
    using assms(1) by (intro assms(3)) simp
  moreover have "\<not> faulted s" using assms(1) by (simp add: odd_entry_def)
  ultimately show ?thesis
    by (simp add: read_32_def Let_def trigger_address_error_def)
qed

lemma jump_vector_odd:
  assumes "odd_entry s" and "\<And>a w i s. odd_entry s \<Longrightarrow> dl (Ev_Address_Error a w i) s = None"
  shows "jump_vector B dl vec s = None"
proof -
  let ?s = "(clear_execution_pipeline_state s)\<lparr> bus := ipl_release_sample B (bus (clear_execution_pipeline_state s)),
    loop_mode := False, last_exception_vector := Some vec, instruction_exception_vector := Some vec \<rparr>"
  have "odd_entry ?s" using assms(1) by simp
  moreover from this have "bit (push_bit 2 vec + vbr ?s) 0"
    using bit0_add_even [of "push_bit 2 vec" "vbr ?s"]
    by (simp add: odd_entry_def bit_push_bit_iff ac_simps)
  ultimately have "read_32 B dl (push_bit 2 vec + vbr ?s) ?s = None"
    using assms(2) by (rule read_32_odd)
  then show ?thesis by (simp add: jump_vector_def Let_def)
qed

lemma deliver_odd: "odd_entry s \<Longrightarrow> deliver n B (Ev_Address_Error a w i) s = None"
proof (induction n arbitrary: a w i s)
  case (Suc n)
  let ?fr = "address_error_frame (status_word_68000 (function_code (get_sr s AND 0x2000 \<noteq> 0) i) w i)
      a (get_sr s) (enter_supervisor s)"
  have "list_all raw_item ?fr"
    by (auto simp: address_error_frame_def frame_68000_def frame_68010_def numeral_eq_Suc)
  moreover have "odd_entry (enter_supervisor s)" using Suc.prems by simp
  ultimately obtain s' where s': "push_frame B (deliver n B) ?fr (enter_supervisor s) = Some s'"
    "odd_entry s'"
    using odd_entry_raw_frame by blast
  have "jump_vector B (deliver n B) 3 s' = None"
    by (intro jump_vector_odd [OF s'(2)] Suc.IH)
  with s'(1) show ?case
    by (simp add: exception_address_error_def Let_def)
qed simp


lemma read_16_odd:
  assumes "odd_entry s" and "bit a 0"
    and "\<And>a w i s. odd_entry s \<Longrightarrow> dl (Ev_Address_Error a w i) s = None"
  shows "read_16 B dl a s = None"
proof -
  have "odd_entry (flush_sync B s)" using assms(1) by simp
  then have "address a (flush_sync B s) AND 1 \<noteq> 0" "word_aligned_cpu (flush_sync B s)"
    "\<not> faulted (flush_sync B s)"
    using assms(2) by (auto simp: and_1_iff address_def bit_and_iff odd_entry_def)
  moreover have "dl (Ev_Address_Error (address a (flush_sync B s)) False False)
      (rollback (flush_sync B s)) = None"
    using assms(1) by (intro assms(3)) simp
  moreover have "\<not> faulted s" using assms(1) by (simp add: odd_entry_def)
  ultimately show ?thesis
    by (simp add: read_16_def Let_def trigger_address_error_def)
qed

section \<open>More fuel changes nothing\<close>

definition dl_le :: "'b delivery \<Rightarrow> 'b delivery \<Rightarrow> bool" where
  "dl_le dl dl' \<longleftrightarrow> (\<forall>ev s r. dl ev s = Some r \<longrightarrow> dl' ev s = Some r)"

definition opt_le :: "'r option \<Rightarrow> 'r option \<Rightarrow> bool" where
  "opt_le m m' \<longleftrightarrow> (\<forall>r. m = Some r \<longrightarrow> m' = Some r)"

lemma opt_le_refl [simp]: "opt_le m m"
  by (simp add: opt_le_def)

lemma opt_le_bind:
  "opt_le m m' \<Longrightarrow> (\<And>r. opt_le (f r) (f' r)) \<Longrightarrow> opt_le (Option.bind m f) (Option.bind m' f')"
  by (auto simp: opt_le_def bind_eq_Some_conv)

lemma opt_le_dl: "dl_le dl dl' \<Longrightarrow> opt_le (dl ev s) (dl' ev s)"
  by (simp add: dl_le_def opt_le_def)

lemma opt_le_map: "opt_le m m' \<Longrightarrow> opt_le (map_option f m) (map_option f m')"
  by (auto simp: opt_le_def)

locale finer_delivery =
  fixes dl dl' :: "'b delivery"
  assumes le: "dl_le dl dl'"
begin

lemma trigger_le:
  "opt_le (trigger_address_error dl a w i s) (trigger_address_error dl' a w i s)"
  "opt_le (trigger_bus_error dl a w i z s) (trigger_bus_error dl' a w i z s)"
  unfolding trigger_address_error_def trigger_bus_error_def Let_def
  by (auto intro!: opt_le_bind opt_le_dl [OF le])

lemma handle_le: "opt_le (handle_mmu_fault dl f w i z s) (handle_mmu_fault dl' f w i z s)"
  unfolding handle_mmu_fault_def Let_def
  by (auto intro!: opt_le_bind opt_le_dl [OF le] trigger_le split: mmu_fault_kind.split)

lemma translate_le: "opt_le (data_translate B dl w z a s) (data_translate B dl' w z a s)"
  unfolding data_translate_def
  by (auto intro!: opt_le_bind handle_le split: prod.split option.split sum.split)

lemma bus_le:
  "opt_le (bus_read f z dl a n s) (bus_read f z dl' a n s)"
  "opt_le (bus_write g dl a n s) (bus_write g dl' a n s)"
  "opt_le (prefetch_read B dl a s) (prefetch_read B dl' a s)"
  unfolding bus_read_def bus_write_def prefetch_read_def Let_def
  by (auto intro!: opt_le_bind trigger_le split: prod.split sum.split)

lemma access_8_le:
  "opt_le (read_8 B dl a s) (read_8 B dl' a s)" "opt_le (write_8 B dl a v s) (write_8 B dl' a v s)"
  unfolding read_8_def write_8_def Let_def
  by (auto intro!: opt_le_bind translate_le bus_le split: prod.split option.split)

lemma access_16_le:
  "opt_le (read_16 B dl a s) (read_16 B dl' a s)" "opt_le (write_16 B dl a v s) (write_16 B dl' a v s)"
  unfolding read_16_def write_16_def Let_def
  by (auto intro!: opt_le_bind translate_le bus_le access_8_le trigger_le split: prod.split option.split)

lemma access_32_le:
  "opt_le (read_32 B dl a s) (read_32 B dl' a s)" "opt_le (write_32 B dl a v s) (write_32 B dl' a v s)"
  unfolding read_32_def write_32_def Let_def
  by (auto intro!: opt_le_bind translate_le bus_le access_16_le trigger_le split: prod.split option.split)

lemma prefetch_le:
  "opt_le (prefetch_first B dl s) (prefetch_first B dl' s)"
  "opt_le (prefetch_second B dl s) (prefetch_second B dl' s)"
  unfolding prefetch_first_def prefetch_second_def Let_def
  by (auto intro!: opt_le_bind bus_le split: prod.split option.split)

lemma push_le: "opt_le (push_frame B dl fr s) (push_frame B dl' fr s)"
proof (induction fr arbitrary: s)
  case (Cons i fr)
  have "opt_le (push_item B dl i s) (push_item B dl' i s)"
    by (cases i) (auto simp: push_16_def push_32_def Let_def intro!: access_16_le access_32_le)
  then show ?case by (auto intro!: opt_le_bind Cons.IH)
qed simp

lemma jump_le: "opt_le (jump_vector B dl vec s) (jump_vector B dl' vec s)"
  unfolding jump_vector_def Let_def
  by (auto intro!: opt_le_bind access_32_le prefetch_le split: prod.split)

lemma exception_le:
  "opt_le (exception_bus_error B dl a w i z c s) (exception_bus_error B dl' a w i z c s)"
  "opt_le (exception_address_error B dl a w i s) (exception_address_error B dl' a w i s)"
  "opt_le (take_exception B dl vec s) (take_exception B dl' vec s)"
  unfolding exception_bus_error_def exception_address_error_def take_exception_def
    push_exception_frame_68000_def Let_def
  by (auto intro!: opt_le_bind push_le jump_le access_16_le simp del: push_frame.simps)

end

lemma deliver_Suc_le:
  assumes "dl_le (deliver n B) (deliver m B)"
  shows "dl_le (deliver (Suc n) B) (deliver (Suc m) B)"
proof -
  have "opt_le (deliver (Suc n) B ev s) (deliver (Suc m) B ev s)" for ev s
    unfolding deliver.simps(2)
    by (cases ev) (auto intro!: opt_le_map finer_delivery.exception_le finer_delivery.intro assms)
  then show ?thesis by (simp add: dl_le_def opt_le_def)
qed

lemma deliver_le: "dl_le (deliver n B) (deliver (Suc n) B)"
  by (induction n) (simp add: dl_le_def, rule deliver_Suc_le)

text \<open>Every operation with more fuel agrees with itself wherever it returned before.\<close>

interpretation fuel: finer_delivery "deliver n B" "deliver (Suc n) B" for n B
  by (rule finer_delivery.intro) (rule deliver_le)

lemma deliver_fuel:
  assumes "even_vectors (entry_key s)" and "4 \<le> n"
  shows "deliver n B ev s = deliver 4 B ev s"
proof -
  have k: "has_key (entry_key s) s" by (simp add: has_key_def)
  obtain r where r: "deliver 4 B ev s = Some r"
    using yields_dl [OF deliver_4(3) [OF assms(1) order.refl] k, of B ev] by (auto simp: yields_def)
  have "deliver (m + 4) B ev s = Some r" for m
  proof (induction m)
    case (Suc m)
    then show ?case
      using deliver_le [of "m + 4" B] unfolding dl_le_def by (metis add_Suc)
  qed (simp only: r add_0)
  from this [of "n - 4"] show ?thesis
    using assms(2) r by simp
qed

section \<open>Properties\<close>

text \<open>
  C7. Fault delivery comes back: with an even vector base, or on a processor without
  alignment checks, every access, exception and interrupt returns, whatever the bus and the
  page tables answer; four nested deliveries are always enough, and more change nothing.
\<close>

theorem fault_delivery_returns:
  assumes "even_vectors (entry_key s)" and "4 \<le> n"
  shows "deliver n B ev s \<noteq> None \<and> deliver n B ev s = deliver 4 B ev s \<and>
    read_8 B (deliver n B) a s \<noteq> None \<and> read_16 B (deliver n B) a s \<noteq> None \<and>
    read_32 B (deliver n B) a s \<noteq> None \<and> write_8 B (deliver n B) a v8 s \<noteq> None \<and>
    write_16 B (deliver n B) a v16 s \<noteq> None \<and> write_32 B (deliver n B) a v32 s \<noteq> None \<and>
    take_exception B (deliver n B) vec s \<noteq> None \<and>
    take_group2_exception B (deliver n B) vec s \<noteq> None \<and>
    service_interrupt B (deliver n B) level s \<noteq> None"
proof -
  have k: "has_key (entry_key s) s" by (simp add: has_key_def)
  note d = deliver_4 [OF assms, of B]
  note a = deliver_free_align [OF assms, of B]
  have "4 \<le> Suc n" using assms(2) by simp
  then have "yields (has_key (entry_key s)) (deliver (Suc n) B (Ev_Exception vec) s)"
    by (intro yields_dl [OF deliver_4(3) [OF assms(1)] k])
  then have te: "take_exception B (deliver n B) vec s \<noteq> None"
    by (auto dest: yields_not_None)
  show ?thesis
    by (intro conjI te deliver_fuel [OF assms] yields_not_None [OF read_8_yields [OF d(1) k]]
        yields_not_None [OF read_16_yields [OF d(1) k free_align_aligned [OF a]]]
        yields_not_None [OF read_32_yields [OF d(1) k free_align_aligned [OF a]]]
        yields_not_None [OF write_8_yields [OF d(1) k]]
        yields_not_None [OF write_16_yields [OF d(1) k free_align_aligned [OF a]]]
        yields_not_None [OF write_32_yields [OF d(1) k free_align_aligned [OF a]]]
        yields_not_None [OF yields_dl [OF d(3) k]]
        yields_not_None [OF take_group2_yields [OF d(1) k a assms(1)]]
        yields_not_None [OF service_interrupt_yields [OF d(1) k a assms(1)]])
qed

text \<open>
  C8. On a word-aligned processor an odd vector base has no way back: the vector fetch of an
  exception is misaligned, its address error fetches another vector, and no depth of nesting
  returns.
\<close>

theorem odd_vector_base_never_returns:
  assumes "odd_entry s" and "bit a 0"
  shows "jump_vector B (deliver n B) vec s = None \<and> read_16 B (deliver n B) a s = None"
  using jump_vector_odd [OF assms(1)] read_16_odd [OF assms] deliver_odd by blast

text \<open>Concrete instances: a new 68000, and a 68010 whose vector base was set to 1.\<close>

definition odd_68010 :: "linear_bus machine" where
  "odd_68010 = write_control_register 0x801 1 (set_cpu_type M68010 (cpu_new sample_bus))"

lemma even_vectors_new: "even_vectors (entry_key (cpu_new sample_bus))"
  by (simp add: even_vectors_def entry_key_def cpu_new_def set_cpu_type_def Let_def
    clear_execution_pipeline_state_def)

lemma odd_entry_68010: "odd_entry odd_68010"
  by (simp add: odd_entry_def odd_68010_def write_control_register_def cpu_new_def set_cpu_type_def
    Let_def clear_execution_pipeline_state_def word_aligned_cpu_def faulted_def)

lemma fault_delivery_returns_witness:
  "even_vectors (entry_key (cpu_new sample_bus)) \<and>
   take_exception linear_memory_bus (deliver 4 linear_memory_bus) 32 (cpu_new sample_bus) \<noteq> None"
  using fault_delivery_returns [OF even_vectors_new order.refl, of linear_memory_bus "Ev_Exception 0" 0 0 0 0 32 0]
    even_vectors_new by blast

lemma odd_vector_base_never_returns_witness:
  "odd_entry odd_68010 \<and> jump_vector linear_memory_bus (deliver 100 linear_memory_bus) 32 odd_68010 = None"
  using odd_vector_base_never_returns [OF odd_entry_68010, of 1 linear_memory_bus 100 32] odd_entry_68010
  by simp

end
