(* ===== verification/Ea.thy ===== *)
theory Ea
  imports Delivery
begin

unbundle bit_operations_syntax

text \<open>
  Effective addresses (\<open>src/core/ea.rs\<close>, \<open>src/core/addressing.rs\<close>): the instruction stream with
  and without the prefetch queue, the twelve addressing modes with the 68020 full extension
  word, the cycle tables of the address calculation, and the reads and writes of a resolved
  operand (\<open>src/core/instructions/data_movement.rs\<close>).
\<close>

section \<open>Addressing modes\<close>

datatype addressing_mode =
  DataDirect nat | AddressDirect nat | AddressIndirect nat | PostIncrement nat
  | PreDecrement nat | Displacement nat | Index nat | AbsoluteShort | AbsoluteLong
  | PcDisplacement | PcIndex | Immediate

definition decode_mode :: "u8 \<Rightarrow> u8 \<Rightarrow> addressing_mode option" where
  "decode_mode mode reg =
     (if mode = 0 then Some (DataDirect (unat reg))
      else if mode = 1 then Some (AddressDirect (unat reg))
      else if mode = 2 then Some (AddressIndirect (unat reg))
      else if mode = 3 then Some (PostIncrement (unat reg))
      else if mode = 4 then Some (PreDecrement (unat reg))
      else if mode = 5 then Some (Displacement (unat reg))
      else if mode = 6 then Some (Index (unat reg))
      else if mode = 7 then
        (if reg = 0 then Some AbsoluteShort
         else if reg = 1 then Some AbsoluteLong
         else if reg = 2 then Some PcDisplacement
         else if reg = 3 then Some PcIndex
         else if reg = 4 then Some Immediate
         else None)
      else None)"

fun is_register_direct :: "addressing_mode \<Rightarrow> bool" where
  "is_register_direct (DataDirect _) = True"
| "is_register_direct (AddressDirect _) = True"
| "is_register_direct _ = False"

datatype ea_result = DataReg nat | AddrReg nat | EaMemory u32 | EaImmediate u32

definition addr_inc :: "nat \<Rightarrow> opsize \<Rightarrow> u32" where
  "addr_inc reg sz = (if reg = 7 \<and> sz = Size_Byte then 2 else size_bytes sz)"

definition is_020_plus :: "'a cpu_core_scheme \<Rightarrow> bool" where
  "is_020_plus s \<longleftrightarrow>
     cpu_model s \<in> {M68EC020, M68020, M68EC030, M68030, M68EC040, M68LC040, M68040, M68060}"

section \<open>Instruction stream\<close>

text \<open>The translated address of an instruction fetch, or None when the translation faulted.\<close>

definition fetch_translate ::
  "'b address_bus \<Rightarrow> (mmu_fault \<Rightarrow> 'b machine \<Rightarrow> 'b machine option) \<Rightarrow> u32 \<Rightarrow> 'b machine \<Rightarrow>
   (u32 option \<times> 'b machine) option" where
  "fetch_translate B on_fault addr s =
     (if mmu_on s then
        case translate B addr False (is_supervisor s) True s of
          (None, _) \<Rightarrow> None
        | (Some (Inr p), s) \<Rightarrow> Some (Some (address p s), s)
        | (Some (Inl f), s) \<Rightarrow> do { s \<leftarrow> on_fault f s; Some (None, s) }
      else Some (Some addr, s))"

definition read_imm_16_prefetched ::
  "'b address_bus \<Rightarrow> 'b delivery \<Rightarrow> 'b machine \<Rightarrow> (u16 \<times> 'b machine) option" where
  "read_imm_16_prefetched B dl s = do {
     (word, s) \<leftarrow> consume_imm_16_no_prefetch B dl s;
     if run_mode s = RUN_MODE_BERR_AERR_RESET then Some (word, s)
     else if \<not> consume_without_prefetch s then
       do { s \<leftarrow> top_up_prefetch_one B dl s; Some (word, s) }
     else Some (word, s)
   }"

definition read_imm_16 ::
  "'b address_bus \<Rightarrow> 'b delivery \<Rightarrow> 'b machine \<Rightarrow> (u16 \<times> 'b machine) option" where
  "read_imm_16 B dl s =
     (if pc s AND 1 \<noteq> 0 then
        do { s \<leftarrow> trigger_address_error dl (pc s) False True s; Some (0, s) }
      else if prefetch_enabled s then read_imm_16_prefetched B dl s
      else do {
        (p, s) \<leftarrow> fetch_translate B (\<lambda>f. handle_mmu_fault dl f False True 2) (address (pc s) s) s;
        (case p of
           None \<Rightarrow> Some (0, s)
         | Some addr \<Rightarrow>
             (case on_bus (try_read_immediate_word B addr) s of
                (Inr v, s) \<Rightarrow> Some (v, s\<lparr> pc := pc s + 2 \<rparr>)
              | (Inl _, s) \<Rightarrow>
                  do { s \<leftarrow> trigger_bus_error dl addr False True 2 s; Some (0, s) }))
      })"

definition read_imm_32 ::
  "'b address_bus \<Rightarrow> 'b delivery \<Rightarrow> 'b machine \<Rightarrow> (u32 \<times> 'b machine) option" where
  "read_imm_32 B dl s =
     (if pc s AND 1 \<noteq> 0 then
        do { s \<leftarrow> trigger_address_error dl (pc s) False True s; Some (0, s) }
      else if prefetch_enabled s then
        do {
          (hi, s) \<leftarrow> read_imm_16_prefetched B dl s;
          if run_mode s = RUN_MODE_BERR_AERR_RESET then Some (0, s)
          else do {
            (lo, s) \<leftarrow> read_imm_16_prefetched B dl s;
            Some (push_bit 16 (ucast hi) OR ucast lo, s)
          }
        }
      else if mmu_on s \<and> mmu_page_mask s - 3 < address (pc s) s AND mmu_page_mask s then
        do {
          (hi, s) \<leftarrow> read_imm_16 B dl s;
          if faulted s then Some (0, s)
          else do {
            (lo, s) \<leftarrow> read_imm_16 B dl s;
            Some (push_bit 16 (ucast hi) OR ucast lo, s)
          }
        }
      else do {
        (p, s) \<leftarrow> fetch_translate B (\<lambda>f. handle_mmu_fault dl f False True 4) (address (pc s) s) s;
        (case p of
           None \<Rightarrow> Some (0, s)
         | Some addr \<Rightarrow>
             (case on_bus (try_read_immediate_long B addr) s of
                (Inr v, s) \<Rightarrow> Some (v, s\<lparr> pc := pc s + 4 \<rparr>)
              | (Inl _, s) \<Rightarrow>
                  do { s \<leftarrow> trigger_bus_error dl addr False True 4 s; Some (0, s) }))
      })"

definition read_imm_8 ::
  "'b address_bus \<Rightarrow> 'b delivery \<Rightarrow> 'b machine \<Rightarrow> (u8 \<times> 'b machine) option" where
  "read_imm_8 B dl s = do { (w, s) \<leftarrow> read_imm_16 B dl s; Some (ucast (w AND 0xFF), s) }"

definition read_opcode_16 ::
  "'b address_bus \<Rightarrow> 'b delivery \<Rightarrow> 'b machine \<Rightarrow> (u16 \<times> 'b machine) option" where
  "read_opcode_16 B dl s =
     (if pc s AND 1 \<noteq> 0 then
        do { s \<leftarrow> trigger_address_error_no_rollback dl (pc s) False True s; Some (0, s) }
      else do {
        (p, s) \<leftarrow> fetch_translate B (handle_mmu_fetch_fault dl) (address (pc s) s) s;
        (case p of
           None \<Rightarrow> Some (0, s)
         | Some addr \<Rightarrow>
             (case on_bus (try_read_immediate_word B addr) s of
                (Inr v, s) \<Rightarrow> Some (v, s\<lparr> pc := pc s + 2 \<rparr>)
              | (Inl _, s) \<Rightarrow>
                  do { s \<leftarrow> trigger_bus_error_no_rollback dl addr False True s; Some (0, s) }))
      })"

definition fetch_opcode ::
  "'b address_bus \<Rightarrow> 'b delivery \<Rightarrow> 'b machine \<Rightarrow> (u16 \<times> 'b machine) option" where
  "fetch_opcode B dl s =
     (if prefetch_enabled s then
        if pc s AND 1 \<noteq> 0 then
          do { s \<leftarrow> trigger_address_error dl (pc s) False True s; Some (0, s) }
        else consume_imm_16_no_prefetch B dl s
      else read_imm_16 B dl s)"

section \<open>Address calculation\<close>

text \<open>The scaled index operand of an extension word, as the 32-bit pattern of an \<open>i32\<close>.\<close>

definition index_value :: "u16 \<Rightarrow> 'a cpu_core_scheme \<Rightarrow> u32" where
  "index_value ext s =
     (let idx_reg = unat (drop_bit 12 ext AND 0xF);
          scale = (if is_020_plus s then push_bit (unat (drop_bit 9 ext AND 3)) 1 else 1);
          v = (if ext AND 0x8000 \<noteq> 0 then dar s (8 + (idx_reg AND 7)) else dar s (idx_reg AND 7));
          v = (if ext AND 0x0800 \<noteq> 0 then v else sext16 v)
      in v * scale)"

definition compute_full_index ::
  "'b address_bus \<Rightarrow> 'b delivery \<Rightarrow> u32 \<Rightarrow> u16 \<Rightarrow> u32 \<Rightarrow> 'b machine \<Rightarrow> (u32 \<times> 'b machine) option" where
  "compute_full_index B dl base0 ext idx_val s =
     (let bd_size = drop_bit 4 ext AND 3;
          i_is = ext AND 7;
          base = (if ext AND 0x0080 \<noteq> 0 then 0 else base0);
          idx = (if ext AND 0x0040 \<noteq> 0 then 0 else idx_val)
      in do {
        (bd, s) \<leftarrow> (if bd_size = 2 then do { (w, s) \<leftarrow> read_imm_16 B dl s; Some (sext16 (ucast w), s) }
                    else if bd_size = 3 then read_imm_32 B dl s
                    else Some (0, s));
        if i_is \<noteq> 0 then
          do {
            (outer_disp, s) \<leftarrow>
              (if i_is AND 3 = 2 then do { (w, s) \<leftarrow> read_imm_16 B dl s; Some (sext16 (ucast w), s) }
               else if i_is AND 3 = 3 then read_imm_32 B dl s
               else Some (0, s));
            if i_is AND 4 \<noteq> 0 then
              do {
                (indirect, s) \<leftarrow> read_32 B dl (base + bd) s;
                Some (indirect + idx + outer_disp, s)
              }
            else
              do {
                (indirect, s) \<leftarrow> read_32 B dl (base + bd + idx) s;
                Some (indirect + outer_disp, s)
              }
          }
        else Some (base + bd + idx, s)
      })"

definition compute_index ::
  "'b address_bus \<Rightarrow> 'b delivery \<Rightarrow> u32 \<Rightarrow> u16 \<Rightarrow> 'b machine \<Rightarrow> (u32 \<times> 'b machine) option" where
  "compute_index B dl base ext s =
     (let d8 = sext8 (ucast (ext AND 0xFF)); idx_val = index_value ext s
      in if ext AND 0x0100 \<noteq> 0 \<and> is_020_plus s then compute_full_index B dl base ext idx_val s
         else Some (base + d8 + idx_val, s))"

definition resolve_ea ::
  "'b address_bus \<Rightarrow> 'b delivery \<Rightarrow> addressing_mode \<Rightarrow> opsize \<Rightarrow> 'b machine \<Rightarrow>
   (ea_result \<times> 'b machine) option" where
  "resolve_ea B dl mode sz s =
     (if run_mode s = RUN_MODE_BERR_AERR_RESET then Some (EaMemory 0, s)
      else case mode of
        DataDirect reg \<Rightarrow> Some (DataReg reg, s)
      | AddressDirect reg \<Rightarrow> Some (AddrReg reg, s)
      | AddressIndirect reg \<Rightarrow> Some (EaMemory (a_reg reg s), s)
      | PostIncrement reg \<Rightarrow>
          let addr = a_reg reg s in Some (EaMemory addr, set_a reg (addr + addr_inc reg sz) s)
      | PreDecrement reg \<Rightarrow>
          let s = internal_cycles 2 s; addr = a_reg reg s - addr_inc reg sz
          in Some (EaMemory addr, set_a reg addr s)
      | Displacement reg \<Rightarrow> do {
          (disp, s) \<leftarrow> read_imm_16 B dl s;
          Some (EaMemory (a_reg reg s + sext16 (ucast disp)), s) }
      | Index reg \<Rightarrow> do {
          (ext, s) \<leftarrow> read_imm_16 B dl (internal_cycles 2 s);
          (addr, s) \<leftarrow> compute_index B dl (a_reg reg s) ext s;
          Some (EaMemory addr, s) }
      | AbsoluteShort \<Rightarrow> do {
          (w, s) \<leftarrow> read_imm_16 B dl s; Some (EaMemory (sext16 (ucast w)), s) }
      | AbsoluteLong \<Rightarrow> do { (addr, s) \<leftarrow> read_imm_32 B dl s; Some (EaMemory addr, s) }
      | PcDisplacement \<Rightarrow> do {
          (disp, s') \<leftarrow> read_imm_16 B dl s; Some (EaMemory (pc s + sext16 (ucast disp)), s') }
      | PcIndex \<Rightarrow> do {
          (ext, s') \<leftarrow> read_imm_16 B dl (internal_cycles 2 s);
          (addr, s') \<leftarrow> compute_index B dl (pc s) ext s';
          Some (EaMemory addr, s') }
      | Immediate \<Rightarrow> do {
          (v, s) \<leftarrow> (case sz of
             Size_Byte \<Rightarrow> do { (w, s) \<leftarrow> read_imm_16 B dl s; Some (ucast (w AND 0xFF), s) }
           | Size_Word \<Rightarrow> do { (w, s) \<leftarrow> read_imm_16 B dl s; Some (ucast w, s) }
           | Size_Long \<Rightarrow> read_imm_32 B dl s);
          Some (EaImmediate v, s) })"

section \<open>Resolved operands\<close>

definition read_resolved_ea ::
  "'b address_bus \<Rightarrow> 'b delivery \<Rightarrow> ea_result \<Rightarrow> opsize \<Rightarrow> 'b machine \<Rightarrow> (u32 \<times> 'b machine) option" where
  "read_resolved_ea B dl ea sz s =
     (case ea of
        DataReg reg \<Rightarrow> Some (d_reg reg s AND size_mask sz, s)
      | AddrReg reg \<Rightarrow> Some (a_reg reg s AND size_mask sz, s)
      | EaMemory addr \<Rightarrow>
          (case sz of
             Size_Byte \<Rightarrow> do { (v, s) \<leftarrow> read_8 B dl addr s; Some (ucast v, s) }
           | Size_Word \<Rightarrow> do { (v, s) \<leftarrow> read_16 B dl addr s; Some (ucast v, s) }
           | Size_Long \<Rightarrow> read_32 B dl addr s)
      | EaImmediate v \<Rightarrow> Some (v AND size_mask sz, s))"

text \<open>The sized write of a data register keeps its high part.\<close>

definition merge_sized :: "opsize \<Rightarrow> u32 \<Rightarrow> u32 \<Rightarrow> u32" where
  "merge_sized sz old v =
     (case sz of
        Size_Byte \<Rightarrow> (old AND 0xFFFFFF00) OR (v AND 0xFF)
      | Size_Word \<Rightarrow> (old AND 0xFFFF0000) OR (v AND 0xFFFF)
      | Size_Long \<Rightarrow> v)"

definition write_resolved_ea_impl ::
  "'b address_bus \<Rightarrow> 'b delivery \<Rightarrow> bool \<Rightarrow> ea_result \<Rightarrow> opsize \<Rightarrow> u32 \<Rightarrow> 'b machine \<Rightarrow> 'b machine option" where
  "write_resolved_ea_impl B dl np_poll ea sz v s =
     (case ea of
        DataReg reg \<Rightarrow> Some (s\<lparr> dar := (dar s)(reg := merge_sized sz (dar s reg) v) \<rparr>)
      | AddrReg reg \<Rightarrow> Some (s\<lparr> dar := (dar s)(8 + reg := v) \<rparr>)
      | EaMemory addr \<Rightarrow> do {
          s \<leftarrow> top_up_prefetch B dl s;
          let s = (if np_poll then ipl_poll_point B s else s);
          (case sz of
             Size_Byte \<Rightarrow> write_8 B dl addr (ucast v) s
           | Size_Word \<Rightarrow> write_16 B dl addr (ucast v) s
           | Size_Long \<Rightarrow>
               if word_aligned_cpu s then
                 do {
                   s \<leftarrow> write_16 B dl (addr + 2) (ucast (v AND 0xFFFF)) s;
                   write_16 B dl addr (ucast (drop_bit 16 v)) s
                 }
               else write_32 B dl addr v s) }
      | EaImmediate _ \<Rightarrow> Some s)"

definition write_resolved_ea ::
  "'b address_bus \<Rightarrow> 'b delivery \<Rightarrow> ea_result \<Rightarrow> opsize \<Rightarrow> u32 \<Rightarrow> 'b machine \<Rightarrow> 'b machine option" where
  "write_resolved_ea B dl ea sz v s = write_resolved_ea_impl B dl False ea sz v s"

definition write_resolved_ea_np_poll ::
  "'b address_bus \<Rightarrow> 'b delivery \<Rightarrow> ea_result \<Rightarrow> opsize \<Rightarrow> u32 \<Rightarrow> 'b machine \<Rightarrow> 'b machine option" where
  "write_resolved_ea_np_poll B dl ea sz v s = write_resolved_ea_impl B dl True ea sz v s"

definition get_ea_address ::
  "'b address_bus \<Rightarrow> 'b delivery \<Rightarrow> addressing_mode \<Rightarrow> opsize \<Rightarrow> 'b machine \<Rightarrow> (u32 \<times> 'b machine) option" where
  "get_ea_address B dl mode sz s = do {
     (ea, s) \<leftarrow> resolve_ea B dl mode sz s;
     Some (case ea of EaMemory addr \<Rightarrow> (addr, s) | _ \<Rightarrow> (0, s))
   }"

definition set_logic_flags :: "u32 \<Rightarrow> opsize \<Rightarrow> 'a cpu_core_scheme \<Rightarrow> 'a cpu_core_scheme" where
  "set_logic_flags v sz s =
     s\<lparr> n_flag := (if v AND size_msb sz \<noteq> 0 then 0x80 else 0), not_z_flag := v AND size_mask sz,
        v_flag := 0, c_flag := 0 \<rparr>"

section \<open>Cycle tables\<close>

fun ea_calc_cycles :: "addressing_mode \<Rightarrow> int" where
  "ea_calc_cycles (DataDirect _) = 0"
| "ea_calc_cycles (AddressDirect _) = 0"
| "ea_calc_cycles (AddressIndirect _) = 0"
| "ea_calc_cycles (PostIncrement _) = 0"
| "ea_calc_cycles (PreDecrement _) = 2"
| "ea_calc_cycles (Displacement _) = 4"
| "ea_calc_cycles AbsoluteShort = 4"
| "ea_calc_cycles PcDisplacement = 4"
| "ea_calc_cycles (Index _) = 6"
| "ea_calc_cycles PcIndex = 6"
| "ea_calc_cycles AbsoluteLong = 8"
| "ea_calc_cycles Immediate = 4"

definition is_long :: "opsize \<Rightarrow> bool" where
  "is_long sz \<longleftrightarrow> sz = Size_Long"

fun ea_source_cycles :: "addressing_mode \<Rightarrow> opsize \<Rightarrow> int" where
  "ea_source_cycles (DataDirect _) sz = 0"
| "ea_source_cycles (AddressDirect _) sz = 0"
| "ea_source_cycles (AddressIndirect _) sz = (if is_long sz then 8 else 4)"
| "ea_source_cycles (PostIncrement _) sz = (if is_long sz then 8 else 4)"
| "ea_source_cycles (PreDecrement _) sz = (if is_long sz then 10 else 6)"
| "ea_source_cycles (Displacement _) sz = (if is_long sz then 12 else 8)"
| "ea_source_cycles AbsoluteShort sz = (if is_long sz then 12 else 8)"
| "ea_source_cycles PcDisplacement sz = (if is_long sz then 12 else 8)"
| "ea_source_cycles (Index _) sz = (if is_long sz then 14 else 10)"
| "ea_source_cycles PcIndex sz = (if is_long sz then 14 else 10)"
| "ea_source_cycles AbsoluteLong sz = (if is_long sz then 16 else 12)"
| "ea_source_cycles Immediate sz = (if is_long sz then 8 else 4)"

fun ea_dest_cycles :: "addressing_mode \<Rightarrow> opsize \<Rightarrow> int" where
  "ea_dest_cycles (DataDirect _) sz = 0"
| "ea_dest_cycles (AddressDirect _) sz = 0"
| "ea_dest_cycles (AddressIndirect _) sz = (if is_long sz then 8 else 4)"
| "ea_dest_cycles (PostIncrement _) sz = (if is_long sz then 8 else 4)"
| "ea_dest_cycles (PreDecrement _) sz = (if is_long sz then 8 else 4)"
| "ea_dest_cycles (Displacement _) sz = (if is_long sz then 12 else 8)"
| "ea_dest_cycles AbsoluteShort sz = (if is_long sz then 12 else 8)"
| "ea_dest_cycles PcDisplacement sz = (if is_long sz then 12 else 8)"
| "ea_dest_cycles (Index _) sz = (if is_long sz then 14 else 10)"
| "ea_dest_cycles PcIndex sz = (if is_long sz then 14 else 10)"
| "ea_dest_cycles AbsoluteLong sz = (if is_long sz then 16 else 12)"
| "ea_dest_cycles Immediate sz = 0"

fun ea_is_memory :: "addressing_mode \<Rightarrow> bool" where
  "ea_is_memory (DataDirect _) = False"
| "ea_is_memory (AddressDirect _) = False"
| "ea_is_memory Immediate = False"
| "ea_is_memory _ = True"

definition alu_ea_dn_cycles :: "addressing_mode \<Rightarrow> opsize \<Rightarrow> int" where
  "alu_ea_dn_cycles mode sz =
     (if is_long sz then (if ea_is_memory mode then 6 else 8) else 4) + ea_source_cycles mode sz"

definition adda_suba_cycles :: "addressing_mode \<Rightarrow> opsize \<Rightarrow> int" where
  "adda_suba_cycles mode sz =
     (if is_long sz then (if ea_is_memory mode then 6 else 8) else 8) + ea_source_cycles mode sz"

definition cmpa_cycles :: "addressing_mode \<Rightarrow> opsize \<Rightarrow> int" where
  "cmpa_cycles mode sz = 6 + ea_source_cycles mode sz"

definition alu_dn_ea_cycles :: "addressing_mode \<Rightarrow> opsize \<Rightarrow> int" where
  "alu_dn_ea_cycles mode sz = (if is_long sz then 12 else 8) + ea_source_cycles mode sz"

definition immediate_alu_cycles :: "addressing_mode \<Rightarrow> opsize \<Rightarrow> int" where
  "immediate_alu_cycles mode sz =
     (if ea_is_memory mode then (if is_long sz then 20 else 12) + ea_source_cycles mode sz
      else if is_long sz then 16 else 8)"

fun movem_ea_calc_cycles :: "addressing_mode \<Rightarrow> int" where
  "movem_ea_calc_cycles (Displacement _) = 4"
| "movem_ea_calc_cycles AbsoluteShort = 4"
| "movem_ea_calc_cycles PcDisplacement = 4"
| "movem_ea_calc_cycles (Index _) = 6"
| "movem_ea_calc_cycles PcIndex = 6"
| "movem_ea_calc_cycles AbsoluteLong = 8"
| "movem_ea_calc_cycles _ = 0"

fun control_addr_calc_cycles :: "addressing_mode \<Rightarrow> int" where
  "control_addr_calc_cycles (Displacement _) = 4"
| "control_addr_calc_cycles AbsoluteShort = 4"
| "control_addr_calc_cycles PcDisplacement = 4"
| "control_addr_calc_cycles (Index _) = 8"
| "control_addr_calc_cycles PcIndex = 8"
| "control_addr_calc_cycles AbsoluteLong = 8"
| "control_addr_calc_cycles _ = 0"

fun jump_addr_calc_cycles :: "addressing_mode \<Rightarrow> int" where
  "jump_addr_calc_cycles (Displacement _) = 2"
| "jump_addr_calc_cycles AbsoluteShort = 2"
| "jump_addr_calc_cycles PcDisplacement = 2"
| "jump_addr_calc_cycles AbsoluteLong = 4"
| "jump_addr_calc_cycles (Index _) = 6"
| "jump_addr_calc_cycles PcIndex = 6"
| "jump_addr_calc_cycles _ = 0"

fun is_data_direct :: "addressing_mode \<Rightarrow> bool" where
  "is_data_direct (DataDirect _) = True"
| "is_data_direct _ = False"

definition bitop_cycles :: "addressing_mode \<Rightarrow> u16 \<Rightarrow> bool \<Rightarrow> u32 \<Rightarrow> int" where
  "bitop_cycles mode bit_op is_static bit_num =
     (let static_add = (if is_static then 4 else 0)
      in if is_data_direct mode then
           (if bit_op = 2 then 8 else 6) + static_add
           + (if bit_op \<noteq> 0 \<and> 15 < bit_num AND 31 then 2 else 0)
         else if mode = Immediate then 10
         else (if bit_op = 0 then 4 else 8) + static_add + ea_source_cycles mode Size_Byte)"

definition unary_rmw_cycles :: "addressing_mode \<Rightarrow> opsize \<Rightarrow> int" where
  "unary_rmw_cycles mode sz =
     (if ea_is_memory mode then (if is_long sz then 12 else 8) + ea_source_cycles mode sz
      else if is_long sz then 6 else 4)"

definition tst_cycles :: "addressing_mode \<Rightarrow> opsize \<Rightarrow> int" where
  "tst_cycles mode sz = 4 + ea_source_cycles mode sz"

definition cmpi_cycles :: "addressing_mode \<Rightarrow> opsize \<Rightarrow> int" where
  "cmpi_cycles mode sz =
     (if ea_is_memory mode then (if is_long sz then 12 else 8) + ea_source_cycles mode sz
      else if is_long sz then 14 else 8)"

definition cmp_ea_dn_cycles :: "addressing_mode \<Rightarrow> opsize \<Rightarrow> int" where
  "cmp_ea_dn_cycles mode sz = (if is_long sz then 6 else 4) + ea_source_cycles mode sz"

definition eor_cycles :: "addressing_mode \<Rightarrow> opsize \<Rightarrow> int" where
  "eor_cycles mode sz =
     (if is_data_direct mode then (if is_long sz then 8 else 4) else alu_dn_ea_cycles mode sz)"

fun addq_subq_cycles :: "addressing_mode \<Rightarrow> opsize \<Rightarrow> int" where
  "addq_subq_cycles (DataDirect _) sz = (if is_long sz then 8 else 4)"
| "addq_subq_cycles (AddressDirect _) sz = 8"
| "addq_subq_cycles mode sz = (if is_long sz then 12 else 8) + ea_source_cycles mode sz"

text \<open>The tables of \<open>src/core/timing.rs\<close>.\<close>

fun ea_cycles_68000 :: "addressing_mode \<Rightarrow> opsize \<Rightarrow> int" where
  "ea_cycles_68000 (DataDirect _) sz = 0"
| "ea_cycles_68000 (AddressDirect _) sz = 0"
| "ea_cycles_68000 (AddressIndirect _) sz = (if is_long sz then 8 else 4)"
| "ea_cycles_68000 (PostIncrement _) sz = (if is_long sz then 8 else 4)"
| "ea_cycles_68000 (PreDecrement _) sz = (if is_long sz then 10 else 6)"
| "ea_cycles_68000 (Displacement _) sz = (if is_long sz then 12 else 8)"
| "ea_cycles_68000 AbsoluteShort sz = (if is_long sz then 12 else 8)"
| "ea_cycles_68000 PcDisplacement sz = (if is_long sz then 12 else 8)"
| "ea_cycles_68000 (Index _) sz = (if is_long sz then 14 else 10)"
| "ea_cycles_68000 PcIndex sz = (if is_long sz then 14 else 10)"
| "ea_cycles_68000 AbsoluteLong sz = (if is_long sz then 16 else 12)"
| "ea_cycles_68000 Immediate sz = (if is_long sz then 8 else 4)"

fun lea_ea_cycles_68000 :: "addressing_mode \<Rightarrow> int" where
  "lea_ea_cycles_68000 (AddressIndirect _) = 4"
| "lea_ea_cycles_68000 (Displacement _) = 8"
| "lea_ea_cycles_68000 AbsoluteShort = 8"
| "lea_ea_cycles_68000 PcDisplacement = 8"
| "lea_ea_cycles_68000 (Index _) = 12"
| "lea_ea_cycles_68000 PcIndex = 12"
| "lea_ea_cycles_68000 AbsoluteLong = 12"
| "lea_ea_cycles_68000 _ = 0"

definition ea_time :: "addressing_mode \<Rightarrow> opsize \<Rightarrow> 'a cpu_core_scheme \<Rightarrow> int" where
  "ea_time mode sz s = (if is_pre_68020 s then ea_cycles_68000 mode sz else 0)"

end
