(* ===== verification/Arith.thy ===== *)
theory Arith
  imports Ea
begin

unbundle bit_operations_syntax

text \<open>
  Integer arithmetic (\<open>src/core/instructions/integer_arith.rs\<close>): ADD, SUB, CMP with their
  address-register, quick and extended forms, CLR, NEG, NEGX, NOT, EXT, TST and CHK. The flag
  functions are specified by the carry and the overflow of the integers the operands stand
  for, at the three operand sizes; conditional instructions after a comparison decide the
  order of those integers; chains of ADDX and SUBX compute on numbers of any length.
\<close>

section \<open>Flags\<close>

definition flag :: "u32 \<Rightarrow> bool \<Rightarrow> u32" where
  "flag v b = (if b then v else 0)"

lemma flag_eq_0 [simp]: "v \<noteq> 0 \<Longrightarrow> flag v b = 0 \<longleftrightarrow> \<not> b" "flag v False = 0" "flag v True = v"
  by (simp_all add: flag_def)

definition set_add_flags :: "u32 \<Rightarrow> u32 \<Rightarrow> u32 \<Rightarrow> opsize \<Rightarrow> 'a cpu_core_scheme \<Rightarrow> 'a cpu_core_scheme" where
  "set_add_flags src dst result sz st =
     (let msb = size_msb sz; m = size_mask sz;
          s = src AND m; d = dst AND m; r = result AND m;
          v = (s XOR r) AND (d XOR r) AND msb;
          carry = (case sz of
             Size_Byte \<Rightarrow> (s + d) AND 0x100 \<noteq> 0
           | Size_Word \<Rightarrow> (s + d) AND 0x10000 \<noteq> 0
           | Size_Long \<Rightarrow> ((s AND d) OR (NOT r AND (s OR d))) AND 0x80000000 \<noteq> 0)
      in st\<lparr> n_flag := flag 0x80 (r AND msb \<noteq> 0), not_z_flag := r, v_flag := flag 0x80 (v \<noteq> 0),
             c_flag := flag CFLAG_SET carry, x_flag := flag CFLAG_SET carry \<rparr>)"

definition set_sub_flags :: "u32 \<Rightarrow> u32 \<Rightarrow> u32 \<Rightarrow> opsize \<Rightarrow> 'a cpu_core_scheme \<Rightarrow> 'a cpu_core_scheme" where
  "set_sub_flags src dst result sz st =
     (let msb = size_msb sz; m = size_mask sz;
          r = result AND m; s = src AND m; d = dst AND m;
          v = (s XOR d) AND (r XOR d) AND msb;
          carry = (case sz of
             Size_Byte \<Rightarrow> d < s
           | Size_Word \<Rightarrow> d < s
           | Size_Long \<Rightarrow> ((s AND r) OR (NOT d AND (s OR r))) AND 0x80000000 \<noteq> 0)
      in st\<lparr> n_flag := flag 0x80 (r AND msb \<noteq> 0), not_z_flag := r, v_flag := flag 0x80 (v \<noteq> 0),
             c_flag := flag CFLAG_SET carry, x_flag := flag CFLAG_SET carry \<rparr>)"

definition set_cmp_flags :: "u32 \<Rightarrow> u32 \<Rightarrow> u32 \<Rightarrow> opsize \<Rightarrow> 'a cpu_core_scheme \<Rightarrow> 'a cpu_core_scheme" where
  "set_cmp_flags src dst result sz st =
     (let msb = size_msb sz; m = size_mask sz;
          r = result AND m; s = src AND m; d = dst AND m;
          overflow = (s XOR d) AND (r XOR d) AND msb \<noteq> 0
      in st\<lparr> n_flag := flag 0x80 (r AND msb \<noteq> 0), not_z_flag := r,
             v_flag := flag VFLAG_SET overflow, c_flag := flag CFLAG_SET (d < s) \<rparr>)"

section \<open>Addition and subtraction\<close>

definition exec_add :: "opsize \<Rightarrow> u32 \<Rightarrow> u32 \<Rightarrow> 'a cpu_core_scheme \<Rightarrow> (u32 \<times> int) \<times> 'a cpu_core_scheme" where
  "exec_add sz src dst s =
     (let result = src + dst in ((result AND size_mask sz, 4), set_add_flags src dst result sz s))"

definition exec_sub :: "opsize \<Rightarrow> u32 \<Rightarrow> u32 \<Rightarrow> 'a cpu_core_scheme \<Rightarrow> (u32 \<times> int) \<times> 'a cpu_core_scheme" where
  "exec_sub sz src dst s =
     (let result = dst - src in ((result AND size_mask sz, 4), set_sub_flags src dst result sz s))"

definition exec_adda :: "opsize \<Rightarrow> u32 \<Rightarrow> nat \<Rightarrow> 'a cpu_core_scheme \<Rightarrow> int \<times> 'a cpu_core_scheme" where
  "exec_adda sz src dst_reg s =
     (let src = (if sz = Size_Word then sext16 src else src)
      in (8, set_a dst_reg (a_reg dst_reg s + src) s))"

definition exec_suba :: "opsize \<Rightarrow> u32 \<Rightarrow> nat \<Rightarrow> 'a cpu_core_scheme \<Rightarrow> int \<times> 'a cpu_core_scheme" where
  "exec_suba sz src dst_reg s =
     (let src = (if sz = Size_Word then sext16 src else src)
      in (8, set_a dst_reg (a_reg dst_reg s - src) s))"

definition exec_addx :: "opsize \<Rightarrow> u32 \<Rightarrow> u32 \<Rightarrow> 'a cpu_core_scheme \<Rightarrow> u32 \<times> 'a cpu_core_scheme" where
  "exec_addx sz src dst st =
     (let m = size_mask sz; msb = size_msb sz;
          extend = (if x_flag st \<noteq> 0 then 1 else 0) :: u64;
          d = ucast (dst AND m) :: u64; s = ucast (src AND m) :: u64;
          sum = d + s + extend;
          r = (ucast sum :: u32) AND m;
          v = (src XOR r) AND (dst XOR r) AND msb;
          c = flag CFLAG_SET (ucast m < sum)
      in (r, st\<lparr> n_flag := flag 0x80 (r AND msb \<noteq> 0),
                 not_z_flag := (if r \<noteq> 0 then r else not_z_flag st),
                 v_flag := flag VFLAG_SET (v \<noteq> 0), c_flag := c, x_flag := c \<rparr>))"

definition exec_subx :: "opsize \<Rightarrow> u32 \<Rightarrow> u32 \<Rightarrow> 'a cpu_core_scheme \<Rightarrow> u32 \<times> 'a cpu_core_scheme" where
  "exec_subx sz src dst st =
     (let m = size_mask sz; msb = size_msb sz;
          extend = (if x_flag st \<noteq> 0 then 1 else 0) :: u64;
          d = ucast (dst AND m) :: u64; s = ucast (src AND m) :: u64;
          sub = s + extend;
          r = (ucast (d - sub) :: u32) AND m;
          src_masked = src AND m; dst_masked = dst AND m;
          v = (src_masked XOR dst_masked) AND (r XOR dst_masked) AND msb;
          c = flag CFLAG_SET (d < sub)
      in (r, st\<lparr> n_flag := flag 0x80 (r AND msb \<noteq> 0),
                 not_z_flag := (if r \<noteq> 0 then r else not_z_flag st),
                 v_flag := flag VFLAG_SET (v \<noteq> 0), c_flag := c, x_flag := c \<rparr>))"

definition exec_cmp :: "opsize \<Rightarrow> u32 \<Rightarrow> u32 \<Rightarrow> 'a cpu_core_scheme \<Rightarrow> int \<times> 'a cpu_core_scheme" where
  "exec_cmp sz src dst s = (4, set_cmp_flags src dst (dst - src) sz s)"

definition exec_cmpa :: "opsize \<Rightarrow> u32 \<Rightarrow> nat \<Rightarrow> 'a cpu_core_scheme \<Rightarrow> int \<times> 'a cpu_core_scheme" where
  "exec_cmpa sz src dst_reg s =
     (let src = (if sz = Size_Word then sext16 src else src); dst = a_reg dst_reg s
      in (6, set_cmp_flags src dst (dst - src) Size_Long s))"

section \<open>Operations on an operand in place\<close>

definition write_data_reg_sized :: "nat \<Rightarrow> opsize \<Rightarrow> u32 \<Rightarrow> 'a cpu_core_scheme \<Rightarrow> 'a cpu_core_scheme" where
  "write_data_reg_sized reg sz v s = s\<lparr> dar := (dar s)(reg := merge_sized sz (dar s reg) v) \<rparr>"

text \<open>An early return after a fault: the exception has been taken, the handler reports 50 cycles.\<close>

definition unless_faulted :: "'b machine \<Rightarrow> (int \<times> 'b machine) option \<Rightarrow> (int \<times> 'b machine) option" where
  "unless_faulted s rest = (if run_mode s = RUN_MODE_BERR_AERR_RESET then Some (50, s) else rest)"

definition finish_m68000_register_unary_rmw ::
  "'b address_bus \<Rightarrow> 'b delivery \<Rightarrow> nat \<Rightarrow> opsize \<Rightarrow> u32 \<Rightarrow> 'b machine \<Rightarrow> (int \<times> 'b machine) option" where
  "finish_m68000_register_unary_rmw B dl reg sz v s = do {
     s \<leftarrow> top_up_prefetch B dl s;
     let s = ipl_poll_point B s;
     let s = (if sz = Size_Long then flush_sync B (internal_cycles 2 s) else s);
     Some (if sz = Size_Long then 6 else 4, write_data_reg_sized reg sz v s)
   }"

definition finish_m68000_register_quickop ::
  "'b address_bus \<Rightarrow> 'b delivery \<Rightarrow> u32 \<Rightarrow> 'b machine \<Rightarrow> 'b machine option" where
  "finish_m68000_register_quickop B dl internal_clocks s =
     (if cpu_model s \<noteq> M68000 then Some s
      else do {
        s \<leftarrow> top_up_prefetch B dl s;
        Some (flush_sync B (internal_cycles internal_clocks (ipl_poll_point B s)))
      })"

text \<open>ADDQ and SUBQ share their shape; the operation on registers and memory is \<open>exec\<close>.\<close>

definition quick_op ::
  "'b address_bus \<Rightarrow> 'b delivery \<Rightarrow> (u32 \<Rightarrow> u32 \<Rightarrow> u32) \<Rightarrow>
   (opsize \<Rightarrow> u32 \<Rightarrow> u32 \<Rightarrow> 'b machine \<Rightarrow> (u32 \<times> int) \<times> 'b machine) \<Rightarrow>
   opsize \<Rightarrow> u32 \<Rightarrow> addressing_mode \<Rightarrow> 'b machine \<Rightarrow> (int \<times> 'b machine) option" where
  "quick_op B dl op exec sz data mode s =
     (case mode of
        AddressDirect reg \<Rightarrow>
          let result = op (a_reg reg s) data
          in if cpu_model s = M68000 then
               do { s \<leftarrow> finish_m68000_register_quickop B dl 4 s; Some (8, set_a reg result s) }
             else Some (4, set_a reg result s)
      | DataDirect reg \<Rightarrow>
          let ((result, _), s) = exec sz data (d_reg reg s) s
          in do {
            s \<leftarrow> (if cpu_model s = M68000
                  then finish_m68000_register_quickop B dl (if sz = Size_Long then 4 else 0) s
                  else Some s);
            let s = write_data_reg_sized reg sz result s;
            Some (if cpu_model s = M68000 \<and> sz = Size_Long then 8 else 4, s)
          }
      | _ \<Rightarrow> do {
          (ea, s) \<leftarrow> resolve_ea B dl mode sz s;
          (dst, s) \<leftarrow> read_resolved_ea B dl ea sz s;
          let ((result, _), s) = exec sz data dst s;
          s \<leftarrow> write_resolved_ea_np_poll B dl ea sz result s;
          Some (4, s)
        })"

definition exec_addq ::
  "'b address_bus \<Rightarrow> 'b delivery \<Rightarrow> opsize \<Rightarrow> u32 \<Rightarrow> addressing_mode \<Rightarrow> 'b machine \<Rightarrow> (int \<times> 'b machine) option" where
  "exec_addq B dl = quick_op B dl (+) exec_add"

definition exec_subq ::
  "'b address_bus \<Rightarrow> 'b delivery \<Rightarrow> opsize \<Rightarrow> u32 \<Rightarrow> addressing_mode \<Rightarrow> 'b machine \<Rightarrow> (int \<times> 'b machine) option" where
  "exec_subq B dl = quick_op B dl (-) exec_sub"

definition unary_cycles :: "addressing_mode \<Rightarrow> opsize \<Rightarrow> 'a cpu_core_scheme \<Rightarrow> int" where
  "unary_cycles mode sz s =
     (if is_pre_68020 s then
        if is_data_direct mode then (if is_long sz then 6 else 4)
        else (if is_long sz then 12 else 8) + ea_time mode sz s
      else 4)"

definition exec_clr ::
  "'b address_bus \<Rightarrow> 'b delivery \<Rightarrow> opsize \<Rightarrow> addressing_mode \<Rightarrow> 'b machine \<Rightarrow> (int \<times> 'b machine) option" where
  "exec_clr B dl sz mode s =
     (let cleared = (\<lambda>s. s\<lparr> n_flag := 0, not_z_flag := 0, v_flag := 0, c_flag := 0 \<rparr>)
      in case (cpu_model s, mode) of
        (M68000, DataDirect reg) \<Rightarrow> do {
          (cycles, s) \<leftarrow> finish_m68000_register_unary_rmw B dl reg sz 0 s;
          Some (cycles, cleared s) }
      | _ \<Rightarrow> do {
          (ea, s) \<leftarrow> resolve_ea B dl mode sz s;
          unless_faulted s (do {
            (_, s) \<leftarrow> (if cpu_model s = M68000 then read_resolved_ea B dl ea sz s else Some (0, s));
            unless_faulted s (do {
              s \<leftarrow> write_resolved_ea_np_poll B dl ea sz 0 s;
              unless_faulted s (Some (unary_cycles mode sz (cleared s), cleared s))
            })
          })
        })"

text \<open>NEG, NOT: the operand is read, the result written, then the flags are set.\<close>

definition exec_neg ::
  "'b address_bus \<Rightarrow> 'b delivery \<Rightarrow> opsize \<Rightarrow> addressing_mode \<Rightarrow> 'b machine \<Rightarrow> (int \<times> 'b machine) option" where
  "exec_neg B dl sz mode s =
     (case (cpu_model s, mode) of
        (M68000, DataDirect reg) \<Rightarrow>
          let src = d_reg reg s AND size_mask sz; result = 0 - src
          in do {
            (cycles, s) \<leftarrow> finish_m68000_register_unary_rmw B dl reg sz (result AND size_mask sz) s;
            Some (cycles, set_sub_flags src 0 result sz s) }
      | _ \<Rightarrow> do {
          (ea, s) \<leftarrow> resolve_ea B dl mode sz s;
          (src, s) \<leftarrow> read_resolved_ea B dl ea sz s;
          unless_faulted s (do {
            let result = 0 - src;
            s \<leftarrow> write_resolved_ea_np_poll B dl ea sz (result AND size_mask sz) s;
            unless_faulted s (Some (unary_cycles mode sz s, set_sub_flags src 0 result sz s))
          })
        })"

definition exec_negx ::
  "'b address_bus \<Rightarrow> 'b delivery \<Rightarrow> opsize \<Rightarrow> addressing_mode \<Rightarrow> 'b machine \<Rightarrow> (int \<times> 'b machine) option" where
  "exec_negx B dl sz mode s =
     (case (cpu_model s, mode) of
        (M68000, DataDirect reg) \<Rightarrow>
          let src = d_reg reg s AND size_mask sz; (result, s) = exec_subx sz src 0 s
          in finish_m68000_register_unary_rmw B dl reg sz result s
      | _ \<Rightarrow> do {
          (ea, s) \<leftarrow> resolve_ea B dl mode sz s;
          (src, s) \<leftarrow> read_resolved_ea B dl ea sz s;
          unless_faulted s (do {
            let (result, s) = exec_subx sz src 0 s;
            s \<leftarrow> write_resolved_ea_np_poll B dl ea sz result s;
            unless_faulted s (Some (unary_cycles mode sz s, s))
          })
        })"

definition exec_not ::
  "'b address_bus \<Rightarrow> 'b delivery \<Rightarrow> opsize \<Rightarrow> addressing_mode \<Rightarrow> 'b machine \<Rightarrow> (int \<times> 'b machine) option" where
  "exec_not B dl sz mode s =
     (case (cpu_model s, mode) of
        (M68000, DataDirect reg) \<Rightarrow>
          let src = d_reg reg s AND size_mask sz; result = NOT src AND size_mask sz
          in do {
            (cycles, s) \<leftarrow> finish_m68000_register_unary_rmw B dl reg sz result s;
            Some (cycles, set_logic_flags result sz s) }
      | _ \<Rightarrow> do {
          (ea, s) \<leftarrow> resolve_ea B dl mode sz s;
          (src, s) \<leftarrow> read_resolved_ea B dl ea sz s;
          unless_faulted s (do {
            let result = NOT src AND size_mask sz;
            s \<leftarrow> write_resolved_ea_np_poll B dl ea sz result s;
            unless_faulted s (Some (unary_cycles mode sz s, set_logic_flags result sz s))
          })
        })"

definition exec_ext :: "opsize \<Rightarrow> nat \<Rightarrow> 'a cpu_core_scheme \<Rightarrow> int \<times> 'a cpu_core_scheme" where
  "exec_ext sz reg s =
     (let v = d_reg reg s;
          result = (case sz of
             Size_Word \<Rightarrow> ucast (scast (ucast v :: u8) :: u16) OR (v AND 0xFFFF0000)
           | Size_Long \<Rightarrow> sext16 v
           | Size_Byte \<Rightarrow> v)
      in (4, set_logic_flags result sz (set_d reg result s)))"

definition exec_extb :: "nat \<Rightarrow> 'a cpu_core_scheme \<Rightarrow> int \<times> 'a cpu_core_scheme" where
  "exec_extb reg s =
     (let result = sext8 (d_reg reg s) in (4, set_logic_flags result Size_Long (set_d reg result s)))"

definition exec_tst ::
  "'b address_bus \<Rightarrow> 'b delivery \<Rightarrow> opsize \<Rightarrow> addressing_mode \<Rightarrow> 'b machine \<Rightarrow> (int \<times> 'b machine) option" where
  "exec_tst B dl sz mode s = do {
     (ea, s) \<leftarrow> resolve_ea B dl mode sz s;
     (v, s) \<leftarrow> read_resolved_ea B dl ea sz s;
     unless_faulted s (Some (4 + ea_time mode sz s, set_logic_flags v sz s))
   }"

text \<open>The signed operands of CHK.\<close>

definition chk_operand :: "opsize \<Rightarrow> u32 \<Rightarrow> int" where
  "chk_operand sz v =
     (case sz of
        Size_Word \<Rightarrow> sint (ucast v :: u16)
      | Size_Long \<Rightarrow> sint v
      | Size_Byte \<Rightarrow> sint (ucast v :: u8))"

definition exec_chk ::
  "'b address_bus \<Rightarrow> 'b delivery \<Rightarrow> opsize \<Rightarrow> u32 \<Rightarrow> nat \<Rightarrow> 'b machine \<Rightarrow> (int \<times> 'b machine) option" where
  "exec_chk B dl sz bound reg s =
     (let val = chk_operand sz (d_reg reg s); limit = chk_operand sz bound;
          s = s\<lparr> n_flag := flag 0x80 (val < 0), not_z_flag := 1, v_flag := 0, c_flag := 0 \<rparr>
      in if limit < val then
           do { (c, s) \<leftarrow> exception_chk B dl (internal_cycles 8 s); Some (c - 2, s) }
         else if val < 0 then
           if cpu_model s = M68000 \<and> sz = Size_Word \<and> (val - limit < -0x8000 \<or> 0x7FFF < val - limit)
           then do { (c, s) \<leftarrow> exception_chk B dl (internal_cycles 8 s); Some (c - 2, s) }
           else exception_chk B dl (internal_cycles 10 s)
         else Some (10, internal_cycles 6 s))"

section \<open>Sized operands as integers\<close>

lemma size_bits_pow: "(2 :: int) ^ size_bits sz = 2 * 2 ^ (size_bits sz - 1)"
  by (cases sz) simp_all

lemma mod_long_mod [simp]: "k mod 4294967296 mod 2 ^ size_bits sz = (k :: int) mod 2 ^ size_bits sz"
  by (cases sz) (simp_all add: mod_mod_cancel)

lemma uvalue_plus: "uvalue sz (x + y) = (uvalue sz x + uvalue sz y) mod 2 ^ size_bits sz"
  by (simp add: uvalue_def uval_def uint_word_ariths take_bit_eq_mod mod_add_eq)

lemma uvalue_minus: "uvalue sz (x - y) = (uvalue sz x - uvalue sz y) mod 2 ^ size_bits sz"
  by (simp add: uvalue_def uval_def uint_word_ariths take_bit_eq_mod mod_diff_eq)

definition top_bit :: "opsize \<Rightarrow> u32 \<Rightarrow> bool" where
  "top_bit sz x \<longleftrightarrow> bit x (size_bits sz - 1)"

lemma top_bit_uvalue: "top_bit sz x \<longleftrightarrow> 2 ^ (size_bits sz - 1) \<le> uvalue sz x"
  unfolding top_bit_def uvalue_def by (rule bit_uval) simp_all

lemma top_bit_svalue: "top_bit sz x \<longleftrightarrow> svalue sz x < 0"
  by (simp only: top_bit_def and_msb_iff [symmetric] msb_iff_negative)

lemma and_top_iff: "x AND size_msb sz \<noteq> 0 \<longleftrightarrow> top_bit sz x"
  by (simp only: top_bit_def and_msb_iff)

lemma top_bit_ops [simp]:
  "top_bit sz (x AND y) \<longleftrightarrow> top_bit sz x \<and> top_bit sz y"
  "top_bit sz (x OR y) \<longleftrightarrow> top_bit sz x \<or> top_bit sz y"
  "top_bit sz (x XOR y) \<longleftrightarrow> top_bit sz x \<noteq> top_bit sz y"
  "top_bit sz (NOT x) \<longleftrightarrow> \<not> top_bit sz x"
  by (cases sz; auto simp: top_bit_def bit_and_iff bit_or_iff bit_xor_iff bit_not_iff)+

lemma top_bit_mask [simp]: "top_bit sz (size_mask sz)"
  by (cases sz) (simp_all add: top_bit_def)

lemma and_msb_pair: "x AND y AND size_msb sz \<noteq> 0 \<longleftrightarrow> top_bit sz x \<and> top_bit sz y"
  using and_top_iff [of "x AND y" sz] by (simp add: and.assoc)

lemma top_bit_long: "x AND 0x80000000 \<noteq> 0 \<longleftrightarrow> top_bit Size_Long x"
  using and_top_iff [of x Size_Long] by simp

text \<open>The number of a result: its exact value, with the carry and the overflow of its width.\<close>

definition exact_result :: "opsize \<Rightarrow> int \<Rightarrow> int \<Rightarrow> u32 \<Rightarrow> 'a cpu_core_scheme \<Rightarrow> bool" where
  "exact_result sz u v r s \<longleftrightarrow>
     uint r = u mod 2 ^ size_bits sz \<and>
     (flag_c s \<longleftrightarrow> \<not> (0 \<le> u \<and> u < 2 ^ size_bits sz)) \<and>
     (flag_v s \<longleftrightarrow> \<not> (- (2 ^ (size_bits sz - 1)) \<le> v \<and> v < 2 ^ (size_bits sz - 1))) \<and>
     (flag_n s \<longleftrightarrow> svalue sz r < 0)"

text \<open>Everything but the condition codes.\<close>

definition same_but_flags :: "'a cpu_core_scheme \<Rightarrow> 'a cpu_core_scheme \<Rightarrow> bool" where
  "same_but_flags s s' \<longleftrightarrow>
     s'\<lparr> x_flag := x_flag s, n_flag := n_flag s, not_z_flag := not_z_flag s, v_flag := v_flag s,
        c_flag := c_flag s \<rparr> = s"

lemma mod_wrap_up:
  assumes "0 \<le> (a :: int)" "a < m" "0 \<le> b" "b < m" "0 \<le> k" "k \<le> 1"
  shows "(a + b + k) mod m = (if m \<le> a + b + k then a + b + k - m else a + b + k)"
proof (cases "m \<le> a + b + k")
  case True
  then have "(a + b + k) mod m = (a + b + k - m) mod m" by simp
  also have "\<dots> = a + b + k - m" using assms True by (intro mod_pos_pos_trivial) auto
  finally show ?thesis using True by simp
qed (use assms in auto)

lemma mod_wrap_down:
  assumes "0 \<le> (a :: int)" "a < m" "0 \<le> b" "b < m" "0 \<le> k" "k \<le> 1"
  shows "(a - b - k) mod m = (if a < b + k then a - b - k + m else a - b - k)"
proof (cases "a < b + k")
  case True
  then have "(a - b - k) mod m = (a - b - k + m) mod m" by simp
  also have "\<dots> = a - b - k + m" using assms True by (intro mod_pos_pos_trivial) auto
  finally show ?thesis using True by simp
qed (use assms in auto)

text \<open>
  The sign rule of an overflow: for a sum of two operands and a carry the top bits of both
  operands differ from the top bit of the result, for a difference those of the operands
  differ and the result has not the sign of the minuend.
\<close>

lemma overflow_add:
  assumes "uvalue sz r = (uvalue sz a + uvalue sz b + k) mod 2 ^ size_bits sz" and "0 \<le> k" "k \<le> 1"
  shows "top_bit sz a \<noteq> top_bit sz r \<and> top_bit sz b \<noteq> top_bit sz r \<longleftrightarrow>
    \<not> (- (2 ^ (size_bits sz - 1)) \<le> svalue sz a + svalue sz b + k \<and>
       svalue sz a + svalue sz b + k < 2 ^ (size_bits sz - 1))"
proof -
  define h :: int where "h = 2 ^ (size_bits sz - 1)"
  have m: "2 ^ size_bits sz = 2 * h" by (simp add: h_def size_bits_pow)
  have b: "0 \<le> uvalue sz x" "uvalue sz x < 2 * h" for x
    using uvalue_bounds [of sz x] by (simp_all add: m)
  have r: "uvalue sz r = (if 2 * h \<le> uvalue sz a + uvalue sz b + k
    then uvalue sz a + uvalue sz b + k - 2 * h else uvalue sz a + uvalue sz b + k)"
    using assms(1) mod_wrap_up [OF b b assms(2,3)] by (simp add: m)
  show ?thesis
    unfolding top_bit_uvalue svalue_eq h_def [symmetric] m
    using r b [of a] b [of b] assms(2,3) by (auto split: if_splits)
qed

lemma overflow_sub:
  assumes "uvalue sz r = (uvalue sz a - uvalue sz b - k) mod 2 ^ size_bits sz" and "0 \<le> k" "k \<le> 1"
  shows "top_bit sz b \<noteq> top_bit sz a \<and> top_bit sz r \<noteq> top_bit sz a \<longleftrightarrow>
    \<not> (- (2 ^ (size_bits sz - 1)) \<le> svalue sz a - svalue sz b - k \<and>
       svalue sz a - svalue sz b - k < 2 ^ (size_bits sz - 1))"
proof -
  define h :: int where "h = 2 ^ (size_bits sz - 1)"
  have m: "2 ^ size_bits sz = 2 * h" by (simp add: h_def size_bits_pow)
  have b: "0 \<le> uvalue sz x" "uvalue sz x < 2 * h" for x
    using uvalue_bounds [of sz x] by (simp_all add: m)
  have r: "uvalue sz r = (if uvalue sz a < uvalue sz b + k
    then uvalue sz a - uvalue sz b - k + 2 * h else uvalue sz a - uvalue sz b - k)"
    using assms(1) mod_wrap_down [OF b b assms(2,3)] by (simp add: m)
  show ?thesis
    unfolding top_bit_uvalue svalue_eq h_def [symmetric] m
    using r b [of a] b [of b] assms(2,3) by (auto split: if_splits)
qed

lemma uvalue_of_mask [simp]: "uvalue sz (x AND size_mask sz) = uvalue sz x"
  by (rule uvalue_mask)

lemma top_bit_of_mask [simp]: "top_bit sz (x AND size_mask sz) = top_bit sz x"
  by simp

lemma svalue_of_mask [simp]: "svalue sz (x AND size_mask sz) = svalue sz x"
  by (simp add: svalue_eq)

lemma mask_long_id [simp]: "x AND size_mask Size_Long = x"
  by (simp only: size_mask_eq_mask take_bit_eq_mask [symmetric]) (simp add: take_bit_word_eq_self)

lemma carry_bit:
  assumes "uint a < 2 ^ k" "uint b < 2 ^ k" "k < 31"
  shows "(a + b :: u32) AND 2 ^ k \<noteq> 0 \<longleftrightarrow> 2 ^ k \<le> uint a + uint b"
proof -
  have "(2 :: int) ^ k \<le> 2 ^ 30" using assms(3) by (intro power_increasing) auto
  then have u: "uint (a + b) = uint a + uint b"
    using assms by (simp add: uint_word_ariths mod_pos_pos_trivial)
  have "(a + b) AND 2 ^ k \<noteq> 0 \<longleftrightarrow> bit (a + b) k" using assms(3) by (intro and_exp_iff) simp
  also have "\<dots> \<longleftrightarrow> bit (uint (a + b)) k" using assms(3) by (simp add: bit_uint_iff)
  also have "\<dots> \<longleftrightarrow> 2 ^ k \<le> uint a + uint b"
    unfolding u using assms by (intro bit_top_iff) auto
  finally show ?thesis .
qed

lemma add_carry_uvalue:
  assumes "uvalue sz r = (uvalue sz a + uvalue sz b) mod 2 ^ size_bits sz"
  shows "(case sz of
      Size_Byte \<Rightarrow> ((a AND size_mask sz) + (b AND size_mask sz)) AND 0x100 \<noteq> 0
    | Size_Word \<Rightarrow> ((a AND size_mask sz) + (b AND size_mask sz)) AND 0x10000 \<noteq> 0
    | Size_Long \<Rightarrow> (((a AND size_mask sz) AND (b AND size_mask sz)) OR
        (NOT (r AND size_mask sz) AND ((a AND size_mask sz) OR (b AND size_mask sz)))) AND 0x80000000 \<noteq> 0) \<longleftrightarrow>
    2 ^ size_bits sz \<le> uvalue sz a + uvalue sz b"
proof (cases sz)
  case Size_Byte
  then show ?thesis
    using carry_bit [of "a AND size_mask sz" 8 "b AND size_mask sz"]
      uvalue_bounds [of Size_Byte a] uvalue_bounds [of Size_Byte b]
    by (simp add: uint_masked del: size_mask.simps)
next
  case Size_Word
  then show ?thesis
    using carry_bit [of "a AND size_mask sz" 16 "b AND size_mask sz"]
      uvalue_bounds [of Size_Word a] uvalue_bounds [of Size_Word b]
    by (simp add: uint_masked del: size_mask.simps)
next
  case Size_Long
  have b: "0 \<le> uvalue Size_Long x" "uvalue Size_Long x < 4294967296" for x
    using uvalue_bounds [of Size_Long x] by simp_all
  show ?thesis
    using assms mod_wrap_up [OF b(1) b(2) b(1) b(2), of 0 a b] b [of a] b [of b]
    unfolding Size_Long top_bit_long opsize.case top_bit_ops mask_long_id unfolding top_bit_uvalue by (auto split: if_splits)
qed

lemma sub_carry_uvalue:
  assumes "uvalue sz r = (uvalue sz a - uvalue sz b) mod 2 ^ size_bits sz"
  shows "(case sz of
      Size_Byte \<Rightarrow> a AND size_mask sz < b AND size_mask sz
    | Size_Word \<Rightarrow> a AND size_mask sz < b AND size_mask sz
    | Size_Long \<Rightarrow> (((b AND size_mask sz) AND (r AND size_mask sz)) OR
        (NOT (a AND size_mask sz) AND ((b AND size_mask sz) OR (r AND size_mask sz)))) AND 0x80000000 \<noteq> 0) \<longleftrightarrow>
    uvalue sz a < uvalue sz b"
proof (cases sz)
  case Size_Long
  have b: "0 \<le> uvalue Size_Long x" "uvalue Size_Long x < 4294967296" for x
    using uvalue_bounds [of Size_Long x] by simp_all
  show ?thesis
    using assms mod_wrap_down [OF b(1) b(2) b(1) b(2), of 0 a b] b [of a] b [of b]
    unfolding Size_Long top_bit_long opsize.case top_bit_ops mask_long_id unfolding top_bit_uvalue by (auto split: if_splits)
qed (simp_all add: word_less_def uint_masked del: size_mask.simps)

lemma exact_resultI:
  assumes "uvalue sz r = u mod 2 ^ size_bits sz"
    and "c_flag s \<noteq> 0 \<longleftrightarrow> \<not> (0 \<le> u \<and> u < 2 ^ size_bits sz)"
    and "v_flag s \<noteq> 0 \<longleftrightarrow> \<not> (- (2 ^ (size_bits sz - 1)) \<le> v \<and> v < 2 ^ (size_bits sz - 1))"
    and "n_flag s \<noteq> 0 \<longleftrightarrow> top_bit sz r"
  shows "exact_result sz u v (r AND size_mask sz) s"
  using assms by (simp add: exact_result_def uint_masked flag_defs top_bit_svalue)

lemma exec_add_exact:
  "exact_result sz (uvalue sz src + uvalue sz dst) (svalue sz src + svalue sz dst)
     ((src + dst) AND size_mask sz) (set_add_flags src dst (src + dst) sz s)"
proof -
  have r: "uvalue sz (src + dst) = (uvalue sz src + uvalue sz dst) mod 2 ^ size_bits sz"
    by (rule uvalue_plus)
  then have "uvalue sz (src + dst) = (uvalue sz src + uvalue sz dst + 0) mod 2 ^ size_bits sz" by simp
  note v = overflow_add [OF this]
  show ?thesis
    using v add_carry_uvalue [OF r] uvalue_bounds(1) [of sz src] uvalue_bounds(1) [of sz dst]
    by (intro exact_resultI)
      (simp_all add: r set_add_flags_def Let_def and_msb_pair and_top_iff not_less del: top_bit_ops(1))
qed

lemma sub_exact_parts:
  fixes r :: u32
  assumes "uvalue sz r = (uvalue sz a - uvalue sz b - k) mod 2 ^ size_bits sz" and "0 \<le> k" "k \<le> 1"
    and "c_flag s \<noteq> 0 \<longleftrightarrow> uvalue sz a < uvalue sz b + k"
    and "v_flag s \<noteq> 0 \<longleftrightarrow> top_bit sz b \<noteq> top_bit sz a \<and> top_bit sz r \<noteq> top_bit sz a"
    and "n_flag s \<noteq> 0 \<longleftrightarrow> top_bit sz r"
  shows "exact_result sz (uvalue sz a - uvalue sz b - k) (svalue sz a - svalue sz b - k) (r AND size_mask sz) s"
  using assms(4-6) overflow_sub [OF assms(1-3)] uvalue_bounds [of sz a] uvalue_bounds [of sz b] assms(2,3)
  by (intro exact_resultI) (auto simp: assms(1))

lemma exec_sub_exact:
  "exact_result sz (uvalue sz dst - uvalue sz src) (svalue sz dst - svalue sz src)
     ((dst - src) AND size_mask sz) (set_sub_flags src dst (dst - src) sz s)"
proof -
  have r: "uvalue sz (dst - src) = (uvalue sz dst - uvalue sz src) mod 2 ^ size_bits sz"
    by (rule uvalue_minus)
  then have r0: "uvalue sz (dst - src) = (uvalue sz dst - uvalue sz src - 0) mod 2 ^ size_bits sz"
    by simp
  have "exact_result sz (uvalue sz dst - uvalue sz src - 0) (svalue sz dst - svalue sz src - 0)
     ((dst - src) AND size_mask sz) (set_sub_flags src dst (dst - src) sz s)"
    using sub_carry_uvalue [OF r] by (intro sub_exact_parts [OF r0])
      (simp_all add: set_sub_flags_def Let_def and_msb_pair and_top_iff del: top_bit_ops(1))
  then show ?thesis by simp
qed

lemma set_cmp_flags_exact:
  "exact_result sz (uvalue sz dst - uvalue sz src) (svalue sz dst - svalue sz src)
     ((dst - src) AND size_mask sz) (set_cmp_flags src dst (dst - src) sz s)"
proof -
  have r: "uvalue sz (dst - src) = (uvalue sz dst - uvalue sz src) mod 2 ^ size_bits sz"
    by (rule uvalue_minus)
  then have r0: "uvalue sz (dst - src) = (uvalue sz dst - uvalue sz src - 0) mod 2 ^ size_bits sz"
    by simp
  have "exact_result sz (uvalue sz dst - uvalue sz src - 0) (svalue sz dst - svalue sz src - 0)
     ((dst - src) AND size_mask sz) (set_cmp_flags src dst (dst - src) sz s)"
    by (intro sub_exact_parts [OF r0])
      (simp_all add: set_cmp_flags_def Let_def and_msb_pair and_top_iff word_less_def uint_masked
        del: top_bit_ops(1))
  then show ?thesis by simp
qed

text \<open>The carry-in of the extended forms.\<close>

definition x_in :: "'a cpu_core_scheme \<Rightarrow> int" where
  "x_in s = of_bool (flag_x s)"

lemma x_in_range: "0 \<le> x_in s" "x_in s \<le> 1"
  by (simp_all add: x_in_def)

lemma uint_mask64: "uint (ucast (size_mask sz) :: u64) = 2 ^ size_bits sz - 1"
  by (cases sz) simp_all

lemma size_exp_le: "(2 :: int) ^ size_bits sz \<le> 4294967296"
  by (cases sz) simp_all

lemma uint_masked64: "uint (ucast (x AND size_mask sz) :: u64) = uvalue sz x"
proof -
  have "uint (ucast (x AND size_mask sz) :: u64) = uint (x AND size_mask sz)"
    by (rule uint_up_ucast) (simp add: is_up)
  then show ?thesis by (simp only: uint_masked)
qed

lemma uvalue_of_64: "uvalue sz (ucast (w :: u64)) = uint w mod 2 ^ size_bits sz"
  by (simp add: uvalue_def uval_def unsigned_ucast_eq take_bit_eq_mod)

lemma exec_addx_exact:
  assumes "exec_addx sz src dst s = (r, s')"
  shows "exact_result sz (uvalue sz dst + uvalue sz src + x_in s) (svalue sz dst + svalue sz src + x_in s) r s'
    \<and> (flag_x s' \<longleftrightarrow> flag_c s') \<and> (flag_z s' \<longleftrightarrow> flag_z s \<and> r = 0)"
proof -
  define extend :: u64 where "extend = (if x_flag s \<noteq> 0 then 1 else 0)"
  define sum where "sum = ucast (dst AND size_mask sz) + ucast (src AND size_mask sz) + extend"
  have e: "uint extend = x_in s" by (simp add: extend_def x_in_def flag_x_def)
  have b: "0 \<le> uvalue sz x" "uvalue sz x < 4294967296" for x
    using uvalue_bounds [of sz x] size_exp_le [of sz] by simp_all
  have u: "uint sum = uvalue sz dst + uvalue sz src + x_in s"
    using b [of src] b [of dst] x_in_range [of s]
    by (simp add: sum_def uint_word_ariths uint_masked64 e)
  define r0 :: u32 where "r0 = ucast sum"
  have r0: "uvalue sz r0 = (uvalue sz dst + uvalue sz src + x_in s) mod 2 ^ size_bits sz"
    by (simp add: r0_def uvalue_of_64 u)
  have c: "ucast (size_mask sz) < sum \<longleftrightarrow> 2 ^ size_bits sz \<le> uvalue sz dst + uvalue sz src + x_in s"
    unfolding word_less_def uint_mask64 u by auto
  note d = assms [unfolded exec_addx_def Let_def, folded extend_def, folded sum_def, folded r0_def]
  have r: "r = r0 AND size_mask sz" using d by simp
  have "exact_result sz (uvalue sz dst + uvalue sz src + x_in s) (svalue sz dst + svalue sz src + x_in s)
      (r0 AND size_mask sz) s'"
    using d c b [of src] b [of dst] x_in_range [of s] overflow_add [OF r0 x_in_range]
    by (intro exact_resultI) (auto simp: r0 and_msb_pair and_top_iff not_less simp del: top_bit_ops(1))
  moreover have "not_z_flag s' = (if r \<noteq> 0 then r else not_z_flag s)" "x_flag s' = c_flag s'"
    using d by auto
  ultimately show ?thesis by (simp add: r flag_defs)
qed

lemma exec_subx_exact:
  assumes "exec_subx sz src dst s = (r, s')"
  shows "exact_result sz (uvalue sz dst - uvalue sz src - x_in s) (svalue sz dst - svalue sz src - x_in s) r s'
    \<and> (flag_x s' \<longleftrightarrow> flag_c s') \<and> (flag_z s' \<longleftrightarrow> flag_z s \<and> r = 0)"
proof -
  define extend :: u64 where "extend = (if x_flag s \<noteq> 0 then 1 else 0)"
  define sub where "sub = ucast (src AND size_mask sz) + extend"
  have e: "uint extend = x_in s" by (simp add: extend_def x_in_def flag_x_def)
  have b: "0 \<le> uvalue sz x" "uvalue sz x < 4294967296" for x
    using uvalue_bounds [of sz x] size_exp_le [of sz] by simp_all
  have u: "uint sub = uvalue sz src + x_in s"
    using b [of src] x_in_range [of s] by (simp add: sub_def uint_word_ariths uint_masked64 e)
  define r0 :: u32 where "r0 = ucast (ucast (dst AND size_mask sz) - sub)"
  have "(2 :: int) ^ size_bits sz dvd 2 ^ 64"
    by (rule le_imp_power_dvd) (cases sz; simp)
  then have r0: "uvalue sz r0 = (uvalue sz dst - uvalue sz src - x_in s) mod 2 ^ size_bits sz"
    by (simp add: r0_def uvalue_of_64 uint_word_ariths uint_masked64 u mod_mod_cancel algebra_simps)
  have c: "ucast (dst AND size_mask sz) < sub \<longleftrightarrow> uvalue sz dst < uvalue sz src + x_in s"
    unfolding word_less_def uint_masked64 u ..
  note d = assms [unfolded exec_subx_def Let_def, folded extend_def, folded sub_def, folded r0_def]
  have r: "r = r0 AND size_mask sz" using d by simp
  have "exact_result sz (uvalue sz dst - uvalue sz src - x_in s) (svalue sz dst - svalue sz src - x_in s)
      (r0 AND size_mask sz) s'"
    using d c by (intro sub_exact_parts [OF r0 x_in_range])
      (auto simp: and_msb_pair and_top_iff simp del: top_bit_ops(1))
  moreover have "not_z_flag s' = (if r \<noteq> 0 then r else not_z_flag s)" "x_flag s' = c_flag s'"
    using d by auto
  ultimately show ?thesis by (simp add: r flag_defs)
qed

section \<open>Properties\<close>

lemma same_but_flags_intros [simp]:
  "same_but_flags s (set_add_flags src dst r sz s)"
  "same_but_flags s (set_sub_flags src dst r sz s)"
  "same_but_flags s (set_cmp_flags src dst r sz s)"
  by (simp_all add: same_but_flags_def set_add_flags_def set_sub_flags_def set_cmp_flags_def Let_def)

lemma add_sub_cmp_parts:
  "case exec_add sz src dst s of ((r, _), s') \<Rightarrow>
      exact_result sz (uvalue sz src + uvalue sz dst) (svalue sz src + svalue sz dst) r s' \<and>
      (flag_z s' \<longleftrightarrow> r = 0) \<and> (flag_x s' \<longleftrightarrow> flag_c s') \<and> same_but_flags s s'"
  "case exec_sub sz src dst s of ((r, _), s') \<Rightarrow>
      exact_result sz (uvalue sz dst - uvalue sz src) (svalue sz dst - svalue sz src) r s' \<and>
      (flag_z s' \<longleftrightarrow> r = 0) \<and> (flag_x s' \<longleftrightarrow> flag_c s') \<and> same_but_flags s s'"
  "case exec_cmp sz src dst s of (_, s') \<Rightarrow>
      exact_result sz (uvalue sz dst - uvalue sz src) (svalue sz dst - svalue sz src)
        ((dst - src) AND size_mask sz) s' \<and>
      (flag_z s' \<longleftrightarrow> uvalue sz src = uvalue sz dst) \<and> x_flag s' = x_flag s \<and> same_but_flags s s'"
proof -
  have z: "(dst - src) AND size_mask sz = 0 \<longleftrightarrow> uvalue sz src = uvalue sz dst"
    using uvalue_bounds [of sz src] uvalue_bounds [of sz dst]
      mod_wrap_down [OF uvalue_bounds uvalue_bounds, of 0 sz dst src]
    by (auto simp: masked_eq_0_iff uvalue_minus)
  show "case exec_add sz src dst s of ((r, _), s') \<Rightarrow>
      exact_result sz (uvalue sz src + uvalue sz dst) (svalue sz src + svalue sz dst) r s' \<and>
      (flag_z s' \<longleftrightarrow> r = 0) \<and> (flag_x s' \<longleftrightarrow> flag_c s') \<and> same_but_flags s s'"
    using exec_add_exact [of sz src dst s] by (simp add: exec_add_def Let_def)
      (simp add: flag_defs set_add_flags_def Let_def)
  show "case exec_sub sz src dst s of ((r, _), s') \<Rightarrow>
      exact_result sz (uvalue sz dst - uvalue sz src) (svalue sz dst - svalue sz src) r s' \<and>
      (flag_z s' \<longleftrightarrow> r = 0) \<and> (flag_x s' \<longleftrightarrow> flag_c s') \<and> same_but_flags s s'"
    using exec_sub_exact [of sz dst src s] by (simp add: exec_sub_def Let_def)
      (simp add: flag_defs set_sub_flags_def Let_def)
  show "case exec_cmp sz src dst s of (_, s') \<Rightarrow>
      exact_result sz (uvalue sz dst - uvalue sz src) (svalue sz dst - svalue sz src)
        ((dst - src) AND size_mask sz) s' \<and>
      (flag_z s' \<longleftrightarrow> uvalue sz src = uvalue sz dst) \<and> x_flag s' = x_flag s \<and> same_but_flags s s'"
    using set_cmp_flags_exact [of sz dst src s] z by (simp add: exec_cmp_def Let_def)
      (simp add: flag_defs set_cmp_flags_def Let_def)
qed

lemma same_but_flags_extended:
  "same_but_flags s (snd (exec_addx sz src dst s))" "same_but_flags s (snd (exec_subx sz src dst s))"
  by (simp_all add: same_but_flags_def exec_addx_def exec_subx_def Let_def)

lemma addx_subx_parts:
  "case exec_addx sz src dst s of (r, s') \<Rightarrow>
      exact_result sz (uvalue sz dst + uvalue sz src + x_in s) (svalue sz dst + svalue sz src + x_in s) r s' \<and>
      (flag_z s' \<longleftrightarrow> flag_z s \<and> r = 0) \<and> (flag_x s' \<longleftrightarrow> flag_c s') \<and> same_but_flags s s'"
  "case exec_subx sz src dst s of (r, s') \<Rightarrow>
      exact_result sz (uvalue sz dst - uvalue sz src - x_in s) (svalue sz dst - svalue sz src - x_in s) r s' \<and>
      (flag_z s' \<longleftrightarrow> flag_z s \<and> r = 0) \<and> (flag_x s' \<longleftrightarrow> flag_c s') \<and> same_but_flags s s'"
  using same_but_flags_extended [of s sz src dst] exec_addx_exact [of sz src dst s] exec_subx_exact [of sz src dst s]
  by (auto split: prod.splits)

text \<open>
  C9. ADD, SUB, ADDX, SUBX and CMP at every size: the result is the sum or difference, with the
  incoming X (\<open>x_in\<close>) for the extended forms, modulo the width; C is the carry or borrow of the
  unsigned operands, V the overflow of the signed ones, N the sign of the result. Z is set when
  the result is zero, and the extended forms only ever clear it; all but CMP copy C to X, CMP
  keeps X, and nothing but the condition codes changes.
\<close>

theorem add_sub_cmp_exact:
  "(case exec_add sz src dst s of ((r, _), s') \<Rightarrow>
      exact_result sz (uvalue sz src + uvalue sz dst) (svalue sz src + svalue sz dst) r s' \<and>
      (flag_z s' \<longleftrightarrow> r = 0) \<and> (flag_x s' \<longleftrightarrow> flag_c s') \<and> same_but_flags s s') \<and>
   (case exec_sub sz src dst s of ((r, _), s') \<Rightarrow>
      exact_result sz (uvalue sz dst - uvalue sz src) (svalue sz dst - svalue sz src) r s' \<and>
      (flag_z s' \<longleftrightarrow> r = 0) \<and> (flag_x s' \<longleftrightarrow> flag_c s') \<and> same_but_flags s s') \<and>
   (case exec_cmp sz src dst s of (_, s') \<Rightarrow>
      exact_result sz (uvalue sz dst - uvalue sz src) (svalue sz dst - svalue sz src)
        ((dst - src) AND size_mask sz) s' \<and>
      (flag_z s' \<longleftrightarrow> uvalue sz src = uvalue sz dst) \<and> x_flag s' = x_flag s \<and> same_but_flags s s') \<and>
   (case exec_addx sz src dst s of (r, s') \<Rightarrow>
      exact_result sz (uvalue sz dst + uvalue sz src + x_in s) (svalue sz dst + svalue sz src + x_in s) r s' \<and>
      (flag_z s' \<longleftrightarrow> flag_z s \<and> r = 0) \<and> (flag_x s' \<longleftrightarrow> flag_c s') \<and> same_but_flags s s') \<and>
   (case exec_subx sz src dst s of (r, s') \<Rightarrow>
      exact_result sz (uvalue sz dst - uvalue sz src - x_in s) (svalue sz dst - svalue sz src - x_in s) r s' \<and>
      (flag_z s' \<longleftrightarrow> flag_z s \<and> r = 0) \<and> (flag_x s' \<longleftrightarrow> flag_c s') \<and> same_but_flags s s')"
  by (intro conjI add_sub_cmp_parts addx_subx_parts)

text \<open>Numbers of several operands, least significant first, and the instruction chains on them.\<close>

fun limbs_value :: "opsize \<Rightarrow> u32 list \<Rightarrow> int" where
  "limbs_value sz [] = 0"
| "limbs_value sz (x # xs) = uvalue sz x + 2 ^ size_bits sz * limbs_value sz xs"

fun extended_chain ::
  "(u32 \<Rightarrow> u32 \<Rightarrow> 'a cpu_core_scheme \<Rightarrow> u32 \<times> 'a cpu_core_scheme) \<Rightarrow> (u32 \<times> u32) list \<Rightarrow>
   'a cpu_core_scheme \<Rightarrow> u32 list \<times> 'a cpu_core_scheme" where
  "extended_chain f [] s = ([], s)"
| "extended_chain f ((a, b) # ps) s =
     (let (r, s1) = f a b s; (rs, s2) = extended_chain f ps s1 in (r # rs, s2))"

lemma uvalue_result: "exact_result sz u v r s \<Longrightarrow> uvalue sz r = u mod 2 ^ size_bits sz"
proof -
  assume "exact_result sz u v r s"
  then have "uint r = u mod 2 ^ size_bits sz" by (simp add: exact_result_def)
  moreover have "uvalue sz r = uint r mod 2 ^ size_bits sz"
    by (simp add: uvalue_def uval_def take_bit_eq_mod)
  ultimately show ?thesis by simp
qed

lemma addx_limb:
  assumes "exec_addx sz a b s = (r, s')"
  shows "uvalue sz r + 2 ^ size_bits sz * x_in s' = uvalue sz b + uvalue sz a + x_in s"
proof -
  define m :: int where "m = 2 ^ size_bits sz"
  define u where "u = uvalue sz b + uvalue sz a + x_in s"
  note e = exec_addx_exact [OF assms, folded u_def]
  have "0 \<le> u"
    using uvalue_bounds(1) [of sz a] uvalue_bounds(1) [of sz b] x_in_range [of s] by (simp add: u_def)
  then have "x_in s' = of_bool (m \<le> u)"
    using e by (simp add: exact_result_def x_in_def m_def not_less)
  moreover have "uvalue sz r = (if m \<le> u then u - m else u)"
    using uvalue_result [OF conjunct1 [OF e]] mod_wrap_up [OF uvalue_bounds uvalue_bounds x_in_range, of sz b a s]
    by (simp add: u_def m_def)
  ultimately show ?thesis by (simp add: u_def m_def)
qed

lemma subx_limb:
  assumes "exec_subx sz a b s = (r, s')"
  shows "uvalue sz r - 2 ^ size_bits sz * x_in s' = uvalue sz b - uvalue sz a - x_in s"
proof -
  define m :: int where "m = 2 ^ size_bits sz"
  define u where "u = uvalue sz b - uvalue sz a - x_in s"
  note e = exec_subx_exact [OF assms, folded u_def]
  have "u < m"
    using uvalue_bounds [of sz a] uvalue_bounds [of sz b] x_in_range [of s] by (simp add: u_def m_def)
  then have "x_in s' = of_bool (u < 0)"
    using e by (simp add: exact_result_def x_in_def m_def not_le)
  moreover have "uvalue sz r = (if u < 0 then u + m else u)"
    using uvalue_result [OF conjunct1 [OF e]] mod_wrap_down [OF uvalue_bounds uvalue_bounds x_in_range, of sz b a s]
    by (simp add: u_def m_def)
  ultimately show ?thesis by (simp add: u_def m_def)
qed

lemma addx_chain:
  "extended_chain (exec_addx sz) ps s = (rs, s') \<Longrightarrow>
   limbs_value sz rs + 2 ^ (size_bits sz * length ps) * x_in s' =
     limbs_value sz (map snd ps) + limbs_value sz (map fst ps) + x_in s \<and>
   (flag_z s' \<longleftrightarrow> flag_z s \<and> (\<forall>r \<in> set rs. r = 0))"
proof (induction ps arbitrary: s rs)
  case (Cons p ps)
  obtain a b where p: "p = (a, b)" by force
  obtain r s1 where x: "exec_addx sz a b s = (r, s1)" by force
  obtain rs1 where xs: "extended_chain (exec_addx sz) ps s1 = (rs1, s')" and rs: "rs = r # rs1"
    using Cons.prems by (auto simp: p x split: prod.splits)
  note ih = Cons.IH [OF xs]
  have "2 ^ size_bits sz * (limbs_value sz rs1 + 2 ^ (size_bits sz * length ps) * x_in s') =
    2 ^ size_bits sz * (limbs_value sz (map snd ps) + limbs_value sz (map fst ps) + x_in s1)"
    using ih by simp
  with addx_limb [OF x] have "limbs_value sz rs + 2 ^ (size_bits sz * length (p # ps)) * x_in s' =
    limbs_value sz (map snd (p # ps)) + limbs_value sz (map fst (p # ps)) + x_in s"
    by (simp add: rs p power_add algebra_simps)
  then show ?case
    using ih exec_addx_exact [OF x] by (auto simp: rs)
qed simp

lemma subx_chain:
  "extended_chain (exec_subx sz) ps s = (rs, s') \<Longrightarrow>
   limbs_value sz rs - 2 ^ (size_bits sz * length ps) * x_in s' =
     limbs_value sz (map snd ps) - limbs_value sz (map fst ps) - x_in s \<and>
   (flag_z s' \<longleftrightarrow> flag_z s \<and> (\<forall>r \<in> set rs. r = 0))"
proof (induction ps arbitrary: s rs)
  case (Cons p ps)
  obtain a b where p: "p = (a, b)" by force
  obtain r s1 where x: "exec_subx sz a b s = (r, s1)" by force
  obtain rs1 where xs: "extended_chain (exec_subx sz) ps s1 = (rs1, s')" and rs: "rs = r # rs1"
    using Cons.prems by (auto simp: p x split: prod.splits)
  note ih = Cons.IH [OF xs]
  have "2 ^ size_bits sz * (limbs_value sz rs1 - 2 ^ (size_bits sz * length ps) * x_in s') =
    2 ^ size_bits sz * (limbs_value sz (map snd ps) - limbs_value sz (map fst ps) - x_in s1)"
    using ih by simp
  with subx_limb [OF x] have "limbs_value sz rs - 2 ^ (size_bits sz * length (p # ps)) * x_in s' =
    limbs_value sz (map snd (p # ps)) - limbs_value sz (map fst (p # ps)) - x_in s"
    by (simp add: rs p power_add algebra_simps)
  then show ?case
    using ih exec_subx_exact [OF x] by (auto simp: rs)
qed simp

text \<open>
  C10. Multi-precision arithmetic: a chain of ADDX (SUBX) over the limbs of two numbers computes
  their sum (difference) with the incoming X, X is the outgoing carry (borrow), and Z stays
  set exactly when it was set and every limb of the result is zero.
\<close>

theorem multi_precision:
  "(case extended_chain (exec_addx sz) ps s of (rs, s') \<Rightarrow>
      limbs_value sz rs + 2 ^ (size_bits sz * length ps) * x_in s' =
        limbs_value sz (map snd ps) + limbs_value sz (map fst ps) + x_in s \<and>
      (flag_z s' \<longleftrightarrow> flag_z s \<and> set rs \<subseteq> {0})) \<and>
   (case extended_chain (exec_subx sz) ps s of (rs, s') \<Rightarrow>
      limbs_value sz rs - 2 ^ (size_bits sz * length ps) * x_in s' =
        limbs_value sz (map snd ps) - limbs_value sz (map fst ps) - x_in s \<and>
      (flag_z s' \<longleftrightarrow> flag_z s \<and> set rs \<subseteq> {0}))"
  using addx_chain [of sz ps s] subx_chain [of sz ps s] by (simp add: subset_eq split: prod.split)

lemma test_condition_simps:
  "test_condition 0 s" "\<not> test_condition 1 s"
  "test_condition 8 s \<longleftrightarrow> \<not> flag_v s"
  "test_condition 9 s \<longleftrightarrow> flag_v s"
  "test_condition 10 s \<longleftrightarrow> \<not> flag_n s"
  "test_condition 11 s \<longleftrightarrow> flag_n s"
  "test_condition 2 s \<longleftrightarrow> \<not> flag_c s \<and> \<not> flag_z s"
  "test_condition 3 s \<longleftrightarrow> flag_c s \<or> flag_z s"
  "test_condition 4 s \<longleftrightarrow> \<not> flag_c s"
  "test_condition 5 s \<longleftrightarrow> flag_c s"
  "test_condition 6 s \<longleftrightarrow> \<not> flag_z s"
  "test_condition 7 s \<longleftrightarrow> flag_z s"
  "test_condition 12 s \<longleftrightarrow> flag_n s = flag_v s"
  "test_condition 13 s \<longleftrightarrow> flag_n s \<noteq> flag_v s"
  "test_condition 14 s \<longleftrightarrow> \<not> flag_z s \<and> flag_n s = flag_v s"
  "test_condition 15 s \<longleftrightarrow> flag_z s \<or> flag_n s \<noteq> flag_v s"
  by (simp_all add: test_condition_def)

text \<open>The sign of a wrapped difference and its overflow give the signed order.\<close>

lemma signed_order:
  fixes a b h :: int
  assumes "0 \<le> a" "a < 2 * h" "0 \<le> b" "b < 2 * h"
    and "r = (if a < b then a - b + 2 * h else a - b)"
    and "va = (if h \<le> a then a - 2 * h else a)" and "vb = (if h \<le> b then b - 2 * h else b)"
  shows "(h \<le> r) = (\<not> (- h \<le> va - vb \<and> va - vb < h)) \<longleftrightarrow> vb \<le> va"
  using assms by (cases "h \<le> a"; cases "h \<le> b"; cases "a < b") (simp; linarith)+

text \<open>
  C11. After CMP the sixteen conditions decide the comparison of the operands: T and F always and
  never hold; HI, LS, CC and CS are the unsigned order, GE, LT, GT and LE the signed order, EQ
  and NE the equality; VS and VC say whether the signed difference leaves the range of the size,
  MI and PL give the sign of the wrapped difference, that is, of the signed difference unless it
  overflows.
\<close>

theorem compare_then_test:
  "case exec_cmp sz src dst s of (_, s') \<Rightarrow>
     test_condition 0 s' \<and> \<not> test_condition 1 s' \<and>
     (let d = svalue sz dst - svalue sz src; fits = (- (2 ^ (size_bits sz - 1)) \<le> d \<and> d < 2 ^ (size_bits sz - 1)) in
       (test_condition 8 s' \<longleftrightarrow> fits) \<and> (test_condition 9 s' \<longleftrightarrow> \<not> fits) \<and>
       (test_condition 10 s' \<longleftrightarrow> 0 \<le> svalue sz (dst - src)) \<and> (test_condition 11 s' \<longleftrightarrow> svalue sz (dst - src) < 0) \<and>
       (test_condition 11 s' \<longleftrightarrow> (d < 0) = fits)) \<and>
     (test_condition 2 s' \<longleftrightarrow> uvalue sz src < uvalue sz dst) \<and>
     (test_condition 3 s' \<longleftrightarrow> uvalue sz dst \<le> uvalue sz src) \<and>
     (test_condition 4 s' \<longleftrightarrow> uvalue sz src \<le> uvalue sz dst) \<and>
     (test_condition 5 s' \<longleftrightarrow> uvalue sz dst < uvalue sz src) \<and>
     (test_condition 6 s' \<longleftrightarrow> svalue sz dst \<noteq> svalue sz src) \<and>
     (test_condition 7 s' \<longleftrightarrow> svalue sz dst = svalue sz src) \<and>
     (test_condition 12 s' \<longleftrightarrow> svalue sz src \<le> svalue sz dst) \<and>
     (test_condition 13 s' \<longleftrightarrow> svalue sz dst < svalue sz src) \<and>
     (test_condition 14 s' \<longleftrightarrow> svalue sz src < svalue sz dst) \<and>
     (test_condition 15 s' \<longleftrightarrow> svalue sz dst \<le> svalue sz src)"
proof -
  obtain c s' where e: "exec_cmp sz src dst s = (c, s')" by force
  define h :: int where "h = 2 ^ (size_bits sz - 1)"
  define r where "r = (dst - src) AND size_mask sz"
  have m: "2 ^ size_bits sz = 2 * h" by (simp add: h_def size_bits_pow)
  have b: "0 \<le> uvalue sz x" "uvalue sz x < 2 * h" for x
    using uvalue_bounds [of sz x] by (simp_all add: m)
  have sv: "svalue sz x = (if h \<le> uvalue sz x then uvalue sz x - 2 * h else uvalue sz x)" for x
    by (simp add: svalue_eq h_def m)
  have ex: "exact_result sz (uvalue sz dst - uvalue sz src) (svalue sz dst - svalue sz src) r s'"
    and z: "flag_z s' \<longleftrightarrow> uvalue sz src = uvalue sz dst"
    using add_sub_cmp_parts(3) [where src = src and dst = dst and sz = sz and s = s] by (simp_all add: e r_def)
  have ur: "uvalue sz r = (if uvalue sz dst < uvalue sz src then uvalue sz dst - uvalue sz src + 2 * h
      else uvalue sz dst - uvalue sz src)"
    using uvalue_result [OF ex] mod_wrap_down [OF b b, of 0 dst src] by (simp add: m)
  have c: "flag_c s' \<longleftrightarrow> uvalue sz dst < uvalue sz src"
    and v: "flag_v s' \<longleftrightarrow> \<not> (- h \<le> svalue sz dst - svalue sz src \<and> svalue sz dst - svalue sz src < h)"
    and n: "flag_n s' \<longleftrightarrow> h \<le> uvalue sz r"
    using ex b [of src] b [of dst] top_bit_svalue [of sz r] top_bit_uvalue [of sz r]
    by (auto simp: exact_result_def m h_def)
  have nv: "flag_n s' = flag_v s' \<longleftrightarrow> svalue sz src \<le> svalue sz dst"
    unfolding n v by (rule signed_order [OF b b ur sv sv])
  have eq: "svalue sz src = svalue sz dst \<longleftrightarrow> uvalue sz src = uvalue sz dst"
    using b [of src] b [of dst] by (auto simp: sv)
  have lt: "flag_n s' \<noteq> flag_v s' \<longleftrightarrow> svalue sz dst < svalue sz src"
    using nv by auto
  have neg: "flag_n s' \<longleftrightarrow> svalue sz (dst - src) < 0"
    using ex by (simp add: exact_result_def r_def)
  have sign: "(svalue sz (dst - src) < 0) = ((svalue sz dst - svalue sz src < 0) =
      (- h \<le> svalue sz dst - svalue sz src \<and> svalue sz dst - svalue sz src < h))"
    using nv unfolding neg v by auto
  show ?thesis
    using eq sign unfolding e prod.case test_condition_simps lt c z nv Let_def neg v h_def by (auto simp: test_condition_simps(1,2))
qed

text \<open>The low byte and word of a register, as numbers.\<close>

lemma sint_low_byte: "sint (ucast (x :: u32) :: u8) = svalue Size_Byte x"
  by (simp add: svalue_def sval_def sint_uint unsigned_ucast_eq signed_take_bit_take_bit)

lemma sint_low_word: "sint (ucast (x :: u32) :: u16) = svalue Size_Word x"
  by (simp add: svalue_def sval_def sint_uint unsigned_ucast_eq signed_take_bit_take_bit)

lemma sint_long: "sint (x :: u32) = svalue Size_Long x"
  by (simp add: svalue_def sval_def sint_uint)

lemmas sint_operand = sint_low_byte sint_low_word sint_long

lemma chk_operand_svalue: "chk_operand sz x = svalue sz x"
  by (cases sz) (simp_all add: chk_operand_def sint_operand)

lemma svalue_sext8: "svalue Size_Long (sext8 x) = svalue Size_Byte x"
  by (simp add: sext8_def sint_long [symmetric] sint_up_scast is_up sint_low_byte)

lemma svalue_sext16: "svalue Size_Long (sext16 x) = svalue Size_Word x"
  by (simp add: sext16_def sint_long [symmetric] sint_up_scast is_up sint_low_word)

lemma logic_flags_view [simp]:
  "flag_n (set_logic_flags v sz s) \<longleftrightarrow> svalue sz v < 0"
  "flag_z (set_logic_flags v sz s) \<longleftrightarrow> uvalue sz v = 0"
  "\<not> flag_v (set_logic_flags v sz s)" "\<not> flag_c (set_logic_flags v sz s)"
  "flag_x (set_logic_flags v sz s) = flag_x s"
  "dar (set_logic_flags v sz s) = dar s"
  using msb_iff_negative [of v sz]
  by (simp_all add: set_logic_flags_def flag_defs masked_eq_0_iff flag_def split: if_splits)

lemma reg_set_get [simp]: "d_reg r (set_d r v s) = v" "a_reg r (set_a r v s) = v"
  by (simp_all add: d_reg_def set_d_def a_reg_def set_a_def)

lemma d_reg_logic [simp]: "d_reg r (set_logic_flags v sz s) = d_reg r s" "a_reg r (set_logic_flags v sz s) = a_reg r s"
  by (simp_all add: d_reg_def a_reg_def)

lemma high_mask_eq: "(0xFFFF0000 :: u32) = NOT (mask 16)" "(0xFFFFFF00 :: u32) = NOT (mask 8)"
  by (simp_all add: mask_eq_exp_minus_1)

lemma word_with_high_part:
  "(ucast ((ucast (w :: u16) :: u32) OR (x AND NOT (mask 16))) :: u16) = w"
  "drop_bit 16 ((ucast (w :: u16) :: u32) OR (x AND NOT (mask 16))) = drop_bit 16 x"
proof -
  show "(ucast ((ucast w :: u32) OR (x AND NOT (mask 16))) :: u16) = w"
    by (rule bit_word_eqI) (simp add: bit_unsigned_iff bit_or_iff bit_and_iff bit_not_iff bit_mask_iff)
  show "drop_bit 16 ((ucast w :: u32) OR (x AND NOT (mask 16))) = drop_bit 16 x"
    by (rule bit_word_eqI)
      (auto simp: bit_drop_bit_eq bit_unsigned_iff bit_or_iff bit_and_iff bit_not_iff bit_mask_iff
        dest: bit_imp_le_length)
qed

text \<open>
  C16. Sign extension: EXT.W, EXT.L and EXTB.L leave the register holding the number its low
  half, word or byte stood for; EXT.W keeps the high word; the flags are those of the result.
  ADDA.W and SUBA.W add and subtract the sign-extended word modulo two to the 32nd.
\<close>

theorem sign_extension:
  "(case exec_ext Size_Word reg s of (_, s') \<Rightarrow>
      svalue Size_Word (d_reg reg s') = svalue Size_Byte (d_reg reg s) \<and>
      drop_bit 16 (d_reg reg s') = drop_bit 16 (d_reg reg s) \<and>
      (flag_n s' \<longleftrightarrow> svalue Size_Byte (d_reg reg s) < 0)) \<and>
   (case exec_ext Size_Long reg s of (_, s') \<Rightarrow>
      svalue Size_Long (d_reg reg s') = svalue Size_Word (d_reg reg s) \<and>
      (flag_n s' \<longleftrightarrow> svalue Size_Word (d_reg reg s) < 0)) \<and>
   (case exec_extb reg s of (_, s') \<Rightarrow>
      svalue Size_Long (d_reg reg s') = svalue Size_Byte (d_reg reg s) \<and>
      (flag_n s' \<longleftrightarrow> svalue Size_Byte (d_reg reg s) < 0)) \<and>
   (case exec_adda Size_Word v reg s of (_, s') \<Rightarrow>
      uint (a_reg reg s') = (uint (a_reg reg s) + svalue Size_Word v) mod 2 ^ 32) \<and>
   (case exec_suba Size_Word v reg s of (_, s') \<Rightarrow>
      uint (a_reg reg s') = (uint (a_reg reg s) - svalue Size_Word v) mod 2 ^ 32)"
proof -
  define x where "x = d_reg reg s"
  define w :: u32 where "w = ucast (scast (ucast x :: u8) :: u16) OR (x AND 0xFFFF0000)"
  have w: "svalue Size_Word w = svalue Size_Byte x"
    unfolding w_def sint_operand [symmetric] high_mask_eq word_with_high_part
    by (simp add: sint_up_scast is_up)
  have hi: "drop_bit 16 w = drop_bit 16 x"
    unfolding w_def high_mask_eq by (rule word_with_high_part)
  have "uint (sext16 v) = svalue Size_Word v mod 2 ^ 32"
    unfolding svalue_sext16 [symmetric] sint_long [symmetric] by (simp add: uint_sint take_bit_eq_mod)
  then have add: "uint (a + sext16 v) = (uint a + svalue Size_Word v) mod 2 ^ 32"
    and sub: "uint (a - sext16 v) = (uint a - svalue Size_Word v) mod 2 ^ 32" for a
    by (simp_all add: uint_word_ariths mod_add_right_eq mod_diff_right_eq)
  have 1: "exec_ext Size_Word reg s = (4, set_logic_flags w Size_Word (set_d reg w s))"
    by (simp only: exec_ext_def Let_def w_def x_def opsize.case)
  have 2: "exec_ext Size_Long reg s = (4, set_logic_flags (sext16 x) Size_Long (set_d reg (sext16 x) s))"
    by (simp only: exec_ext_def Let_def x_def opsize.case)
  have 3: "exec_extb reg s = (4, set_logic_flags (sext8 x) Size_Long (set_d reg (sext8 x) s))"
    by (simp only: exec_extb_def Let_def x_def)
  show ?thesis
    unfolding 1 2 3 prod.case d_reg_logic reg_set_get logic_flags_view w hi svalue_sext8 svalue_sext16
      exec_adda_def exec_suba_def Let_def if_True x_def by (simp add: add sub)
qed

lemma bind_map_cycles:
  "Option.bind m (\<lambda>(c, s). Some (f c, s)) = map_option (map_prod f id) m"
  by (cases m) (simp_all add: split_def map_prod_def)

text \<open>
  C17. CHK traps exactly when the register, as a signed number of the operand size, is negative
  or above the bound; otherwise it only sets the flags and spends its cycles.
\<close>

theorem chk_traps_out_of_range:
  "exec_chk B dl sz bound reg s =
    (let v = svalue sz (d_reg reg s); top = svalue sz bound;
         s' = s\<lparr> n_flag := flag 0x80 (v < 0), not_z_flag := 1, v_flag := 0, c_flag := 0 \<rparr>;
         short = (top < v \<or> cpu_model s = M68000 \<and> sz = Size_Word \<and> \<not> (- 0x8000 \<le> v - top \<and> v - top < 0x8000))
     in if 0 \<le> v \<and> v \<le> top then Some (10, internal_cycles 6 s')
        else map_option (map_prod (\<lambda>c. if short then c - 2 else c) id)
          (take_group2_exception B dl 6 (internal_cycles (if short then 8 else 10) s')))"
proof -
  define v where "v = svalue sz (d_reg reg s)"
  define top where "top = svalue sz bound"
  define odd where "odd \<longleftrightarrow> cpu_model s = M68000 \<and> sz = Size_Word \<and> (v - top < -0x8000 \<or> 0x7FFF < v - top)"
  have odd: "odd \<longleftrightarrow> cpu_model s = M68000 \<and> sz = Size_Word \<and> \<not> (- 0x8000 \<le> v - top \<and> v - top < 0x8000)"
    by (auto simp: odd_def)
  show ?thesis
    unfolding exec_chk_def chk_operand_svalue exception_chk_def bind_map_cycles Let_def
      v_def [symmetric] top_def [symmetric] odd [symmetric]
    by (cases "top < v"; cases "v < 0"; cases odd)
      (simp_all add: id_def map_prod.identity option.map_ident, auto simp: odd_def)
qed

end
