(* ===== verification/Flat_Ram.thy ===== *)
theory Flat_Ram
  imports Ea
begin

unbundle bit_operations_syntax

text \<open>
  A processor with a 32-bit bus on plain memory: the machines on which a data access is
  nothing but the access to the memory, and what the accesses and the stack operations do
  there. The instruction theories use it to state what an instruction does to memory.
\<close>

section \<open>Longs in linear memory\<close>

definition lb_long :: "linear_bus \<Rightarrow> u32 \<Rightarrow> u32" where
  "lb_long b a = fst (lb_read_long a b)"

lemma lb_block_ok_cong: "length (lb_memory b') = length (lb_memory b) \<Longrightarrow> lb_block_ok b' a n = lb_block_ok b a n"
  by (simp add: lb_block_ok_def)

lemma lb_write_long_simps [simp]:
  "length (lb_memory (lb_write_long a v b)) = length (lb_memory b)"
  "lb_index (lb_write_long a v b) = lb_index b"
  "lb_inv (lb_write_long a v b) = lb_inv b"
  "lb_block_ok (lb_write_long a v b) x n = lb_block_ok b x n"
  by (simp_all add: lb_write_long_def Let_def lb_block_ok_def)

lemma lb_long_cells:
  "lb_inv b \<Longrightarrow> lb_long b a = be32 (lb_cell b (lb_index b a)) (lb_cell b (lb_index b (a + 1)))
     (lb_cell b (lb_index b (a + 2))) (lb_cell b (lb_index b (a + 3)))"
  by (simp add: lb_long_def lb_read_long_def lb_read_index_cell)

lemma lb_cell_write_long:
  "lb_inv b \<Longrightarrow> lb_cell (lb_write_long a v b) = (lb_cell b)
     (lb_index b a := ucast (drop_bit 24 v), lb_index b (a + 1) := ucast (drop_bit 16 v),
      lb_index b (a + 2) := ucast (drop_bit 8 v), lb_index b (a + 3) := ucast v)"
  using lb.write_long_law [of b a v] by (simp add: linear_memory_bus_defs)

lemma lb_slots_distinct_iff:
  assumes "lb_inv b" and "lb_block_ok b a n" and "i < n" and "j < n" and "n \<le> 2 ^ 31"
  shows "lb_index b (a + of_nat i) = lb_index b (a + of_nat j) \<longleftrightarrow> i = j"
  using lb_slots_distinct [OF assms(1,2), of i j] lb_slots_distinct [OF assms(1,2), of j i] assms(3-5)
  by (metis linorder_neq_iff)

lemma lb_long_write_long:
  assumes "lb_inv b" and "lb_block_ok b a (4 * n)" and "i < n" and "j < n" and "n \<le> 2 ^ 29"
  shows "lb_long (lb_write_long (a + 4 * of_nat i) v b) (a + 4 * of_nat j) =
    (if i = j then v else lb_long b (a + 4 * of_nat j))"
proof -
  have e: "a + 4 * of_nat k + of_nat p = a + of_nat (4 * k + p)" for k p by simp
  have d: "lb_index b (a + 4 * of_nat k + of_nat p) = lb_index b (a + 4 * of_nat l + of_nat q) \<longleftrightarrow>
      4 * k + p = 4 * l + q" if "k < n" "l < n" "p < 4" "q < 4" for k l p q
    unfolding e using that assms by (intro lb_slots_distinct_iff [OF assms(1,2)]) auto
  have s: "lb_index b (a + 4 * of_nat j + of_nat p) = lb_index b (a + 4 * of_nat i + of_nat q) \<longleftrightarrow>
      i = j \<and> p = q" if "p < 4" "q < 4" for p q
  proof -
    have "4 * j + p = 4 * i + q \<longleftrightarrow> i = j \<and> p = q" using that by presburger
    then show ?thesis using d [of j i p q] that assms(3,4) by simp
  qed
  note t = s [of 0 0] s [of 0 1] s [of 0 2] s [of 0 3] s [of 1 0] s [of 1 1] s [of 1 2] s [of 1 3]
    s [of 2 0] s [of 2 1] s [of 2 2] s [of 2 3] s [of 3 0] s [of 3 1] s [of 3 2] s [of 3 3]
  show ?thesis
    using t assms(1) by (simp add: lb_long_cells lb_cell_write_long be32_split)
qed

section \<open>Machines on flat memory\<close>

definition flat_ram :: "linear_bus machine \<Rightarrow> bool" where
  "flat_ram s \<longleftrightarrow> lb_inv (bus s) \<and> address_mask s = 0xFFFFFFFF \<and> \<not> word_aligned_cpu s \<and>
     \<not> mmu_on s \<and> \<not> faulted s \<and> mmu_read_override s = None \<and> mmu_write_suppress s = None"

lemma flat_ram_simps [simp]:
  "flat_ram (s\<lparr> dar := r \<rparr>) = flat_ram s"
  "flat_ram (s\<lparr> pending_sync_clocks := c \<rparr>) = flat_ram s"
  "flat_ram (s\<lparr> pending_fault_wdata := w \<rparr>) = flat_ram s"
  "flat_ram (s\<lparr> pc := p \<rparr>) = flat_ram s"
  "flat_ram (set_a k v s) = flat_ram s"
  by (simp_all add: flat_ram_def word_aligned_cpu_def mmu_on_def faulted_def set_a_def)

lemma flat_ram_not_aligned: "flat_ram s \<Longrightarrow> \<not> prefetch_enabled s"
  by (auto simp: flat_ram_def prefetch_enabled_def word_aligned_cpu_def)

lemma plain_update_simps [simp]:
  "word_aligned_cpu (s\<lparr> pending_sync_clocks := c \<rparr>) = word_aligned_cpu s"
  "mmu_on (s\<lparr> pending_sync_clocks := c \<rparr>) = mmu_on s"
  "word_aligned_cpu (s\<lparr> pending_fault_wdata := w \<rparr>) = word_aligned_cpu s"
  "mmu_on (s\<lparr> pending_fault_wdata := w \<rparr>) = mmu_on s"
  by (simp_all add: word_aligned_cpu_def mmu_on_def)

lemma flush_sync_linear: "flush_sync linear_memory_bus s = s\<lparr> pending_sync_clocks := 0 \<rparr>"
proof (cases "pending_sync_clocks s = 0")
  case True
  then have "s\<lparr> pending_sync_clocks := 0 \<rparr> = s" by (cases s) simp
  with True show ?thesis by (simp add: flush_sync_def)
qed (simp add: flush_sync_def linear_memory_bus_defs word_gt_0)

lemma address_flat: "flat_ram s \<Longrightarrow> address a (s\<lparr> pending_sync_clocks := 0 \<rparr>) = a"
proof -
  assume "flat_ram s"
  then have "address_mask (s\<lparr> pending_sync_clocks := 0 \<rparr>) = - 1" by (simp add: flat_ram_def)
  then show ?thesis by (simp only: address_def and.right_neutral)
qed

lemma linear_try_long [simp]:
  "try_read_long linear_memory_bus a b = (Inr (lb_long b a), b)"
  "try_write_long linear_memory_bus a v b = (Inr (), lb_write_long a v b)"
  by (simp_all add: linear_memory_bus_defs infallible_def lb_long_def lb_read_long_def)

lemma read_32_flat:
  assumes "flat_ram s"
  shows "read_32 linear_memory_bus dl a s = Some (lb_long (bus s) a, s\<lparr> pending_sync_clocks := 0 \<rparr>)"
  using assms address_flat [OF assms]
  by (simp add: read_32_def Let_def flush_sync_linear flat_ram_def read_overridden_def data_translate_def
      bus_read_def on_bus_def faulted_def)

text \<open>The machine after a write of a long, and after a stack push of one.\<close>

definition stored_long :: "u32 \<Rightarrow> u32 \<Rightarrow> linear_bus machine \<Rightarrow> linear_bus machine" where
  "stored_long a v s =
     s\<lparr> pending_sync_clocks := 0, pending_fault_wdata := v, bus := lb_write_long a v (bus s) \<rparr>"

lemma write_32_flat:
  assumes "flat_ram s"
  shows "write_32 linear_memory_bus dl a v s = Some (stored_long a v s)"
  using assms address_flat [OF assms]
  by (simp add: write_32_def Let_def flush_sync_linear flat_ram_def data_translate_def
      bus_write_def on_bus_def faulted_def stored_long_def)

lemma stored_long_simps [simp]:
  "flat_ram (stored_long a v s) = flat_ram s"
  "dar (stored_long a v s) = dar s"
  "bus (stored_long a v s) = lb_write_long a v (bus s)"
  "prefetch_enabled (stored_long a v s) = prefetch_enabled s"
  "cpu_model (stored_long a v s) = cpu_model s"
  by (simp_all add: stored_long_def flat_ram_def word_aligned_cpu_def mmu_on_def faulted_def prefetch_enabled_def)

lemma push_32_flat:
  assumes "flat_ram s"
  shows "push_32 linear_memory_bus dl v s =
    Some (stored_long (dar s 15 - 4) v (s\<lparr> dar := (dar s)(15 := dar s 15 - 4) \<rparr>))"
  using assms by (simp add: push_32_def Let_def write_32_flat)

lemma pull_32_flat:
  assumes "flat_ram s"
  shows "pull_32 linear_memory_bus dl s = Some (lb_long (bus s) (dar s 15),
    s\<lparr> pending_sync_clocks := 0, dar := (dar s)(15 := dar s 15 + 4) \<rparr>)"
  using assms by (simp add: pull_32_def read_32_flat)

lemma lb_long_same:
  assumes "lb_inv b" and "lb_block_ok b a 4"
  shows "lb_long (lb_write_long a v b) a = v"
  using lb_long_write_long [of b a 1 0 0 v] assms by simp

end
