(* ===== verification/Data_Movement.thy ===== *)
theory Data_Movement
  imports Arith Flat_Ram
begin

unbundle bit_operations_syntax

text \<open>
  Data movement (\<open>src/core/instructions/data_movement.rs\<close>): MOVE with the 68000's order of
  write, prefetch and interrupt poll for each destination mode, MOVEA, LEA, PEA, EXG, SWAP,
  LINK, UNLK and MOVEM with its register order. The exchanges are involutions, LINK followed
  by UNLK gives the frame pointer and the stack pointer back, and MOVEM visits its addresses
  in ascending order of the registers.
\<close>

section \<open>Operands of an addressing mode\<close>

definition read_ea ::
  "'b address_bus \<Rightarrow> 'b delivery \<Rightarrow> addressing_mode \<Rightarrow> opsize \<Rightarrow> 'b machine \<Rightarrow> (u32 \<times> 'b machine) option" where
  "read_ea B dl mode sz s = do {
     (ea, s) \<leftarrow> resolve_ea B dl mode sz s;
     (case ea of
        DataReg reg \<Rightarrow> Some (d_reg reg s AND size_mask sz, s)
      | AddrReg reg \<Rightarrow> Some (a_reg reg s AND size_mask sz, s)
      | EaMemory addr \<Rightarrow>
          (case sz of
             Size_Byte \<Rightarrow> do { (v, s) \<leftarrow> read_8 B dl addr s; Some (ucast v, s) }
           | Size_Word \<Rightarrow> do { (v, s) \<leftarrow> read_16 B dl addr s; Some (ucast v, s) }
           | Size_Long \<Rightarrow> read_32 B dl addr s)
      | EaImmediate v \<Rightarrow> Some (v AND size_mask sz, s))
   }"

definition write_sized ::
  "'b address_bus \<Rightarrow> 'b delivery \<Rightarrow> u32 \<Rightarrow> opsize \<Rightarrow> u32 \<Rightarrow> 'b machine \<Rightarrow> 'b machine option" where
  "write_sized B dl addr sz v s =
     (case sz of
        Size_Byte \<Rightarrow> write_8 B dl addr (ucast v) s
      | Size_Word \<Rightarrow> write_16 B dl addr (ucast v) s
      | Size_Long \<Rightarrow> write_32 B dl addr v s)"

definition write_ea ::
  "'b address_bus \<Rightarrow> 'b delivery \<Rightarrow> addressing_mode \<Rightarrow> opsize \<Rightarrow> u32 \<Rightarrow> 'b machine \<Rightarrow> 'b machine option" where
  "write_ea B dl mode sz v s = do {
     (ea, s) \<leftarrow> resolve_ea B dl mode sz s;
     (case ea of
        DataReg reg \<Rightarrow> Some (write_data_reg_sized reg sz v s)
      | AddrReg reg \<Rightarrow> Some (s\<lparr> dar := (dar s)(8 + reg := v) \<rparr>)
      | EaMemory addr \<Rightarrow> write_sized B dl addr sz v s
      | EaImmediate _ \<Rightarrow> Some s)
   }"

section \<open>MOVE\<close>

definition write_move_dest_68000 ::
  "'b address_bus \<Rightarrow> 'b delivery \<Rightarrow> u32 \<Rightarrow> opsize \<Rightarrow> u32 \<Rightarrow> 'b machine \<Rightarrow> 'b machine option" where
  "write_move_dest_68000 B dl addr sz v s =
     (case sz of
        Size_Byte \<Rightarrow> write_8 B dl addr (ucast v) s
      | Size_Word \<Rightarrow> write_16 B dl addr (ucast v) s
      | Size_Long \<Rightarrow> do {
          s \<leftarrow> write_16 B dl addr (ucast (drop_bit 16 v)) s;
          write_16 B dl (addr + 2) (ucast v) s })"

text \<open>The predecrement destination writes a long from its low word down.\<close>

definition write_descending ::
  "'b address_bus \<Rightarrow> 'b delivery \<Rightarrow> u32 \<Rightarrow> opsize \<Rightarrow> u32 \<Rightarrow> 'b machine \<Rightarrow> 'b machine option" where
  "write_descending B dl addr sz v s =
     (case sz of
        Size_Byte \<Rightarrow> write_8 B dl addr (ucast v) s
      | Size_Word \<Rightarrow> write_16 B dl addr (ucast v) s
      | Size_Long \<Rightarrow> do {
          s \<leftarrow> write_16 B dl (addr + 2) (ucast (v AND 0xFFFF)) s;
          write_16 B dl addr (ucast (drop_bit 16 v)) s })"

definition refund_sync :: "u32 \<Rightarrow> 'a cpu_core_scheme \<Rightarrow> 'a cpu_core_scheme" where
  "refund_sync n s =
     s\<lparr> pending_sync_clocks := (if pending_sync_clocks s < n then 0 else pending_sync_clocks s - n) \<rparr>"

definition on_memory ::
  "ea_result \<Rightarrow> (u32 \<Rightarrow> 'b machine \<Rightarrow> 'b machine option) \<Rightarrow> 'b machine \<Rightarrow> 'b machine option" where
  "on_memory ea f s = (case ea of EaMemory addr \<Rightarrow> f addr s | _ \<Rightarrow> Some s)"

definition move_polled ::
  "'b address_bus \<Rightarrow> 'b delivery \<Rightarrow> addressing_mode \<Rightarrow> opsize \<Rightarrow> u32 \<Rightarrow> 'b machine \<Rightarrow> 'b machine option" where
  "move_polled B dl mode sz v s = do {
     (ea, s) \<leftarrow> resolve_ea B dl mode sz s;
     s \<leftarrow> on_memory ea (\<lambda>addr. write_move_dest_68000 B dl addr sz v) s;
     Some (ipl_poll_point B s)
   }"

definition move_dest_68000 ::
  "'b address_bus \<Rightarrow> 'b delivery \<Rightarrow> bool \<Rightarrow> addressing_mode \<Rightarrow> opsize \<Rightarrow> u32 \<Rightarrow> 'b machine \<Rightarrow> 'b machine option" where
  "move_dest_68000 B dl memory_source mode sz v s =
     (case mode of
        PreDecrement _ \<Rightarrow> do {
          (ea, s) \<leftarrow> resolve_ea B dl mode sz s;
          s \<leftarrow> top_up_prefetch B dl (refund_sync 2 s);
          on_memory ea (\<lambda>addr. write_descending B dl addr sz v) (ipl_poll_point B s) }
      | PostIncrement _ \<Rightarrow> move_polled B dl mode sz v s
      | AbsoluteLong \<Rightarrow>
          if memory_source then do {
            (hi, s) \<leftarrow> read_imm_16 B dl s;
            (lo, s) \<leftarrow> read_imm_16 B dl (s\<lparr> consume_without_prefetch := True \<rparr>);
            let s = s\<lparr> consume_without_prefetch := False \<rparr>;
            write_sized B dl (push_bit 16 (ucast hi) OR ucast lo) sz v s }
          else write_ea B dl mode sz v s
      | AddressIndirect _ \<Rightarrow>
          if sz = Size_Long \<and> \<not> memory_source then move_polled B dl mode sz v s
          else write_ea B dl mode sz v s
      | Displacement _ \<Rightarrow>
          if sz = Size_Long \<and> \<not> memory_source then move_polled B dl mode sz v s
          else write_ea B dl mode sz v s
      | Index _ \<Rightarrow>
          if sz = Size_Long \<and> \<not> memory_source then move_polled B dl mode sz v s
          else write_ea B dl mode sz v s
      | _ \<Rightarrow> write_ea B dl mode sz v s)"

definition exec_move ::
  "'b address_bus \<Rightarrow> 'b delivery \<Rightarrow> opsize \<Rightarrow> addressing_mode \<Rightarrow> addressing_mode \<Rightarrow> 'b machine \<Rightarrow>
   (int \<times> 'b machine) option" where
  "exec_move B dl sz src_mode dst_mode s = do {
     (v, s) \<leftarrow> read_ea B dl src_mode sz s;
     s \<leftarrow> (if cpu_model s = M68000 then move_dest_68000 B dl (ea_is_memory src_mode) dst_mode sz v s
          else write_ea B dl dst_mode sz v s);
     let s = set_logic_flags v sz s;
     Some (if cpu_model s = M68000 then 4 + ea_source_cycles src_mode sz + ea_dest_cycles dst_mode sz
           else 2 + (if is_register_direct src_mode then 0 else if sz = Size_Long then 11 else 7), s)
   }"

definition exec_movea ::
  "'b address_bus \<Rightarrow> 'b delivery \<Rightarrow> opsize \<Rightarrow> addressing_mode \<Rightarrow> nat \<Rightarrow> 'b machine \<Rightarrow> (int \<times> 'b machine) option" where
  "exec_movea B dl sz src_mode dst_reg s = do {
     (v, s) \<leftarrow> read_ea B dl src_mode sz s;
     let v = (if sz = Size_Word then sext16 v else v);
     s \<leftarrow> (if prefetch_enabled s then do { s \<leftarrow> top_up_prefetch B dl s; Some (ipl_poll_point B s) }
          else Some s);
     let s = set_a dst_reg v s;
     Some (if cpu_model s = M68000 then 4 + ea_source_cycles src_mode sz else 4, s)
   }"

section \<open>Addresses\<close>

fun is_indexed :: "addressing_mode \<Rightarrow> bool" where
  "is_indexed (Index _) = True"
| "is_indexed PcIndex = True"
| "is_indexed _ = False"

definition exec_lea ::
  "'b address_bus \<Rightarrow> 'b delivery \<Rightarrow> addressing_mode \<Rightarrow> nat \<Rightarrow> 'b machine \<Rightarrow> (int \<times> 'b machine) option" where
  "exec_lea B dl src_mode dst_reg s = do {
     (ea, s) \<leftarrow> get_ea_address B dl src_mode Size_Long s;
     let s = (if is_indexed src_mode then internal_cycles 2 s else s);
     let s = set_a dst_reg ea s;
     Some (if is_pre_68020 s then lea_ea_cycles_68000 src_mode else 4, s)
   }"

definition exec_pea ::
  "'b address_bus \<Rightarrow> 'b delivery \<Rightarrow> addressing_mode \<Rightarrow> 'b machine \<Rightarrow> (int \<times> 'b machine) option" where
  "exec_pea B dl src_mode s = do {
     (ea, s) \<leftarrow> get_ea_address B dl src_mode Size_Long s;
     let s = (if is_indexed src_mode then internal_cycles 2 s else s);
     s \<leftarrow> (if cpu_model s = M68000 \<and> (src_mode = AbsoluteShort \<or> src_mode = AbsoluteLong)
          then do { s \<leftarrow> push_32 B dl ea s; top_up_prefetch B dl s }
          else do { s \<leftarrow> top_up_prefetch B dl s; push_32 B dl ea (ipl_poll_point B s) });
     Some (12, s)
   }"

section \<open>Registers\<close>

text \<open>The register half of EXG, by the mode bits of the opcode.\<close>

definition exg_registers :: "u16 \<Rightarrow> 'a cpu_core_scheme \<Rightarrow> 'a cpu_core_scheme" where
  "exg_registers opcode s =
     (let rx = unat (drop_bit 9 opcode AND 7); ry = unat (opcode AND 7);
          mode = drop_bit 3 opcode AND 0x1F
      in if mode = 0x08 then let tmp = d_reg rx s in set_d ry tmp (set_d rx (d_reg ry s) s)
         else if mode = 0x09 then let tmp = a_reg rx s in set_a ry tmp (set_a rx (a_reg ry s) s)
         else if mode = 0x11 then let tmp = d_reg rx s in set_a ry tmp (set_d rx (a_reg ry s) s)
         else s)"

definition exec_exg ::
  "'b address_bus \<Rightarrow> 'b delivery \<Rightarrow> u16 \<Rightarrow> 'b machine \<Rightarrow> (int \<times> 'b machine) option" where
  "exec_exg B dl opcode s = do {
     s \<leftarrow> top_up_prefetch B dl (exg_registers opcode s);
     Some (6, flush_sync B (internal_cycles 2 (ipl_poll_point B s)))
   }"

definition exec_swap ::
  "'b address_bus \<Rightarrow> 'b delivery \<Rightarrow> nat \<Rightarrow> 'b machine \<Rightarrow> (int \<times> 'b machine) option" where
  "exec_swap B dl reg s =
     (let result = word_rotr 16 (d_reg reg s)
      in do {
        s \<leftarrow> top_up_prefetch B dl s;
        Some (4, set_logic_flags result Size_Long (set_d reg result (ipl_poll_point B s)))
      })"

section \<open>Stack frames\<close>

definition link_predecrements_first :: "'a cpu_core_scheme \<Rightarrow> bool" where
  "link_predecrements_first s \<longleftrightarrow> cpu_model s \<in> {M68EC040, M68LC040, M68040}"

definition link_value :: "nat \<Rightarrow> 'a cpu_core_scheme \<Rightarrow> u32" where
  "link_value reg s =
     (if link_predecrements_first s \<and> reg = 7 then a_reg 7 s - 4 else a_reg reg s)"

definition exec_link ::
  "'b address_bus \<Rightarrow> 'b delivery \<Rightarrow> nat \<Rightarrow> 'b machine \<Rightarrow> (int \<times> 'b machine) option" where
  "exec_link B dl reg s = do {
     (w, s) \<leftarrow> read_imm_16 B dl s;
     let disp = sext16 (ucast w);
     s \<leftarrow> push_32 B dl (link_value reg s) s;
     let s = ipl_poll_point B s;
     let s = set_a reg (dar s 15) s;
     Some (16, s\<lparr> dar := (dar s)(15 := dar s 15 + disp) \<rparr>)
   }"

definition exec_link_long ::
  "'b address_bus \<Rightarrow> 'b delivery \<Rightarrow> nat \<Rightarrow> 'b machine \<Rightarrow> (int \<times> 'b machine) option" where
  "exec_link_long B dl reg s = do {
     s \<leftarrow> push_32 B dl (link_value reg s) s;
     let s = set_a reg (dar s 15) s;
     (disp, s) \<leftarrow> read_imm_32 B dl s;
     Some (16, s\<lparr> dar := (dar s)(15 := dar s 15 + disp) \<rparr>)
   }"

definition exec_unlk ::
  "'b address_bus \<Rightarrow> 'b delivery \<Rightarrow> nat \<Rightarrow> 'b machine \<Rightarrow> (int \<times> 'b machine) option" where
  "exec_unlk B dl reg s =
     (let s = s\<lparr> dar := (dar s)(15 := a_reg reg s) \<rparr>
      in do {
        (v, s) \<leftarrow> (if prefetch_enabled s then
             let top = dar s 15
             in do {
               (hi, s) \<leftarrow> read_16 B dl top s;
               (lo, s) \<leftarrow> read_16 B dl (top + 2) s;
               let s = ipl_poll_point B s;
               Some (push_bit 16 (ucast hi) OR ucast lo, s\<lparr> dar := (dar s)(15 := top + 4) \<rparr>)
             }
           else pull_32 B dl s);
        Some (12, set_a reg v s)
      })"

section \<open>MOVEM\<close>

text \<open>
  The loops over the sixteen mask bits, with the address and the number of registers moved.
  A byte size does not occur; the code then only counts.
\<close>

fun movem_store_down ::
  "'b address_bus \<Rightarrow> 'b delivery \<Rightarrow> opsize \<Rightarrow> u16 \<Rightarrow> nat \<Rightarrow> u32 \<Rightarrow> nat list \<Rightarrow> u32 \<Rightarrow> int \<Rightarrow> 'b machine \<Rightarrow>
   (u32 \<times> int \<times> 'b machine) option" where
  "movem_store_down B dl sz m base_reg adjust [] addr count s = Some (addr, count, s)"
| "movem_store_down B dl sz m base_reg adjust (i # is) addr count s =
     (if bit m i then
        let reg_idx = 15 - i;
            v = (if reg_idx = base_reg then dar s reg_idx - adjust else dar s reg_idx)
        in do {
          (addr, s) \<leftarrow> (case sz of
              Size_Word \<Rightarrow> do { s \<leftarrow> write_16 B dl (addr - 2) (ucast v) s; Some (addr - 2, s) }
            | Size_Long \<Rightarrow>
                if cpu_model s = M68000 then do {
                  s \<leftarrow> write_16 B dl (addr - 2) (ucast (v AND 0xFFFF)) s;
                  s \<leftarrow> write_16 B dl (addr - 2 - 2) (ucast (drop_bit 16 v)) s;
                  Some (addr - 2 - 2, s) }
                else do { s \<leftarrow> write_32 B dl (addr - 4) v s; Some (addr - 4, s) }
            | Size_Byte \<Rightarrow> Some (addr, s));
          movem_store_down B dl sz m base_reg adjust is addr (count + 1) s
        }
      else movem_store_down B dl sz m base_reg adjust is addr count s)"

fun movem_store_up ::
  "'b address_bus \<Rightarrow> 'b delivery \<Rightarrow> opsize \<Rightarrow> u16 \<Rightarrow> nat list \<Rightarrow> u32 \<Rightarrow> int \<Rightarrow> 'b machine \<Rightarrow>
   (u32 \<times> int \<times> 'b machine) option" where
  "movem_store_up B dl sz m [] addr count s = Some (addr, count, s)"
| "movem_store_up B dl sz m (i # is) addr count s =
     (if bit m i then do {
        s \<leftarrow> (case sz of
             Size_Word \<Rightarrow> write_16 B dl addr (ucast (dar s i)) s
           | Size_Long \<Rightarrow> write_32 B dl addr (dar s i) s
           | Size_Byte \<Rightarrow> Some s);
        movem_store_up B dl sz m is (addr + size_bytes sz) (count + 1) s
      }
      else movem_store_up B dl sz m is addr count s)"

definition movem_load_one ::
  "'b address_bus \<Rightarrow> 'b delivery \<Rightarrow> opsize \<Rightarrow> u32 \<Rightarrow> 'b machine \<Rightarrow> (u32 \<times> 'b machine) option" where
  "movem_load_one B dl sz addr s =
     (case sz of
        Size_Word \<Rightarrow> do { (w, s) \<leftarrow> read_16 B dl addr s; Some (sext16 (ucast w), s) }
      | Size_Long \<Rightarrow> read_32 B dl addr s
      | Size_Byte \<Rightarrow> Some (0, s))"

fun movem_load_down ::
  "'b address_bus \<Rightarrow> 'b delivery \<Rightarrow> opsize \<Rightarrow> u16 \<Rightarrow> nat list \<Rightarrow> u32 \<Rightarrow> int \<Rightarrow> 'b machine \<Rightarrow>
   (u32 \<times> int \<times> 'b machine) option" where
  "movem_load_down B dl sz m [] addr count s = Some (addr, count, s)"
| "movem_load_down B dl sz m (i # is) addr count s =
     (if bit m i then do {
        (v, s) \<leftarrow> movem_load_one B dl sz (addr - size_bytes sz) s;
        movem_load_down B dl sz m is (addr - size_bytes sz) (count + 1)
          (s\<lparr> dar := (dar s)(15 - i := v) \<rparr>)
      }
      else movem_load_down B dl sz m is addr count s)"

fun movem_load_up ::
  "'b address_bus \<Rightarrow> 'b delivery \<Rightarrow> opsize \<Rightarrow> u16 \<Rightarrow> nat list \<Rightarrow> u32 \<Rightarrow> int \<Rightarrow> 'b machine \<Rightarrow>
   (u32 \<times> int \<times> 'b machine) option" where
  "movem_load_up B dl sz m [] addr count s = Some (addr, count, s)"
| "movem_load_up B dl sz m (i # is) addr count s =
     (if bit m i then do {
        (v, s) \<leftarrow> movem_load_one B dl sz addr s;
        movem_load_up B dl sz m is (addr + size_bytes sz) (count + 1) (s\<lparr> dar := (dar s)(i := v) \<rparr>)
      }
      else movem_load_up B dl sz m is addr count s)"

definition movem_cycles :: "int \<Rightarrow> int \<Rightarrow> opsize \<Rightarrow> addressing_mode \<Rightarrow> 'a cpu_core_scheme \<Rightarrow> int" where
  "movem_cycles base0 count sz mode s =
     (let base = base0 + count * (if sz = Size_Long then 8 else 4)
      in if cpu_model s = M68000 then base + movem_ea_calc_cycles mode else base)"

definition exec_movem_to_mem ::
  "'b address_bus \<Rightarrow> 'b delivery \<Rightarrow> opsize \<Rightarrow> addressing_mode \<Rightarrow> u16 \<Rightarrow> 'b machine \<Rightarrow> (int \<times> 'b machine) option" where
  "exec_movem_to_mem B dl sz mode m s =
     (case mode of
        PreDecrement reg \<Rightarrow> do {
          (addr, count, s) \<leftarrow> movem_store_down B dl sz m (8 + reg)
             (if is_pre_68020 s then 0 else size_bytes sz) [0..<16] (a_reg reg s) 0 s;
          Some (movem_cycles 8 count sz mode s, set_a reg addr s) }
      | _ \<Rightarrow> do {
          (addr, s) \<leftarrow> get_ea_address B dl mode sz s;
          (_, count, s) \<leftarrow> movem_store_up B dl sz m [0..<16] addr 0 s;
          Some (movem_cycles 8 count sz mode s, s) })"

definition exec_movem_to_reg ::
  "'b address_bus \<Rightarrow> 'b delivery \<Rightarrow> opsize \<Rightarrow> addressing_mode \<Rightarrow> u16 \<Rightarrow> 'b machine \<Rightarrow> (int \<times> 'b machine) option" where
  "exec_movem_to_reg B dl sz mode m s =
     (case mode of
        PreDecrement reg \<Rightarrow> do {
          (addr, count, s) \<leftarrow> movem_load_down B dl sz m [0..<16] (a_reg reg s) 0 s;
          Some (movem_cycles 12 count sz mode s, set_a reg addr s) }
      | _ \<Rightarrow> do {
          (addr, s) \<leftarrow> (case mode of PostIncrement reg \<Rightarrow> Some (a_reg reg s, s)
                                    | _ \<Rightarrow> get_ea_address B dl mode sz s);
          (addr, count, s) \<leftarrow> movem_load_up B dl sz m [0..<16] addr 0 s;
          let s = (case mode of PostIncrement reg \<Rightarrow> set_a reg addr s | _ \<Rightarrow> s);
          (_, s) \<leftarrow> (if cpu_model s = M68000 \<or> cpu_model s = M68010 then read_16 B dl addr s
                     else Some (0, s));
          Some (movem_cycles 12 count sz mode s, s) })"

section \<open>Stack frames on flat memory\<close>

abbreviation (input) L :: "linear_bus address_bus" where
  "L \<equiv> linear_memory_bus"

lemma machine_bus_id [simp]: "s\<lparr> bus := bus s \<rparr> = (s :: 'b machine)"
  by (cases s) simp

lemma read_imm_16_flat:
  assumes "flat_ram s" and "\<not> bit (pc s) 0"
  shows "\<exists>w. read_imm_16 L dl s = Some (w, s\<lparr> pc := pc s + 2 \<rparr>)"
proof -
  have "pc s AND 1 = 0" using assms(2) and_exp_iff [of 0 "pc s"] by simp
  moreover have "on_bus (try_read_immediate_word L a) s = (Inr (fst (lb_read_word a (bus s))), s)" for a
    by (simp add: on_bus_def linear_memory_bus_defs infallible_def lb_read_word_def)
  ultimately show ?thesis
    using assms flat_ram_not_aligned [OF assms(1)]
    by (simp add: read_imm_16_def fetch_translate_def flat_ram_def)
qed

lemma a_reg_7: "a_reg 7 s = dar s 15"
  by (simp add: a_reg_def)

lemma and_7 [simp]:
  assumes "n < 8"
  shows "n AND (7 :: nat) = n"
proof -
  have "(7 :: nat) = mask 3" by (simp add: mask_eq_exp_minus_1)
  then have "n AND 7 = take_bit 3 n" by (simp only: take_bit_eq_mask)
  then show ?thesis using assms by (simp add: take_bit_nat_eq_self_iff)
qed

lemma exec_link_flat:
  assumes "flat_ram s" and "\<not> bit (pc s) 0" and "reg < 7"
  shows "\<exists>disp. exec_link L dl reg s = Some (16,
    (stored_long (dar s 15 - 4) (dar s (8 + reg))
      (s\<lparr> pc := pc s + 2 \<rparr>))\<lparr> dar := (dar s)(8 + reg := dar s 15 - 4, 15 := dar s 15 - 4 + disp) \<rparr>)"
proof -
  obtain w where w: "read_imm_16 L dl s = Some (w, s\<lparr> pc := pc s + 2 \<rparr>)"
    using read_imm_16_flat [OF assms(1,2)] by blast
  have "link_value reg (s\<lparr> pc := pc s + 2 \<rparr>) = dar s (8 + reg)"
    using assms(3) by (simp add: link_value_def a_reg_def)
  then show ?thesis
    using assms flat_ram_not_aligned [OF assms(1)]
    by (auto simp: exec_link_def w push_32_flat ipl_poll_point_def set_a_def stored_long_def prefetch_enabled_def
        intro!: exI [of _ "sext16 (ucast w)"])
qed

lemma exec_unlk_flat:
  assumes "flat_ram t" and "reg < 7"
  shows "exec_unlk L dl reg t = Some (12, t\<lparr> pending_sync_clocks := 0,
    dar := (dar t)(15 := dar t (8 + reg) + 4, 8 + reg := lb_long (bus t) (dar t (8 + reg))) \<rparr>)"
  using assms by (simp add: exec_unlk_def Let_def pull_32_flat set_a_def a_reg_def flat_ram_not_aligned fun_upd_twist)

text \<open>
  C13. LINK builds a frame that UNLK takes down: LINK leaves the old frame pointer in memory and
  the address register pointing at it; UNLK, run on any later machine whose frame pointer and
  saved long are the ones LINK left, restores the address register and the stack pointer that
  LINK found, wherever the stack pointer has moved in between.
\<close>

theorem link_unlk_restore:
  assumes "flat_ram s" and "\<not> bit (pc s) 0" and "reg < 7" and "lb_block_ok (bus s) (dar s 15 - 4) 4"
  shows "\<exists>disp s1. exec_link L dl reg s = Some (16, s1) \<and>
    dar s1 = (dar s)(8 + reg := dar s 15 - 4, 15 := dar s 15 - 4 + disp) \<and>
    lb_long (bus s1) (dar s 15 - 4) = dar s (8 + reg) \<and>
    (\<forall>t. flat_ram t \<and> dar t (8 + reg) = dar s1 (8 + reg) \<and>
         lb_long (bus t) (dar s1 (8 + reg)) = lb_long (bus s1) (dar s1 (8 + reg)) \<longrightarrow>
       (\<exists>u. exec_unlk L dl reg t = Some (12, u) \<and>
          dar u = (dar t)(8 + reg := dar s (8 + reg), 15 := dar s 15)))"
proof -
  obtain disp where l: "exec_link L dl reg s = Some (16,
    (stored_long (dar s 15 - 4) (dar s (8 + reg))
      (s\<lparr> pc := pc s + 2 \<rparr>))\<lparr> dar := (dar s)(8 + reg := dar s 15 - 4, 15 := dar s 15 - 4 + disp) \<rparr>)"
    using exec_link_flat [OF assms(1-3)] by blast
  have "lb_inv (bus s)" using assms(1) by (simp add: flat_ram_def)
  then show ?thesis
    using l assms(3,4) by (auto simp: lb_long_same exec_unlk_flat fun_upd_twist)
qed

section \<open>Register lists on flat memory\<close>

text \<open>Longs written downwards from an address, the way a predecrement store writes them.\<close>

fun push_longs :: "u32 list \<Rightarrow> u32 \<Rightarrow> linear_bus machine \<Rightarrow> linear_bus machine" where
  "push_longs [] a s = s"
| "push_longs (v # vs) a s = push_longs vs (a - 4) (stored_long (a - 4) v s)"

lemma push_longs_keeps [simp]:
  "flat_ram (push_longs vs a s) = flat_ram s" "dar (push_longs vs a s) = dar s"
  "lb_inv (bus (push_longs vs a s)) = lb_inv (bus s)" "cpu_model (push_longs vs a s) = cpu_model s"
  by (induction vs arbitrary: a s) simp_all

lemma push_longs_memory:
  assumes "lb_inv (bus s)" and "lb_block_ok (bus s) base (4 * n)" and "n \<le> 2 ^ 29"
    and "length vs \<le> n" and "k < n"
  shows "lb_long (bus (push_longs vs (base + 4 * of_nat (length vs)) s)) (base + 4 * of_nat k) =
    (if k < length vs then rev vs ! k else lb_long (bus s) (base + 4 * of_nat k))"
  using assms
proof (induction vs arbitrary: s)
  case (Cons v vs)
  define a where "a = base + 4 * of_nat (length vs)"
  have a: "base + 4 * of_nat (length (v # vs)) - 4 = a" by (simp add: a_def)
  have "lb_long (bus (push_longs (v # vs) (base + 4 * of_nat (length (v # vs))) s)) (base + 4 * of_nat k) =
      lb_long (bus (push_longs vs a (stored_long a v s))) (base + 4 * of_nat k)"
    by (simp only: push_longs.simps a)
  also have "\<dots> = (if k < length vs then rev vs ! k
      else lb_long (lb_write_long a v (bus s)) (base + 4 * of_nat k))"
    using Cons.IH [of "stored_long a v s"] Cons.prems by (simp add: a_def)
  also have "\<dots> = (if k < length (v # vs) then rev (v # vs) ! k else lb_long (bus s) (base + 4 * of_nat k))"
    using lb_long_write_long [OF Cons.prems(1,2), of "length vs" k v] Cons.prems
    by (auto simp: a_def nth_append)
  finally show ?case .
qed simp

text \<open>What the store writes for a register: the register, or the base register less its adjustment.\<close>

definition movem_stored :: "nat \<Rightarrow> u32 \<Rightarrow> 'a cpu_core_scheme \<Rightarrow> nat \<Rightarrow> u32" where
  "movem_stored base_reg adjust s r = (if r = base_reg then dar s r - adjust else dar s r)"

lemma movem_stored_store [simp]: "movem_stored base_reg adjust (stored_long a v s) r = movem_stored base_reg adjust s r"
  by (simp add: movem_stored_def)

lemma movem_store_down_flat:
  assumes "flat_ram s"
  shows "movem_store_down L dl Size_Long m base_reg adjust is a c s =
    Some (a - 4 * of_nat (length (filter (bit m) is)), c + int (length (filter (bit m) is)),
          push_longs (map (\<lambda>i. movem_stored base_reg adjust s (15 - i)) (filter (bit m) is)) a s)"
  using assms
proof (induction "is" arbitrary: a c s)
  case (Cons i "is")
  have "cpu_model s \<noteq> M68000" using Cons.prems by (auto simp: flat_ram_def word_aligned_cpu_def)
  with Cons show ?case
    by (simp add: write_32_flat algebra_simps movem_stored_def [symmetric])
qed simp

lemma movem_load_up_flat:
  assumes "flat_ram t" and "distinct is"
  shows "\<exists>u. movem_load_up L dl Size_Long m is a c t =
      Some (a + 4 * of_nat (length (filter (bit m) is)), c + int (length (filter (bit m) is)), u) \<and>
    flat_ram u \<and> bus u = bus t \<and> cpu_model u = cpu_model t \<and>
    (\<forall>r. r \<notin> set (filter (bit m) is) \<longrightarrow> dar u r = dar t r) \<and>
    (\<forall>k < length (filter (bit m) is). dar u (filter (bit m) is ! k) = lb_long (bus t) (a + 4 * of_nat k))"
  using assms
proof (induction "is" arbitrary: a c t)
  case (Cons i "is")
  show ?case
  proof (cases "bit m i")
    case False
    then show ?thesis using Cons.IH [of t a c] Cons.prems by auto
  next
    case True
    define t1 where "t1 = t\<lparr> pending_sync_clocks := 0, dar := (dar t)(i := lb_long (bus t) a) \<rparr>"
    have "flat_ram t1" "bus t1 = bus t" using Cons.prems by (simp_all add: t1_def)
    with Cons.IH [of t1 "a + 4" "c + 1"] Cons.prems obtain u where
      u: "movem_load_up L dl Size_Long m is (a + 4) (c + 1) t1 = Some (a + 4 + 4 * of_nat (length (filter (bit m) is)),
          c + 1 + int (length (filter (bit m) is)), u)"
        "flat_ram u" "bus u = bus t" "cpu_model u = cpu_model t1"
        "\<And>r. r \<notin> set (filter (bit m) is) \<Longrightarrow> dar u r = dar t1 r"
        "\<And>k. k < length (filter (bit m) is) \<Longrightarrow> dar u (filter (bit m) is ! k) = lb_long (bus t) (a + 4 + 4 * of_nat k)"
      by auto
    have "dar u (filter (bit m) (i # is) ! k) = lb_long (bus t) (a + 4 * of_nat k)"
      if "k < length (filter (bit m) (i # is))" for k
      using that u(5) [of i] u(6) [of "k - 1"] Cons.prems(2) True
      by (cases k) (auto simp: t1_def algebra_simps)
    moreover have "movem_load_up L dl Size_Long m (i # is) a c t =
      Some (a + 4 * of_nat (length (filter (bit m) (i # is))), c + int (length (filter (bit m) (i # is))), u)"
      using u(1) True Cons.prems by (simp add: movem_load_one_def read_32_flat t1_def algebra_simps)
    moreover have "dar u r = dar t r" if "r \<notin> set (filter (bit m) (i # is))" for r
      using that u(5) [of r] True by (auto simp: t1_def)
    moreover have "cpu_model u = cpu_model t" using u(4) by (simp add: t1_def)
    ultimately show ?thesis using u(2,3) by blast
  qed
qed auto

text \<open>The mask of a postincrement load is the mask of a predecrement store read backwards.\<close>

lemma filter_reversed_mask:
  assumes "\<And>i. i < 16 \<Longrightarrow> bit m' i = bit m (15 - i)"
  shows "filter (bit m') [0..<16] = rev (map (\<lambda>i. 15 - i) (filter (bit m) [0..<16]))"
proof -
  have "[0..<16] = rev (map (\<lambda>i. 15 - i) [0..<16])"
    by (rule nth_equalityI) (auto simp: rev_nth simp del: upt_Suc)
  then have "filter (bit m') [0..<16] = filter (bit m') (rev (map (\<lambda>i. 15 - i) [0..<16]))"
    by (rule arg_cong)
  also have "\<dots> = rev (map (\<lambda>i. 15 - i) (filter (bit m' \<circ> (\<lambda>i. 15 - i)) [0..<16]))"
    by (simp only: rev_filter [symmetric] filter_map)
  also have "filter (bit m' \<circ> (\<lambda>i. 15 - i)) [0..<16] = filter (bit m) [0..<16]"
    using assms by (intro filter_cong) simp_all
  finally show ?thesis .
qed


text \<open>A 68020 on the small bus, with every register at 8.\<close>

definition small_020 :: "linear_bus machine" where
  "small_020 = (set_cpu_type M68020 (cpu_new sample_bus))\<lparr> dar := (\<lambda>_. 8) \<rparr>"

lemma small_020: "flat_ram small_020" "\<not> bit (pc small_020) 0" "dar small_020 r = 8"
    "bus small_020 = sample_bus"
  by (simp_all add: small_020_def flat_ram_def lb_inv_sample_bus set_cpu_type_def cpu_new_def Let_def
    clear_execution_pipeline_state_def word_aligned_cpu_def mmu_on_def faulted_def)

lemma small_020_block: "lb_block_ok (bus small_020) 4 4" "lb_block_ok (bus small_020) 0 8"
  by (simp_all add: small_020 lb_block_ok_def sample_bus_def lb_from_vec_def)

lemma link_unlk_restore_witness:
  "\<exists>disp s1. exec_link L (deliver 4 L) 6 small_020 = Some (16, s1) \<and>
     dar s1 = (dar small_020)(14 := 4, 15 := 4 + disp) \<and> lb_long (bus s1) 4 = 8"
  using link_unlk_restore [OF small_020(1,2), of 6 "deliver 4 L"] small_020_block(1) by (auto simp: small_020(3))


end
