(* ===== verification/Logic.thy ===== *)
theory Logic
  imports Data_Movement
begin

unbundle bit_operations_syntax

text \<open>
  Logical and bit instructions (\<open>src/core/instructions/logical.rs\<close> and \<open>bit_manip.rs\<close>): AND, OR
  and EOR with their immediate, CCR and SR forms, BTST, BSET, BCLR, BCHG and TAS. The status
  register forms are privileged and compute on exactly the implemented bits; the bit
  instructions change one bit and test its old value.
\<close>

section \<open>Logical instructions\<close>

definition finish_immediate_sr_write ::
  "'b address_bus \<Rightarrow> 'b delivery \<Rightarrow> u16 \<Rightarrow> 'b machine \<Rightarrow> 'b machine option" where
  "finish_immediate_sr_write B dl sr s =
     (let s = (if cpu_model s = M68000
               then set_sr sr (trace_t0_sr_write (flush_sync B (internal_cycles 8 s)))
               else internal_cycles 8 (set_sr sr (trace_t0_sr_write s)))
      in full_prefetch B dl s)"

definition finish_m68000_immediate_data_register_write ::
  "'b address_bus \<Rightarrow> 'b delivery \<Rightarrow> nat \<Rightarrow> opsize \<Rightarrow> u32 \<Rightarrow> 'b machine \<Rightarrow> 'b machine option" where
  "finish_m68000_immediate_data_register_write B dl reg sz v s =
     (if cpu_model s = M68000 then do {
        s \<leftarrow> top_up_prefetch B dl s;
        let s = ipl_poll_point B s;
        if run_mode s = RUN_MODE_BERR_AERR_RESET then Some s
        else
          let s = (if sz = Size_Long then flush_sync B (internal_cycles 4 s) else s)
          in Some (write_data_reg_sized reg sz v s)
      }
      else Some (write_data_reg_sized reg sz v s))"

text \<open>AND, OR and EOR set the flags of their masked result.\<close>

definition exec_logic ::
  "(u32 \<Rightarrow> u32 \<Rightarrow> u32) \<Rightarrow> opsize \<Rightarrow> u32 \<Rightarrow> u32 \<Rightarrow> 'a cpu_core_scheme \<Rightarrow> (u32 \<times> int) \<times> 'a cpu_core_scheme" where
  "exec_logic op sz src dst s =
     (let result = op src dst AND size_mask sz in ((result, 4), set_logic_flags result sz s))"

definition exec_and :: "opsize \<Rightarrow> u32 \<Rightarrow> u32 \<Rightarrow> 'a cpu_core_scheme \<Rightarrow> (u32 \<times> int) \<times> 'a cpu_core_scheme" where
  "exec_and = exec_logic (AND)"

definition exec_or :: "opsize \<Rightarrow> u32 \<Rightarrow> u32 \<Rightarrow> 'a cpu_core_scheme \<Rightarrow> (u32 \<times> int) \<times> 'a cpu_core_scheme" where
  "exec_or = exec_logic (OR)"

definition exec_eor :: "opsize \<Rightarrow> u32 \<Rightarrow> u32 \<Rightarrow> 'a cpu_core_scheme \<Rightarrow> (u32 \<times> int) \<times> 'a cpu_core_scheme" where
  "exec_eor = exec_logic (XOR)"

definition read_immediate ::
  "'b address_bus \<Rightarrow> 'b delivery \<Rightarrow> opsize \<Rightarrow> 'b machine \<Rightarrow> (u32 \<times> 'b machine) option" where
  "read_immediate B dl sz s =
     (case sz of
        Size_Byte \<Rightarrow> do { (w, s) \<leftarrow> read_imm_16 B dl s; Some (ucast w AND 0xFF, s) }
      | Size_Word \<Rightarrow> do { (w, s) \<leftarrow> read_imm_16 B dl s; Some (ucast w, s) }
      | Size_Long \<Rightarrow> read_imm_32 B dl s)"

text \<open>The common head of ANDI, ORI and EORI, with the 68000 register form.\<close>

definition immediate_logic ::
  "'b address_bus \<Rightarrow> 'b delivery \<Rightarrow> (u32 \<Rightarrow> u32 \<Rightarrow> u32) \<Rightarrow> opsize \<Rightarrow> addressing_mode \<Rightarrow>
   (u32 \<Rightarrow> 'b machine \<Rightarrow> (int \<times> 'b machine) option) \<Rightarrow> 'b machine \<Rightarrow> (int \<times> 'b machine) option" where
  "immediate_logic B dl op sz mode memory_form s = do {
     (imm, s) \<leftarrow> read_immediate B dl sz s;
     unless_faulted s
       (case (cpu_model s, mode) of
          (M68000, DataDirect reg) \<Rightarrow>
            let dst = d_reg reg s AND size_mask sz; ((result, _), s) = exec_logic op sz imm dst s
            in do {
              s \<leftarrow> finish_m68000_immediate_data_register_write B dl reg sz result s;
              Some (if sz = Size_Long then 16 else 8, s)
            }
        | _ \<Rightarrow> memory_form imm s)
   }"

definition exec_andi ::
  "'b address_bus \<Rightarrow> 'b delivery \<Rightarrow> opsize \<Rightarrow> addressing_mode \<Rightarrow> 'b machine \<Rightarrow> (int \<times> 'b machine) option" where
  "exec_andi B dl sz mode =
     immediate_logic B dl (AND) sz mode (\<lambda>imm s. do {
       (ea, s) \<leftarrow> resolve_ea B dl mode sz s;
       (dst, s) \<leftarrow> read_resolved_ea B dl ea sz s;
       let ((result, _), s) = exec_and sz imm dst s;
       s \<leftarrow> write_resolved_ea_np_poll B dl ea sz result s;
       Some (if sz = Size_Long then 16 else 8, s)
     })"

definition immediate_memory_logic ::
  "'b address_bus \<Rightarrow> 'b delivery \<Rightarrow> (u32 \<Rightarrow> u32 \<Rightarrow> u32) \<Rightarrow> opsize \<Rightarrow> addressing_mode \<Rightarrow> u32 \<Rightarrow> 'b machine \<Rightarrow>
   (int \<times> 'b machine) option" where
  "immediate_memory_logic B dl op sz mode imm s = do {
     (ea, s) \<leftarrow> resolve_ea B dl mode sz s;
     (dst, s) \<leftarrow> read_resolved_ea B dl ea sz s;
     unless_faulted s (do {
       let result = op imm dst AND size_mask sz;
       s \<leftarrow> write_resolved_ea_np_poll B dl ea sz result s;
       unless_faulted s (
         let s = set_logic_flags result sz s; long = (sz = Size_Long)
         in Some (if is_pre_68020 s then
                    if is_data_direct mode then (if long then 16 else 8)
                    else (if long then 20 else 12) + ea_time mode sz s
                  else if long then 16 else 8, s))
     })
   }"

definition exec_ori ::
  "'b address_bus \<Rightarrow> 'b delivery \<Rightarrow> opsize \<Rightarrow> addressing_mode \<Rightarrow> 'b machine \<Rightarrow> (int \<times> 'b machine) option" where
  "exec_ori B dl sz mode =
     immediate_logic B dl (OR) sz mode (immediate_memory_logic B dl (OR) sz mode)"

definition exec_eori ::
  "'b address_bus \<Rightarrow> 'b delivery \<Rightarrow> opsize \<Rightarrow> addressing_mode \<Rightarrow> 'b machine \<Rightarrow> (int \<times> 'b machine) option" where
  "exec_eori B dl sz mode =
     immediate_logic B dl (XOR) sz mode (immediate_memory_logic B dl (XOR) sz mode)"

definition logic_ccr ::
  "'b address_bus \<Rightarrow> 'b delivery \<Rightarrow> (u8 \<Rightarrow> u8 \<Rightarrow> u8) \<Rightarrow> 'b machine \<Rightarrow> (int \<times> 'b machine) option" where
  "logic_ccr B dl op s = do {
     (w, s) \<leftarrow> read_imm_16 B dl s;
     let s = set_ccr (op (get_ccr s) (ucast w)) s;
     s \<leftarrow> full_prefetch B dl (internal_cycles 8 s);
     Some (20, s)
   }"

definition logic_sr ::
  "'b address_bus \<Rightarrow> 'b delivery \<Rightarrow> (u16 \<Rightarrow> u16 \<Rightarrow> u16) \<Rightarrow> 'b machine \<Rightarrow> (int \<times> 'b machine) option" where
  "logic_sr B dl op s =
     (if \<not> is_supervisor s then exception_privilege B dl s
      else do {
        (imm, s) \<leftarrow> read_imm_16 B dl s;
        s \<leftarrow> finish_immediate_sr_write B dl (op (get_sr s) imm) s;
        Some (20, s)
      })"

definition exec_andi_ccr :: "'b address_bus \<Rightarrow> 'b delivery \<Rightarrow> 'b machine \<Rightarrow> (int \<times> 'b machine) option" where
  "exec_andi_ccr B dl = logic_ccr B dl (AND)"

definition exec_ori_ccr :: "'b address_bus \<Rightarrow> 'b delivery \<Rightarrow> 'b machine \<Rightarrow> (int \<times> 'b machine) option" where
  "exec_ori_ccr B dl = logic_ccr B dl (OR)"

definition exec_eori_ccr :: "'b address_bus \<Rightarrow> 'b delivery \<Rightarrow> 'b machine \<Rightarrow> (int \<times> 'b machine) option" where
  "exec_eori_ccr B dl = logic_ccr B dl (XOR)"

definition exec_andi_sr :: "'b address_bus \<Rightarrow> 'b delivery \<Rightarrow> 'b machine \<Rightarrow> (int \<times> 'b machine) option" where
  "exec_andi_sr B dl = logic_sr B dl (AND)"

definition exec_ori_sr :: "'b address_bus \<Rightarrow> 'b delivery \<Rightarrow> 'b machine \<Rightarrow> (int \<times> 'b machine) option" where
  "exec_ori_sr B dl = logic_sr B dl (OR)"

definition exec_eori_sr :: "'b address_bus \<Rightarrow> 'b delivery \<Rightarrow> 'b machine \<Rightarrow> (int \<times> 'b machine) option" where
  "exec_eori_sr B dl = logic_sr B dl (XOR)"

section \<open>Bit instructions\<close>

definition finish_m68000_register_bitop ::
  "'b address_bus \<Rightarrow> 'b delivery \<Rightarrow> u32 \<Rightarrow> bool \<Rightarrow> 'b machine \<Rightarrow> 'b machine option" where
  "finish_m68000_register_bitop B dl internal_clocks poll_ipl s =
     (if cpu_model s \<noteq> M68000 then Some s
      else do {
        s \<leftarrow> top_up_prefetch B dl s;
        let s = (if poll_ipl then ipl_poll_point B s else s);
        Some (flush_sync B (internal_cycles internal_clocks s))
      })"

text \<open>Register operands are longs with the bit number modulo 32, memory operands bytes modulo 8.\<close>

definition bitop_operand :: "addressing_mode \<Rightarrow> u32 \<Rightarrow> opsize \<times> nat" where
  "bitop_operand mode bit_num =
     (if is_register_direct mode then (Size_Long, unat (bit_num AND 31)) else (Size_Byte, unat (bit_num AND 7)))"

definition test_bit :: "u32 \<Rightarrow> nat \<Rightarrow> 'a cpu_core_scheme \<Rightarrow> 'a cpu_core_scheme" where
  "test_bit v n s = s\<lparr> not_z_flag := (if v AND push_bit n 1 \<noteq> 0 then 1 else 0) \<rparr>"

definition exec_btst ::
  "'b address_bus \<Rightarrow> 'b delivery \<Rightarrow> u32 \<Rightarrow> addressing_mode \<Rightarrow> 'b machine \<Rightarrow> (int \<times> 'b machine) option" where
  "exec_btst B dl bit_num mode s =
     (let (sz, n) = bitop_operand mode bit_num
      in do {
        (v, s) \<leftarrow> read_ea B dl mode sz s;
        let s = test_bit v n s;
        s \<leftarrow> (if sz = Size_Long then finish_m68000_register_bitop B dl 2 False s else Some s);
        Some (if sz = Size_Long then 6 else 4, s)
      })"

text \<open>
  BSET, BCLR and BCHG: \<open>op v b\<close> is the new value, \<open>clocks\<close> the internal clocks of the 68000
  register form for a low and a high bit number.
\<close>

definition bit_rmw ::
  "'b address_bus \<Rightarrow> 'b delivery \<Rightarrow> (u32 \<Rightarrow> u32 \<Rightarrow> u32) \<Rightarrow> u32 \<Rightarrow> u32 \<Rightarrow>
   (opsize \<Rightarrow> nat \<Rightarrow> 'b machine \<Rightarrow> int) \<Rightarrow> u32 \<Rightarrow> addressing_mode \<Rightarrow> 'b machine \<Rightarrow> (int \<times> 'b machine) option" where
  "bit_rmw B dl op low high cycles bit_num mode s =
     (let (sz, n) = bitop_operand mode bit_num
      in do {
        (ea, s) \<leftarrow> resolve_ea B dl mode sz s;
        (v, s) \<leftarrow> read_resolved_ea B dl ea sz s;
        let s = test_bit v n s;
        let result = op v (push_bit n 1);
        s \<leftarrow> (if cpu_model s = M68000 \<and> sz = Size_Long then do {
               s \<leftarrow> finish_m68000_register_bitop B dl (if 15 < n then high else low) True s;
               write_resolved_ea B dl ea sz (result AND size_mask sz) s
             }
             else write_resolved_ea_np_poll B dl ea sz (result AND size_mask sz) s);
        Some (cycles sz n s, s)
      })"

definition bset_bchg_cycles :: "addressing_mode \<Rightarrow> opsize \<Rightarrow> nat \<Rightarrow> 'a cpu_core_scheme \<Rightarrow> int" where
  "bset_bchg_cycles mode sz n s =
     (if sz = Size_Long then (if is_pre_68020 s then (if 16 \<le> n then 8 else 6) else 8)
      else 8 + ea_time mode Size_Byte s)"

definition exec_bset ::
  "'b address_bus \<Rightarrow> 'b delivery \<Rightarrow> u32 \<Rightarrow> addressing_mode \<Rightarrow> 'b machine \<Rightarrow> (int \<times> 'b machine) option" where
  "exec_bset B dl bit_num mode = bit_rmw B dl (OR) 2 4 (bset_bchg_cycles mode) bit_num mode"

definition exec_bclr ::
  "'b address_bus \<Rightarrow> 'b delivery \<Rightarrow> u32 \<Rightarrow> addressing_mode \<Rightarrow> 'b machine \<Rightarrow> (int \<times> 'b machine) option" where
  "exec_bclr B dl bit_num mode =
     bit_rmw B dl (\<lambda>v b. v AND NOT b) 4 6 (\<lambda>sz n s. if sz = Size_Long then 10 else 8) bit_num mode"

definition exec_bchg ::
  "'b address_bus \<Rightarrow> 'b delivery \<Rightarrow> u32 \<Rightarrow> addressing_mode \<Rightarrow> 'b machine \<Rightarrow> (int \<times> 'b machine) option" where
  "exec_bchg B dl bit_num mode = bit_rmw B dl (XOR) 2 4 (bset_bchg_cycles mode) bit_num mode"

definition exec_tas ::
  "'b address_bus \<Rightarrow> 'b delivery \<Rightarrow> addressing_mode \<Rightarrow> 'b machine \<Rightarrow> (int \<times> 'b machine) option" where
  "exec_tas B dl mode s = do {
     (ea, s) \<leftarrow> resolve_ea B dl mode Size_Byte s;
     (v, s) \<leftarrow> read_resolved_ea B dl ea Size_Byte s;
     let s = set_logic_flags v Size_Byte s;
     let result = v OR 0x80;
     s \<leftarrow> (case (cpu_model s, ea) of
            (M68000, EaMemory addr) \<Rightarrow> write_8 B dl addr (ucast result) (internal_cycles 2 s)
          | _ \<Rightarrow> write_resolved_ea B dl ea Size_Byte result s);
     Some (4, trace_t0_68040_sync s)
   }"

end
