(* ===== verification/Shift.thy ===== *)
theory Shift
  imports Arith
begin

unbundle bit_operations_syntax

text \<open>
  Shifts and rotates (\<open>src/core/instructions/shift_rotate.rs\<close>). The arithmetic and logical
  shifts are specified as multiplication and division by a power of two with the last bit
  shifted out as carry, the rotates by the position each bit moves to; the bit-at-a-time
  loops of ASL, ROXL and ROXR are shown to compute the closed forms for every count.
\<close>

section \<open>The instructions\<close>

definition shift_reg_cycles :: "opsize \<Rightarrow> nat \<Rightarrow> 'a cpu_core_scheme \<Rightarrow> int" where
  "shift_reg_cycles sz count s =
     (if cpu_model s \<notin> {M68000, M68010} then 6
      else (if sz = Size_Long then 8 else 6) + 2 * int count)"

definition set_logic_flags_nv :: "u32 \<Rightarrow> opsize \<Rightarrow> 'a cpu_core_scheme \<Rightarrow> 'a cpu_core_scheme" where
  "set_logic_flags_nv v sz s =
     s\<lparr> n_flag := flag 0x80 (v AND size_msb sz \<noteq> 0), not_z_flag := v AND size_mask sz \<rparr>"

text \<open>The loop of ASL: value, last bit shifted out, and whether the top bit ever changed.\<close>

fun asl_loop :: "opsize \<Rightarrow> nat \<Rightarrow> u32 \<times> u32 \<times> bool \<Rightarrow> u32 \<times> u32 \<times> bool" where
  "asl_loop sz 0 st = st"
| "asl_loop sz (Suc n) (result, _, overflow) =
     (let last_bit = result AND size_msb sz; new_top = push_bit 1 result AND size_msb sz
      in asl_loop sz n (push_bit 1 result AND size_mask sz, last_bit, overflow \<or> new_top \<noteq> last_bit))"

definition exec_asl :: "opsize \<Rightarrow> u32 \<Rightarrow> u32 \<Rightarrow> 'a cpu_core_scheme \<Rightarrow> (u32 \<times> int) \<times> 'a cpu_core_scheme" where
  "exec_asl sz shift0 v s =
     (let shift = unat (shift0 AND 63)
      in if shift = 0 then
           let s = set_logic_flags v sz (s\<lparr> c_flag := 0 \<rparr>) in ((v, shift_reg_cycles sz 0 s), s)
         else
           let (result, last_bit, overflow) = asl_loop sz (min shift (size_bits sz)) (v AND size_mask sz, 0, False);
               c = (if size_bits sz < shift then 0 else flag CFLAG_SET (last_bit \<noteq> 0));
               s = set_logic_flags_nv result sz (s\<lparr> c_flag := c, x_flag := c, v_flag := flag 0x80 overflow \<rparr>)
           in ((result, shift_reg_cycles sz shift s), s))"

definition exec_asr :: "opsize \<Rightarrow> u32 \<Rightarrow> u32 \<Rightarrow> 'a cpu_core_scheme \<Rightarrow> (u32 \<times> int) \<times> 'a cpu_core_scheme" where
  "exec_asr sz shift0 v0 s =
     (let shift = unat (shift0 AND 63)
      in if shift = 0 then
           let s = set_logic_flags v0 sz (s\<lparr> c_flag := 0 \<rparr>) in ((v0, shift_reg_cycles sz 0 s), s)
         else
           let m = size_mask sz; bits = size_bits sz;
               sign = v0 AND size_msb sz; v = v0 AND m;
               result = (if bits \<le> shift then (if sign \<noteq> 0 then m else 0)
                         else if sign \<noteq> 0 then drop_bit shift v OR push_bit (bits - shift) m
                         else drop_bit shift v) AND m;
               last_bit = (if bits \<le> shift then sign else v AND push_bit (shift - 1) 1);
               c = flag CFLAG_SET (last_bit \<noteq> 0);
               s = set_logic_flags_nv result sz (s\<lparr> c_flag := c, x_flag := c, v_flag := 0 \<rparr>)
           in ((result AND m, shift_reg_cycles sz shift s), s))"

definition exec_lsl :: "opsize \<Rightarrow> u32 \<Rightarrow> u32 \<Rightarrow> 'a cpu_core_scheme \<Rightarrow> (u32 \<times> int) \<times> 'a cpu_core_scheme" where
  "exec_lsl sz shift0 v s =
     (let shift = unat (shift0 AND 63)
      in if shift = 0 then
           let s = set_logic_flags v sz (s\<lparr> c_flag := 0 \<rparr>) in ((v, shift_reg_cycles sz 0 s), s)
         else
           let bits = size_bits sz;
               (result, c) = (if bits \<le> shift then (0, flag CFLAG_SET (shift = bits \<and> v AND 1 \<noteq> 0))
                              else (push_bit shift v AND size_mask sz,
                                    flag CFLAG_SET (drop_bit (bits - shift) v AND 1 \<noteq> 0)));
               s = set_logic_flags_nv result sz (s\<lparr> c_flag := c, x_flag := c, v_flag := 0 \<rparr>)
           in ((result, shift_reg_cycles sz shift s), s))"

definition exec_lsr :: "opsize \<Rightarrow> u32 \<Rightarrow> u32 \<Rightarrow> 'a cpu_core_scheme \<Rightarrow> (u32 \<times> int) \<times> 'a cpu_core_scheme" where
  "exec_lsr sz shift0 v0 s =
     (let shift = unat (shift0 AND 63)
      in if shift = 0 then
           let s = set_logic_flags v0 sz (s\<lparr> c_flag := 0 \<rparr>) in ((v0, shift_reg_cycles sz 0 s), s)
         else
           let bits = size_bits sz; v = v0 AND size_mask sz;
               (result, c) = (if bits \<le> shift then (0, flag CFLAG_SET (shift = bits \<and> v AND size_msb sz \<noteq> 0))
                              else (drop_bit shift v, flag CFLAG_SET (drop_bit (shift - 1) v AND 1 \<noteq> 0)));
               s = set_logic_flags_nv result sz (s\<lparr> c_flag := c, x_flag := c, v_flag := 0 \<rparr>)
           in ((result, shift_reg_cycles sz shift s), s))"

text \<open>The effective count of ROL and ROR: a multiple of the width still makes a full turn.\<close>

definition rotate_steps :: "opsize \<Rightarrow> nat \<Rightarrow> nat" where
  "rotate_steps sz cnt = (if cnt mod size_bits sz = 0 then size_bits sz else cnt mod size_bits sz)"

definition exec_rol :: "opsize \<Rightarrow> u32 \<Rightarrow> u32 \<Rightarrow> 'a cpu_core_scheme \<Rightarrow> (u32 \<times> int) \<times> 'a cpu_core_scheme" where
  "exec_rol sz shift0 v0 s =
     (let bits = size_bits sz; m = size_mask sz; cnt = unat (shift0 AND 63); v = v0 AND m
      in if cnt = 0 then
           let s = set_logic_flags_nv v sz (s\<lparr> c_flag := 0, v_flag := 0 \<rparr>)
           in ((v, shift_reg_cycles sz 0 s), s)
         else
           let steps = rotate_steps sz cnt;
               carry = drop_bit (bits - steps) v AND 1;
               result = (if steps = bits then v else (push_bit steps v OR drop_bit (bits - steps) v) AND m);
               s = set_logic_flags_nv result sz (s\<lparr> c_flag := flag CFLAG_SET (carry \<noteq> 0), v_flag := 0 \<rparr>)
           in ((result, shift_reg_cycles sz cnt s), s))"

definition exec_ror :: "opsize \<Rightarrow> u32 \<Rightarrow> u32 \<Rightarrow> 'a cpu_core_scheme \<Rightarrow> (u32 \<times> int) \<times> 'a cpu_core_scheme" where
  "exec_ror sz shift0 v0 s =
     (let bits = size_bits sz; m = size_mask sz; cnt = unat (shift0 AND 63); v = v0 AND m
      in if cnt = 0 then
           let s = set_logic_flags_nv v sz (s\<lparr> c_flag := 0, v_flag := 0 \<rparr>)
           in ((v, shift_reg_cycles sz 0 s), s)
         else
           let steps = rotate_steps sz cnt;
               carry = drop_bit (steps - 1) v AND 1;
               result = (if steps = bits then v else (drop_bit steps v OR push_bit (bits - steps) v) AND m);
               s = set_logic_flags_nv result sz (s\<lparr> c_flag := flag CFLAG_SET (carry \<noteq> 0), v_flag := 0 \<rparr>)
           in ((result, shift_reg_cycles sz cnt s), s))"

fun roxl_loop :: "opsize \<Rightarrow> nat \<Rightarrow> u32 \<times> u32 \<Rightarrow> u32 \<times> u32" where
  "roxl_loop sz 0 st = st"
| "roxl_loop sz (Suc n) (result, x) =
     (let carry = drop_bit (size_bits sz - 1) result AND 1
      in roxl_loop sz n ((push_bit 1 result OR x) AND size_mask sz, carry))"

fun roxr_loop :: "opsize \<Rightarrow> nat \<Rightarrow> u32 \<times> u32 \<Rightarrow> u32 \<times> u32" where
  "roxr_loop sz 0 st = st"
| "roxr_loop sz (Suc n) (result, x) =
     (let carry = result AND 1
      in roxr_loop sz n (drop_bit 1 result OR (if x \<noteq> 0 then size_msb sz else 0), carry))"

definition rotate_through_x ::
  "(opsize \<Rightarrow> nat \<Rightarrow> u32 \<times> u32 \<Rightarrow> u32 \<times> u32) \<Rightarrow> opsize \<Rightarrow> u32 \<Rightarrow> u32 \<Rightarrow> 'a cpu_core_scheme \<Rightarrow>
   (u32 \<times> int) \<times> 'a cpu_core_scheme" where
  "rotate_through_x loop sz shift v0 s =
     (let count = unat shift; steps = count mod (size_bits sz + 1); v = v0 AND size_mask sz
      in if steps = 0 then
           let s = set_logic_flags_nv v sz (s\<lparr> c_flag := x_flag s, v_flag := 0 \<rparr>)
           in ((v, shift_reg_cycles sz count s), s)
         else
           let (result, x) = loop sz steps (v, if x_flag s \<noteq> 0 then 1 else 0);
               c = flag CFLAG_SET (x \<noteq> 0);
               s = set_logic_flags_nv result sz (s\<lparr> c_flag := c, x_flag := c, v_flag := 0 \<rparr>)
           in ((result, shift_reg_cycles sz count s), s))"

definition exec_roxl :: "opsize \<Rightarrow> u32 \<Rightarrow> u32 \<Rightarrow> 'a cpu_core_scheme \<Rightarrow> (u32 \<times> int) \<times> 'a cpu_core_scheme" where
  "exec_roxl = rotate_through_x roxl_loop"

definition exec_roxr :: "opsize \<Rightarrow> u32 \<Rightarrow> u32 \<Rightarrow> 'a cpu_core_scheme \<Rightarrow> (u32 \<times> int) \<times> 'a cpu_core_scheme" where
  "exec_roxr = rotate_through_x roxr_loop"

section \<open>Bits of sized operands\<close>

lemma below_width: "i < size_bits sz \<Longrightarrow> i < 32" "size_bits sz - Suc 0 < 32"
  by (cases sz; simp)+

lemma bit_size_mask: "bit (size_mask sz) i \<longleftrightarrow> i < size_bits sz"
  by (auto simp: size_mask_eq_mask bit_mask_iff below_width)

lemma bit_size_msb: "bit (size_msb sz) i \<longleftrightarrow> i = size_bits sz - 1"
  by (auto simp: size_msb_eq_exp bit_exp_iff below_width)

lemma and_one_iff: "x AND 1 \<noteq> 0 \<longleftrightarrow> bit (x :: u32) 0"
  using and_exp_iff [of 0 x] by simp

lemma and_push_one: "n < 32 \<Longrightarrow> x AND push_bit n 1 \<noteq> 0 \<longleftrightarrow> bit (x :: u32) n"
  using and_exp_iff [of n x] by (simp add: push_bit_eq_mult)

lemma uvalue_bits: "bit (uvalue sz x) i \<longleftrightarrow> i < size_bits sz \<and> bit x i"
  by (auto simp: uvalue_def uval_def bit_take_bit_iff bit_uint_iff below_width)

lemma svalue_bits: "bit (svalue sz x) i \<longleftrightarrow> bit x (min i (size_bits sz - 1))"
  by (auto simp: svalue_def sval_def bit_signed_take_bit_iff bit_uint_iff min_def below_width dest: bit_imp_le_length below_width(1))

lemma uvalue_push: "uvalue sz (push_bit n x) = uvalue sz x * 2 ^ n mod 2 ^ size_bits sz"
proof -
  have "uvalue sz (push_bit n x) = take_bit (size_bits sz) (push_bit n (uvalue sz x))"
    by (rule bit_eqI) (auto simp: uvalue_bits bit_take_bit_iff bit_push_bit_iff dest: below_width(1))
  then show ?thesis by (simp add: take_bit_eq_mod push_bit_eq_mult)
qed

lemma uvalue_drop: "uvalue sz (drop_bit n (x AND size_mask sz)) = uvalue sz x div 2 ^ n"
proof -
  have "uvalue sz (drop_bit n (x AND size_mask sz)) = drop_bit n (uvalue sz x)"
    by (rule bit_eqI) (auto simp: uvalue_bits bit_drop_bit_eq bit_and_iff bit_size_mask)
  then show ?thesis by (simp add: drop_bit_eq_div)
qed

lemma masked_eqI: "uvalue sz x = uvalue sz y \<Longrightarrow> x AND size_mask sz = y AND size_mask sz"
  by (metis uint_masked word_uint_eq_iff)

section \<open>Shifts are multiplications and divisions\<close>

text \<open>The product with a power of two is representable at the width.\<close>

definition fits :: "opsize \<Rightarrow> nat \<Rightarrow> u32 \<Rightarrow> bool" where
  "fits sz n x \<longleftrightarrow> - (2 ^ (size_bits sz - 1)) \<le> svalue sz x * 2 ^ n \<and> svalue sz x * 2 ^ n < 2 ^ (size_bits sz - 1)"

lemma fits_0 [simp]: "fits sz 0 x"
  using svalue_range [of sz x] by (simp add: fits_def)

lemma fits_1:
  "fits sz 1 x \<longleftrightarrow> top_bit sz (push_bit 1 x) = top_bit sz x"
  "fits sz 1 x \<Longrightarrow> svalue sz (push_bit 1 x) = 2 * svalue sz x"
proof -
  define h :: int where "h = 2 ^ (size_bits sz - 1)"
  have m: "2 ^ size_bits sz = 2 * h" by (simp add: h_def size_bits_pow)
  have b: "0 \<le> uvalue sz x" "uvalue sz x < 2 * h"
    using uvalue_bounds [of sz x] by (simp_all add: m)
  have "uvalue sz (push_bit 1 x) = (uvalue sz x + uvalue sz x + 0) mod (2 * h)"
    using uvalue_push [of sz 1 x] by (simp add: m del: push_bit_Suc)
  also have "\<dots> = (if 2 * h \<le> uvalue sz x + uvalue sz x + 0 then uvalue sz x + uvalue sz x + 0 - 2 * h
      else uvalue sz x + uvalue sz x + 0)"
    by (rule mod_wrap_up) (use b in auto)
  finally have p: "uvalue sz (push_bit 1 x) = (if h \<le> uvalue sz x then 2 * uvalue sz x - 2 * h else 2 * uvalue sz x)"
    by simp
  show "fits sz 1 x \<longleftrightarrow> top_bit sz (push_bit 1 x) = top_bit sz x"
    using p b unfolding fits_def top_bit_uvalue svalue_eq h_def [symmetric] m by (auto split: if_splits)
  show "fits sz 1 x \<Longrightarrow> svalue sz (push_bit 1 x) = 2 * svalue sz x"
    using p b unfolding fits_def svalue_eq h_def [symmetric] m by (auto split: if_splits)
qed

lemma not_fits_grows: "\<not> fits sz n x \<Longrightarrow> n \<le> k \<Longrightarrow> \<not> fits sz k x"
proof -
  assume n: "\<not> fits sz n x" "n \<le> k"
  define h :: int where "h = 2 ^ (size_bits sz - 1)"
  define v where "v = svalue sz x * 2 ^ n"
  define p :: int where "p = 2 ^ (k - n)"
  have "0 < h" "1 \<le> p" by (simp_all add: h_def p_def)
  have k: "svalue sz x * 2 ^ k = v * p" using n(2) by (simp add: v_def p_def flip: power_add)
  consider "v < - h" | "h \<le> v" using n(1) by (auto simp: fits_def v_def h_def not_le not_less)
  then show "\<not> fits sz k x"
  proof cases
    case 1
    then have "v * p \<le> v * 1" using \<open>1 \<le> p\<close> \<open>0 < h\<close> by (intro mult_left_mono_neg) auto
    with 1 show ?thesis by (simp add: fits_def k h_def)
  next
    case 2
    then have "v * 1 \<le> v * p" using \<open>1 \<le> p\<close> \<open>0 < h\<close> by (intro mult_left_mono) auto
    with 2 show ?thesis by (simp add: fits_def k h_def)
  qed
qed

lemma fits_Suc: "fits sz (Suc n) x \<longleftrightarrow> fits sz 1 x \<and> fits sz n (push_bit 1 x)"
proof (cases "fits sz 1 x")
  case True
  then show ?thesis unfolding fits_def fits_1(2) [OF True] by (simp add: mult_ac)
qed (use not_fits_grows [of sz 1 x "Suc n"] in simp)

lemma fits_wide:
  assumes "size_bits sz \<le> n"
  shows "fits sz n x \<longleftrightarrow> fits sz (size_bits sz) x"
proof (cases "svalue sz x = 0")
  case False
  define h :: int where "h = 2 ^ (size_bits sz - 1)"
  have "0 < h" by (simp add: h_def)
  have "\<not> fits sz (size_bits sz) x"
  proof
    assume "fits sz (size_bits sz) x"
    then have "- h \<le> svalue sz x * (2 * h)" "svalue sz x * (2 * h) < h"
      by (simp_all add: fits_def h_def size_bits_pow)
    then have "- h < (svalue sz x * 2 + 2) * h" "(svalue sz x * 2 - 1) * h < 0" using \<open>0 < h\<close>
      by (simp_all add: algebra_simps)
    then have "- 1 < svalue sz x * 2 + 2" "svalue sz x * 2 - 1 < 0"
      using \<open>0 < h\<close> mult_less_cancel_right_pos [OF \<open>0 < h\<close>, of "- 1" "svalue sz x * 2 + 2"]
      by (simp_all add: mult_less_0_iff)
    then have "svalue sz x = - 1 \<or> svalue sz x = 0" by linarith
    with False \<open>- h \<le> svalue sz x * (2 * h)\<close> \<open>0 < h\<close> show False by auto
  qed
  then show ?thesis using not_fits_grows [OF _ assms] by blast
qed (simp add: fits_def)

lemma mask_push_mask:
  "push_bit n (push_bit k x AND size_mask sz) AND size_mask sz = push_bit (n + k) x AND size_mask sz"
  by (rule bit_word_eqI) (auto simp: bit_and_iff bit_push_bit_iff bit_size_mask)

lemma and_msb_eq: "a AND size_msb sz = b AND size_msb sz \<longleftrightarrow> top_bit sz a = top_bit sz b"
proof
  assume "top_bit sz a = top_bit sz b"
  then show "a AND size_msb sz = b AND size_msb sz"
    by (intro bit_word_eqI) (auto simp: bit_and_iff bit_size_msb top_bit_def)
qed (metis and_top_iff)

lemma width_Suc: obtains b where "size_bits sz = Suc b" "b < 32"
  by (cases sz) simp_all

lemma top_bit_push: "top_bit sz (push_bit k w) \<longleftrightarrow> k < size_bits sz \<and> bit w (size_bits sz - 1 - k)"
proof -
  obtain b where b: "size_bits sz = Suc b" "b < 32" by (rule width_Suc)
  show ?thesis
    unfolding top_bit_def b(1) bit_push_bit_iff using b(2) by auto
qed

lemma top_bit_push_mask:
  "top_bit sz (push_bit j (push_bit 1 x AND size_mask sz)) = top_bit sz (push_bit (Suc j) x)"
proof -
  obtain b where b: "size_bits sz = Suc b" "b < 32" by (rule width_Suc)
  show ?thesis
    unfolding top_bit_push bit_and_iff bit_size_mask bit_push_bit_iff b(1) using b(2) by (cases "j < b") auto
qed

lemma asl_loop_closed:
  assumes "x AND size_mask sz = x"
  shows "asl_loop sz n (x, l, ov) = (push_bit n x AND size_mask sz,
    if n = 0 then l else push_bit (n - 1) x AND size_msb sz, ov \<or> \<not> fits sz n x)"
  using assms
proof (induction n arbitrary: x l ov)
  case (Suc n)
  define y where "y = push_bit 1 x AND size_mask sz"
  have y: "y AND size_mask sz = y" by (simp add: y_def and.assoc)
  have "fits sz n y = fits sz n (push_bit 1 x)" by (simp add: fits_def y_def)
  then have f: "fits sz (Suc n) x \<longleftrightarrow> top_bit sz (push_bit 1 x) = top_bit sz x \<and> fits sz n y"
    using fits_Suc [of sz n x] fits_1(1) [of sz x] by simp
  have l: "(if n = 0 then x AND size_msb sz else push_bit (n - 1) y AND size_msb sz) = push_bit n x AND size_msb sz"
  proof (cases n)
    case (Suc j)
    then have "top_bit sz (push_bit j y) = top_bit sz (push_bit (Suc j) x)"
      unfolding y_def by (simp only: top_bit_push_mask)
    then show ?thesis by (simp add: Suc and_msb_eq)
  qed simp
  have "asl_loop sz (Suc n) (x, l, ov) =
    asl_loop sz n (y, x AND size_msb sz, ov \<or> top_bit sz (push_bit 1 x) \<noteq> top_bit sz x)"
    unfolding asl_loop.simps Let_def and_msb_eq y_def ..
  also have "\<dots> = (push_bit n y AND size_mask sz, if n = 0 then x AND size_msb sz else push_bit (n - 1) y AND size_msb sz,
      (ov \<or> top_bit sz (push_bit 1 x) \<noteq> top_bit sz x) \<or> \<not> fits sz n y)"
    by (rule Suc.IH [OF y])
  also have "push_bit n y AND size_mask sz = push_bit (Suc n) x AND size_mask sz"
    using mask_push_mask [of n 1 x sz] by (simp add: y_def del: push_bit_Suc)
  finally show ?case unfolding l f by auto
qed simp

lemma nv_view [simp]:
  "flag_n (set_logic_flags_nv v sz s) \<longleftrightarrow> svalue sz v < 0"
  "flag_z (set_logic_flags_nv v sz s) \<longleftrightarrow> uvalue sz v = 0"
  "flag_v (set_logic_flags_nv v sz s) = flag_v s" "flag_c (set_logic_flags_nv v sz s) = flag_c s"
  "flag_x (set_logic_flags_nv v sz s) = flag_x s" "x_flag (set_logic_flags_nv v sz s) = x_flag s"
  "c_flag (set_logic_flags_nv v sz s) = c_flag s" "v_flag (set_logic_flags_nv v sz s) = v_flag s"
  using and_top_iff [of v sz]
  by (simp_all add: set_logic_flags_nv_def flag_defs masked_eq_0_iff top_bit_svalue)

lemma flag_update_view [simp]:
  "flag_c (s\<lparr> c_flag := c, x_flag := x, v_flag := v \<rparr>) \<longleftrightarrow> c \<noteq> 0"
  "flag_v (s\<lparr> c_flag := c, x_flag := x, v_flag := v \<rparr>) \<longleftrightarrow> v \<noteq> 0"
  "flag_x (s\<lparr> c_flag := c, x_flag := x, v_flag := v \<rparr>) \<longleftrightarrow> x \<noteq> 0"
  by (simp_all add: flag_defs)

text \<open>What a shift by \<open>n\<close> leaves: result, carry, and the flags that follow from them.\<close>

definition shifted :: "opsize \<Rightarrow> nat \<Rightarrow> u32 \<Rightarrow> bool \<Rightarrow> 'a cpu_core_scheme \<Rightarrow> 'a cpu_core_scheme \<Rightarrow> bool" where
  "shifted sz n r carry s s' \<longleftrightarrow>
     (flag_c s' \<longleftrightarrow> 0 < n \<and> carry) \<and> (flag_x s' \<longleftrightarrow> (if n = 0 then flag_x s else carry)) \<and>
     (flag_n s' \<longleftrightarrow> svalue sz r < 0) \<and> (flag_z s' \<longleftrightarrow> uvalue sz r = 0)"

definition shift_count :: "u32 \<Rightarrow> nat" where
  "shift_count k = unat (k AND 63)"

lemma uvalue_0 [simp]: "uvalue sz 0 = 0"
  by (simp add: uvalue_def uval_def)

lemma uvalue_push_wide: "size_bits sz \<le> n \<Longrightarrow> uvalue sz x * 2 ^ n mod 2 ^ size_bits sz = 0"
  by (simp add: le_imp_power_dvd)

lemma logic_zero_shift:
  "shifted sz 0 v carry s (set_logic_flags v sz (s\<lparr> c_flag := 0 \<rparr>))"
  by (simp add: shifted_def) (simp add: set_logic_flags_def flag_defs)

lemma exec_asl_closed:
  assumes "exec_asl sz k v s = ((r, c), s')" and n: "n = shift_count k"
  shows "uvalue sz r = uvalue sz v * 2 ^ n mod 2 ^ size_bits sz \<and>
    (flag_v s' \<longleftrightarrow> \<not> fits sz n v) \<and> shifted sz n r (n \<le> size_bits sz \<and> bit (uvalue sz v) (size_bits sz - n)) s s'"
proof (cases "n = 0")
  case True
  then have "r = v" "s' = set_logic_flags v sz (s\<lparr> c_flag := 0 \<rparr>)"
    using assms by (auto simp: exec_asl_def shift_count_def Let_def)
  then show ?thesis
    using True logic_zero_shift [of sz v _ s] uvalue_bounds [of sz v] by (simp add: mod_pos_pos_trivial)
next
  case False
  define m where "m = min n (size_bits sz)"
  have m: "m \<noteq> 0" "n \<le> size_bits sz \<Longrightarrow> m = n" "size_bits sz < n \<Longrightarrow> m = size_bits sz"
    using False by (auto simp: m_def)
  define x where "x = v AND size_mask sz"
  have x: "x AND size_mask sz = x" "uvalue sz x = uvalue sz v" "svalue sz x = svalue sz v"
    by (simp_all add: x_def and.assoc)
  have r: "r = push_bit m x AND size_mask sz"
    and s': "s' = set_logic_flags_nv r sz (s\<lparr>
       c_flag := (if size_bits sz < n then 0 else flag CFLAG_SET (push_bit (m - 1) x AND size_msb sz \<noteq> 0)),
       x_flag := (if size_bits sz < n then 0 else flag CFLAG_SET (push_bit (m - 1) x AND size_msb sz \<noteq> 0)),
       v_flag := flag 0x80 (\<not> fits sz m x) \<rparr>)"
    using assms(1) False m(1) asl_loop_closed [OF x(1), of m 0 False]
    unfolding exec_asl_def shift_count_def [symmetric] x_def [symmetric] n [symmetric] m_def [symmetric] Let_def
    by auto
  have ur: "uvalue sz r = uvalue sz v * 2 ^ n mod 2 ^ size_bits sz"
  proof (cases "size_bits sz < n")
    case True
    then show ?thesis using m(3) uvalue_push_wide [of sz m v] uvalue_push_wide [of sz n v]
      by (simp add: r uvalue_push x)
  qed (simp add: r uvalue_push m(2) x)
  have f: "fits sz m x \<longleftrightarrow> fits sz n v"
    using fits_wide [of sz n v] m(2,3) by (cases "size_bits sz < n") (auto simp: fits_def x)
  have "push_bit (m - 1) x AND size_msb sz \<noteq> 0 \<longleftrightarrow> bit (uvalue sz v) (size_bits sz - n)"
    if "n \<le> size_bits sz"
    using that m(1,2) False
    by (auto simp: and_top_iff top_bit_push uvalue_bits x_def bit_and_iff bit_size_mask)
  then show ?thesis
    using False ur f by (simp add: s' shifted_def)
qed

lemma exec_lsl_closed:
  assumes "exec_lsl sz k v s = ((r, c), s')" and n: "n = shift_count k"
  shows "uvalue sz r = uvalue sz v * 2 ^ n mod 2 ^ size_bits sz \<and>
    \<not> flag_v s' \<and> shifted sz n r (n \<le> size_bits sz \<and> bit (uvalue sz v) (size_bits sz - n)) s s'"
proof (cases "n = 0")
  case True
  then have "r = v" "s' = set_logic_flags v sz (s\<lparr> c_flag := 0 \<rparr>)"
    using assms by (auto simp: exec_lsl_def shift_count_def Let_def)
  then show ?thesis
    using True logic_zero_shift [of sz v _ s] uvalue_bounds [of sz v] by (simp add: mod_pos_pos_trivial)
next
  case False
  define carry where "carry \<longleftrightarrow> n \<le> size_bits sz \<and> bit v (size_bits sz - n)"
  have "r = (if size_bits sz \<le> n then 0 else push_bit n v AND size_mask sz) \<and>
      s' = set_logic_flags_nv r sz (s\<lparr> c_flag := flag CFLAG_SET carry, x_flag := flag CFLAG_SET carry, v_flag := 0 \<rparr>)"
    using assms(1) False
    unfolding exec_lsl_def shift_count_def [symmetric] n [symmetric] Let_def and_one_iff
    by (auto simp: carry_def bit_drop_bit_eq)
  moreover have "carry \<longleftrightarrow> n \<le> size_bits sz \<and> bit (uvalue sz v) (size_bits sz - n)"
    using False by (auto simp: carry_def uvalue_bits)
  ultimately show ?thesis
    using False uvalue_push_wide [of sz n v] uvalue_push [of sz n v]
    by (auto simp: shifted_def)
qed

lemma exec_lsr_closed:
  assumes "exec_lsr sz k v s = ((r, c), s')" and n: "n = shift_count k"
  shows "uvalue sz r = uvalue sz v div 2 ^ n \<and> \<not> flag_v s' \<and> shifted sz n r (bit (uvalue sz v) (n - 1)) s s'"
proof (cases "n = 0")
  case True
  then have "r = v" "s' = set_logic_flags v sz (s\<lparr> c_flag := 0 \<rparr>)"
    using assms by (auto simp: exec_lsr_def shift_count_def Let_def)
  then show ?thesis
    using True logic_zero_shift [of sz v _ s] by simp
next
  case False
  define carry where "carry \<longleftrightarrow> bit (uvalue sz v) (n - 1)"
  have msb: "(v AND size_mask sz) AND size_msb sz \<noteq> 0 \<longleftrightarrow> bit (uvalue sz v) (size_bits sz - 1)"
    unfolding and_top_iff top_bit_of_mask by (simp add: top_bit_def uvalue_bits)
  have one: "drop_bit (n - 1) (v AND size_mask sz) AND 1 \<noteq> 0 \<longleftrightarrow> bit (uvalue sz v) (n - 1)"
    unfolding and_one_iff by (auto simp: bit_drop_bit_eq bit_and_iff bit_size_mask uvalue_bits)
  have wide: "(n = size_bits sz \<and> bit (uvalue sz v) (size_bits sz - 1)) = carry" if "size_bits sz \<le> n"
  proof (cases "n = size_bits sz")
    case False
    with that have "\<not> n - 1 < size_bits sz" by simp
    with False show ?thesis by (simp add: carry_def uvalue_bits)
  qed (simp add: carry_def)
  have "r = (if size_bits sz \<le> n then 0 else drop_bit n (v AND size_mask sz)) \<and>
      s' = set_logic_flags_nv r sz (s\<lparr> c_flag := flag CFLAG_SET carry, x_flag := flag CFLAG_SET carry, v_flag := 0 \<rparr>)"
    using assms(1) False wide
    unfolding exec_lsr_def shift_count_def [symmetric] n [symmetric] Let_def msb one carry_def [symmetric]
    by (cases "size_bits sz \<le> n") auto
  moreover have "uvalue sz v div 2 ^ n = 0" if "size_bits sz \<le> n"
  proof -
    have "uvalue sz v < 2 ^ size_bits sz" by (rule uvalue_bounds)
    also have "(2 :: int) ^ size_bits sz \<le> 2 ^ n" using that by (intro power_increasing) auto
    finally show ?thesis by (intro div_pos_pos_trivial uvalue_bounds)
  qed
  ultimately show ?thesis
    using False uvalue_drop [of sz n v] by (auto simp: shifted_def carry_def)
qed

lemma exec_asr_closed:
  assumes "exec_asr sz k v s = ((r, c), s')" and n: "n = shift_count k"
  shows "svalue sz r = svalue sz v div 2 ^ n \<and> \<not> flag_v s' \<and> shifted sz n r (bit (svalue sz v) (n - 1)) s s'"
proof (cases "n = 0")
  case True
  then have "r = v" "s' = set_logic_flags v sz (s\<lparr> c_flag := 0 \<rparr>)"
    using assms by (auto simp: exec_asr_def shift_count_def Let_def)
  then show ?thesis
    using True logic_zero_shift [of sz v _ s] by simp
next
  case False
  obtain b where b: "size_bits sz = Suc b" "b < 32" by (rule width_Suc)
  define w where "w = (if size_bits sz \<le> n then (if v AND size_msb sz \<noteq> 0 then size_mask sz else 0)
      else if v AND size_msb sz \<noteq> 0 then drop_bit n (v AND size_mask sz) OR push_bit (size_bits sz - n) (size_mask sz)
      else drop_bit n (v AND size_mask sz)) AND size_mask sz"
  define l where "l = (if size_bits sz \<le> n then v AND size_msb sz else (v AND size_mask sz) AND push_bit (n - 1) 1)"
  have r: "r = w AND size_mask sz" and s': "s' = set_logic_flags_nv w sz
      (s\<lparr> c_flag := flag CFLAG_SET (l \<noteq> 0), x_flag := flag CFLAG_SET (l \<noteq> 0), v_flag := 0 \<rparr>)"
    using assms(1) False
    unfolding exec_asr_def shift_count_def [symmetric] n [symmetric] Let_def w_def [symmetric] l_def [symmetric]
    by auto
  have bits: "bit w i \<longleftrightarrow> bit v (min (i + n) b)" if "i \<le> b" for i
    using that b(2) unfolding w_def and_msb_iff
    by (auto simp: b(1) bit_and_iff bit_or_iff bit_drop_bit_eq bit_push_bit_iff bit_size_mask min_def add.commute)
  have "svalue sz r = drop_bit n (svalue sz v)"
    by (rule bit_eqI) (auto simp: svalue_bits r bit_and_iff bit_size_mask bit_drop_bit_eq bits b(1) min_def add.commute)
  moreover have "l \<noteq> 0 \<longleftrightarrow> bit (svalue sz v) (n - 1)"
  proof (cases "size_bits sz \<le> n")
    case True
    then have "min (n - 1) b = b" by (simp add: b(1))
    with True show ?thesis by (simp add: l_def and_msb_iff svalue_bits b(1))
  next
    case False
    then have "min (n - 1) b = n - 1" "n - 1 < 32" "n - 1 < Suc b" using b by auto
    with False show ?thesis
      using and_push_one [of "n - 1" "v AND size_mask sz"]
      by (simp add: l_def svalue_bits bit_and_iff bit_size_mask b(1))
  qed
  ultimately show ?thesis
    using False by (simp add: s' r shifted_def drop_bit_eq_div)
qed

text \<open>
  C14. Shifts are arithmetic: for every count, ASL and LSL multiply by a power of two modulo
  the width, LSR divides the unsigned number and ASR the signed one, rounding down. The carry
  is the last bit shifted out and X follows it unless the count is zero; ASL sets V exactly
  when the signed product does not fit, the others clear it.
\<close>

theorem shift_closed_forms:
  "(case exec_asl sz k v s of ((r, _), s') \<Rightarrow>
      uvalue sz r = uvalue sz v * 2 ^ shift_count k mod 2 ^ size_bits sz \<and>
      (flag_v s' \<longleftrightarrow> \<not> fits sz (shift_count k) v) \<and>
      shifted sz (shift_count k) r
        (shift_count k \<le> size_bits sz \<and> bit (uvalue sz v) (size_bits sz - shift_count k)) s s') \<and>
   (case exec_lsl sz k v s of ((r, _), s') \<Rightarrow>
      uvalue sz r = uvalue sz v * 2 ^ shift_count k mod 2 ^ size_bits sz \<and> \<not> flag_v s' \<and>
      shifted sz (shift_count k) r
        (shift_count k \<le> size_bits sz \<and> bit (uvalue sz v) (size_bits sz - shift_count k)) s s') \<and>
   (case exec_lsr sz k v s of ((r, _), s') \<Rightarrow>
      uvalue sz r = uvalue sz v div 2 ^ shift_count k \<and> \<not> flag_v s' \<and>
      shifted sz (shift_count k) r (bit (uvalue sz v) (shift_count k - 1)) s s') \<and>
   (case exec_asr sz k v s of ((r, _), s') \<Rightarrow>
      svalue sz r = svalue sz v div 2 ^ shift_count k \<and> \<not> flag_v s' \<and>
      shifted sz (shift_count k) r (bit (svalue sz v) (shift_count k - 1)) s s')"
  using exec_asl_closed [of sz k v s] exec_lsl_closed [of sz k v s] exec_lsr_closed [of sz k v s]
    exec_asr_closed [of sz k v s]
  by (auto split: prod.split)

section \<open>Rotates move bits in a circle\<close>

lemma mod_wrap_nat: "i < b \<Longrightarrow> t \<le> b \<Longrightarrow> (i + t) mod b = (if i + t < b then i + t else i + t - (b :: nat))"
  using le_mod_geq [of b "i + t"] by simp

lemma rotate_steps: "0 < rotate_steps sz n" "rotate_steps sz n \<le> size_bits sz"
    "(i + n) mod size_bits sz = (i + rotate_steps sz n) mod size_bits sz"
proof -
  have "n mod size_bits sz < size_bits sz" by (rule mod_less_divisor) simp
  then show "0 < rotate_steps sz n" "rotate_steps sz n \<le> size_bits sz"
    by (simp_all add: rotate_steps_def)
  have "(i + n) mod size_bits sz = (i + n mod size_bits sz) mod size_bits sz" by (simp add: mod_add_right_eq)
  then show "(i + n) mod size_bits sz = (i + rotate_steps sz n) mod size_bits sz"
    by (simp add: rotate_steps_def)
qed

definition keeps_width :: "opsize \<Rightarrow> u32 \<Rightarrow> bool" where
  "keeps_width sz r \<longleftrightarrow> r AND size_mask sz = r"

lemma keeps_width_and [simp]: "keeps_width sz (x AND size_mask sz)" "keeps_width sz (x AND size_mask sz AND y)"
    "keeps_width sz 0"
  by (simp_all add: keeps_width_def ac_simps)

lemma keeps_width_bit: "keeps_width sz r \<Longrightarrow> bit r i \<Longrightarrow> i < size_bits sz"
  by (metis bit_and_iff bit_size_mask keeps_width_def)

text \<open>What a rotate that leaves X alone does to the other flags.\<close>

definition rotated :: "opsize \<Rightarrow> u32 \<Rightarrow> bool \<Rightarrow> 'a cpu_core_scheme \<Rightarrow> 'a cpu_core_scheme \<Rightarrow> bool" where
  "rotated sz r carry s s' \<longleftrightarrow> keeps_width sz r \<and> (flag_c s' \<longleftrightarrow> carry) \<and> x_flag s' = x_flag s \<and>
     \<not> flag_v s' \<and> (flag_n s' \<longleftrightarrow> svalue sz r < 0) \<and> (flag_z s' \<longleftrightarrow> r = 0)"

lemma rotatedI:
  "keeps_width sz r \<Longrightarrow> rotated sz r (c \<noteq> 0) s (set_logic_flags_nv r sz (s\<lparr> c_flag := c, v_flag := 0 \<rparr>))"
proof -
  assume "keeps_width sz r"
  then have "uvalue sz r = 0 \<longleftrightarrow> r = 0"
    unfolding keeps_width_def by (metis masked_eq_0_iff)
  moreover have "flag_c (s\<lparr> c_flag := c, v_flag := 0 \<rparr>) \<longleftrightarrow> c \<noteq> 0" "\<not> flag_v (s\<lparr> c_flag := c, v_flag := 0 \<rparr>)"
    by (simp_all add: flag_defs)
  ultimately show ?thesis using \<open>keeps_width sz r\<close> by (simp add: rotated_def)
qed

lemma exec_rol_closed:
  assumes "exec_rol sz k v s = ((r, c), s')" and n: "n = shift_count k"
  shows "(\<forall>i < size_bits sz. bit r ((i + n) mod size_bits sz) = bit v i) \<and> rotated sz r (n \<noteq> 0 \<and> bit r 0) s s'"
proof (cases "n = 0")
  case True
  then have "r = v AND size_mask sz" "s' = set_logic_flags_nv r sz (s\<lparr> c_flag := 0, v_flag := 0 \<rparr>)"
    using assms by (auto simp: exec_rol_def shift_count_def Let_def)
  then show ?thesis
    using True rotatedI [of sz r 0 s] by (simp add: bit_and_iff bit_size_mask)
next
  case False
  define b where "b = size_bits sz"
  define t where "t = rotate_steps sz n"
  have t: "0 < t" "t \<le> b" using rotate_steps(1,2) [of sz n] by (simp_all add: t_def b_def)
  have b: "0 < b" "i < b \<Longrightarrow> i < 32" for i by (simp_all add: b_def below_width)
  have r: "r = (if t = b then v AND size_mask sz
      else (push_bit t (v AND size_mask sz) OR drop_bit (b - t) (v AND size_mask sz)) AND size_mask sz)"
    and s': "s' = set_logic_flags_nv r sz (s\<lparr> c_flag :=
      flag CFLAG_SET (drop_bit (b - t) (v AND size_mask sz) AND 1 \<noteq> 0), v_flag := 0 \<rparr>)"
    using assms(1) False
    unfolding exec_rol_def shift_count_def [symmetric] n [symmetric] Let_def t_def [symmetric] b_def [symmetric]
    by auto
  have bits: "bit r i \<longleftrightarrow> (if t \<le> i then bit v (i - t) else bit v (b + i - t))" if "i < b" for i
    using that t b(2) [OF that] unfolding r
    by (auto simp: bit_and_iff bit_or_iff bit_push_bit_iff bit_drop_bit_eq bit_size_mask b_def [symmetric])
  have "bit r ((i + n) mod b) = bit v i" if "i < b" for i
  proof -
    have "(i + n) mod b = (if i + t < b then i + t else i + t - b)"
      using rotate_steps(3) [where i = i and n = n and sz = sz] mod_wrap_nat [OF that t(2)] by (simp add: b_def t_def)
    then show ?thesis using that t by (auto simp: bits)
  qed
  moreover have "flag CFLAG_SET (drop_bit (b - t) (v AND size_mask sz) AND 1 \<noteq> 0) \<noteq> 0 \<longleftrightarrow> bit r 0"
    using t b bits [of 0] by (simp add: and_one_iff bit_drop_bit_eq bit_and_iff bit_size_mask flip: b_def)
  moreover have "keeps_width sz r" unfolding r by (auto simp: keeps_width_def and.assoc)
  ultimately show ?thesis
    using False rotatedI [of sz r "flag CFLAG_SET (drop_bit (b - t) (v AND size_mask sz) AND 1 \<noteq> 0)" s]
    by (simp add: s' b_def)
qed

lemma exec_ror_closed:
  assumes "exec_ror sz k v s = ((r, c), s')" and n: "n = shift_count k"
  shows "(\<forall>i < size_bits sz. bit r i = bit v ((i + n) mod size_bits sz)) \<and>
    rotated sz r (n \<noteq> 0 \<and> bit r (size_bits sz - 1)) s s'"
proof (cases "n = 0")
  case True
  then have "r = v AND size_mask sz" "s' = set_logic_flags_nv r sz (s\<lparr> c_flag := 0, v_flag := 0 \<rparr>)"
    using assms by (auto simp: exec_ror_def shift_count_def Let_def)
  then show ?thesis
    using True rotatedI [of sz r 0 s] by (simp add: bit_and_iff bit_size_mask)
next
  case False
  define b where "b = size_bits sz"
  define t where "t = rotate_steps sz n"
  have t: "0 < t" "t \<le> b" using rotate_steps(1,2) [of sz n] by (simp_all add: t_def b_def)
  have b: "0 < b" "i < b \<Longrightarrow> i < 32" for i by (simp_all add: b_def below_width)
  have r: "r = (if t = b then v AND size_mask sz
      else (drop_bit t (v AND size_mask sz) OR push_bit (b - t) (v AND size_mask sz)) AND size_mask sz)"
    and s': "s' = set_logic_flags_nv r sz (s\<lparr> c_flag :=
      flag CFLAG_SET (drop_bit (t - 1) (v AND size_mask sz) AND 1 \<noteq> 0), v_flag := 0 \<rparr>)"
    using assms(1) False
    unfolding exec_ror_def shift_count_def [symmetric] n [symmetric] Let_def t_def [symmetric] b_def [symmetric]
    by auto
  have bits: "bit r i = bit v ((i + n) mod b)" if "i < b" for i
  proof -
    have m: "(i + n) mod b = (if i + t < b then i + t else i + t - b)"
      using rotate_steps(3) [where i = i and n = n and sz = sz] mod_wrap_nat [OF that t(2)] by (simp add: b_def t_def)
    show ?thesis
      using that t b(2) [OF that] unfolding r m
      by (auto simp: bit_and_iff bit_or_iff bit_push_bit_iff bit_drop_bit_eq bit_size_mask b_def [symmetric]
          add.commute)
  qed
  moreover have "flag CFLAG_SET (drop_bit (t - 1) (v AND size_mask sz) AND 1 \<noteq> 0) \<noteq> 0 \<longleftrightarrow> bit r (b - 1)"
  proof -
    have "(b - 1 + n) mod b = (b - 1 + t) mod b" using rotate_steps(3) [where i = "b - 1" and n = n and sz = sz] by (simp add: b_def t_def)
    also have "\<dots> = t - 1" using mod_wrap_nat [of "b - 1" b t] t b by simp
    finally show ?thesis
      using t b bits [of "b - 1"] less_le_trans [of "t - 1" t b] by (simp add: and_one_iff bit_drop_bit_eq bit_and_iff bit_size_mask flip: b_def)
  qed
  moreover have "keeps_width sz r" unfolding r by (auto simp: keeps_width_def and.assoc)
  ultimately show ?thesis
    using False rotatedI [of sz r "flag CFLAG_SET (drop_bit (t - 1) (v AND size_mask sz) AND 1 \<noteq> 0)" s]
    by (simp add: s' b_def)
qed

text \<open>The operand with X as the bit above its top.\<close>

definition with_x :: "opsize \<Rightarrow> u32 \<times> u32 \<Rightarrow> nat \<Rightarrow> bool" where
  "with_x sz st j = (if j = size_bits sz then snd st \<noteq> 0 else bit (fst st) j)"

definition ext_ok :: "opsize \<Rightarrow> u32 \<times> u32 \<Rightarrow> bool" where
  "ext_ok sz st \<longleftrightarrow> keeps_width sz (fst st) \<and> (snd st = 0 \<or> snd st = 1)"

lemma roxl_step:
  assumes "ext_ok sz (v, x)"
  defines "st \<equiv> ((push_bit 1 v OR x) AND size_mask sz, drop_bit (size_bits sz - 1) v AND 1)"
  shows "ext_ok sz st" and "j \<le> size_bits sz \<Longrightarrow> with_x sz st ((j + 1) mod (size_bits sz + 1)) = with_x sz (v, x) j"
proof -
  obtain b where b: "size_bits sz = Suc b" "b < 32" by (rule width_Suc)
  have x: "x = (if x \<noteq> 0 then 1 else 0)" using assms(1) by (auto simp: ext_ok_def)
  have x0: "bit x i \<longleftrightarrow> i = 0 \<and> x \<noteq> 0" for i by (subst x) (auto simp: bit_1_iff)
  have one: "y AND 1 = 0 \<or> y AND 1 = 1" for y :: u32
    by (simp add: and_one_eq mod2_eq_if)
  show "ext_ok sz st" using one by (simp add: st_def ext_ok_def)
  have l: "bit (fst st) i \<longleftrightarrow> i < Suc b \<and> (if i = 0 then x \<noteq> 0 else bit v (i - 1))" for i
    using b(2) unfolding st_def fst_conv bit_and_iff bit_or_iff bit_push_bit_iff x0 bit_size_mask b(1)
    by (auto simp: possible_bit_word)
  have c: "snd st \<noteq> 0 \<longleftrightarrow> bit v b"
    by (simp add: st_def and_one_iff bit_drop_bit_eq b(1))
  show "with_x sz st ((j + 1) mod (size_bits sz + 1)) = with_x sz (v, x) j" if "j \<le> size_bits sz"
  proof (cases "j = size_bits sz")
    case True
    then show ?thesis by (simp add: with_x_def l b(1))
  next
    case False
    then have "(j + 1) mod (size_bits sz + 1) = j + 1" using that by simp
    then show ?thesis using False that by (auto simp: with_x_def l c b(1))
  qed
qed

lemma roxr_step:
  assumes "ext_ok sz (v, x)"
  defines "st \<equiv> (drop_bit 1 v OR (if x \<noteq> 0 then size_msb sz else 0), v AND 1)"
  shows "ext_ok sz st" and "j \<le> size_bits sz \<Longrightarrow> with_x sz st j = with_x sz (v, x) ((j + 1) mod (size_bits sz + 1))"
proof -
  obtain b where b: "size_bits sz = Suc b" "b < 32" by (rule width_Suc)
  have v: "bit v i \<Longrightarrow> i < Suc b" for i
    using assms(1) keeps_width_bit [of sz v i] by (simp add: ext_ok_def b(1))
  have one: "v AND 1 = 0 \<or> v AND 1 = 1"
    by (simp add: and_one_eq mod2_eq_if)
  have l: "bit (fst st) i \<longleftrightarrow> bit v (i + 1) \<or> x \<noteq> 0 \<and> i = b" for i
    by (simp add: st_def bit_or_iff bit_drop_bit_eq bit_size_msb b(1))
  have "fst st AND size_mask sz = fst st"
    by (rule bit_word_eqI) (auto simp: bit_and_iff l bit_size_mask b(1) dest: v)
  then show "ext_ok sz st" using one by (simp add: st_def ext_ok_def keeps_width_def)
  have c: "snd st \<noteq> 0 \<longleftrightarrow> bit v 0"
    by (simp add: st_def and_one_iff)
  show "with_x sz st j = with_x sz (v, x) ((j + 1) mod (size_bits sz + 1))" if "j \<le> size_bits sz"
  proof (cases "j = size_bits sz")
    case True
    then show ?thesis by (simp add: with_x_def c b(1))
  next
    case False
    then have "(j + 1) mod (size_bits sz + 1) = j + 1" using that by simp
    then show ?thesis using False that v [of "j + 1"] by (auto simp: with_x_def l b(1))
  qed
qed

lemma roxl_loop_turns:
  assumes "ext_ok sz st" and "j \<le> size_bits sz"
  shows "ext_ok sz (roxl_loop sz n st) \<and>
    with_x sz (roxl_loop sz n st) ((j + n) mod (size_bits sz + 1)) = with_x sz st j"
  using assms
proof (induction n arbitrary: st j)
  case (Suc n)
  obtain v x where st: "st = (v, x)" by force
  define st1 where "st1 = ((push_bit 1 v OR x) AND size_mask sz, drop_bit (size_bits sz - 1) v AND 1)"
  have 1: "roxl_loop sz (Suc n) st = roxl_loop sz n st1"
    by (simp only: st roxl_loop.simps Let_def st1_def)
  have ok: "ext_ok sz st1" and m: "with_x sz st1 ((j + 1) mod (size_bits sz + 1)) = with_x sz st j"
    using roxl_step(1) [of sz v x] roxl_step(2) [of sz v x j] Suc.prems by (simp_all only: st st1_def)
  have "(j + 1) mod (size_bits sz + 1) < size_bits sz + 1" by (rule mod_less_divisor) simp
  then have "(j + 1) mod (size_bits sz + 1) \<le> size_bits sz" by simp
  from Suc.IH [OF ok this] m show ?case
    unfolding 1 by (simp add: mod_add_left_eq)
qed simp

lemma roxr_loop_turns:
  assumes "ext_ok sz st" and "j \<le> size_bits sz"
  shows "ext_ok sz (roxr_loop sz n st) \<and>
    with_x sz (roxr_loop sz n st) j = with_x sz st ((j + n) mod (size_bits sz + 1))"
  using assms
proof (induction n arbitrary: st)
  case (Suc n)
  obtain v x where st: "st = (v, x)" by force
  define st1 where "st1 = (drop_bit 1 v OR (if x \<noteq> 0 then size_msb sz else 0), v AND 1)"
  have 1: "roxr_loop sz (Suc n) st = roxr_loop sz n st1"
    by (simp only: st roxr_loop.simps Let_def st1_def)
  have "(j + n) mod (size_bits sz + 1) < size_bits sz + 1" by (rule mod_less_divisor) simp
  then have k: "(j + n) mod (size_bits sz + 1) \<le> size_bits sz" by simp
  have ok: "ext_ok sz st1" and m: "with_x sz st1 ((j + n) mod (size_bits sz + 1)) =
      with_x sz st (((j + n) mod (size_bits sz + 1) + 1) mod (size_bits sz + 1))"
    using roxr_step(1) [of sz v x] roxr_step(2) [OF _ k, where v = v and x = x] Suc.prems by (simp_all only: st st1_def)
  from Suc.IH [OF ok Suc.prems(2)] m show ?case
    unfolding 1 by (simp add: mod_Suc_eq)
qed simp

text \<open>The result of a rotate through X.\<close>

definition rotated_x :: "opsize \<Rightarrow> u32 \<Rightarrow> 'a cpu_core_scheme \<Rightarrow> bool" where
  "rotated_x sz r s' \<longleftrightarrow> keeps_width sz r \<and> (flag_c s' \<longleftrightarrow> flag_x s') \<and> \<not> flag_v s' \<and>
     (flag_n s' \<longleftrightarrow> svalue sz r < 0) \<and> (flag_z s' \<longleftrightarrow> r = 0)"

lemma rotate_through_x_result:
  assumes "rotate_through_x loop sz k v s = ((r, c), s')"
    and ok: "\<And>n st. ext_ok sz st \<Longrightarrow> ext_ok sz (loop sz n st)"
  shows "\<exists>x0 x. ext_ok sz (v AND size_mask sz, x0) \<and> (x0 \<noteq> 0 \<longleftrightarrow> flag_x s) \<and> (flag_x s' \<longleftrightarrow> x \<noteq> 0) \<and>
    (r, x) = (if unat k mod (size_bits sz + 1) = 0 then (v AND size_mask sz, x0)
              else loop sz (unat k mod (size_bits sz + 1)) (v AND size_mask sz, x0)) \<and> rotated_x sz r s'"
proof -
  define x0 :: u32 where "x0 = (if x_flag s \<noteq> 0 then 1 else 0)"
  define t where "t = unat k mod (size_bits sz + 1)"
  have x0: "ext_ok sz (v AND size_mask sz, x0)" "x0 \<noteq> 0 \<longleftrightarrow> flag_x s"
    by (simp_all add: ext_ok_def x0_def flag_x_def)
  note d = assms(1) [unfolded rotate_through_x_def Let_def, folded x0_def t_def]
  have fin: "rotated_x sz r (set_logic_flags_nv r sz u)"
    if "keeps_width sz r" "c_flag u = x_flag u" "v_flag u = 0" for u :: "'a cpu_core_scheme"
  proof -
    have "uvalue sz r = 0 \<longleftrightarrow> r = 0" using that(1) by (metis keeps_width_def masked_eq_0_iff)
    moreover have "flag_c u = flag_x u" "\<not> flag_v u" using that(2,3) by (simp_all add: flag_defs)
    ultimately show ?thesis using that(1) unfolding rotated_x_def nv_view by blast
  qed
  show ?thesis
  proof (cases "t = 0")
    case True
    define u where "u = s\<lparr> c_flag := x_flag s, v_flag := 0 \<rparr>"
    have u: "c_flag u = x_flag u" "v_flag u = 0" "flag_x u = flag_x s" by (simp_all add: u_def flag_x_def)
    have r: "r = v AND size_mask sz" and s': "s' = set_logic_flags_nv r sz u"
      using d True by (auto simp: u_def)
    have "rotated_x sz r s'" "flag_x s' = flag_x s"
      using fin [of u] u by (simp_all add: s' r)
    with x0 True r show ?thesis unfolding t_def [symmetric] by (intro exI [of _ x0]) simp
  next
    case False
    obtain w x where w: "loop sz t (v AND size_mask sz, x0) = (w, x)" by force
    have ok_w: "ext_ok sz (w, x)" using ok [OF x0(1), of t] by (simp add: w)
    define u where "u = s\<lparr> c_flag := flag CFLAG_SET (x \<noteq> 0), x_flag := flag CFLAG_SET (x \<noteq> 0), v_flag := 0 \<rparr>"
    have u: "c_flag u = x_flag u" "v_flag u = 0" "flag_x u \<longleftrightarrow> x \<noteq> 0" by (simp_all add: u_def flag_x_def)
    have r: "r = w" and s': "s' = set_logic_flags_nv r sz u"
      using d False by (auto simp: w u_def)
    have "rotated_x sz r s'" "flag_x s' \<longleftrightarrow> x \<noteq> 0"
      using fin [of u] u ok_w by (simp_all add: s' r ext_ok_def)
    with x0 False r w show ?thesis unfolding t_def [symmetric] by (intro exI [of _ x0] exI [of _ x]) simp
  qed
qed

lemma with_x_cong: "(x \<noteq> 0 \<longleftrightarrow> y \<noteq> 0) \<Longrightarrow> with_x sz (v, x) j = with_x sz (v, y) j"
  by (simp add: with_x_def)

lemma exec_roxl_closed:
  assumes "exec_roxl sz k v s = ((r, c), s')"
  shows "rotated_x sz r s' \<and> (\<forall>j \<le> size_bits sz. with_x sz (r, x_flag s') ((j + unat k) mod (size_bits sz + 1)) =
    with_x sz (v AND size_mask sz, x_flag s) j)"
proof -
  obtain x0 x where x: "ext_ok sz (v AND size_mask sz, x0)" "x0 \<noteq> 0 \<longleftrightarrow> flag_x s" "flag_x s' \<longleftrightarrow> x \<noteq> 0"
      "(r, x) = (if unat k mod (size_bits sz + 1) = 0 then (v AND size_mask sz, x0)
         else roxl_loop sz (unat k mod (size_bits sz + 1)) (v AND size_mask sz, x0))" "rotated_x sz r s'"
    using rotate_through_x_result [OF assms [unfolded exec_roxl_def]] roxl_loop_turns [of sz _ 0] by blast
  have "with_x sz (r, x) ((j + unat k) mod (size_bits sz + 1)) = with_x sz (v AND size_mask sz, x0) j"
    if "j \<le> size_bits sz" for j
  proof -
    have "(j + unat k) mod (size_bits sz + 1) = (j + unat k mod (size_bits sz + 1)) mod (size_bits sz + 1)"
      by (simp add: mod_add_right_eq)
    then show ?thesis
      using roxl_loop_turns [OF x(1) that, of "unat k mod (size_bits sz + 1)"] x(4) that
      by (auto split: if_splits)
  qed
  then show ?thesis
    using x(2,3,5) with_x_cong [of "x_flag s'" x sz r] with_x_cong [of "x_flag s" x0 sz "v AND size_mask sz"]
    by (simp add: flag_x_def)
qed

lemma exec_roxr_closed:
  assumes "exec_roxr sz k v s = ((r, c), s')"
  shows "rotated_x sz r s' \<and> (\<forall>j \<le> size_bits sz. with_x sz (r, x_flag s') j =
    with_x sz (v AND size_mask sz, x_flag s) ((j + unat k) mod (size_bits sz + 1)))"
proof -
  obtain x0 x where x: "ext_ok sz (v AND size_mask sz, x0)" "x0 \<noteq> 0 \<longleftrightarrow> flag_x s" "flag_x s' \<longleftrightarrow> x \<noteq> 0"
      "(r, x) = (if unat k mod (size_bits sz + 1) = 0 then (v AND size_mask sz, x0)
         else roxr_loop sz (unat k mod (size_bits sz + 1)) (v AND size_mask sz, x0))" "rotated_x sz r s'"
    using rotate_through_x_result [OF assms [unfolded exec_roxr_def]] roxr_loop_turns [of sz _ 0] by blast
  have "with_x sz (r, x) j = with_x sz (v AND size_mask sz, x0) ((j + unat k) mod (size_bits sz + 1))"
    if "j \<le> size_bits sz" for j
  proof -
    have "(j + unat k) mod (size_bits sz + 1) = (j + unat k mod (size_bits sz + 1)) mod (size_bits sz + 1)"
      by (simp add: mod_add_right_eq)
    then show ?thesis
      using roxr_loop_turns [OF x(1) that, of "unat k mod (size_bits sz + 1)"] x(4) that
      by (auto split: if_splits)
  qed
  then show ?thesis
    using x(2,3,5) with_x_cong [of "x_flag s'" x sz r] with_x_cong [of "x_flag s" x0 sz "v AND size_mask sz"]
    by (simp add: flag_x_def)
qed

lemma map_upt_eq_iff: "map f [0..<n] = map g [0..<n] \<longleftrightarrow> (\<forall>i < n. f i = g i)"
  by auto

lemma map_upt_Suc_eq_iff: "map f [0..<n + 1] = map g [0..<n + 1] \<longleftrightarrow> (\<forall>i \<le> n. f i = g i)"
  unfolding map_upt_eq_iff by (auto simp: less_Suc_eq_le)

text \<open>
  C15. Rotates move every bit of the operand the given number of places around the circle: ROL
  and ROR the circle of the operand, with the bit that passed the end in C and X untouched;
  ROXL and ROXR the circle of the operand and X, for counts beyond the width too, and C copies
  X. Rotating back by the same count gives the operand, and for the X forms also X.
\<close>

theorem rotate_closed_forms:
  "(case exec_rol sz k v s of ((r, _), s') \<Rightarrow>
      map (\<lambda>i. bit r ((i + shift_count k) mod size_bits sz)) [0..<size_bits sz] = map (bit v) [0..<size_bits sz] \<and>
      rotated sz r (shift_count k \<noteq> 0 \<and> bit r 0) s s' \<and> fst (fst (exec_ror sz k r s')) = v AND size_mask sz) \<and>
   (case exec_ror sz k v s of ((r, _), s') \<Rightarrow>
      map (bit r) [0..<size_bits sz] = map (\<lambda>i. bit v ((i + shift_count k) mod size_bits sz)) [0..<size_bits sz] \<and>
      rotated sz r (shift_count k \<noteq> 0 \<and> bit r (size_bits sz - 1)) s s') \<and>
   (case exec_roxl sz k v s of ((r, _), s') \<Rightarrow> rotated_x sz r s' \<and>
      map (\<lambda>j. with_x sz (r, x_flag s') ((j + unat k) mod (size_bits sz + 1))) [0..<size_bits sz + 1] =
        map (with_x sz (v AND size_mask sz, x_flag s)) [0..<size_bits sz + 1] \<and>
      (case exec_roxr sz k r s' of ((r2, _), s2) \<Rightarrow> r2 = v AND size_mask sz \<and> flag_x s2 = flag_x s)) \<and>
   (case exec_roxr sz k v s of ((r, _), s') \<Rightarrow> rotated_x sz r s' \<and>
      map (with_x sz (r, x_flag s')) [0..<size_bits sz + 1] =
        map (\<lambda>j. with_x sz (v AND size_mask sz, x_flag s) ((j + unat k) mod (size_bits sz + 1))) [0..<size_bits sz + 1])"
proof -
  have undone: "fst (fst (exec_ror sz k r s')) = v AND size_mask sz" if "exec_rol sz k v s = ((r, c), s')" for r c s'
  proof -
    obtain r2 c2 s2 where r2: "exec_ror sz k r s' = ((r2, c2), s2)" by (metis prod.exhaust)
    have "bit r2 i = (i < size_bits sz \<and> bit v i)" for i
      using exec_rol_closed [OF that refl] exec_ror_closed [OF r2 refl] keeps_width_bit [of sz r2 i]
      by (auto simp: rotated_def)
    then show ?thesis by (intro bit_word_eqI) (auto simp: r2 bit_and_iff bit_size_mask)
  qed
  have undone_x: "r2 = v AND size_mask sz \<and> flag_x s2 = flag_x s"
    if e1: "exec_roxl sz k v s = ((r, c), s')" and e2: "exec_roxr sz k r s' = ((r2, c2), s2)" for r c s' r2 c2 s2
  proof -
    have e: "with_x sz (r2, x_flag s2) j = with_x sz (v AND size_mask sz, x_flag s) j" if "j \<le> size_bits sz" for j
    proof -
      have "r AND size_mask sz = r" using exec_roxl_closed [OF e1] by (simp add: rotated_x_def keeps_width_def)
      with that show ?thesis using exec_roxl_closed [OF e1] exec_roxr_closed [OF e2] by simp
    qed
    have "keeps_width sz r2" using exec_roxr_closed [OF e2] by (simp add: rotated_x_def)
    then have "bit r2 i = (i < size_bits sz \<and> bit v i)" for i
      using e [of i] keeps_width_bit [of sz r2 i] by (auto simp: with_x_def bit_and_iff bit_size_mask)
    then have "r2 = v AND size_mask sz" by (intro bit_word_eqI) (auto simp: bit_and_iff bit_size_mask)
    moreover have "flag_x s2 = flag_x s" using e [of "size_bits sz"] by (simp add: with_x_def flag_x_def)
    ultimately show ?thesis by simp
  qed
  obtain r1 c1 s1 where e1: "exec_rol sz k v s = ((r1, c1), s1)" by (metis prod.exhaust)
  obtain r2 c2 s2 where e2: "exec_ror sz k v s = ((r2, c2), s2)" by (metis prod.exhaust)
  obtain r3 c3 s3 where e3: "exec_roxl sz k v s = ((r3, c3), s3)" by (metis prod.exhaust)
  obtain r4 c4 s4 where e4: "exec_roxr sz k v s = ((r4, c4), s4)" by (metis prod.exhaust)
  obtain r5 c5 s5 where e5: "exec_roxr sz k r3 s3 = ((r5, c5), s5)" by (metis prod.exhaust)
  show ?thesis
    unfolding e1 e2 e3 e4 e5 prod.case map_upt_Suc_eq_iff unfolding map_upt_eq_iff
    by (intro conjI exec_rol_closed [OF e1 refl, THEN conjunct1] exec_rol_closed [OF e1 refl, THEN conjunct2]
        exec_ror_closed [OF e2 refl, THEN conjunct1] exec_ror_closed [OF e2 refl, THEN conjunct2]
        exec_roxl_closed [OF e3, THEN conjunct1] exec_roxl_closed [OF e3, THEN conjunct2]
        exec_roxr_closed [OF e4, THEN conjunct1] exec_roxr_closed [OF e4, THEN conjunct2]
        undone [OF e1] undone_x [OF e3 e5, THEN conjunct1] undone_x [OF e3 e5, THEN conjunct2])
qed

end
