(* ===== verification/Bcd.thy ===== *)
theory Bcd
  imports Data_Movement
begin

unbundle bit_operations_syntax

text \<open>
  Packed decimal arithmetic (\<open>src/core/instructions/bcd.rs\<close>): ABCD, SBCD and NBCD with the
  digit corrections of the hardware model and of the fixture-compatible mode, the flag policy
  of each processor generation, PACK and UNPK. On operands whose nibbles are decimal digits,
  the corrections compute the decimal sum and difference with X as carry and borrow, and so do
  chains of them on numbers of any length.
\<close>

section \<open>Decimal correction\<close>

definition bcd_nv_level :: "'a cpu_core_scheme \<Rightarrow> u8" where
  "bcd_nv_level s =
     (if cpu_model s \<in> {Invalid, M68000, M68010, SCC68070} then 0
      else if cpu_model s \<in> {M68EC020, M68020, M68EC030, M68030} then 2
      else 4)"

definition bcd_set_nvz :: "u32 \<Rightarrow> bool \<Rightarrow> 'a cpu_core_scheme \<Rightarrow> 'a cpu_core_scheme" where
  "bcd_set_nvz res8 v_set s =
     (let level = bcd_nv_level s; s = s\<lparr> not_z_flag := not_z_flag s OR res8 \<rparr>
      in if level < 4 then
           s\<lparr> n_flag := flag NFLAG_SET (res8 AND 0x80 \<noteq> 0), v_flag := flag 0x80 (level < 2 \<and> v_set) \<rparr>
         else s)"

definition set_xc :: "bool \<Rightarrow> 'a cpu_core_scheme \<Rightarrow> 'a cpu_core_scheme" where
  "set_xc carry s = s\<lparr> x_flag := flag XFLAG_SET carry, c_flag := flag CFLAG_SET carry \<rparr>"

definition bcd_add_sst :: "u32 \<Rightarrow> u32 \<Rightarrow> 'a cpu_core_scheme \<Rightarrow> u32 \<times> 'a cpu_core_scheme" where
  "bcd_add_sst src dst s =
     (let x = (if x_flag s \<noteq> 0 then 1 else 0); src = src AND 0xFF; dst = dst AND 0xFF;
          lo = (src AND 0x0F) + (dst AND 0x0F) + x;
          res = src + dst + x;
          res = (if 9 < lo then res + 0x06 else res);
          carry = 0x9F < res;
          res = (if carry then res + 0x60 else res);
          res8 = res AND 0xFF; s = set_xc carry s
      in (res8, if res8 \<noteq> 0 then s\<lparr> not_z_flag := res8 \<rparr> else s))"

definition bcd_sub_sst :: "u32 \<Rightarrow> u32 \<Rightarrow> 'a cpu_core_scheme \<Rightarrow> u32 \<times> 'a cpu_core_scheme" where
  "bcd_sub_sst src dst s =
     (let x = (if x_flag s \<noteq> 0 then 1 else 0);
          \<comment> \<open>the source computes in \<open>i32\<close>; no intermediate value leaves its range\<close>
          low = uint ((dst AND 0xFF) AND 0x0F) - uint ((src AND 0xFF) AND 0x0F) - x;
          base = uint (dst AND 0xFF) - uint (src AND 0xFF) - x;
          low_borrow = low < 0; borrow = base < 0;
          res = (if low_borrow then base - 6 else base);
          xc = (res < 0 \<or> borrow);
          res = (if borrow then res - 0x60 else res);
          res8 = (word_of_int res :: u32) AND 0xFF; s = set_xc xc s
      in (res8, if res8 \<noteq> 0 then s\<lparr> not_z_flag := res8 \<rparr> else s))"

definition bcd_add :: "u32 \<Rightarrow> u32 \<Rightarrow> 'a cpu_core_scheme \<Rightarrow> u32 \<times> 'a cpu_core_scheme" where
  "bcd_add src dst s =
     (if sst_m68000_compat s then bcd_add_sst src dst s
      else
        let x = (if x_flag s \<noteq> 0 then 1 else 0) :: u16; src = src AND 0xFF; dst = dst AND 0xFF;
            newv_lo = ucast ((src AND 0x0F) + (dst AND 0x0F)) + x;
            newv_hi = ucast ((src AND 0xF0) + (dst AND 0xF0));
            tmp_newv = newv_hi + newv_lo;
            newv = (if 9 < newv_lo then tmp_newv + 6 else tmp_newv);
            carry = 0x90 < newv AND 0x3F0;
            newv = (if carry then newv + 0x60 else newv);
            res8 = ucast (newv AND 0xFF)
        in (res8, bcd_set_nvz res8 (tmp_newv AND 0x80 = 0 \<and> newv AND 0x80 \<noteq> 0) (set_xc carry s)))"

definition bcd_sub :: "u32 \<Rightarrow> u32 \<Rightarrow> 'a cpu_core_scheme \<Rightarrow> u32 \<times> 'a cpu_core_scheme" where
  "bcd_sub src dst s =
     (if sst_m68000_compat s then bcd_sub_sst src dst s
      else
        let x = (if x_flag s \<noteq> 0 then 1 else 0) :: u32; src = src AND 0xFF; dst = dst AND 0xFF;
            newv_lo = (ucast (dst AND 0x0F) :: u16) - ucast (src AND 0x0F) - ucast x;
            newv_hi = ucast (dst AND 0xF0) - ucast (src AND 0xF0);
            tmp_newv = newv_hi + newv_lo;
            digit_borrow = newv_lo AND 0xF0 \<noteq> 0;
            newv = (if digit_borrow then tmp_newv - 6 else tmp_newv);
            bcd = (if digit_borrow then 6 else 0) :: u32;
            newv = (if (dst - src - x) AND 0x100 \<noteq> 0 then newv - 0x60 else newv);
            carry = (dst - src - bcd - x) AND 0x300 \<noteq> 0;
            res8 = ucast (newv AND 0xFF)
        in (res8, bcd_set_nvz res8 (tmp_newv AND 0x80 \<noteq> 0 \<and> newv AND 0x80 = 0) (set_xc carry s)))"

text \<open>The arithmetic of NBCD in the hardware model, before the result is written.\<close>

definition bcd_neg :: "u32 \<Rightarrow> 'a cpu_core_scheme \<Rightarrow> u32 \<times> 'a cpu_core_scheme" where
  "bcd_neg dst s =
     (let x = (if x_flag s \<noteq> 0 then 1 else 0) :: u16; dst8 = ucast (dst AND 0xFF);
          newv_lo = 0 - (dst8 AND 0x0F) - x;
          newv_hi = 0 - (dst8 AND 0xF0);
          tmp_newv = newv_hi + newv_lo;
          corrected_lo = (if 9 < newv_lo then newv_lo - 6 else newv_lo);
          newv = newv_hi + corrected_lo;
          carry = 0x90 < newv AND 0x1F0;
          newv = (if carry then newv - 0x60 else newv);
          res8 = ucast (newv AND 0xFF)
      in (res8, bcd_set_nvz res8 (tmp_newv AND 0x80 \<noteq> 0 \<and> newv AND 0x80 = 0) (set_xc carry s)))"

section \<open>ABCD, SBCD and NBCD\<close>

definition with_low_byte :: "u32 \<Rightarrow> u32 \<Rightarrow> u32" where
  "with_low_byte reg v = (reg AND 0xFFFFFF00) OR (v AND 0xFF)"

definition finish_bcd_register_write ::
  "'b address_bus \<Rightarrow> 'b delivery \<Rightarrow> nat \<Rightarrow> u32 \<Rightarrow> 'b machine \<Rightarrow> 'b machine option" where
  "finish_bcd_register_write B dl reg v s = do {
     s \<leftarrow> top_up_prefetch B dl s;
     let s = flush_sync B (internal_cycles 2 (ipl_poll_point B s));
     Some (set_d reg (with_low_byte (d_reg reg s) v) s)
   }"

text \<open>The register and the memory form, for either operation.\<close>

definition bcd_rr ::
  "'b address_bus \<Rightarrow> 'b delivery \<Rightarrow> (u32 \<Rightarrow> u32 \<Rightarrow> 'b machine \<Rightarrow> u32 \<times> 'b machine) \<Rightarrow>
   nat \<Rightarrow> nat \<Rightarrow> 'b machine \<Rightarrow> (int \<times> 'b machine) option" where
  "bcd_rr B dl bcd src_reg dst_reg s =
     (let src = d_reg src_reg s AND 0xFF; dst = d_reg dst_reg s AND 0xFF; (result, s) = bcd src dst s
      in do { s \<leftarrow> finish_bcd_register_write B dl dst_reg result s; Some (6, s) })"

definition predec_byte :: "nat \<Rightarrow> 'a cpu_core_scheme \<Rightarrow> u32 \<times> 'a cpu_core_scheme" where
  "predec_byte reg s =
     (let addr = a_reg reg s - (if reg = 7 then 2 else 1) in (addr, set_a reg addr s))"

definition bcd_mm ::
  "'b address_bus \<Rightarrow> 'b delivery \<Rightarrow> (u32 \<Rightarrow> u32 \<Rightarrow> 'b machine \<Rightarrow> u32 \<times> 'b machine) \<Rightarrow>
   nat \<Rightarrow> nat \<Rightarrow> 'b machine \<Rightarrow> (int \<times> 'b machine) option" where
  "bcd_mm B dl bcd src_reg dst_reg s =
     (let (src_addr, s) = predec_byte src_reg (internal_cycles 2 s);
          (dst_addr, s) = predec_byte dst_reg s
      in do {
        (src, s) \<leftarrow> read_8 B dl src_addr s;
        (dst, s) \<leftarrow> read_8 B dl dst_addr s;
        let (result, s) = bcd (ucast src) (ucast dst) (ipl_poll_point B s);
        s \<leftarrow> top_up_prefetch B dl s;
        s \<leftarrow> write_8 B dl dst_addr (ucast result) s;
        Some (18, s)
      })"

definition exec_abcd_rr :: "'b address_bus \<Rightarrow> 'b delivery \<Rightarrow> nat \<Rightarrow> nat \<Rightarrow> 'b machine \<Rightarrow> (int \<times> 'b machine) option" where
  "exec_abcd_rr B dl = bcd_rr B dl bcd_add"

definition exec_abcd_mm :: "'b address_bus \<Rightarrow> 'b delivery \<Rightarrow> nat \<Rightarrow> nat \<Rightarrow> 'b machine \<Rightarrow> (int \<times> 'b machine) option" where
  "exec_abcd_mm B dl = bcd_mm B dl bcd_add"

definition exec_sbcd_rr :: "'b address_bus \<Rightarrow> 'b delivery \<Rightarrow> nat \<Rightarrow> nat \<Rightarrow> 'b machine \<Rightarrow> (int \<times> 'b machine) option" where
  "exec_sbcd_rr B dl = bcd_rr B dl bcd_sub"

definition exec_sbcd_mm :: "'b address_bus \<Rightarrow> 'b delivery \<Rightarrow> nat \<Rightarrow> nat \<Rightarrow> 'b machine \<Rightarrow> (int \<times> 'b machine) option" where
  "exec_sbcd_mm B dl = bcd_mm B dl bcd_sub"

definition exec_nbcd ::
  "'b address_bus \<Rightarrow> 'b delivery \<Rightarrow> addressing_mode \<Rightarrow> 'b machine \<Rightarrow> (int \<times> 'b machine) option" where
  "exec_nbcd B dl mode s = do {
     let is_reg = is_register_direct mode;
     (ea, s) \<leftarrow> resolve_ea B dl mode Size_Byte s;
     (dst, s) \<leftarrow> read_resolved_ea B dl ea Size_Byte s;
     if sst_m68000_compat s then do {
       let (res, s) = bcd_sub_sst dst 0 s;
       s \<leftarrow> write_resolved_ea_np_poll B dl ea Size_Byte res s;
       Some (if is_reg then 6 else 8, s)
     } else do {
       let (res8, s) = bcd_neg dst s;
       case (cpu_model s, ea) of
         (M68000, DataReg reg) \<Rightarrow> do {
           s \<leftarrow> top_up_prefetch B dl s;
           let s = flush_sync B (internal_cycles 2 (ipl_poll_point B s));
           Some (6, set_d reg ((d_reg reg s AND 0xFFFFFF00) OR res8) s) }
       | _ \<Rightarrow> do {
           s \<leftarrow> write_resolved_ea_np_poll B dl ea Size_Byte res8 s;
           Some (if is_reg then 6 else 8 + ea_time mode Size_Byte s, s) }
     }
   }"

section \<open>PACK and UNPK\<close>

definition packed_digits :: "u16 \<Rightarrow> u16" where
  "packed_digits v = (drop_bit 4 v AND 0xF0) OR (v AND 0x0F)"

definition unpacked_digits :: "u32 \<Rightarrow> u32" where
  "unpacked_digits v = push_bit 8 (drop_bit 4 v AND 0xF) OR (v AND 0xF)"

definition exec_pack_rr :: "nat \<Rightarrow> nat \<Rightarrow> u16 \<Rightarrow> 'a cpu_core_scheme \<Rightarrow> int \<times> 'a cpu_core_scheme" where
  "exec_pack_rr src_reg dst_reg adj s =
     (let v = ucast (d_reg src_reg s) + adj
      in (6, set_d dst_reg ((d_reg dst_reg s AND 0xFFFFFF00) OR ucast (packed_digits v)) s))"

definition exec_pack_mm ::
  "'b address_bus \<Rightarrow> 'b delivery \<Rightarrow> nat \<Rightarrow> nat \<Rightarrow> u16 \<Rightarrow> 'b machine \<Rightarrow> (int \<times> 'b machine) option" where
  "exec_pack_mm B dl src_reg dst_reg adj s = do {
     let src_addr = a_reg src_reg s - 2;
     (v, s) \<leftarrow> read_16 B dl src_addr (set_a src_reg src_addr s);
     let result = ucast (packed_digits (v + adj));
     let (dst_addr, s) = predec_byte dst_reg s;
     s \<leftarrow> write_8 B dl dst_addr result s;
     Some (13, s)
   }"

definition exec_unpk_rr :: "nat \<Rightarrow> nat \<Rightarrow> u16 \<Rightarrow> 'a cpu_core_scheme \<Rightarrow> int \<times> 'a cpu_core_scheme" where
  "exec_unpk_rr src_reg dst_reg adj s =
     (let unpacked = unpacked_digits (d_reg src_reg s AND 0xFF);
          result = (unpacked + ucast adj) AND 0xFFFF
      in (8, set_d dst_reg ((d_reg dst_reg s AND 0xFFFF0000) OR result) s))"

definition exec_unpk_mm ::
  "'b address_bus \<Rightarrow> 'b delivery \<Rightarrow> nat \<Rightarrow> nat \<Rightarrow> u16 \<Rightarrow> 'b machine \<Rightarrow> (int \<times> 'b machine) option" where
  "exec_unpk_mm B dl src_reg dst_reg adj s = do {
     let (src_addr, s) = predec_byte src_reg s;
     (src, s) \<leftarrow> read_8 B dl src_addr s;
     let result = (unpacked_digits (ucast src) + ucast adj) AND 0xFFFF;
     let dst_addr = a_reg dst_reg s - 2;
     s \<leftarrow> write_16 B dl dst_addr (ucast result) (set_a dst_reg dst_addr s);
     Some (13, s)
   }"

section \<open>Decimal digits\<close>

lemma and_field:
  fixes k :: int
  shows "k AND push_bit m (mask n) = 2 ^ m * (k div 2 ^ m mod 2 ^ n)"
proof -
  have "k AND push_bit m (mask n) = push_bit m (take_bit n (drop_bit m k))"
    by (rule bit_eqI) (auto simp: bit_and_iff bit_push_bit_iff bit_mask_iff bit_take_bit_iff bit_drop_bit_eq)
  then show ?thesis
    by (simp add: push_bit_eq_mult take_bit_eq_mod drop_bit_eq_div)
qed

lemma uint_and_field:
  fixes x :: "'a::len word"
  assumes "m + n \<le> LENGTH('a)"
  shows "uint (x AND push_bit m (mask n)) = 2 ^ m * (uint x div 2 ^ m mod 2 ^ n)"
proof -
  have "uint (push_bit m (mask n) :: 'a word) = push_bit m (mask n)"
    using assms by (intro bit_eqI) (auto simp: bit_uint_iff bit_push_bit_iff bit_mask_iff)
  then show ?thesis by (simp only: uint_and and_field)
qed

lemma field_masks:
  "(0xFF :: u32) = push_bit 0 (mask 8)" "(0x0F :: u32) = push_bit 0 (mask 4)"
  "(0xF0 :: u32) = push_bit 4 (mask 4)" "(0x100 :: u32) = push_bit 8 (mask 1)"
  "(0x300 :: u32) = push_bit 8 (mask 2)"
  "(0xFF :: u16) = push_bit 0 (mask 8)" "(0x0F :: u16) = push_bit 0 (mask 4)"
  "(0xF0 :: u16) = push_bit 4 (mask 4)" "(0x1F0 :: u16) = push_bit 4 (mask 5)"
  "(0x3F0 :: u16) = push_bit 4 (mask 6)"
  by (simp_all only: push_bit_eq_mult mask_eq_exp_minus_1) simp_all

lemma uint_fields:
  fixes x :: u32 and y :: u16
  shows "uint (x AND 0xFF) = uint x mod 256" "uint (x AND 0x0F) = uint x mod 16"
    "uint (x AND 0xF0) = 16 * (uint x div 16 mod 16)" "uint (x AND 0x100) = 256 * (uint x div 256 mod 2)"
    "uint (x AND 0x300) = 256 * (uint x div 256 mod 4)"
    "uint (y AND 0xFF) = uint y mod 256" "uint (y AND 0x0F) = uint y mod 16"
    "uint (y AND 0xF0) = 16 * (uint y div 16 mod 16)" "uint (y AND 0x1F0) = 16 * (uint y div 16 mod 32)"
    "uint (y AND 0x3F0) = 16 * (uint y div 16 mod 64)"
  by (simp_all only: field_masks) (subst uint_and_field, simp, simp)+

definition lo_digit :: "u32 \<Rightarrow> int" where
  "lo_digit x = uint x mod 16"

definition hi_digit :: "u32 \<Rightarrow> int" where
  "hi_digit x = uint x div 16 mod 16"

definition decimal_ok :: "u32 \<Rightarrow> bool" where
  "decimal_ok x \<longleftrightarrow> lo_digit x \<le> 9 \<and> hi_digit x \<le> 9"

definition decimal :: "u32 \<Rightarrow> int" where
  "decimal x = 10 * hi_digit x + lo_digit x"

lemma digit_nonneg [simp]: "0 \<le> lo_digit x" "0 \<le> hi_digit x"
  by (simp_all add: lo_digit_def hi_digit_def)

lemma uint_nibbles:
  "uint (x AND 0xFF) = 16 * hi_digit x + lo_digit x"
  "uint (x AND 0x0F) = lo_digit x"
  "uint (x AND 0xF0) = 16 * hi_digit x"
  using zmod_zmult2_eq [of 16 "uint x" 16] by (simp_all add: uint_fields lo_digit_def hi_digit_def)

lemma nested_nibbles:
  fixes x :: "'a::len word"
  shows "(x AND 0xFF) AND 0x0F = x AND 0x0F" "(x AND 0xFF) AND 0xF0 = x AND 0xF0"
  by (simp_all add: and.assoc)

lemma decimal_of_parts:
  assumes "uint r = 16 * h + l" "0 \<le> l" "l \<le> 9" "0 \<le> h" "h \<le> 9"
  shows "decimal_ok r \<and> decimal r = 10 * h + l"
proof -
  have "lo_digit r = l" "hi_digit r = h"
    using assms by (simp_all add: lo_digit_def hi_digit_def)
  with assms show ?thesis by (simp add: decimal_ok_def decimal_def)
qed

lemma set_xc_view [simp]:
  "x_in (set_xc c s) = of_bool c" "flag_z (set_xc c s) = flag_z s" "flag_c (set_xc c s) = c"
  by (simp_all add: set_xc_def x_in_def flag_defs)

lemma bcd_set_nvz_view [simp]:
  "x_in (bcd_set_nvz r v s) = x_in s" "flag_c (bcd_set_nvz r v s) = flag_c s"
  "flag_z (bcd_set_nvz r v s) \<longleftrightarrow> flag_z s \<and> r = 0"
  by (simp_all add: bcd_set_nvz_def Let_def x_in_def flag_defs or_eq_0_iff)

lemma sticky_zero_view [simp]:
  "x_in (if r \<noteq> 0 then s\<lparr>not_z_flag := r\<rparr> else s) = x_in s"
  "flag_c (if r \<noteq> 0 then s\<lparr>not_z_flag := r\<rparr> else s) = flag_c s"
  "flag_z (if r \<noteq> 0 then s\<lparr>not_z_flag := r\<rparr> else s) \<longleftrightarrow> flag_z s \<and> r = 0"
  by (simp_all add: x_in_def flag_defs)

text \<open>The digit sum and digit difference that the corrections work on.\<close>

lemma digit_sum:
  fixes la lb ha hb x :: int
  assumes "0 \<le> la" "la \<le> 9" "0 \<le> lb" "lb \<le> 9" "0 \<le> ha" "ha \<le> 9" "0 \<le> hb" "hb \<le> 9" "0 \<le> x" "x \<le> 1"
  obtains h l where "16 * (ha + hb) + (la + lb + x) + (if 9 < la + lb + x then 6 else 0) = 16 * h + l"
    "0 \<le> l" "l \<le> 9" "0 \<le> h" "h \<le> 19" "10 * h + l = 10 * (ha + hb) + (la + lb + x)"
proof (cases "9 < la + lb + x")
  case True
  with assms show ?thesis by (intro that [of "ha + hb + 1" "la + lb + x - 10"]) auto
next
  case False
  with assms show ?thesis by (intro that [of "ha + hb" "la + lb + x"]) auto
qed

lemma sum_corrected:
  fixes h l :: int
  assumes "0 \<le> l" "l \<le> 9" "0 \<le> h" "h \<le> 19"
  shows "(16 * h + l) div 16 mod 64 = h"
    and "(16 * h + l + (if 9 < h then 96 else 0)) mod 256 = 16 * (if 9 < h then h - 10 else h) + l"
proof -
  have "(16 * h + l) div 16 = h" using assms by simp
  with assms show "(16 * h + l) div 16 mod 64 = h" by simp
  show "(16 * h + l + (if 9 < h then 96 else 0)) mod 256 = 16 * (if 9 < h then h - 10 else h) + l"
  proof (cases "9 < h")
    case True
    have eq: "16 * h + l + 96 = 16 * (h - 10) + l + 256" by simp
    have "(16 * h + l + 96) mod 256 = (16 * (h - 10) + l) mod 256"
      unfolding eq by (rule mod_add_self2)
    also have "\<dots> = 16 * (h - 10) + l" using True assms by simp
    finally show ?thesis using True by simp
  next
    case False
    with assms show ?thesis by simp
  qed
qed

lemma bcd_add_hardware:
  assumes "decimal_ok a" "decimal_ok b" "\<not> sst_m68000_compat s" "bcd_add a b s = (r, s')"
  shows "decimal_ok r \<and> decimal r + 100 * x_in s' = decimal a + decimal b + x_in s \<and>
    (flag_z s' \<longleftrightarrow> flag_z s \<and> r = 0) \<and> (flag_c s' \<longleftrightarrow> x_in s' = 1)"
proof -
  define x :: u16 where "x = (if x_flag s \<noteq> 0 then 1 else 0)"
  define lo :: u16 where "lo = ucast ((a AND 0x0F) + (b AND 0x0F)) + x"
  define hi :: u16 where "hi = ucast ((a AND 0xF0) + (b AND 0xF0))"
  define v where "v = (if 9 < lo then hi + lo + 6 else hi + lo)"
  define carry where "carry \<longleftrightarrow> 0x90 < v AND 0x3F0"
  define w where "w = (if carry then v + 0x60 else v)"
  have b: "lo_digit a \<le> 9" "hi_digit a \<le> 9" "lo_digit b \<le> 9" "hi_digit b \<le> 9"
    using assms by (auto simp: decimal_ok_def)
  have "uint x = x_in s" by (simp add: x_def x_in_def flag_x_def)
  then have ulo: "uint lo = lo_digit a + lo_digit b + x_in s"
    using b x_in_range [of s] by (simp add: lo_def uint_word_ariths unsigned_ucast_eq take_bit_eq_mod uint_nibbles)
  have uhi: "uint hi = 16 * (hi_digit a + hi_digit b)"
    using b by (simp add: hi_def uint_word_ariths unsigned_ucast_eq take_bit_eq_mod uint_nibbles)
  obtain h l where hl: "16 * (hi_digit a + hi_digit b) + (lo_digit a + lo_digit b + x_in s) +
      (if 9 < lo_digit a + lo_digit b + x_in s then 6 else 0) = 16 * h + l" "0 \<le> l" "l \<le> 9" "0 \<le> h" "h \<le> 19"
      "10 * h + l = 10 * (hi_digit a + hi_digit b) + (lo_digit a + lo_digit b + x_in s)"
    by (rule digit_sum [of "lo_digit a" "lo_digit b" "hi_digit a" "hi_digit b" "x_in s"])
      (use b x_in_range [of s] in auto)
  have uv: "uint v = 16 * h + l"
    using hl b x_in_range [of s]
    by (simp add: v_def word_less_def ulo uhi uint_word_ariths split: if_splits)
  have c: "carry \<longleftrightarrow> 9 < h"
    using hl by (simp add: carry_def word_less_def uint_fields uv sum_corrected(1))
  have uw: "uint w = 16 * h + l + (if 9 < h then 96 else 0)"
    using hl by (simp add: w_def c uv uint_word_ariths)
  have "(r, s') = (ucast (w AND 0xFF),
      bcd_set_nvz (ucast (w AND 0xFF)) (hi + lo AND 0x80 = 0 \<and> w AND 0x80 \<noteq> 0) (set_xc carry s))"
    unfolding assms(4) [symmetric]
    by (simp only: bcd_add_def Let_def nested_nibbles assms(3) if_False x_def lo_def hi_def v_def carry_def w_def)
  then have r: "r = ucast (w AND 0xFF)"
    and s': "x_in s' = of_bool carry" "flag_c s' = carry" "flag_z s' \<longleftrightarrow> flag_z s \<and> r = 0"
    by simp_all
  have "uint r = 16 * (if 9 < h then h - 10 else h) + l"
    using hl sum_corrected(2) [of l h] by (simp add: r uw uint_fields unsigned_ucast_eq take_bit_eq_mod)
  then have "decimal_ok r \<and> decimal r = 10 * (if 9 < h then h - 10 else h) + l"
    using hl by (intro decimal_of_parts) auto
  then show ?thesis
    using hl by (auto simp: s' c decimal_def)
qed

lemma bcd_add_fixture:
  assumes "decimal_ok a" "decimal_ok b" "bcd_add_sst a b s = (r, s')"
  shows "decimal_ok r \<and> decimal r + 100 * x_in s' = decimal a + decimal b + x_in s \<and>
    (flag_z s' \<longleftrightarrow> flag_z s \<and> r = 0) \<and> (flag_c s' \<longleftrightarrow> x_in s' = 1)"
proof -
  define x :: u32 where "x = (if x_flag s \<noteq> 0 then 1 else 0)"
  define lo where "lo = (a AND 0x0F) + (b AND 0x0F) + x"
  define v where "v = (if 9 < lo then (a AND 0xFF) + (b AND 0xFF) + x + 6 else (a AND 0xFF) + (b AND 0xFF) + x)"
  define carry where "carry \<longleftrightarrow> 0x9F < v"
  define w where "w = (if carry then v + 0x60 else v)"
  have b: "lo_digit a \<le> 9" "hi_digit a \<le> 9" "lo_digit b \<le> 9" "hi_digit b \<le> 9"
    using assms by (auto simp: decimal_ok_def)
  have x: "uint x = x_in s" by (simp add: x_def x_in_def flag_x_def)
  then have ulo: "uint lo = lo_digit a + lo_digit b + x_in s"
    using b x_in_range [of s] by (simp add: lo_def uint_word_ariths uint_nibbles)
  obtain h l where hl: "16 * (hi_digit a + hi_digit b) + (lo_digit a + lo_digit b + x_in s) +
      (if 9 < lo_digit a + lo_digit b + x_in s then 6 else 0) = 16 * h + l" "0 \<le> l" "l \<le> 9" "0 \<le> h" "h \<le> 19"
      "10 * h + l = 10 * (hi_digit a + hi_digit b) + (lo_digit a + lo_digit b + x_in s)"
    by (rule digit_sum [of "lo_digit a" "lo_digit b" "hi_digit a" "hi_digit b" "x_in s"])
      (use b x_in_range [of s] in auto)
  have uv: "uint v = 16 * h + l"
    using hl b x_in_range [of s]
    by (simp add: v_def word_less_def ulo x uint_nibbles uint_word_ariths split: if_splits)
  have c: "carry \<longleftrightarrow> 9 < h"
    using hl by (simp add: carry_def word_less_def uv) arith
  have uw: "uint w = 16 * h + l + (if 9 < h then 96 else 0)"
    using hl by (simp add: w_def c uv uint_word_ariths)
  have "(r, s') = (w AND 0xFF, if w AND 0xFF \<noteq> 0 then (set_xc carry s)\<lparr>not_z_flag := w AND 0xFF\<rparr> else set_xc carry s)"
    unfolding assms(3) [symmetric]
    by (simp only: bcd_add_sst_def Let_def nested_nibbles x_def lo_def v_def carry_def w_def)
  then have r: "r = w AND 0xFF" and s': "x_in s' = of_bool carry" "flag_c s' = carry" "flag_z s' \<longleftrightarrow> flag_z s \<and> r = 0"
    by simp_all
  have "uint r = 16 * (if 9 < h then h - 10 else h) + l"
    using hl sum_corrected(2) [of l h] by (simp add: r uw uint_fields)
  then have "decimal_ok r \<and> decimal r = 10 * (if 9 < h then h - 10 else h) + l"
    using hl by (intro decimal_of_parts) auto
  then show ?thesis
    using hl by (auto simp: s' c decimal_def)
qed

text \<open>A field above the magnitude of a wrapped difference is nonzero exactly when it is negative.\<close>

lemma wrapped_sign:
  fixes k :: int
  assumes "- (2 ^ m) \<le> k" "k < 2 ^ m" "0 < n" "m + n \<le> N"
  shows "k mod 2 ^ N div 2 ^ m mod 2 ^ n = 0 \<longleftrightarrow> 0 \<le> k"
proof -
  have "take_bit n (drop_bit m (take_bit N k)) = take_bit n (drop_bit m k)"
    using assms(4) by (intro bit_eqI) (auto simp: bit_take_bit_iff bit_drop_bit_eq)
  then have "k mod 2 ^ N div 2 ^ m mod 2 ^ n = k div 2 ^ m mod 2 ^ n"
    by (simp add: take_bit_eq_mod drop_bit_eq_div)
  moreover have "k div 2 ^ m = (if 0 \<le> k then 0 else -1)"
    using assms div_add_self2 [of "2 ^ m" k] div_pos_pos_trivial [of "k + 2 ^ m" "2 ^ m"] by auto
  moreover have "(1 :: int) < 2 ^ n" using assms(3) by (intro one_less_power) auto
  then have "(-1 :: int) mod 2 ^ n \<noteq> 0" using zmod_minus1 [of "2 ^ n"] by linarith
  ultimately show ?thesis by simp
qed

lemma digit_difference:
  fixes la lb ha hb x :: int
  assumes "0 \<le> la" "la \<le> 9" "0 \<le> lb" "lb \<le> 9" "0 \<le> ha" "ha \<le> 9" "0 \<le> hb" "hb \<le> 9" "0 \<le> x" "x \<le> 1"
  obtains h l where "16 * (hb - ha) + (lb - la - x) - (if lb - la - x < 0 then 6 else 0) = 16 * h + l"
    "0 \<le> l" "l \<le> 9" "- 10 \<le> h" "h \<le> 9" "10 * h + l = 10 * (hb - ha) + (lb - la - x)"
    "16 * (hb - ha) + (lb - la - x) < 0 \<longleftrightarrow> h < 0"
proof (cases "lb - la - x < 0")
  case True
  with assms show ?thesis by (intro that [of "hb - ha - 1" "lb - la - x + 10"]) auto
next
  case False
  with assms show ?thesis by (intro that [of "hb - ha" "lb - la - x"]) auto
qed

lemma difference_corrected:
  fixes h l :: int
  assumes "0 \<le> l" "l \<le> 9" "- 10 \<le> h" "h \<le> 9"
  shows "(16 * h + l - (if h < 0 then 96 else 0)) mod 256 = 16 * (if h < 0 then h + 10 else h) + l"
proof (cases "h < 0")
  case True
  have eq: "16 * h + l - 96 = 16 * (h + 10) + l + (- 1) * 256" by simp
  have "(16 * h + l - 96) mod 256 = (16 * (h + 10) + l) mod 256"
    unfolding eq by (rule mod_mult_self1)
  also have "\<dots> = 16 * (h + 10) + l" using True assms by simp
  finally show ?thesis using True by simp
next
  case False
  with assms show ?thesis by simp
qed

text \<open>What the subtractions promise: the decimal difference modulo 100, with X as the borrow.\<close>

definition decimal_diff :: "int \<Rightarrow> int \<Rightarrow> u32 \<Rightarrow> 'a cpu_core_scheme \<Rightarrow> 'a cpu_core_scheme \<Rightarrow> bool" where
  "decimal_diff a b r s s' \<longleftrightarrow> decimal_ok r \<and> decimal r - 100 * x_in s' = b - a - x_in s \<and>
     (flag_z s' \<longleftrightarrow> flag_z s \<and> r = 0) \<and> (flag_c s' \<longleftrightarrow> x_in s' = 1)"

lemma decimal_diffI:
  assumes "uint r = (16 * h + l - (if h < 0 then 96 else 0)) mod 256"
    and "0 \<le> l" "l \<le> 9" "- 10 \<le> h" "h \<le> 9" "10 * h + l = b - a - x_in s"
    and "x_in s' = of_bool (h < 0)" "flag_c s' = (h < 0)" "flag_z s' \<longleftrightarrow> flag_z s \<and> r = 0"
  shows "decimal_diff a b r s s'"
proof -
  have "decimal_ok r \<and> decimal r = 10 * (if h < 0 then h + 10 else h) + l"
    using assms difference_corrected [of l h] by (intro decimal_of_parts) auto
  with assms show ?thesis by (auto simp: decimal_diff_def)
qed

lemma bcd_sub_hardware:
  assumes "decimal_ok a" "decimal_ok b" "\<not> sst_m68000_compat s" "bcd_sub a b s = (r, s')"
  shows "decimal_diff (decimal a) (decimal b) r s s'"
proof -
  define x :: u32 where "x = (if x_flag s \<noteq> 0 then 1 else 0)"
  define lo :: u16 where "lo = ucast (b AND 0x0F) - ucast (a AND 0x0F) - ucast x"
  define hi :: u16 where "hi = ucast (b AND 0xF0) - ucast (a AND 0xF0)"
  define digit_borrow where "digit_borrow \<longleftrightarrow> lo AND 0xF0 \<noteq> 0"
  define bcd :: u32 where "bcd = (if digit_borrow then 6 else 0)"
  define v where "v = (if digit_borrow then hi + lo - 6 else hi + lo)"
  define borrow where "borrow \<longleftrightarrow> ((b AND 0xFF) - (a AND 0xFF) - x) AND 0x100 \<noteq> 0"
  define w where "w = (if borrow then v - 0x60 else v)"
  define carry where "carry \<longleftrightarrow> ((b AND 0xFF) - (a AND 0xFF) - bcd - x) AND 0x300 \<noteq> 0"
  define k where "k = lo_digit b - lo_digit a - x_in s"
  define d where "d = hi_digit b - hi_digit a"
  have b: "lo_digit a \<le> 9" "hi_digit a \<le> 9" "lo_digit b \<le> 9" "hi_digit b \<le> 9"
    using assms by (auto simp: decimal_ok_def)
  then have kd: "- 10 \<le> k" "k \<le> 9" "- 9 \<le> d" "d \<le> 9"
    using x_in_range [of s] digit_nonneg [of a] digit_nonneg [of b] unfolding k_def d_def by linarith+
  have ux: "uint x = x_in s" by (simp add: x_def x_in_def flag_x_def)
  have ulo: "uint lo = k mod 65536"
    using b x_in_range [of s]
    by (simp add: lo_def k_def uint_word_ariths unsigned_ucast_eq take_bit_eq_mod uint_nibbles ux mod_simps)
  have uhi: "uint hi = 16 * d mod 65536"
    using b by (simp add: hi_def d_def uint_word_ariths unsigned_ucast_eq take_bit_eq_mod uint_nibbles algebra_simps)
  have db: "digit_borrow \<longleftrightarrow> k < 0"
    using wrapped_sign [of 4 k 4 16] kd by (simp add: digit_borrow_def uint_0_iff [symmetric] uint_fields ulo not_le)
  obtain h l where hl: "16 * d + k - (if k < 0 then 6 else 0) = 16 * h + l" "0 \<le> l" "l \<le> 9" "- 10 \<le> h" "h \<le> 9"
      "10 * h + l = 10 * d + k" "16 * d + k < 0 \<longleftrightarrow> h < 0"
    using digit_difference [of "lo_digit a" "lo_digit b" "hi_digit a" "hi_digit b" "x_in s"] b x_in_range [of s]
    by (metis k_def d_def digit_nonneg)
  have uv: "uint v = (16 * h + l) mod 65536"
    unfolding hl(1) [symmetric] by (simp add: v_def db uint_word_ariths ulo uhi mod_simps)
  have "uint ((b AND 0xFF) - (a AND 0xFF) - x) = (16 * d + k) mod 4294967296"
    by (simp add: uint_word_ariths uint_nibbles ux mod_simps k_def d_def algebra_simps)
  then have bo: "borrow \<longleftrightarrow> h < 0"
    using wrapped_sign [of 8 "16 * d + k" 1 32] kd hl(7)
    by (simp add: borrow_def uint_0_iff [symmetric] uint_fields(4) not_le)
  have ubcd: "uint bcd = (if k < 0 then 6 else 0)" by (simp add: bcd_def db)
  have "uint ((b AND 0xFF) - (a AND 0xFF) - bcd - x) = (16 * d + k - (if k < 0 then 6 else 0)) mod 4294967296"
    using ubcd by (simp add: uint_word_ariths uint_nibbles ux mod_simps k_def d_def algebra_simps)
  then have ca: "carry \<longleftrightarrow> h < 0"
    using wrapped_sign [of 8 "16 * h + l" 2 32] hl(2-5)
    unfolding hl(1) by (simp add: carry_def uint_0_iff [symmetric] uint_fields(5)) arith
  have uw: "uint w = (16 * h + l - (if h < 0 then 96 else 0)) mod 65536"
    by (simp add: w_def bo uv uint_word_ariths mod_simps)
  have "(r, s') = (ucast (w AND 0xFF),
      bcd_set_nvz (ucast (w AND 0xFF)) (hi + lo AND 0x80 \<noteq> 0 \<and> w AND 0x80 = 0) (set_xc carry s))"
    unfolding assms(4) [symmetric]
    by (simp only: bcd_sub_def Let_def nested_nibbles assms(3) if_False x_def lo_def hi_def
        digit_borrow_def bcd_def v_def borrow_def w_def carry_def)
  then have r: "r = ucast (w AND 0xFF)"
    and s': "x_in s' = of_bool carry" "flag_c s' = carry" "flag_z s' \<longleftrightarrow> flag_z s \<and> r = 0"
    by simp_all
  have "uint r = (16 * h + l - (if h < 0 then 96 else 0)) mod 256"
    by (simp add: r uw uint_fields unsigned_ucast_eq take_bit_eq_mod mod_mod_cancel)
  with hl s' ca show ?thesis
    by (intro decimal_diffI [of r h l]) (auto simp: decimal_def k_def d_def)
qed

lemma bcd_sub_fixture:
  assumes "decimal_ok a" "decimal_ok b" "bcd_sub_sst a b s = (r, s')"
  shows "decimal_diff (decimal a) (decimal b) r s s'"
proof -
  define k where "k = lo_digit b - lo_digit a - x_in s"
  define d where "d = hi_digit b - hi_digit a"
  have x: "(if x_flag s \<noteq> 0 then 1 else 0) = x_in s" by (simp add: x_in_def flag_x_def)
  have b: "lo_digit a \<le> 9" "hi_digit a \<le> 9" "lo_digit b \<le> 9" "hi_digit b \<le> 9"
    using assms by (auto simp: decimal_ok_def)
  obtain h l where hl: "16 * d + k - (if k < 0 then 6 else 0) = 16 * h + l" "0 \<le> l" "l \<le> 9" "- 10 \<le> h" "h \<le> 9"
      "10 * h + l = 10 * d + k" "16 * d + k < 0 \<longleftrightarrow> h < 0"
    using digit_difference [of "lo_digit a" "lo_digit b" "hi_digit a" "hi_digit b" "x_in s"] b x_in_range [of s]
    by (metis k_def d_def digit_nonneg)
  have dk: "uint (b AND 0xFF) - uint (a AND 0xFF) - x_in s = 16 * d + k"
    by (simp add: uint_nibbles d_def k_def)
  have neg: "16 * h + l < 0 \<longleftrightarrow> h < 0" using hl(2,3) by arith
  have xc: "((if k < 0 then 16 * d + k - 6 else 16 * d + k) < 0 \<or> h < 0) \<longleftrightarrow> h < 0"
    using hl(1,7) neg by (auto split: if_splits)
  have res: "(if h < 0 then (if k < 0 then 16 * d + k - 6 else 16 * d + k) - 0x60
      else (if k < 0 then 16 * d + k - 6 else 16 * d + k)) = 16 * h + l - (if h < 0 then 96 else 0)"
    using hl(1) by (auto split: if_splits)
  define m where "m = 16 * h + l - (if h < 0 then 96 else 0)"
  define w :: u32 where "w = word_of_int m AND 0xFF"
  have "(r, s') = (w, if w \<noteq> 0 then (set_xc (h < 0) s)\<lparr>not_z_flag := w\<rparr> else set_xc (h < 0) s)"
    unfolding assms(3) [symmetric] bcd_sub_sst_def Let_def nested_nibbles x
    unfolding uint_nibbles(2) dk k_def [symmetric] hl(7) xc res w_def m_def ..
  then have r: "r = w" and s': "x_in s' = of_bool (h < 0)" "flag_c s' = (h < 0)" "flag_z s' \<longleftrightarrow> flag_z s \<and> r = 0"
    by simp_all
  have "uint r = m mod 256"
    by (simp add: r w_def uint_fields uint_word_of_int mod_mod_cancel)
  then have "uint r = (16 * h + l - (if h < 0 then 96 else 0)) mod 256" by (simp only: m_def)
  with hl s' show ?thesis
    by (intro decimal_diffI [of r h l]) (auto simp: decimal_def k_def d_def)
qed

lemma tens_digit: "0 \<le> l \<Longrightarrow> l \<le> 9 \<Longrightarrow> (16 * h + l) div 16 = (h :: int)"
  by simp

lemma mod_of_negative:
  fixes k m :: int
  assumes "- m \<le> k" "k < 0"
  shows "k mod m = k + m"
proof -
  have "k mod m = (k + m) mod m" by simp
  also have "\<dots> = k + m" using assms by (intro mod_pos_pos_trivial) auto
  finally show ?thesis .
qed

lemma bcd_neg_hardware:
  assumes "decimal_ok b" "bcd_neg b s = (r, s')"
  shows "decimal_diff (decimal b) 0 r s s'"
proof -
  define x :: u16 where "x = (if x_flag s \<noteq> 0 then 1 else 0)"
  define c :: u16 where "c = ucast (b AND 0xFF)"
  define lo where "lo = 0 - (c AND 0x0F) - x"
  define hi where "hi = 0 - (c AND 0xF0)"
  define lo' where "lo' = (if 9 < lo then lo - 6 else lo)"
  define v where "v = hi + lo'"
  define carry where "carry \<longleftrightarrow> 0x90 < v AND 0x1F0"
  define w where "w = (if carry then v - 0x60 else v)"
  define k where "k = 0 - lo_digit b - x_in s"
  define d where "d = 0 - hi_digit b"
  have b: "lo_digit b \<le> 9" "hi_digit b \<le> 9"
    using assms by (auto simp: decimal_ok_def)
  then have kd: "- 10 \<le> k" "k \<le> 0" "- 9 \<le> d" "d \<le> 0"
    using x_in_range [of s] digit_nonneg [of b] unfolding k_def d_def by linarith+
  have ux: "uint x = x_in s" by (simp add: x_def x_in_def flag_x_def)
  have uc: "uint c = 16 * hi_digit b + lo_digit b"
    using b by (simp add: c_def unsigned_ucast_eq take_bit_eq_mod uint_nibbles)
  have ulo: "uint lo = k mod 65536"
    using b by (simp add: lo_def k_def uint_word_ariths uint_fields uc ux mod_simps)
  have uhi: "uint hi = 16 * d mod 65536"
    using b by (simp add: hi_def d_def uint_word_ariths uint_fields uc mod_simps)
  have "k mod 65536 = (if k < 0 then k + 65536 else k)"
    using kd by (auto simp: mod_of_negative)
  then have nine: "9 < lo \<longleftrightarrow> k < 0"
    using kd by (auto simp: word_less_def ulo)
  obtain h l where hl: "16 * d + k - (if k < 0 then 6 else 0) = 16 * h + l" "0 \<le> l" "l \<le> 9" "- 10 \<le> h" "h \<le> 9"
      "10 * h + l = 10 * d + k" "16 * d + k < 0 \<longleftrightarrow> h < 0"
    using digit_difference [of "lo_digit b" 0 "hi_digit b" 0 "x_in s"] b x_in_range [of s]
    by (metis k_def d_def digit_nonneg order_refl zero_le_numeral)
  have h: "h \<le> 0" "h = 0 \<longrightarrow> l = 0" using hl kd by (auto split: if_splits)
  have uv: "uint v = (16 * h + l) mod 65536"
    unfolding hl(1) [symmetric] by (simp add: v_def lo'_def nine uint_word_ariths ulo uhi mod_simps add_diff_eq)
  have "(16 * h + l) mod 65536 = (if h < 0 then 16 * (h + 4096) + l else 0)"
    using h hl(2-5) by (auto simp: mod_of_negative)
  moreover have "(16 * (h + 4096) + l) div 16 mod 32 = h + 32" if "h < 0"
    using hl(2-4) that mod_mult_self1 [of h 128 32] by (simp only: tens_digit) (simp add: mod_of_negative)
  ultimately have ca: "carry \<longleftrightarrow> h < 0"
    using hl(4) by (simp add: carry_def word_less_def uint_fields uv)
  have uw: "uint w = (16 * h + l - (if h < 0 then 96 else 0)) mod 65536"
    by (simp add: w_def ca uv uint_word_ariths mod_simps)
  have "(r, s') = (ucast (w AND 0xFF),
      bcd_set_nvz (ucast (w AND 0xFF)) (hi + lo AND 0x80 \<noteq> 0 \<and> w AND 0x80 = 0) (set_xc carry s))"
    unfolding assms(2) [symmetric]
    by (simp only: bcd_neg_def Let_def x_def c_def lo_def hi_def lo'_def v_def w_def carry_def)
  then have r: "r = ucast (w AND 0xFF)"
    and s': "x_in s' = of_bool carry" "flag_c s' = carry" "flag_z s' \<longleftrightarrow> flag_z s \<and> r = 0"
    by simp_all
  have "uint r = (16 * h + l - (if h < 0 then 96 else 0)) mod 256"
    by (simp add: r uw uint_fields unsigned_ucast_eq take_bit_eq_mod mod_mod_cancel)
  with hl s' ca show ?thesis
    by (intro decimal_diffI [of r h l]) (auto simp: decimal_def k_def d_def)
qed

section \<open>Packing\<close>

lemma low_word_join: "(ucast ((x AND 0xFFFF0000) OR (y AND 0xFFFF)) :: u16) = ucast (y :: u32)"
proof -
  have eqs: "(0xFFFF0000 :: u32) = push_bit 16 (mask 16)" "(0xFFFF :: u32) = mask 16"
    by (simp_all add: push_bit_eq_mult mask_eq_exp_minus_1)
  show ?thesis unfolding eqs by (rule bit_eqI) (auto simp: bit_simps)
qed

lemma low_byte_join: "((x AND 0xFFFFFF00) OR ucast (ucast (y AND 0xFF) :: u16)) AND 0xFF = y AND (0xFF :: u32)"
proof -
  have eqs: "(0xFFFFFF00 :: u32) = push_bit 8 (mask 24)" "(0xFF :: u32) = mask 8"
    by (simp_all add: push_bit_eq_mult mask_eq_exp_minus_1)
  show ?thesis unfolding eqs by (rule bit_eqI) (auto simp: bit_simps)
qed

lemma low_word_plus: "(ucast (x + y) :: u16) = ucast x + ucast (y :: u32)"
  by (rule word_uint_eqI)
    (simp add: uint_word_ariths unsigned_ucast_eq take_bit_eq_mod mod_simps mod_mod_cancel)

lemma packed_unpacked: "packed_digits (ucast (unpacked_digits x)) = ucast (x AND 0xFF)"
  unfolding packed_digits_def unpacked_digits_def field_masks
  by (rule bit_eqI) (auto simp: bit_simps)

section \<open>Properties\<close>

lemma bcd_add_exact:
  assumes "decimal_ok a" "decimal_ok b" "bcd_add a b s = (r, s')"
  shows "decimal_ok r \<and> decimal r + 100 * x_in s' = decimal a + decimal b + x_in s \<and>
    (flag_z s' \<longleftrightarrow> flag_z s \<and> r = 0)"
  using bcd_add_hardware [OF assms(1,2) _ assms(3)] bcd_add_fixture [OF assms(1,2), of s r s'] assms(3)
  by (cases "sst_m68000_compat s") (auto simp: bcd_add_def)

lemma bcd_sub_exact:
  assumes "decimal_ok a" "decimal_ok b" "bcd_sub a b s = (r, s')"
  shows "decimal_diff (decimal a) (decimal b) r s s'"
  using bcd_sub_hardware [OF assms(1,2) _ assms(3)] bcd_sub_fixture [OF assms(1,2), of s r s'] assms(3)
  by (cases "sst_m68000_compat s") (auto simp: bcd_sub_def)

text \<open>Decimal numbers of any length: bytes of two digits, least significant first.\<close>

fun decimal_value :: "u32 list \<Rightarrow> int" where
  "decimal_value [] = 0"
| "decimal_value (x # xs) = decimal x + 100 * decimal_value xs"

definition decimal_pairs :: "(u32 \<times> u32) list \<Rightarrow> bool" where
  "decimal_pairs ps \<longleftrightarrow> list_all (\<lambda>(a, b). decimal_ok a \<and> decimal_ok b) ps"

lemma abcd_chain:
  "decimal_pairs ps \<Longrightarrow> extended_chain bcd_add ps s = (rs, s') \<Longrightarrow>
   list_all decimal_ok rs \<and>
   decimal_value rs + 100 ^ length ps * x_in s' =
     decimal_value (map fst ps) + decimal_value (map snd ps) + x_in s \<and>
   (flag_z s' \<longleftrightarrow> flag_z s \<and> set rs \<subseteq> {0})"
proof (induction ps arbitrary: s rs)
  case (Cons p ps)
  obtain a b where p: "p = (a, b)" by force
  obtain r s1 where x: "bcd_add a b s = (r, s1)" by force
  obtain rs1 where xs: "extended_chain bcd_add ps s1 = (rs1, s')" and rs: "rs = r # rs1"
    using Cons.prems(2) by (auto simp: p x split: prod.splits)
  have ok: "decimal_ok a" "decimal_ok b" "decimal_pairs ps"
    using Cons.prems(1) by (simp_all add: decimal_pairs_def p)
  show ?case
    using Cons.IH [OF ok(3) xs] bcd_add_exact [OF ok(1,2) x] by (auto simp: p rs algebra_simps)
qed simp

lemma sbcd_chain:
  "decimal_pairs ps \<Longrightarrow> extended_chain bcd_sub ps s = (rs, s') \<Longrightarrow>
   list_all decimal_ok rs \<and>
   decimal_value rs - 100 ^ length ps * x_in s' =
     decimal_value (map snd ps) - decimal_value (map fst ps) - x_in s \<and>
   (flag_z s' \<longleftrightarrow> flag_z s \<and> set rs \<subseteq> {0})"
proof (induction ps arbitrary: s rs)
  case (Cons p ps)
  obtain a b where p: "p = (a, b)" by force
  obtain r s1 where x: "bcd_sub a b s = (r, s1)" by force
  obtain rs1 where xs: "extended_chain bcd_sub ps s1 = (rs1, s')" and rs: "rs = r # rs1"
    using Cons.prems(2) by (auto simp: p x split: prod.splits)
  have ok: "decimal_ok a" "decimal_ok b" "decimal_pairs ps"
    using Cons.prems(1) by (simp_all add: decimal_pairs_def p)
  show ?case
    using Cons.IH [OF ok(3) xs] bcd_sub_exact [OF ok(1,2) x]
    by (auto simp: p rs decimal_diff_def algebra_simps)
qed simp

text \<open>
  C18. Decimal arithmetic: over bytes of valid digits, a chain of ABCD (SBCD) computes the
  decimal sum (difference) of two numbers of any length in valid digits, with X as carry
  (borrow) in and out and Z cleared by any nonzero byte, in the hardware model and in the
  fixture-compatible mode; NBCD is the decimal difference from zero.
\<close>

theorem decimal_arithmetic:
  assumes "decimal_pairs ps" and "decimal_ok b"
  shows "(case extended_chain bcd_add ps s of (rs, s') \<Rightarrow>
      list_all decimal_ok rs \<and>
      decimal_value rs + 100 ^ length ps * x_in s' =
        decimal_value (map fst ps) + decimal_value (map snd ps) + x_in s \<and>
      (flag_z s' \<longleftrightarrow> flag_z s \<and> set rs \<subseteq> {0})) \<and>
    (case extended_chain bcd_sub ps s of (rs, s') \<Rightarrow>
      list_all decimal_ok rs \<and>
      decimal_value rs - 100 ^ length ps * x_in s' =
        decimal_value (map snd ps) - decimal_value (map fst ps) - x_in s \<and>
      (flag_z s' \<longleftrightarrow> flag_z s \<and> set rs \<subseteq> {0})) \<and>
    (case bcd_neg b s of (r, s') \<Rightarrow> decimal_diff (decimal b) 0 r s s')"
  using abcd_chain [OF assms(1), of s] sbcd_chain [OF assms(1), of s] bcd_neg_hardware [OF assms(2), of s]
  by (simp split: prod.split)

theorem decimal_arithmetic_witness:
  "case extended_chain bcd_add [(0x45, 0x78), (0x12, 0x39)] (set_xc False (cpu_new () :: unit machine)) of
     (rs, s') \<Rightarrow> list_all decimal_ok rs \<and> decimal_value rs + 10000 * x_in s' = 1245 + 3978"
proof -
  have ok: "decimal_pairs [(0x45, 0x78), (0x12, 0x39)]" "decimal_ok 0x12"
    by (simp_all add: decimal_pairs_def decimal_ok_def lo_digit_def hi_digit_def)
  have v: "decimal_value [0x45, 0x12] = 1245" "decimal_value [0x78, 0x39] = 3978"
    by (simp_all add: decimal_def lo_digit_def hi_digit_def)
  show ?thesis
    using conjunct1 [OF decimal_arithmetic [OF ok, of "set_xc False (cpu_new () :: unit machine)"]]
    by (simp add: v del: decimal_value.simps extended_chain.simps split: prod.splits)
qed

text \<open>
  C27. PACK undoes UNPK: unpacking the low byte of a register with an adjustment and packing the
  result with the negated adjustment gives the byte back, whatever the byte, the adjustment
  and the three registers are.
\<close>

theorem pack_undoes_unpk:
  "case exec_unpk_rr i j adj s of (_, s1) \<Rightarrow>
     (case exec_pack_rr j k (- adj) s1 of (_, s2) \<Rightarrow> d_reg k s2 AND 0xFF = d_reg i s AND 0xFF)"
proof -
  have "(ucast (unpacked_digits (d_reg i s AND 0xFF) + ucast adj) :: u16) + - adj =
      ucast (unpacked_digits (d_reg i s AND 0xFF))"
    by (simp add: low_word_plus)
  then show ?thesis
    by (simp add: exec_unpk_rr_def exec_pack_rr_def Let_def low_word_join low_byte_join packed_unpacked)
qed

end
