(* ===== verification/Mul_Div.thy ===== *)
theory Mul_Div
  imports Data_Movement
begin

unbundle bit_operations_syntax

text \<open>
  Multiplication and division (\<open>src/core/instructions/mul_div.rs\<close> and \<open>mul_div_long.rs\<close>):
  MULU, MULS, DIVU and DIVS on words with the data-dependent cycle counts of the 68000, and the
  long forms of the 68020 with their 64-bit product and dividend. The results are specified as
  exact products, and as the truncated quotient and the remainder with the dividend's sign; the
  cycle counts stay inside the published ranges.
\<close>

section \<open>Cycle counts of the 68000\<close>

definition count_ones :: "'a::len word \<Rightarrow> nat" where
  "count_ones w = length (filter (bit w) [0..<LENGTH('a)])"

definition muls_transitions :: "u16 \<Rightarrow> nat" where
  "muls_transitions src =
     (let s = push_bit 1 (ucast src :: u32) in count_ones ((s XOR drop_bit 1 s) AND 0xFFFF))"

definition mulu_internal_clocks :: "u16 \<Rightarrow> nat" where
  "mulu_internal_clocks src = 34 + 2 * count_ones src"

definition muls_internal_clocks :: "u16 \<Rightarrow> nat" where
  "muls_internal_clocks src = 34 + 2 * muls_transitions src"

text \<open>One round of the restoring division, \<open>n\<close> of which are simulated.\<close>

fun divu_loop :: "nat \<Rightarrow> u32 \<Rightarrow> u32 \<Rightarrow> int \<Rightarrow> int" where
  "divu_loop 0 hdivisor dividend mcycles = mcycles"
| "divu_loop (Suc n) hdivisor dividend mcycles =
     (let temp = dividend; dividend = push_bit 1 dividend
      in if sint temp < 0 then divu_loop n hdivisor (dividend - hdivisor) mcycles
         else if hdivisor \<le> dividend then divu_loop n hdivisor (dividend - hdivisor) (mcycles + 2 - 1)
         else divu_loop n hdivisor dividend (mcycles + 2))"

definition divu_cycles :: "u32 \<Rightarrow> u16 \<Rightarrow> int" where
  "divu_cycles dividend divisor =
     (let dv = ucast divisor
      in if dv \<le> drop_bit 16 dividend then 10
         else divu_loop 15 (push_bit 16 dv) dividend 38 * 2)"

fun leading_zero_cycles :: "nat \<Rightarrow> u16 \<Rightarrow> int \<Rightarrow> int" where
  "leading_zero_cycles 0 q mcycles = mcycles"
| "leading_zero_cycles (Suc n) q mcycles =
     leading_zero_cycles n (push_bit 1 q) (if 0 \<le> sint q then mcycles + 1 else mcycles)"

definition divs_cycles :: "u32 \<Rightarrow> u16 \<Rightarrow> int" where
  "divs_cycles dividend divisor =
     (let mcycles = (if sint dividend < 0 then 6 + 1 else 6);
          adivisor = (word_of_int \<bar>sint divisor\<bar> :: u32);
          adividend = (word_of_int \<bar>sint dividend\<bar> :: u32)
      in if adivisor \<le> drop_bit 16 adividend then (mcycles + 2) * 2
         else
           let mcycles = mcycles + 55;
               mcycles = (if 0 \<le> sint divisor then
                            (if 0 \<le> sint dividend then mcycles - 1 else mcycles + 1)
                          else mcycles);
               q = ucast ((adividend div adivisor) AND 0xFFFF)
           in leading_zero_cycles 15 q mcycles * 2)"

section \<open>Word forms\<close>

definition finish_m68000_mul ::
  "'b address_bus \<Rightarrow> 'b delivery \<Rightarrow> u32 \<Rightarrow> 'b machine \<Rightarrow> 'b machine option" where
  "finish_m68000_mul B dl internal_clocks s = do {
     s \<leftarrow> top_up_prefetch B dl s;
     Some (flush_sync B (internal_cycles internal_clocks s))
   }"

text \<open>The end of MULU and MULS: the product is written, then the flags.\<close>

definition mul_result :: "nat \<Rightarrow> u32 \<Rightarrow> 'a cpu_core_scheme \<Rightarrow> 'a cpu_core_scheme" where
  "mul_result reg result s =
     (set_d reg result s)\<lparr> not_z_flag := result, n_flag := flag 0x80 (result AND 0x80000000 \<noteq> 0),
        v_flag := 0, c_flag := 0 \<rparr>"

definition mulu_product :: "u32 \<Rightarrow> u32 \<Rightarrow> u32" where
  "mulu_product src dst = (src AND 0xFFFF) * (dst AND 0xFFFF)"

definition muls_product :: "u32 \<Rightarrow> u32 \<Rightarrow> u32" where
  "muls_product src dst = word_of_int (sint (ucast src :: u16) * sint (ucast dst :: u16))"

definition exec_mulu ::
  "'b address_bus \<Rightarrow> 'b delivery \<Rightarrow> addressing_mode \<Rightarrow> nat \<Rightarrow> 'b machine \<Rightarrow> (int \<times> 'b machine) option" where
  "exec_mulu B dl mode dst_reg s = do {
     (src, s) \<leftarrow> read_ea B dl mode Size_Word s;
     let src = src AND 0xFFFF;
     unless_faulted s (do {
       let result = mulu_product src (d_reg dst_reg s);
       s \<leftarrow> (if cpu_model s = M68000
             then finish_m68000_mul B dl (of_nat (mulu_internal_clocks (ucast src))) s
             else Some s);
       let s = mul_result dst_reg result s;
       Some (if cpu_model s = M68000
             then 38 + 2 * int (count_ones (src AND 0xFFFF)) + ea_source_cycles mode Size_Word
             else 42, s)
     })
   }"

definition exec_muls ::
  "'b address_bus \<Rightarrow> 'b delivery \<Rightarrow> addressing_mode \<Rightarrow> nat \<Rightarrow> 'b machine \<Rightarrow> (int \<times> 'b machine) option" where
  "exec_muls B dl mode dst_reg s = do {
     (src, s) \<leftarrow> read_ea B dl mode Size_Word s;
     unless_faulted s (do {
       let result = muls_product src (d_reg dst_reg s);
       s \<leftarrow> (if cpu_model s = M68000
             then finish_m68000_mul B dl (of_nat (muls_internal_clocks (ucast src))) s
             else Some s);
       let s = mul_result dst_reg result s;
       Some (if cpu_model s = M68000
             then 38 + 2 * int (muls_transitions (ucast src)) + ea_source_cycles mode Size_Word
             else 42, s)
     })
   }"

text \<open>An overflowing division leaves the register alone and sets V.\<close>

definition div_overflow :: "'a cpu_core_scheme \<Rightarrow> 'a cpu_core_scheme" where
  "div_overflow s =
     (let s = s\<lparr> v_flag := 0x80 \<rparr>
      in if sst_m68000_compat s then s\<lparr> n_flag := 0x80, not_z_flag := 1, c_flag := 0 \<rparr> else s)"

text \<open>Quotient and remainder, each in 16 bits, are written as one register.\<close>

definition div_result :: "nat \<Rightarrow> u32 \<Rightarrow> u32 \<Rightarrow> 'a cpu_core_scheme \<Rightarrow> 'a cpu_core_scheme" where
  "div_result reg quot rem s =
     (set_d reg (push_bit 16 rem OR (quot AND 0xFFFF)) s)\<lparr>
        not_z_flag := quot, n_flag := flag 0x80 (quot AND 0x8000 \<noteq> 0), v_flag := 0, c_flag := 0 \<rparr>"

definition divu_finish :: "nat \<Rightarrow> u32 \<Rightarrow> u32 \<Rightarrow> 'a cpu_core_scheme \<Rightarrow> 'a cpu_core_scheme" where
  "divu_finish reg dst src s =
     (let quot = dst div src; rem = dst mod src
      in if 0x10000 \<le> quot then div_overflow s else div_result reg quot rem s)"

definition divs_finish :: "nat \<Rightarrow> int \<Rightarrow> int \<Rightarrow> 'a cpu_core_scheme \<Rightarrow> 'a cpu_core_scheme" where
  "divs_finish reg dst src s =
     (if dst = -0x80000000 \<and> src = -1 then
        (set_d reg 0 s)\<lparr> not_z_flag := 0, n_flag := 0, v_flag := 0, c_flag := 0 \<rparr>
      else
        let quot = dst sdiv src; rem = dst smod src
        in if \<not> (-32768 \<le> quot \<and> quot \<le> 32767) then div_overflow s
           else div_result reg (ucast (word_of_int quot :: u16)) (ucast (word_of_int rem :: u16)) s)"

text \<open>
  The shared frame of DIVU and DIVS: zero divides trap after 8 clocks, then the 68000 performs
  the final prefetch and spends the clocks of the division before the result is written.
\<close>

definition div_frame ::
  "'b address_bus \<Rightarrow> 'b delivery \<Rightarrow> addressing_mode \<Rightarrow> bool \<Rightarrow> int \<Rightarrow> int \<Rightarrow>
   ('b machine \<Rightarrow> 'b machine) \<Rightarrow> 'b machine \<Rightarrow> (int \<times> 'b machine) option" where
  "div_frame B dl mode zero clocks_68000 fixed finish s =
     (let m68000 = (cpu_model s = M68000)
      in if zero then exception_zero_divide B dl (if m68000 then internal_cycles 8 s else s)
         else do {
           let div_clocks = (if m68000 then clocks_68000 else fixed);
           let cycles = (if m68000 then div_clocks + ea_source_cycles mode Size_Word else fixed);
           s \<leftarrow> (if m68000 then do {
                   s \<leftarrow> top_up_prefetch B dl s;
                   Some (if 4 < div_clocks
                         then flush_sync B (internal_cycles (word_of_int (div_clocks - 4)) s) else s)
                 } else Some s);
           Some (cycles, finish s)
         })"

definition exec_divu ::
  "'b address_bus \<Rightarrow> 'b delivery \<Rightarrow> addressing_mode \<Rightarrow> nat \<Rightarrow> 'b machine \<Rightarrow> (int \<times> 'b machine) option" where
  "exec_divu B dl mode dst_reg s = do {
     (src, s) \<leftarrow> read_ea B dl mode Size_Word s;
     let src = src AND 0xFFFF;
     unless_faulted s
       (let dst = d_reg dst_reg s
        in div_frame B dl mode (src = 0) (divu_cycles dst (ucast src)) 140 (divu_finish dst_reg dst src) s)
   }"

definition exec_divs ::
  "'b address_bus \<Rightarrow> 'b delivery \<Rightarrow> addressing_mode \<Rightarrow> nat \<Rightarrow> 'b machine \<Rightarrow> (int \<times> 'b machine) option" where
  "exec_divs B dl mode dst_reg s = do {
     (src, s) \<leftarrow> read_ea B dl mode Size_Word s;
     let src16 = (ucast src :: u16);
     unless_faulted s
       (let dst = d_reg dst_reg s
        in div_frame B dl mode (sint src16 = 0) (divs_cycles dst src16) 158
             (divs_finish dst_reg (sint dst) (sint src16)) s)
   }"

section \<open>Long forms\<close>

text \<open>Quotient, remainder and overflow of a dividend of 32 or 64 bits.\<close>

definition divl_parts :: "bool \<Rightarrow> bool \<Rightarrow> u32 \<Rightarrow> u32 \<Rightarrow> u32 \<Rightarrow> u32 \<times> u32 \<times> bool" where
  "divl_parts is_signed use_64 high low divisor_u32 =
     (if is_signed then
        let divisor = sint divisor_u32;
            dividend = (if use_64 then sint (push_bit 32 (scast high :: u64) OR ucast low) else sint low)
        in if dividend = -(2 ^ 63) \<and> divisor = -1 then (0, 0, True)
           else
             let q = dividend sdiv divisor; r = dividend smod divisor
             in (word_of_int q, word_of_int r, q < -(2 ^ 31) \<or> 2 ^ 31 - 1 < q)
      else
        let divisor = ucast divisor_u32 :: u64;
            dividend = (if use_64 then push_bit 32 (ucast high) OR ucast low else ucast low);
            q = dividend div divisor; r = dividend mod divisor
        in (ucast q, ucast r, 0xFFFFFFFF < q))"

definition divl_result :: "nat \<Rightarrow> nat \<Rightarrow> u32 \<times> u32 \<times> bool \<Rightarrow> 'a cpu_core_scheme \<Rightarrow> 'a cpu_core_scheme" where
  "divl_result dq dr parts s =
     (case parts of (quot, rem, overflow) \<Rightarrow>
        if overflow then s\<lparr> v_flag := 0x80, c_flag := 0 \<rparr>
        else (set_d dq quot (set_d dr rem s))\<lparr> not_z_flag := quot,
               n_flag := flag 0x80 (quot AND 0x80000000 \<noteq> 0), v_flag := 0, c_flag := 0 \<rparr>)"

definition exec_divl ::
  "'b address_bus \<Rightarrow> 'b delivery \<Rightarrow> u16 \<Rightarrow> 'b machine \<Rightarrow> (int \<times> 'b machine) option" where
  "exec_divl B dl opcode s = do {
     (ext, s) \<leftarrow> read_imm_16 B dl s;
     let is_signed = (ext AND 0x0800 \<noteq> 0);
     let use_64 = (ext AND 0x0400 \<noteq> 0);
     if use_64 \<and> trap_unimpl_060 s then take_exception B dl 61 s
     else
       let dq = unat (drop_bit 12 ext AND 7); dr = unat (ext AND 7)
       in case decode_mode (ucast (drop_bit 3 opcode AND 7)) (ucast (opcode AND 7)) of
            None \<Rightarrow> take_exception B dl 4 s
          | Some mode \<Rightarrow> do {
              (divisor, s) \<leftarrow> read_ea B dl mode Size_Long s;
              if divisor = 0 then exception_zero_divide B dl s
              else Some (40, divl_result dq dr
                     (divl_parts is_signed use_64 (d_reg dr s) (d_reg dq s) divisor) s)
            }
   }"

definition mull_high_written_first :: "'a cpu_core_scheme \<Rightarrow> bool" where
  "mull_high_written_first s \<longleftrightarrow> cpu_model s \<in> {M68EC040, M68LC040, M68040, M68060}"

definition mull_product :: "bool \<Rightarrow> u32 \<Rightarrow> u32 \<Rightarrow> u64" where
  "mull_product is_signed dst src = (if is_signed then scast dst * scast src else ucast dst * ucast src)"

definition mull_result :: "bool \<Rightarrow> bool \<Rightarrow> nat \<Rightarrow> nat \<Rightarrow> u64 \<Rightarrow> 'a cpu_core_scheme \<Rightarrow> 'a cpu_core_scheme" where
  "mull_result is_signed wide dl dh product s =
     (let lo = ucast product :: u32; hi = ucast (drop_bit 32 product) :: u32
      in if wide then
           (if mull_high_written_first s then set_d dl lo (set_d dh hi s) else set_d dh hi (set_d dl lo s))
             \<lparr> not_z_flag := lo OR hi, n_flag := flag 0x80 (hi AND 0x80000000 \<noteq> 0), v_flag := 0, c_flag := 0 \<rparr>
         else
           (set_d dl lo s)\<lparr> not_z_flag := lo, n_flag := flag 0x80 (lo AND 0x80000000 \<noteq> 0),
              v_flag := flag 0x80 (if is_signed then hi \<noteq> (if lo AND 0x80000000 \<noteq> 0 then 0xFFFFFFFF else 0)
                                   else hi \<noteq> 0),
              c_flag := 0 \<rparr>)"

definition exec_mull ::
  "'b address_bus \<Rightarrow> 'b delivery \<Rightarrow> u16 \<Rightarrow> 'b machine \<Rightarrow> (int \<times> 'b machine) option" where
  "exec_mull B dl opcode s = do {
     (ext, s) \<leftarrow> read_imm_16 B dl s;
     let is_signed = (ext AND 0x0800 \<noteq> 0);
     let wide = (ext AND 0x0400 \<noteq> 0);
     if wide \<and> trap_unimpl_060 s then take_exception B dl 61 s
     else
       let rl = unat (drop_bit 12 ext AND 7); rh = unat (ext AND 7)
       in case decode_mode (ucast (drop_bit 3 opcode AND 7)) (ucast (opcode AND 7)) of
            None \<Rightarrow> take_exception B dl 4 s
          | Some mode \<Rightarrow> do {
              (src, s) \<leftarrow> read_ea B dl mode Size_Long s;
              Some (40, mull_result is_signed wide rl rh (mull_product is_signed (d_reg rl s) src) s)
            }
   }"

section \<open>Products\<close>

lemma uint_low_word: "uint (x AND 0xFFFF :: u32) = uvalue Size_Word x"
  using uint_masked [of x Size_Word] by simp

lemma sint_word_range: "- 32768 \<le> sint (w :: u16)" "sint (w :: u16) \<le> 32767"
  using sint_range_size [of w] by (simp_all add: word_size)

lemma sint_long_range: "- 2147483648 \<le> sint (w :: u32)" "sint (w :: u32) \<le> 2147483647"
  using sint_range_size [of w] by (simp_all add: word_size)

lemma mulu_product_exact: "uint (mulu_product src dst) = uvalue Size_Word src * uvalue Size_Word dst"
proof -
  have "uvalue Size_Word x \<le> 65535" for x using uvalue_bounds(2) [of Size_Word x] by simp
  then have "uvalue Size_Word src * uvalue Size_Word dst \<le> 65535 * 65535"
    by (intro mult_mono) (simp_all add: uvalue_bounds)
  then show ?thesis
    by (simp add: mulu_product_def uint_word_ariths uint_low_word uvalue_bounds)
qed

lemma product_range:
  fixes a b m :: int
  assumes "- m \<le> a" "a \<le> m" "- m \<le> b" "b \<le> m"
  shows "- (m * m) \<le> a * b" "a * b \<le> m * m"
proof -
  have "\<bar>a\<bar> * \<bar>b\<bar> \<le> m * m" using assms by (intro mult_mono) auto
  then show "- (m * m) \<le> a * b" "a * b \<le> m * m" by (auto simp: abs_mult [symmetric] abs_le_iff)
qed

lemma sint_word_of_int_eq:
  assumes "- (2 ^ (LENGTH('a) - 1)) \<le> k" "k < 2 ^ (LENGTH('a) - 1)"
  shows "sint (word_of_int k :: 'a::len word) = k"
  using assms by (simp only: sint_sbintrunc' signed_take_bit_int_eq_self)

lemma muls_product_exact: "sint (muls_product src dst) = svalue Size_Word src * svalue Size_Word dst"
proof -
  have "- (32768 * 32768) \<le> svalue Size_Word src * svalue Size_Word dst"
    "svalue Size_Word src * svalue Size_Word dst \<le> 32768 * 32768"
    using svalue_range [of Size_Word src] svalue_range [of Size_Word dst] by (intro product_range; simp)+
  then show ?thesis
    unfolding muls_product_def sint_low_word by (intro sint_word_of_int_eq) simp_all
qed

lemma uint_wide_long [simp]: "uint (ucast (a :: u32) :: u64) = uint a"
  by (rule uint_up_ucast) (simp add: is_up)

lemma mull_product_exact:
  "uint (mull_product False a b) = uint a * uint b"
  "sint (mull_product True a b) = sint a * sint b"
proof -
  have "uint a * uint b < 2 ^ 32 * 2 ^ 32"
    using uint_lt2p [of a] uint_lt2p [of b] by (intro mult_strict_mono) auto
  then show "uint (mull_product False a b) = uint a * uint b"
    by (simp add: mull_product_def uint_word_ariths)
  have "- (2147483648 * 2147483648) \<le> sint a * sint b" "sint a * sint b \<le> 2147483648 * 2147483648"
    using sint_long_range [of a] sint_long_range [of b] by (intro product_range; simp)+
  moreover have "mull_product True a b = word_of_int (sint a * sint b)"
    by (simp only: mull_product_def if_True scast_eq wi_hom_syms)
  ultimately show "sint (mull_product True a b) = sint a * sint b"
    by (simp only:) (intro sint_word_of_int_eq; simp)
qed


section \<open>Quotients\<close>

text \<open>Truncated division: the remainder is smaller than the divisor and has the dividend's sign.\<close>

definition quotient_of :: "int \<Rightarrow> int \<Rightarrow> int \<Rightarrow> int \<Rightarrow> bool" where
  "quotient_of n d q r \<longleftrightarrow> n = q * d + r \<and> \<bar>r\<bar> < \<bar>d\<bar> \<and> (r = 0 \<or> (r < 0 \<longleftrightarrow> n < 0))"

lemma quotient_of_unsigned:
  "0 \<le> n \<Longrightarrow> 0 < d \<Longrightarrow> quotient_of n d (n div d) (n mod d)"
  using pos_mod_bound [of d n] pos_mod_sign [of d n] by (auto simp: quotient_of_def not_less)

lemma quotient_of_signed:
  assumes "d \<noteq> 0"
  shows "quotient_of n d (n sdiv d) (n smod d)"
proof -
  have "n = n sdiv d * d + n smod d" by (simp add: sdiv_mult_smod_eq)
  moreover have "\<bar>n smod d\<bar> < \<bar>d\<bar>"
    using smod_int_range [OF assms, of n] by (auto simp: abs_less_iff)
  moreover have "n smod d = 0 \<or> (n smod d < 0 \<longleftrightarrow> n < 0)"
  proof -
    have "0 \<le> \<bar>n\<bar> mod \<bar>d\<bar>" using assms by simp
    then show ?thesis by (auto simp: smod_int_alt_def sgn_if mult_less_0_iff)
  qed
  ultimately show ?thesis by (simp add: quotient_of_def)
qed

text \<open>A quotient and a remainder, each of a word, as they are stored in one register.\<close>

lemma div_result_parts:
  assumes "uint r < 65536"
  shows "ucast (d_reg reg (div_result reg q r s)) = (ucast q :: u16)"
    "ucast (drop_bit 16 (d_reg reg (div_result reg q r s))) = (ucast r :: u16)"
proof -
  have eqs: "(0xFFFF :: u32) = mask 16" by (simp add: mask_eq_exp_minus_1)
  show "ucast (d_reg reg (div_result reg q r s)) = (ucast q :: u16)"
    "ucast (drop_bit 16 (d_reg reg (div_result reg q r s))) = (ucast r :: u16)"
    unfolding eqs div_result_def by (rule bit_eqI; auto simp: bit_simps d_reg_def set_d_def)+
qed

lemma div_result_flags:
  "flag_z (div_result reg q r s) \<longleftrightarrow> q = 0" "flag_n (div_result reg q r s) \<longleftrightarrow> q AND 0x8000 \<noteq> 0"
  "\<not> flag_v (div_result reg q r s)" "\<not> flag_c (div_result reg q r s)"
  by (simp_all add: div_result_def flag_defs)

lemma div_overflow_keeps: "dar (div_overflow s) = dar s" "flag_v (div_overflow s)"
  by (simp_all add: div_overflow_def Let_def flag_defs)

lemma divu_finish_exact:
  assumes "uint src < 65536" "src \<noteq> 0"
  shows "let s' = divu_finish reg dst src s; n = uint dst; d = uint src
    in if n div d < 65536 then
         quotient_of n d (uvalue Size_Word (d_reg reg s')) (uvalue Size_Word (drop_bit 16 (d_reg reg s'))) \<and>
         uvalue Size_Word (d_reg reg s') = n div d \<and>
         (flag_z s' \<longleftrightarrow> n div d = 0) \<and> \<not> flag_v s' \<and> \<not> flag_c s'
       else dar s' = dar s \<and> flag_v s'"
proof -
  have d: "0 < uint src" using assms(2) by (metis uint_0_iff uint_ge_0 order_le_less)
  have q: "uint (dst div src) = uint dst div uint src" and r: "uint (dst mod src) = uint dst mod uint src"
    by (simp_all add: uint_div uint_mod)
  have r16: "uint (dst mod src) < 65536"
    using pos_mod_bound [OF d, of "uint dst"] assms(1) by (simp add: r)
  have w: "uvalue Size_Word x = uint (ucast x :: u16)" for x :: u32
    by (simp add: uvalue_def uval_def unsigned_ucast_eq)
  have ov: "0x10000 \<le> dst div src \<longleftrightarrow> \<not> uint dst div uint src < 65536"
    by (simp add: word_le_def q not_less)
  show ?thesis
  proof (cases "uint dst div uint src < 65536")
    case True
    have u: "uint (ucast x :: u16) = uint x" if "uint x < 65536" for x :: u32
      using that by (simp add: unsigned_ucast_eq take_bit_eq_mod)
    have "dst div src = 0 \<longleftrightarrow> uint dst div uint src = 0" by (simp add: uint_0_iff [symmetric] q)
    then show ?thesis
      using True r16 quotient_of_unsigned [OF uint_ge_0 d]
      by (simp add: divu_finish_def ov Let_def w div_result_parts div_result_flags u q r)
  next
    case False
    then show ?thesis by (simp add: divu_finish_def ov Let_def div_overflow_keeps)
  qed
qed

lemma svalue_word_sint: "svalue Size_Word x = sint (ucast x :: u16)"
  by (rule sint_low_word [symmetric])

lemma divs_finish_exact:
  fixes d :: u16 and n :: u32
  assumes "d \<noteq> 0"
  shows "let s' = divs_finish reg (sint n) (sint d) s; q = sint n sdiv sint d
    in if sint n = - (2 ^ 31) \<and> sint d = - 1 then d_reg reg s' = 0 \<and> flag_z s' \<and> \<not> flag_n s' \<and> \<not> flag_v s' \<and> \<not> flag_c s'
       else if - 32768 \<le> q \<and> q \<le> 32767 then
         quotient_of (sint n) (sint d) (svalue Size_Word (d_reg reg s')) (svalue Size_Word (drop_bit 16 (d_reg reg s'))) \<and>
         svalue Size_Word (d_reg reg s') = q \<and>
         (flag_z s' \<longleftrightarrow> q = 0) \<and> (flag_n s' \<longleftrightarrow> q < 0) \<and> \<not> flag_v s' \<and> \<not> flag_c s'
       else dar s' = dar s \<and> flag_v s'"
proof -
  define q where "q = sint n sdiv sint d"
  define r where "r = sint n smod sint d"
  have d0: "sint d \<noteq> 0" using assms by (metis signed_eq_0_iff)
  have rb: "- 32768 \<le> r" "r < 32768"
    using smod_int_range [OF d0, of "sint n"] sint_word_range [of d] by (auto simp: r_def)
  have sr: "sint (word_of_int r :: u16) = r"
    using rb by (intro sint_word_of_int_eq) simp_all
  have ur: "uint (ucast (word_of_int r :: u16) :: u32) < 65536"
    using uint_lt2p [of "word_of_int r :: u16"] by (simp add: uint_up_ucast is_up)
  show ?thesis
  proof (cases "sint n = - (2 ^ 31) \<and> sint d = - 1")
    case True
    then show ?thesis
      by (simp add: divs_finish_def Let_def flag_defs) (simp add: d_reg_def set_d_def)
  next
    case False
    then have f: "divs_finish reg (sint n) (sint d) s =
        (if \<not> (- 32768 \<le> q \<and> q \<le> 32767) then div_overflow s
         else div_result reg (ucast (word_of_int q :: u16)) (ucast (word_of_int r :: u16)) s)"
      unfolding divs_finish_def Let_def q_def r_def by auto
    show ?thesis
    proof (cases "- 32768 \<le> q \<and> q \<le> 32767")
      case True
      define w where "w = (word_of_int q :: u16)"
      have sq: "sint w = q" unfolding w_def using True by (intro sint_word_of_int_eq) simp_all
      have n: "(ucast w :: u32) AND 0x8000 \<noteq> 0 \<longleftrightarrow> q < 0"
        using msb_iff_negative [of "ucast w" Size_Word] by (simp add: svalue_word_sint sq)
      have z: "(ucast w :: u32) = 0 \<longleftrightarrow> q = 0"
        by (metis low_word_of_wide sq signed_0 signed_eq_0_iff ucast_0)
      show ?thesis
        using False True quotient_of_signed [OF d0, of "sint n"] ur
        by (simp add: f q_def [symmetric] r_def [symmetric] w_def [symmetric] svalue_word_sint div_result_parts
            div_result_flags sq sr n z del: One_nat_def) blast
    next
      case False
      with \<open>\<not> (sint n = _ \<and> _)\<close> show ?thesis
        by (simp add: f q_def [symmetric] div_overflow_keeps)
    qed
  qed
qed

text \<open>The long forms: a dividend of 64 bits is built from two registers.\<close>

definition dividend_of :: "bool \<Rightarrow> bool \<Rightarrow> u32 \<Rightarrow> u32 \<Rightarrow> int" where
  "dividend_of is_signed use_64 high low =
     (if is_signed then (if use_64 then sint high * 2 ^ 32 + uint low else sint low)
      else (if use_64 then uint high * 2 ^ 32 + uint low else uint low))"

lemma uint_join64: "uint (push_bit 32 (ucast high :: u64) OR ucast (low :: u32)) = uint (high :: u32) * 2 ^ 32 + uint low"
proof -
  have "push_bit 32 (ucast high :: u64) OR ucast low = push_bit 32 (ucast high) + ucast low"
    by (rule disjunctive_add [symmetric]) (auto simp: bit_simps dest: bit_imp_possible_bit)
  moreover have b: "uint high * 2 ^ 32 + uint low < 2 ^ 64" "uint high * 2 ^ 32 < 2 ^ 64"
    using uint_lt2p [of high] uint_lt2p [of low] by simp_all
  moreover have "uint (push_bit 32 (ucast high :: u64)) = uint high * 2 ^ 32"
    using b(2) by (simp add: uint_word_ariths push_bit_eq_mult)
  ultimately show ?thesis
    by (simp only: uint_word_ariths uint_wide_long) simp
qed

lemma sint_join64: "sint (push_bit 32 (scast high :: u64) OR ucast (low :: u32)) = sint (high :: u32) * 2 ^ 32 + uint low"
proof -
  have "push_bit 32 (scast high :: u64) OR ucast low = push_bit 32 (scast high) + ucast low"
    by (rule disjunctive_add [symmetric]) (auto simp: bit_simps dest: bit_imp_possible_bit)
  also have "\<dots> = word_of_int (sint high * 2 ^ 32 + uint low)"
    by (simp only: push_bit_eq_mult scast_eq ucast_eq of_int_add of_int_mult of_int_power of_int_numeral)
  finally have e: "push_bit 32 (scast high :: u64) OR ucast low = word_of_int (sint high * 2 ^ 32 + uint low)" .
  have "uint low < 4294967296" using uint_lt2p [of low] by simp
  then have "- 9223372036854775808 \<le> sint high * 4294967296 + uint low"
    "sint high * 4294967296 + uint low < 9223372036854775808"
    using sint_long_range [of high] uint_ge_0 [of low] by linarith+
  then show ?thesis unfolding e by (intro sint_word_of_int_eq) simp_all
qed

lemma divl_parts_exact:
  assumes "divisor \<noteq> 0" "divl_parts is_signed use_64 high low divisor = (quot, rem, overflow)"
  shows "let n = dividend_of is_signed use_64 high low; val = (if is_signed then sint else uint);
      q = n sdiv val divisor
    in (overflow \<longleftrightarrow> \<not> (if is_signed then - (2 ^ 31) \<le> q \<and> q < 2 ^ 31 else q < 2 ^ 32)) \<and>
       (\<not> overflow \<longrightarrow> quotient_of n (val divisor) (val quot) (val rem) \<and> val quot = q)"
proof (cases is_signed)
  case True
  define n where "n = dividend_of True use_64 high low"
  define d where "d = sint divisor"
  have n: "(if use_64 then sint (push_bit 32 (scast high :: u64) OR ucast low) else sint low) = n"
    by (simp add: n_def dividend_of_def sint_join64)
  have d0: "d \<noteq> 0" unfolding d_def using assms(1) by (metis signed_eq_0_iff)
  have rb: "- 2147483648 \<le> n smod d" "n smod d < 2147483648"
    using smod_int_range [OF d0, of n] sint_long_range [of divisor] by (auto simp: d_def)
  note p = assms(2) [unfolded divl_parts_def if_P [OF True] Let_def n d_def [symmetric]]
  show ?thesis
  proof (cases "n = -(2 ^ 63) \<and> d = -1")
    case True
    with p show ?thesis
      using \<open>is_signed\<close> by (simp add: n_def [symmetric] d_def [symmetric])
  next
    case False
    with p have o: "overflow \<longleftrightarrow> n sdiv d < -(2 ^ 31) \<or> 2 ^ 31 - 1 < n sdiv d"
      "quot = word_of_int (n sdiv d)" "rem = word_of_int (n smod d)" by auto
    have "sint rem = n smod d"
      unfolding o(3) using rb by (intro sint_word_of_int_eq) simp_all
    moreover have "sint quot = n sdiv d" if "\<not> overflow"
      using that unfolding o by (intro sint_word_of_int_eq) auto
    ultimately show ?thesis
      using \<open>is_signed\<close> o(1) quotient_of_signed [OF d0, of n]
      by (auto simp: Let_def n_def [symmetric] d_def [symmetric])
  qed
next
  case False
  define n where "n = dividend_of False use_64 high low"
  define d where "d = uint divisor"
  define w :: u64 where "w = (if use_64 then push_bit 32 (ucast high) OR ucast low else ucast low)"
  have w: "uint w = n" by (simp add: w_def n_def dividend_of_def uint_join64)
  have n0: "0 \<le> n" unfolding w [symmetric] by simp
  have d0: "0 < d" unfolding d_def using assms(1) by (metis uint_0_iff uint_ge_0 order_le_less)
  have q: "n sdiv d = n div d" using n0 d0 by (simp add: signed_divide_int_def sgn_if)
  note p = assms(2) [unfolded divl_parts_def if_not_P [OF False] Let_def w_def [symmetric]]
  have uq: "uint (w div ucast divisor) = n div d" and ur: "uint (w mod ucast divisor) = n mod d"
    by (simp_all add: uint_div uint_mod w d_def)
  have narrow: "uint (ucast v :: u32) = uint v" if "uint v < 2 ^ 32" for v :: u64
    using that by (simp add: unsigned_ucast_eq take_bit_eq_mod)
  have "n mod d < 2 ^ 32"
    using pos_mod_bound [OF d0, of n] uint_lt2p [of divisor] by (simp add: d_def)
  then have "uint rem = n mod d" using p narrow ur by auto
  moreover have o: "overflow \<longleftrightarrow> \<not> n div d < 2 ^ 32" using p by (auto simp: word_less_def uq)
  moreover have "uint quot = n div d" if "\<not> overflow" using that p o narrow uq by auto
  ultimately show ?thesis
    using False quotient_of_unsigned [OF n0 d0] by (simp add: Let_def n_def [symmetric] d_def [symmetric] q)
qed

text \<open>The product of the long forms in one register or two.\<close>

lemma high_half: "uint (ucast (drop_bit 32 (w :: u64)) :: u32) = uint w div 4294967296"
proof -
  have "uint w < 18446744073709551616" using uint_lt2p [of w] by simp
  then have "uint w div 4294967296 < 4294967296" by arith
  then show ?thesis
    by (simp add: unsigned_ucast_eq take_bit_eq_mod drop_bit_eq_div uint_div pos_imp_zdiv_nonneg_iff)
qed

lemma split64: "uint (w :: u64) = uint (ucast (drop_bit 32 w) :: u32) * 4294967296 + uint (ucast w :: u32)"
  unfolding high_half by (simp add: unsigned_ucast_eq take_bit_eq_mod)

lemma low_half: "uint (ucast (w :: u64) :: u32) = uint w mod 2 ^ 32"
  by (simp add: unsigned_ucast_eq take_bit_eq_mod)

lemma halves_order:
  fixes h l :: int
  assumes "0 \<le> l" "l < 4294967296" "0 \<le> h" "h < 4294967296"
  shows "h = 0 \<longleftrightarrow> h * 4294967296 + l < 4294967296"
    and "2147483648 \<le> l \<Longrightarrow> h = 4294967295 \<longleftrightarrow> 18446744071562067968 \<le> h * 4294967296 + l"
    and "\<not> 2147483648 \<le> l \<Longrightarrow> h = 0 \<longleftrightarrow> h * 4294967296 + l < 2147483648"
    and "2147483648 \<le> l \<Longrightarrow> \<not> h * 4294967296 + l < 2147483648"
    and "\<not> 2147483648 \<le> l \<Longrightarrow> \<not> 18446744071562067968 \<le> h * 4294967296 + l"
  using assms by linarith+

text \<open>A number of 64 bits is the sign extension of its low half exactly when it fits a long.\<close>

lemma high_half_sign:
  fixes w :: u64
  defines "lo \<equiv> ucast w :: u32" and "hi \<equiv> ucast (drop_bit 32 w) :: u32"
  shows "hi = (if lo AND 0x80000000 \<noteq> 0 then 0xFFFFFFFF else 0) \<longleftrightarrow> - (2 ^ 31) \<le> sint w \<and> sint w < 2 ^ 31"
proof -
  have u: "uint w = uint hi * 4294967296 + uint lo"
    using split64 [of w] by (simp add: lo_def hi_def)
  have lo: "lo AND 0x80000000 \<noteq> 0 \<longleftrightarrow> 2147483648 \<le> uint lo"
    using msb_iff_uvalue [of lo Size_Long] uint_masked [of lo Size_Long, unfolded mask_long_id] by simp
  have b: "uint lo < 4294967296" "uint hi < 4294967296" "0 \<le> uint lo" "0 \<le> uint hi"
    using uint_lt2p [of lo] uint_lt2p [of hi] by simp_all
  have le: "- 2147483648 \<le> uint lo" using b(3) by linarith
  have s: "sint w = (if 2 ^ 63 \<le> uint w then uint w - 2 ^ 64 else uint w)"
    using bit_top_iff [of "uint w" 63] uint_lt2p [of w]
    by (simp add: sint_uint signed_take_bit_eq_take_bit_minus take_bit_int_eq_self)
  have hi: "hi = 0xFFFFFFFF \<longleftrightarrow> uint hi = 4294967295" "hi = 0 \<longleftrightarrow> uint hi = 0"
    by (simp_all add: word_uint_eq_iff)
  show ?thesis
    unfolding lo using halves_order [OF b(3,1,4,2)] b le
    by (cases "2147483648 \<le> uint lo") (simp_all only: if_True if_False hi s u, auto)
qed

lemma mull_result_narrow:
  "uint (d_reg dl (mull_result is_signed False dl dh p s)) = uint p mod 2 ^ 32"
  "flag_v (mull_result is_signed False dl dh p s) \<longleftrightarrow>
     \<not> (if is_signed then - (2 ^ 31) \<le> sint p \<and> sint p < 2 ^ 31 else uint p < 2 ^ 32)"
  "\<not> flag_c (mull_result is_signed False dl dh p s)"
proof -
  show "uint (d_reg dl (mull_result is_signed False dl dh p s)) = uint p mod 2 ^ 32"
    by (simp add: mull_result_def Let_def) (simp add: d_reg_def set_d_def low_half)
  define lo hi where "lo = (ucast p :: u32)" and "hi = (ucast (drop_bit 32 p) :: u32)"
  have v: "flag_v (mull_result is_signed False dl dh p s) \<longleftrightarrow>
      (if is_signed then hi \<noteq> (if lo AND 0x80000000 \<noteq> 0 then 0xFFFFFFFF else 0) else hi \<noteq> 0)"
    by (simp add: mull_result_def Let_def flag_v_def lo_def hi_def)
  have "hi = 0 \<longleftrightarrow> uint hi = 0" by (simp add: uint_0_iff)
  then have z: "hi = 0 \<longleftrightarrow> uint p < 2 ^ 32"
    using split64 [of p, folded lo_def hi_def] halves_order(1) [of "uint lo" "uint hi"] uint_lt2p [of lo] uint_lt2p [of hi]
    by simp
  show "flag_v (mull_result is_signed False dl dh p s) \<longleftrightarrow>
     \<not> (if is_signed then - (2 ^ 31) \<le> sint p \<and> sint p < 2 ^ 31 else uint p < 2 ^ 32)"
    unfolding v high_half_sign [of p, folded lo_def hi_def] z by simp
  show "\<not> flag_c (mull_result is_signed False dl dh p s)"
    by (simp add: mull_result_def Let_def flag_defs)
qed

lemma mull_result_wide:
  "let s' = mull_result is_signed True dl dh p s
   in if dl AND 7 = dh AND 7 then
        d_reg dl s' = (if mull_high_written_first s then ucast p else ucast (drop_bit 32 p))
      else uint (d_reg dh s') * 2 ^ 32 + uint (d_reg dl s') = uint p"
  using split64 [of p] by (simp add: mull_result_def Let_def) (simp add: d_reg_def set_d_def)

lemma halves_zero: "(w :: u64) = 0 \<longleftrightarrow> (ucast w :: u32) = 0 \<and> (ucast (drop_bit 32 w) :: u32) = 0"
proof -
  define lo hi where "lo = (ucast w :: u32)" and "hi = (ucast (drop_bit 32 w) :: u32)"
  have "uint w = 0 \<longleftrightarrow> uint lo = 0 \<and> uint hi = 0"
    using split64 [of w, folded lo_def hi_def] uint_ge_0 [of hi] uint_ge_0 [of lo] by arith
  then show ?thesis by (simp add: uint_0_iff lo_def hi_def)
qed

lemma mull_result_wide_flags:
  "flag_z (mull_result is_signed True dl dh p s) \<longleftrightarrow> p = 0"
  "\<not> flag_v (mull_result is_signed True dl dh p s)"
  "\<not> flag_c (mull_result is_signed True dl dh p s)"
  using halves_zero [of p] by (simp_all add: mull_result_def Let_def flag_defs or_eq_0_iff)

section \<open>Properties\<close>

lemma mul_result_flags:
  "d_reg reg (mul_result reg p s) = p" "flag_z (mul_result reg p s) \<longleftrightarrow> p = 0"
  "flag_n (mul_result reg p s) \<longleftrightarrow> sint p < 0" "\<not> flag_v (mul_result reg p s)" "\<not> flag_c (mul_result reg p s)"
  using msb_iff_negative [of p Size_Long]
  by (simp_all add: mul_result_def flag_defs sint_long) (simp add: d_reg_def set_d_def)

lemma mull_product_mod:
  "uint (mull_product is_signed a b) mod 2 ^ 64 = (if is_signed then sint a * sint b else uint a * uint b) mod 2 ^ 64"
proof (cases is_signed)
  case True
  then show ?thesis
    using uint_sint [of "mull_product True a b"] by (simp add: mull_product_exact take_bit_eq_mod)
qed (simp add: mull_product_exact)

lemma mull_product_zero:
  "mull_product is_signed a b = 0 \<longleftrightarrow> (if is_signed then sint a * sint b else uint a * uint b) = 0"
  using mull_product_exact [of a b]
  by (cases is_signed) (metis signed_eq_0_iff, metis unsigned_eq_0_iff)

text \<open>
  C19. Multiplication: MULU and MULS write the exact 32-bit product of the two words, with Z and N
  of the product and V and C clear. The long forms write the low 32 bits of the product with V
  set exactly when the product does not fit, or all 64 bits in two registers; if the two are
  the same register the 68040 and 68060 keep the low half, the others the high half.
\<close>

theorem multiplication_exact:
  "(let s' = mul_result reg (mulu_product src dst) s; p = uvalue Size_Word src * uvalue Size_Word dst
    in uint (d_reg reg s') = p \<and> (flag_z s' \<longleftrightarrow> p = 0) \<and> \<not> flag_v s' \<and> \<not> flag_c s') \<and>
   (let s' = mul_result reg (muls_product src dst) s; p = svalue Size_Word src * svalue Size_Word dst
    in sint (d_reg reg s') = p \<and> (flag_z s' \<longleftrightarrow> p = 0) \<and> (flag_n s' \<longleftrightarrow> p < 0) \<and> \<not> flag_v s' \<and> \<not> flag_c s') \<and>
   (let s' = mull_result is_signed False dl dh (mull_product is_signed a b) s;
        p = (if is_signed then sint a * sint b else uint a * uint b)
    in uint (d_reg dl s') = p mod 2 ^ 32 \<and> \<not> flag_c s' \<and>
       (flag_v s' \<longleftrightarrow> \<not> (if is_signed then - (2 ^ 31) \<le> p \<and> p < 2 ^ 31 else p < 2 ^ 32))) \<and>
   (let s' = mull_result is_signed True dl dh (mull_product is_signed a b) s;
        p = (if is_signed then sint a * sint b else uint a * uint b)
    in (flag_z s' \<longleftrightarrow> p = 0) \<and> \<not> flag_v s' \<and> \<not> flag_c s' \<and>
       (if dl AND 7 \<noteq> dh AND 7 then uint (d_reg dh s') * 2 ^ 32 + uint (d_reg dl s') = p mod 2 ^ 64
        else uint (d_reg dl s') = (if mull_high_written_first s then p mod 2 ^ 32 else p div 2 ^ 32 mod 2 ^ 32)))"
proof -
  define p where "p = (if is_signed then sint a * sint b else uint a * uint b)"
  define w where "w = mull_product is_signed a b"
  have w64: "uint w = p mod 2 ^ 64"
    using mull_product_mod [of is_signed a b, folded w_def p_def] uint_lt2p [of w] by simp
  have w32: "uint w mod 2 ^ 32 = p mod 2 ^ 32"
    unfolding w64 by (rule mod_mod_cancel) (simp add: le_imp_power_dvd)
  have "uint (ucast w :: u32) = p mod 2 ^ 32" by (simp only: low_half w32)
  moreover have "uint (ucast (drop_bit 32 w) :: u32) = p div 2 ^ 32 mod 2 ^ 32"
    using zmod_zmult2_eq [of "4294967296" p "4294967296"] unfolding high_half w64 by simp
  ultimately have wide: "let s' = mull_result is_signed True dl dh w s
    in (flag_z s' \<longleftrightarrow> p = 0) \<and> \<not> flag_v s' \<and> \<not> flag_c s' \<and>
       (if dl AND 7 \<noteq> dh AND 7 then uint (d_reg dh s') * 2 ^ 32 + uint (d_reg dl s') = p mod 2 ^ 64
        else uint (d_reg dl s') = (if mull_high_written_first s then p mod 2 ^ 32 else p div 2 ^ 32 mod 2 ^ 32))"
    using mull_result_wide [of is_signed dl dh w s] mull_product_zero [of is_signed a b, folded w_def p_def]
    by (simp add: Let_def mull_result_wide_flags w64 split: if_splits)
  have fits: "(if is_signed then - (2 ^ 31) \<le> sint w \<and> sint w < 2 ^ 31 else uint w < 2 ^ 32) \<longleftrightarrow>
      (if is_signed then - (2 ^ 31) \<le> p \<and> p < 2 ^ 31 else p < 2 ^ 32)"
    by (cases is_signed) (simp_all add: w_def p_def mull_product_exact)
  have "let s' = mull_result is_signed False dl dh w s
    in uint (d_reg dl s') = p mod 2 ^ 32 \<and> \<not> flag_c s' \<and>
       (flag_v s' \<longleftrightarrow> \<not> (if is_signed then - (2 ^ 31) \<le> p \<and> p < 2 ^ 31 else p < 2 ^ 32))"
    by (simp only: Let_def mull_result_narrow w32 fits) simp
  moreover have "let s' = mul_result reg (mulu_product src dst) s; p = uvalue Size_Word src * uvalue Size_Word dst
    in uint (d_reg reg s') = p \<and> (flag_z s' \<longleftrightarrow> p = 0) \<and> \<not> flag_v s' \<and> \<not> flag_c s'"
    using mulu_product_exact [of src dst] by (simp add: Let_def mul_result_flags) (metis unsigned_eq_0_iff mult_eq_0_iff)
  moreover have "let s' = mul_result reg (muls_product src dst) s; p = svalue Size_Word src * svalue Size_Word dst
    in sint (d_reg reg s') = p \<and> (flag_z s' \<longleftrightarrow> p = 0) \<and> (flag_n s' \<longleftrightarrow> p < 0) \<and> \<not> flag_v s' \<and> \<not> flag_c s'"
    using muls_product_exact [of src dst] by (simp add: Let_def mul_result_flags) (metis signed_eq_0_iff mult_eq_0_iff)
  ultimately show ?thesis
    using wide unfolding Let_def w_def p_def by (elim conjE, intro conjI) assumption+
qed

lemma divl_result_exact:
  assumes "divisor \<noteq> 0"
  shows "let s' = divl_result dq dr (divl_parts is_signed use_64 high low divisor) s;
         m = dividend_of is_signed use_64 high low; val = (if is_signed then sint else uint); q = m sdiv val divisor
      in (if \<not> (if is_signed then - (2 ^ 31) \<le> q \<and> q < 2 ^ 31 else q < 2 ^ 32) then dar s' = dar s \<and> flag_v s' \<and> \<not> flag_c s'
          else val (d_reg dq s') = q \<and> (flag_z s' \<longleftrightarrow> q = 0) \<and> (flag_n s' \<longleftrightarrow> sint (d_reg dq s') < 0) \<and>
            \<not> flag_v s' \<and> \<not> flag_c s' \<and>
            (dr AND 7 \<noteq> dq AND 7 \<longrightarrow> quotient_of m (val divisor) (val (d_reg dq s')) (val (d_reg dr s'))) \<and>
            (\<forall>x. x \<noteq> dq AND 7 \<and> x \<noteq> dr AND 7 \<longrightarrow> dar s' x = dar s x))"
proof -
  define q where "q = dividend_of is_signed use_64 high low sdiv (if is_signed then sint else uint) divisor"
  obtain quot rem overflow where p: "divl_parts is_signed use_64 high low divisor = (quot, rem, overflow)"
    by (metis prod_cases3)
  note e = divl_parts_exact [OF assms p, unfolded Let_def, folded q_def]
  have z: "(quot = 0) = (uint quot = 0)" "(quot = 0) = (sint quot = 0)"
    by (simp_all add: uint_0_iff signed_eq_0_iff)
  have n: "quot AND 0x80000000 \<noteq> 0 \<longleftrightarrow> sint quot < 0"
    using msb_iff_negative [of quot Size_Long] by (simp add: sint_long)
  note parts = divl_result_def flag_defs set_d_def d_reg_def
  show ?thesis
  proof (cases is_signed)
    case True
    then show ?thesis
      using e z n by (cases overflow) (auto simp: p [simplified True] parts Let_def q_def)
  next
    case False
    then show ?thesis
      using e z n by (cases overflow) (auto simp: p [simplified False] parts Let_def q_def)
  qed
qed



text \<open>Bounds on the cycle counts.\<close>

lemma count_ones_le: "count_ones (w :: 'a::len word) \<le> LENGTH('a)"
  unfolding count_ones_def by (metis length_filter_le length_upt diff_zero)

lemma muls_transitions_le: "muls_transitions src \<le> 16"
proof -
  define w :: u32 where "w = (push_bit 1 (ucast src) XOR drop_bit 1 (push_bit 1 (ucast src))) AND 0xFFFF"
  have "\<not> bit w n" if "16 \<le> n" for n
  proof -
    have e: "(0xFFFF :: u32) = mask 16" by (simp add: mask_eq_exp_minus_1)
    show ?thesis using that unfolding w_def e by (simp add: bit_and_iff bit_mask_iff)
  qed
  then have "filter (bit w) [16..<32] = []" by (simp add: filter_empty_conv)
  moreover have "[0..<LENGTH(32)] = [0..<16] @ [16..<32]" using upt_add_eq_append [of 0 16 16] by simp
  ultimately have "count_ones w = length (filter (bit w) [0..<16])"
    unfolding count_ones_def by (simp only: filter_append) simp
  also have "\<dots> \<le> length [0..<16 :: nat]" by (rule length_filter_le)
  finally show ?thesis unfolding muls_transitions_def Let_def w_def by simp
qed

lemma divu_loop_bounds: "m \<le> divu_loop n h d m \<and> divu_loop n h d m \<le> m + 2 * int n"
proof (induction n arbitrary: d m)
  case (Suc n)
  show ?case
    using Suc [where d = "push_bit 1 d - h" and m = m] Suc [where d = "push_bit 1 d - h" and m = "m + 2 - 1"]
      Suc [where d = "push_bit 1 d" and m = "m + 2"]
    by (auto simp: Let_def simp del: push_bit_of_1 push_bit_Suc)
qed simp

lemma leading_zero_bounds: "m \<le> leading_zero_cycles n q m \<and> leading_zero_cycles n q m \<le> m + int n"
proof (induction n arbitrary: q m)
  case (Suc n)
  show ?case
    using Suc [where q = "push_bit 1 q" and m = m] Suc [where q = "push_bit 1 q" and m = "m + 1"] by (auto simp del: push_bit_Suc)
qed simp

lemma le_div_iff:
  fixes a b n :: int
  assumes "0 < b"
  shows "a \<le> n div b \<longleftrightarrow> a * b \<le> n"
proof
  assume "a \<le> n div b"
  then have "a * b \<le> n div b * b" using assms by simp
  also have "\<dots> \<le> n" using pos_mod_sign [OF assms, of n] div_mult_mod_eq [of n b] by linarith
  finally show "a * b \<le> n" .
next
  assume "a * b \<le> n"
  then have "a * b div b \<le> n div b" using assms by (rule zdiv_mono1)
  then show "a \<le> n div b" using assms by simp
qed

text \<open>
  C26. Instruction times of the 68000: MULU and MULS spend 34 to 66 internal clocks. DIVU takes 10
  clocks exactly when the quotient does not fit in a word and 76 to 136 otherwise; DIVS takes
  16 or 18 on an early overflow and 120 to 156 otherwise. All of them are even.
\<close>

theorem mul_div_cycle_bounds:
  "34 \<le> mulu_internal_clocks src \<and> mulu_internal_clocks src \<le> 66 \<and>
   34 \<le> muls_internal_clocks src \<and> muls_internal_clocks src \<le> 66 \<and>
   (if v = 0 then divu_cycles n v = 10
    else if 65536 \<le> uint n div uint v then divu_cycles n v = 10
    else 76 \<le> divu_cycles n v \<and> divu_cycles n v \<le> 136) \<and>
   (divs_cycles n v = 16 \<or> divs_cycles n v = 18 \<or> 120 \<le> divs_cycles n v \<and> divs_cycles n v \<le> 156) \<and>
   even (mulu_internal_clocks src) \<and> even (muls_internal_clocks src) \<and>
   even (divu_cycles n v) \<and> even (divs_cycles n v)"
proof -
  have "(ucast v \<le> drop_bit 16 n) \<longleftrightarrow> uint v \<le> uint n div 65536"
    by (simp add: word_le_def drop_bit_eq_div uint_div uint_up_ucast is_up)
  moreover have "uint v \<le> uint n div 65536 \<longleftrightarrow> 65536 \<le> uint n div uint v" if "v \<noteq> 0"
    using that le_div_iff [of "uint v" 65536 "uint n"] le_div_iff [of 65536 "uint v" "uint n"] uint_ge_0 [of v] uint_0_iff [of v]
    by (simp add: mult.commute order_less_le)
  ultimately have e: "(ucast v \<le> drop_bit 16 n) \<longleftrightarrow> v = 0 \<or> 65536 \<le> uint n div uint v"
    by (cases "v = 0") simp_all
  have u: "if v = 0 then divu_cycles n v = 10
    else if 65536 \<le> uint n div uint v then divu_cycles n v = 10
    else 76 \<le> divu_cycles n v \<and> divu_cycles n v \<le> 136"
    using divu_loop_bounds [of 38 15 "push_bit 16 (ucast v)" n] unfolding divu_cycles_def Let_def e
    by (cases "v = 0"; cases "65536 \<le> uint n div uint v") simp_all
  define q :: u16 where "q = ucast (((word_of_int \<bar>sint n\<bar> :: u32) div word_of_int \<bar>sint v\<bar>) AND 0xFFFF)"
  have s: "divs_cycles n v = 16 \<or> divs_cycles n v = 18 \<or> 120 \<le> divs_cycles n v \<and> divs_cycles n v \<le> 156"
    using leading_zero_bounds [of 60 15 q] leading_zero_bounds [of 61 15 q] leading_zero_bounds [of 62 15 q] leading_zero_bounds [of 63 15 q]
    unfolding divs_cycles_def Let_def q_def [symmetric]
    by (cases "sint n < 0"; cases "0 \<le> sint v") auto
  have "count_ones src \<le> 16" using count_ones_le [of src] by simp
  moreover have "even (divu_cycles n v)" "even (divs_cycles n v)"
    by (simp_all add: divu_cycles_def divs_cycles_def Let_def)
  ultimately show ?thesis
    using muls_transitions_le [of src] u s
    by (simp add: mulu_internal_clocks_def muls_internal_clocks_def)
qed

end
