(* ===== verification/Bitfield.thy ===== *)
theory Bitfield
  imports Data_Movement
begin

unbundle bit_operations_syntax

text \<open>
  The bit-field instructions of the 68020 (\<open>src/core/instructions/bitfield.rs\<close>): BFTST, BFEXTU,
  BFEXTS, BFCHG, BFCLR, BFSET, BFFFO and BFINS on registers, where a field wraps around, and on
  memory, where a field of up to 32 bits lies in a window of up to five bytes. Bit 0 is the
  most significant bit of the operand. A field is specified by its bits, and extraction and
  insertion are inverse to each other.
\<close>

section \<open>Fields\<close>

record bit_field_spec =
  bf_reg :: nat
  bf_offset :: u32
  bf_width :: u32

definition bf_mask :: "u32 \<Rightarrow> u32" where
  "bf_mask width = (if 32 \<le> width then 0xFFFFFFFF else push_bit (unat width) 1 - 1)"

definition bf_sign_extend :: "u32 \<Rightarrow> u32 \<Rightarrow> u32" where
  "bf_sign_extend field width =
     (if 32 \<le> width then field
      else if field AND push_bit (unat (width - 1)) 1 \<noteq> 0
      then field OR push_bit (unat width) (NOT 0) else field)"

text \<open>The loop of BFFFO over the positions \<open>i\<close>, \<open>i + 1\<close>, \<dots> below the width.\<close>

fun bf_scan :: "u32 \<Rightarrow> nat \<Rightarrow> u32 \<Rightarrow> nat list \<Rightarrow> u32 \<times> bool" where
  "bf_scan field width base_offset [] = (base_offset + of_nat width, True)"
| "bf_scan field width base_offset (i # is) =
     (if drop_bit (width - 1 - i) field AND 1 \<noteq> 0 then (base_offset + of_nat i, False)
      else bf_scan field width base_offset is)"

definition bf_find_first_one :: "u32 \<Rightarrow> u32 \<Rightarrow> u32 \<Rightarrow> u32 \<times> bool" where
  "bf_find_first_one field width base_offset =
     (if field = 0 then (base_offset + width, True)
      else bf_scan field (unat width) base_offset [0..<unat width])"

definition bf_position :: "u32 \<Rightarrow> nat \<Rightarrow> nat" where
  "bf_position offset i = unat (31 - ((offset + of_nat i) AND 31))"

definition bf_extract_reg_msb0 :: "u32 \<Rightarrow> u32 \<Rightarrow> u32 \<Rightarrow> u32" where
  "bf_extract_reg_msb0 v offset width =
     fold (\<lambda>i out. push_bit 1 out OR (drop_bit (bf_position offset i) v AND 1)) [0..<unat width] 0"

definition bf_insert_reg_msb0 :: "u32 \<Rightarrow> u32 \<Rightarrow> u32 \<Rightarrow> u32 \<Rightarrow> u32" where
  "bf_insert_reg_msb0 orig offset width field =
     fold (\<lambda>i v. (v AND NOT (push_bit (bf_position offset i) 1)) OR
             push_bit (bf_position offset i) (drop_bit (unat width - 1 - i) field AND 1)) [0..<unat width] orig"

section \<open>Memory windows\<close>

text \<open>The window holds the bytes of the field from bit 39 downwards.\<close>

definition bf_bytes :: "u32 \<Rightarrow> u32 \<Rightarrow> nat" where
  "bf_bytes bit_in_byte width = (unat (bit_in_byte + width) + 7) div 8"

definition bf_extract_mem_window_msb0 ::
  "'b address_bus \<Rightarrow> 'b delivery \<Rightarrow> u32 \<Rightarrow> u32 \<Rightarrow> u32 \<Rightarrow> 'b machine \<Rightarrow> ((u32 \<times> u64 \<times> nat) \<times> 'b machine) option" where
  "bf_extract_mem_window_msb0 B dl start_addr bit_in_byte width s = do {
     let bytes_len = bf_bytes bit_in_byte width;
     (window, s) \<leftarrow>
       (if bytes_len = 1 then do { (v, s) \<leftarrow> read_8 B dl start_addr s; Some (push_bit 32 (ucast v :: u64), s) }
        else if bytes_len = 2 then do { (v, s) \<leftarrow> read_16 B dl start_addr s; Some (push_bit 24 (ucast v), s) }
        else if bytes_len = 3 then do { (v, s) \<leftarrow> read_24 B dl start_addr s; Some (push_bit 16 (ucast v), s) }
        else do { (v, s) \<leftarrow> read_32 B dl start_addr s; Some (push_bit 8 (ucast v), s) });
     (window, s) \<leftarrow>
       (if bytes_len = 5 then do { (v, s) \<leftarrow> read_8 B dl (start_addr + 4) s; Some (window OR ucast v, s) }
        else Some (window, s));
     let field = ucast (drop_bit (unat (40 - (bit_in_byte + width))) window) AND bf_mask width;
     Some ((field, window, bytes_len), s)
   }"

definition bf_store_mem_window ::
  "'b address_bus \<Rightarrow> 'b delivery \<Rightarrow> u32 \<Rightarrow> u64 \<Rightarrow> nat \<Rightarrow> 'b machine \<Rightarrow> 'b machine option" where
  "bf_store_mem_window B dl start_addr window bytes_len s = do {
     s \<leftarrow> (if bytes_len = 1 then write_8 B dl start_addr (ucast (drop_bit 32 window)) s
           else if bytes_len = 2 then write_16 B dl start_addr (ucast (drop_bit 24 window)) s
           else if bytes_len = 3 then write_24 B dl start_addr (ucast (drop_bit 16 window)) s
           else write_32 B dl start_addr (ucast (drop_bit 8 window)) s);
     if bytes_len = 5 then write_8 B dl (start_addr + 4) (ucast (window AND 0xFF)) s else Some s
   }"

section \<open>Instructions\<close>

definition decode_bitfield_spec :: "u16 \<Rightarrow> 'a cpu_core_scheme \<Rightarrow> bit_field_spec" where
  "decode_bitfield_spec ext s =
     (let offset = (if ext AND 0x0800 \<noteq> 0 then d_reg (unat (drop_bit 6 ext AND 7)) s
                    else ucast (drop_bit 6 ext) AND 31);
          width = (if ext AND 0x0020 \<noteq> 0 then d_reg (unat (ext AND 7)) s AND 31 else ucast ext AND 31)
      in \<lparr> bf_reg = unat (drop_bit 12 ext AND 7), bf_offset = offset,
           bf_width = (if width = 0 then 32 else width) \<rparr>)"

definition set_bitfield_flags :: "u32 \<Rightarrow> u32 \<Rightarrow> 'a cpu_core_scheme \<Rightarrow> 'a cpu_core_scheme" where
  "set_bitfield_flags field width s =
     s\<lparr> n_flag := flag 0x80 (width \<noteq> 0 \<and> field AND push_bit (unat (width - 1)) 1 \<noteq> 0),
        not_z_flag := field, v_flag := 0, c_flag := 0 \<rparr>"

text \<open>
  BFTST, BFEXTU, BFEXTS and BFFFO only read the field; they are the same for registers and
  memory. None is an operation that changes the field.
\<close>

definition bitfield_read :: "u16 \<Rightarrow> bit_field_spec \<Rightarrow> u32 \<Rightarrow> 'a cpu_core_scheme \<Rightarrow> 'a cpu_core_scheme option" where
  "bitfield_read op spec field s =
     (let flags = set_bitfield_flags field (bf_width spec)
      in if op = 0x8 then Some (flags s)
         else if op = 0x9 then Some (flags (set_d (bf_reg spec) field s))
         else if op = 0xB then Some (flags (set_d (bf_reg spec) (bf_sign_extend field (bf_width spec)) s))
         else if op = 0xD then
           (let (pos, z) = bf_find_first_one field (bf_width spec) (bf_offset spec);
                s = flags (set_d (bf_reg spec) pos s)
            in Some (if z then s\<lparr> not_z_flag := 0 \<rparr> else s))
         else None)"

text \<open>The new field of BFCHG, BFCLR, BFSET and BFINS, and the field the flags are set from.\<close>

definition bitfield_new :: "u16 \<Rightarrow> bit_field_spec \<Rightarrow> u32 \<Rightarrow> 'a cpu_core_scheme \<Rightarrow> (u32 \<times> u32) option" where
  "bitfield_new op spec field s =
     (let m = bf_mask (bf_width spec)
      in if op = 0xA then Some (field XOR m, field)
         else if op = 0xC then Some (0, field)
         else if op = 0xE then Some (m, field)
         else if op = 0xF then (let src = d_reg (bf_reg spec) s AND m in Some (src, src))
         else None)"

definition bitfield_register ::
  "u16 \<Rightarrow> bit_field_spec \<Rightarrow> nat \<Rightarrow> 'a cpu_core_scheme \<Rightarrow> 'a cpu_core_scheme option" where
  "bitfield_register op spec reg s =
     (let orig = d_reg reg s; offset = bf_offset spec AND 31; width = bf_width spec;
          field = bf_extract_reg_msb0 orig offset width
      in case bitfield_read op spec field s of
           Some s \<Rightarrow> Some s
         | None \<Rightarrow> (case bitfield_new op spec field s of
             Some (new, tested) \<Rightarrow>
               Some (set_d reg (bf_insert_reg_msb0 orig offset width new) (set_bitfield_flags tested width s))
           | None \<Rightarrow> None))"

text \<open>The window with the field replaced, as each operation computes it.\<close>

definition bitfield_window :: "u16 \<Rightarrow> u32 \<Rightarrow> u32 \<Rightarrow> u32 \<Rightarrow> u64 \<Rightarrow> u64" where
  "bitfield_window op bit_in_byte width new window =
     (let shift = unat (40 - (bit_in_byte + width)); m = push_bit shift (ucast (bf_mask width))
      in if op = 0xA then window XOR m
         else if op = 0xC then window AND NOT m
         else if op = 0xE then window OR m
         else (window AND NOT m) OR push_bit shift (ucast new))"

definition bitfield_memory ::
  "'b address_bus \<Rightarrow> 'b delivery \<Rightarrow> u16 \<Rightarrow> bit_field_spec \<Rightarrow> addressing_mode \<Rightarrow> 'b machine \<Rightarrow> (int \<times> 'b machine) option" where
  "bitfield_memory B dl op spec mode s = do {
     (base, s) \<leftarrow> get_ea_address B dl mode Size_Byte s;
     let byte_disp = signed_drop_bit 3 (bf_offset spec);
     let start_addr = base + byte_disp;
     let bit_in_byte = bf_offset spec AND 7;
     let width = bf_width spec;
     ((field, window, bytes_len), s) \<leftarrow> bf_extract_mem_window_msb0 B dl start_addr bit_in_byte width s;
     let s = s\<lparr> bitfield_mem_wide_span := (bytes_len = 5) \<rparr>;
     case bitfield_read op spec field s of
       Some s \<Rightarrow> Some (12, s)
     | None \<Rightarrow> (case bitfield_new op spec field s of
         Some (new, tested) \<Rightarrow> do {
           let s = set_bitfield_flags tested width s;
           s \<leftarrow> bf_store_mem_window B dl start_addr (bitfield_window op bit_in_byte width new window) bytes_len s;
           Some (12, s) }
       | None \<Rightarrow> take_exception B dl 4 s)
   }"

definition exec_bitfield ::
  "'b address_bus \<Rightarrow> 'b delivery \<Rightarrow> u16 \<Rightarrow> 'b machine \<Rightarrow> (int \<times> 'b machine) option" where
  "exec_bitfield B dl opcode s = do {
     (ext, s) \<leftarrow> read_imm_16 B dl s;
     let spec = decode_bitfield_spec ext s;
     let op = drop_bit 8 opcode AND 0xF;
     case decode_mode (ucast (drop_bit 3 opcode AND 7)) (ucast (opcode AND 7)) of
       None \<Rightarrow> take_exception B dl 4 s
     | Some mode \<Rightarrow>
         (case mode of
            DataDirect reg \<Rightarrow>
              (case bitfield_register op spec reg s of
                 Some s \<Rightarrow> Some (8, s)
               | None \<Rightarrow> take_exception B dl 4 s)
          | _ \<Rightarrow>
              if is_register_direct mode \<or> mode = Immediate then take_exception B dl 4 s
              else bitfield_memory B dl op spec mode s)
   }"

section \<open>The bits of a field\<close>

lemma and_31: "x AND 31 = take_bit 5 (x :: u32)"
  by (simp add: take_bit_eq_mask mask_eq_exp_minus_1)

lemma bf_position_eq: "i < 32 \<Longrightarrow> bf_position offset i = 31 - (unat offset + i) mod 32"
proof -
  assume i: "i < 32"
  have "unat (of_nat i :: u32) = i" using i by (simp add: unsigned_of_nat take_bit_nat_eq_self)
  then have "unat ((offset + of_nat i) AND 31) = (unat offset + i) mod 32"
    by (simp add: and_31 unsigned_take_bit_eq take_bit_eq_mod unat_word_ariths mod_mod_cancel)
  moreover have "((offset + of_nat i) AND 31) \<le> 31" by (rule word_and_le1)
  ultimately show ?thesis
    by (simp add: bf_position_def unat_sub)
qed

lemma bf_position_less: "i < 32 \<Longrightarrow> bf_position offset i < 32"
  by (simp add: bf_position_eq)

lemma mod_32_shift:
  fixes i j k :: nat
  assumes "i < 32" "j < 32"
  shows "(k + i) mod 32 = (k + j) mod 32 \<longleftrightarrow> i = j"
proof
  assume "(k + i) mod 32 = (k + j) mod 32"
  then have "(int k + int i) mod 32 = (int k + int j) mod 32"
    by (metis of_nat_add of_nat_mod of_nat_numeral)
  then have "32 dvd int i - int j" by (simp add: mod_eq_dvd_iff)
  then have "i \<noteq> j \<Longrightarrow> 32 \<le> \<bar>int i - int j\<bar>" by (intro zdvd_imp_le) simp_all
  then show "i = j" using assms by linarith
qed simp

lemma bf_position_inj: "i < 32 \<Longrightarrow> j < 32 \<Longrightarrow> bf_position offset i = bf_position offset j \<longleftrightarrow> i = j"
proof -
  assume ij: "i < 32" "j < 32"
  have "(31 - a = 31 - b) = (a = b)" if "a < 32" "b < 32" for a b :: nat
    using that by arith
  then have "bf_position offset i = bf_position offset j \<longleftrightarrow> (unat offset + i) mod 32 = (unat offset + j) mod 32"
    using ij by (simp add: bf_position_eq)
  also have "\<dots> \<longleftrightarrow> i = j" using ij by (rule mod_32_shift)
  finally show ?thesis .
qed

lemma and_1_bit: "bit (x AND 1 :: u32) k \<longleftrightarrow> k = 0 \<and> bit x 0"
  by (auto simp: bit_simps)

lemma bit_extract:
  "n \<le> 32 \<Longrightarrow> bit (fold (\<lambda>i out. push_bit 1 out OR (drop_bit (bf_position offset i) v AND 1)) [0..<n] 0 :: u32) k \<longleftrightarrow>
     k < n \<and> bit v (bf_position offset (n - 1 - k))"
proof (induction n arbitrary: k)
  case (Suc n)
  define w :: u32 where "w = fold (\<lambda>i out. push_bit 1 out OR (drop_bit (bf_position offset i) v AND 1)) [0..<n] 0"
  have ih: "bit w k \<longleftrightarrow> k < n \<and> bit v (bf_position offset (n - 1 - k))" for k
    unfolding w_def using Suc by simp
  have "bit (push_bit 1 w OR (drop_bit (bf_position offset n) v AND 1)) k \<longleftrightarrow>
      k < Suc n \<and> bit v (bf_position offset (n - k))"
    unfolding bit_or_iff and_1_bit bit_drop_bit_eq bit_push_bit_iff ih
    using Suc.prems by (cases k) auto
  then show ?case by (simp add: w_def del: push_bit_of_1)
qed simp

lemma bit_bf_extract:
  "unat width \<le> 32 \<Longrightarrow> bit (bf_extract_reg_msb0 v offset width) k \<longleftrightarrow>
     k < unat width \<and> bit v (bf_position offset (unat width - 1 - k))"
  unfolding bf_extract_reg_msb0_def by (rule bit_extract)

lemma bit_insert:
  assumes "w \<le> 32"
  shows "n \<le> w \<Longrightarrow> bit (fold (\<lambda>i v. (v AND NOT (push_bit (bf_position offset i) 1)) OR
             push_bit (bf_position offset i) (drop_bit (w - 1 - i) field AND 1)) [0..<n] orig :: u32) k \<longleftrightarrow>
    (if \<exists>i < n. k = bf_position offset i then \<exists>i < n. k = bf_position offset i \<and> bit field (w - 1 - i) else bit orig k)"
proof (induction n)
  case (Suc n)
  define v where "v = fold (\<lambda>i v. (v AND NOT (push_bit (bf_position offset i) 1)) OR
             push_bit (bf_position offset i) (drop_bit (w - 1 - i) field AND 1)) [0..<n] orig"
  define p where "p = bf_position offset n"
  have p: "p < 32" unfolding p_def using Suc.prems assms by (intro bf_position_less) simp
  have "bit ((v AND NOT (push_bit p 1)) OR push_bit p (drop_bit (w - 1 - n) field AND 1)) k \<longleftrightarrow>
      (if k = p then bit field (w - 1 - n) else bit v k)"
    using p by (auto simp: bit_simps dest: bit_imp_le_length)
  moreover have "p \<noteq> bf_position offset i" if "i < n" for i
    using that Suc.prems assms bf_position_inj [of n i offset] by (auto simp: p_def)
  ultimately show ?case
    using Suc by (auto simp: v_def p_def less_Suc_eq simp del: push_bit_of_1)
qed simp

lemma bit_bf_insert:
  assumes "unat width \<le> 32"
  shows "i < unat width \<Longrightarrow> bit (bf_insert_reg_msb0 orig offset width field) (bf_position offset i) \<longleftrightarrow>
      bit field (unat width - 1 - i)"
    and "(\<And>i. i < unat width \<Longrightarrow> k \<noteq> bf_position offset i) \<Longrightarrow>
      bit (bf_insert_reg_msb0 orig offset width field) k \<longleftrightarrow> bit orig k"
proof -
  show "bit (bf_insert_reg_msb0 orig offset width field) (bf_position offset i) \<longleftrightarrow> bit field (unat width - 1 - i)"
    if "i < unat width"
    unfolding bf_insert_reg_msb0_def bit_insert [OF assms order_refl]
    using that assms bf_position_inj [of i _ offset] by (auto cong: conj_cong)
  show "bit (bf_insert_reg_msb0 orig offset width field) k \<longleftrightarrow> bit orig k"
    if "\<And>i. i < unat width \<Longrightarrow> k \<noteq> bf_position offset i"
    unfolding bf_insert_reg_msb0_def bit_insert [OF assms order_refl] using that by auto
qed

lemma bit_bf_mask: "bit (bf_mask width) k \<longleftrightarrow> k < unat width \<and> k < 32"
proof (cases "32 \<le> width")
  case True
  then have "32 \<le> unat width" by (simp add: word_le_nat_alt)
  moreover have "bf_mask width = mask 32" using True by (simp add: bf_mask_def mask_eq_exp_minus_1)
  ultimately show ?thesis by (auto simp: bit_mask_iff simp del: mask_numeral)
next
  case False
  then have "bf_mask width = mask (unat width)"
    by (simp add: bf_mask_def mask_eq_exp_minus_1 push_bit_eq_mult)
  then show ?thesis by (auto simp: bit_mask_iff)
qed

lemma bf_extract_insert:
  assumes "unat width \<le> 32"
  shows "bf_extract_reg_msb0 (bf_insert_reg_msb0 orig offset width field) offset width = field AND bf_mask width"
  using assms by (intro bit_eqI) (auto simp: bit_bf_extract bit_bf_insert bit_and_iff bit_bf_mask)

lemma bf_insert_extract:
  assumes "unat width \<le> 32"
  shows "bf_insert_reg_msb0 orig offset width (bf_extract_reg_msb0 orig offset width) = orig"
proof (rule bit_eqI)
  fix k
  show "bit (bf_insert_reg_msb0 orig offset width (bf_extract_reg_msb0 orig offset width)) k \<longleftrightarrow> bit orig k"
    using assms by (cases "\<exists>i < unat width. k = bf_position offset i") (auto simp: bit_bf_insert bit_bf_extract)
qed

lemma bf_extract_masked: "unat width \<le> 32 \<Longrightarrow> bf_extract_reg_msb0 v offset width AND bf_mask width = bf_extract_reg_msb0 v offset width"
  by (rule bit_eqI) (auto simp: bit_and_iff bit_bf_mask bit_bf_extract)

text \<open>The sign extension of a field.\<close>

lemma bit_bf_sign_extend:
  assumes "0 < unat width" "unat width \<le> 32" "k < 32"
  shows "bit (bf_sign_extend (field AND bf_mask width) width) k \<longleftrightarrow> bit field (min k (unat width - 1))"
proof (cases "32 \<le> width")
  case True
  then have "unat width = 32" using assms(2) by (simp add: word_le_nat_alt)
  with True assms(3) show ?thesis by (simp add: bf_sign_extend_def bit_and_iff bit_bf_mask)
next
  case False
  have w: "unat width < 32" using False by (simp add: word_le_nat_alt not_le)
  have n: "unat (width - 1) = unat width - 1"
    using assms(1) unat_sub [of 1 width] by (simp add: word_le_nat_alt)
  have l: "unat width - Suc 0 < LENGTH(32)" using w by simp
  have sign: "(field AND bf_mask width) AND 2 ^ (unat width - Suc 0) = 0 \<longleftrightarrow> \<not> bit field (unat width - Suc 0)"
    using and_exp_iff [OF l, of "field AND bf_mask width"] assms(1) w by (auto simp: bit_and_iff bit_bf_mask)
  show ?thesis
    using assms w False unfolding bf_sign_extend_def n
    by (auto simp: sign bit_simps bit_bf_mask min_def)
qed

lemma bf_sign_extend_value:
  assumes "0 < unat width" "unat width \<le> 32"
  shows "sint (bf_sign_extend (field AND bf_mask width) width) = sval (unat width) field"
proof (rule bit_eqI)
  fix k
  have m: "min k 31 < 32" "min (min k 31) (unat width - 1) = min k (unat width - 1)"
    using assms by auto
  have "bit (sint (bf_sign_extend (field AND bf_mask width) width)) k \<longleftrightarrow>
      bit (bf_sign_extend (field AND bf_mask width) width) (min k 31)"
    by (auto simp: bit_sint_iff min_def dest: bit_imp_le_length)
  also have "\<dots> \<longleftrightarrow> bit field (min k (unat width - 1))"
    using assms bit_bf_sign_extend [of width "min k 31" field] m by simp
  finally show "bit (sint (bf_sign_extend (field AND bf_mask width) width)) k \<longleftrightarrow> bit (sval (unat width) field) k"
    using assms by (simp add: sval_def bit_signed_take_bit_iff bit_uint_iff min_def) auto
qed

lemma bf_scan_first:
  "bf_scan field w base [i..<w] =
     (base + of_nat (i + length (takeWhile (\<lambda>i. \<not> bit field (w - 1 - i)) [i..<w])), list_all (\<lambda>i. \<not> bit field (w - 1 - i)) [i..<w])"
  if "i \<le> w"
  using that
proof (induction "w - i" arbitrary: i)
  case (Suc n)
  have "drop_bit (w - 1 - i) field AND 1 \<noteq> 0 \<longleftrightarrow> bit field (w - 1 - i)"
    using and_exp_iff [of 0 "drop_bit (w - 1 - i) field"] by (simp add: bit_drop_bit_eq)
  moreover have "[i..<w] = i # [Suc i..<w]" using Suc by (simp add: upt_conv_Cons)
  ultimately show ?case using Suc(1) [of "Suc i"] Suc(2) by simp
qed simp

lemma bf_find_first_one_spec:
  assumes "unat width \<le> 32"
  shows "bf_find_first_one (field AND bf_mask width) width base =
    (base + of_nat (length (takeWhile (\<lambda>i. \<not> bit field (unat width - 1 - i)) [0..<unat width])),
     field AND bf_mask width = 0)"
proof -
  define f where "f = field AND bf_mask width"
  have b: "bit f (unat width - Suc i) \<longleftrightarrow> bit field (unat width - Suc i)" if "i < unat width" for i
    using that assms by (auto simp: f_def bit_and_iff bit_bf_mask)
  have t: "takeWhile (\<lambda>i. \<not> bit f (unat width - 1 - i)) [0..<unat width] =
      takeWhile (\<lambda>i. \<not> bit field (unat width - 1 - i)) [0..<unat width]"
    by (rule takeWhile_cong) (auto simp: b)
  show ?thesis
  proof (cases "f = 0")
    case True
    then have tw: "takeWhile (\<lambda>i. \<not> bit f (unat width - 1 - i)) [0..<unat width] = [0..<unat width]"
      by (simp add: takeWhile_eq_all_conv)
    have "length (takeWhile (\<lambda>i. \<not> bit field (unat width - 1 - i)) [0..<unat width]) = unat width"
      by (metis t tw length_upt diff_zero)
    then show ?thesis using True unfolding f_def [symmetric] by (simp only: bf_find_first_one_def) simp
  next
    case False
    then obtain k where "bit f k" by (auto simp: bit_eq_iff)
    then have k: "k < unat width" by (simp add: f_def bit_and_iff bit_bf_mask)
    have "\<not> list_all (\<lambda>i. \<not> bit f (unat width - 1 - i)) [0..<unat width]"
    proof -
      have "unat width - 1 - (unat width - 1 - k) = k" "unat width - 1 - k < unat width" using k by auto
      with \<open>bit f k\<close> show ?thesis by (auto simp: list_all_iff intro!: bexI [of _ "unat width - 1 - k"])
    qed
    then show ?thesis
      using False bf_scan_first [of 0 "unat width" f base]
      unfolding t f_def [symmetric] by (simp add: bf_find_first_one_def)
  qed
qed

text \<open>The width of a decoded field is 1 to 32, so a field in memory ends inside its window.\<close>

lemma decoded_width: "0 < unat (bf_width (decode_bitfield_spec ext s)) \<and> unat (bf_width (decode_bitfield_spec ext s)) \<le> 32"
proof -
  have le: "unat (x AND 31) \<le> 31" for x :: u32
    using word_and_le1 [of x 31] by (simp add: word_le_nat_alt)
  have "0 < unat (if w = 0 then 32 else w) \<and> unat (if w = 0 then 32 else w) \<le> 32" if "unat w \<le> 31" for w :: u32
    using that by (auto simp: unat_gt_0)
  then show ?thesis by (simp add: decode_bitfield_spec_def Let_def le)
qed

text \<open>The mask of a field in a memory window.\<close>

definition window_shift :: "u32 \<Rightarrow> u32 \<Rightarrow> nat" where
  "window_shift bit_in_byte width = unat (40 - (bit_in_byte + width))"

definition window_mask :: "u32 \<Rightarrow> u32 \<Rightarrow> u64" where
  "window_mask bit_in_byte width = push_bit (window_shift bit_in_byte width) (ucast (bf_mask width))"

definition window_field :: "u32 \<Rightarrow> u32 \<Rightarrow> u64 \<Rightarrow> u32" where
  "window_field bit_in_byte width window =
     ucast (drop_bit (window_shift bit_in_byte width) window) AND bf_mask width"

lemma window_shift_bound:
  assumes "unat width \<le> 32"
  shows "window_shift (x AND 7) width + unat width \<le> 40"
proof -
  have x: "unat (x AND 7) \<le> 7" using word_and_le1 [of x 7] by (simp add: word_le_nat_alt)
  have "unat ((x AND 7) + width) = unat (x AND 7) + unat width"
    using x assms by (simp add: unat_word_ariths)
  then have "unat (40 - ((x AND 7) + width)) = 40 - (unat (x AND 7) + unat width)"
    using x assms by (simp add: unat_sub word_le_nat_alt)
  then show ?thesis using x assms by (simp add: window_shift_def)
qed

lemma bit_window_mask:
  assumes "unat width \<le> 32"
  shows "bit (window_mask (x AND 7) width) k \<longleftrightarrow>
    window_shift (x AND 7) width \<le> k \<and> k < window_shift (x AND 7) width + unat width"
  using window_shift_bound [OF assms, of x] assms
  by (auto simp: window_mask_def bit_push_bit_iff bit_ucast_iff bit_bf_mask)

lemma bit_window_field:
  assumes "unat width \<le> 32"
  shows "bit (window_field (x AND 7) width window) k \<longleftrightarrow>
    k < unat width \<and> bit window (k + window_shift (x AND 7) width)"
  using assms by (auto simp: window_field_def bit_and_iff bit_ucast_iff bit_bf_mask bit_drop_bit_eq add.commute)

lemma bitfield_window_local:
  assumes w: "unat (bf_width spec) \<le> 32"
    and new: "bitfield_new op spec (window_field (x AND 7) (bf_width spec) window) s = Some (new, tested)"
  defines "window' \<equiv> bitfield_window op (x AND 7) (bf_width spec) new window"
  shows "window_field (x AND 7) (bf_width spec) window' = new"
    and "window' AND NOT (window_mask (x AND 7) (bf_width spec)) = window AND NOT (window_mask (x AND 7) (bf_width spec))"
proof -
  define sh where "sh = window_shift (x AND 7) (bf_width spec)"
  define m where "m = window_mask (x AND 7) (bf_width spec)"
  have m: "bit m k \<longleftrightarrow> sh \<le> k \<and> k < sh + unat (bf_width spec)" for k
    unfolding m_def sh_def by (rule bit_window_mask [OF w])
  have b: "sh + unat (bf_width spec) \<le> 40" unfolding sh_def by (rule window_shift_bound [OF w])
  have f: "bit (window_field (x AND 7) (bf_width spec) v) k \<longleftrightarrow> k < unat (bf_width spec) \<and> bit v (k + sh)" for v k
    unfolding sh_def by (rule bit_window_field [OF w])
  have d: "window' = (if op = 0xA then window XOR m else if op = 0xC then window AND NOT m
      else if op = 0xE then window OR m else (window AND NOT m) OR push_bit sh (ucast new))"
    unfolding window'_def bitfield_window_def Let_def m_def sh_def window_mask_def window_shift_def ..
  have n: "op = 0xA \<and> new = window_field (x AND 7) (bf_width spec) window XOR bf_mask (bf_width spec) \<or>
      op = 0xC \<and> new = 0 \<or> op = 0xE \<and> new = bf_mask (bf_width spec) \<or>
      op = 0xF \<and> new = d_reg (bf_reg spec) s AND bf_mask (bf_width spec)"
    using new by (auto simp: bitfield_new_def Let_def split: if_splits)
  have nb: "bit new k \<Longrightarrow> k < unat (bf_width spec)" for k
    using n by (auto simp: bit_xor_iff bit_and_iff bit_bf_mask f)
  show "window_field (x AND 7) (bf_width spec) window' = new"
    using n b w nb unfolding d
    by (intro bit_eqI) (auto simp: f bit_xor_iff bit_and_iff bit_or_iff bit_not_iff bit_push_bit_iff bit_ucast_iff bit_bf_mask m)
  show "window' AND NOT m = window AND NOT m"
    using n b nb unfolding d
    by (intro bit_eqI) (auto simp: bit_xor_iff bit_and_iff bit_or_iff bit_not_iff bit_push_bit_iff bit_ucast_iff bit_bf_mask m)
qed

section \<open>Properties\<close>

text \<open>
  C22. Fields of a register: whatever the extension word, the offset and the register, BFEXTU gives
  the bits of the field (bit \<open>i\<close> from the left is bit \<open>31 - (offset + i) mod 32\<close> of the
  register), BFEXTS the field as a signed number, BFFFO the offset of the first set bit;
  inserting the extracted field changes nothing, and extracting an inserted field gives it back.
\<close>

theorem bitfield_of_register:
  "let spec = decode_bitfield_spec ext s; width = bf_width spec; offset = bf_offset spec AND 31;
       field = bf_extract_reg_msb0 v offset width
   in (bit field k \<longleftrightarrow> k < unat width \<and> bit v (31 - (unat offset + (unat width - 1 - k)) mod 32)) \<and>
      sint (bf_sign_extend field width) = sval (unat width) field \<and>
      bf_find_first_one field width base =
        (base + of_nat (length (takeWhile (\<lambda>i. \<not> bit field (unat width - 1 - i)) [0..<unat width])), field = 0) \<and>
      bf_insert_reg_msb0 v offset width field = v \<and>
      bf_extract_reg_msb0 (bf_insert_reg_msb0 v offset width new) offset width = new AND bf_mask width"
proof -
  define spec where "spec = decode_bitfield_spec ext s"
  define field where "field = bf_extract_reg_msb0 v (bf_offset spec AND 31) (bf_width spec)"
  have w: "0 < unat (bf_width spec)" "unat (bf_width spec) \<le> 32"
    using decoded_width [of ext s] by (simp_all add: spec_def)
  have m: "field AND bf_mask (bf_width spec) = field"
    unfolding field_def by (rule bf_extract_masked [OF w(2)])
  show ?thesis
    unfolding Let_def spec_def [symmetric] field_def [symmetric]
    using bf_sign_extend_value [OF w, of field] bf_find_first_one_spec [OF w(2), of field base] w
    by (simp add: m) (simp add: field_def bit_bf_extract bf_position_eq bf_insert_extract bf_extract_insert)
qed

text \<open>
  C21. BFCHG, BFCLR, BFSET and BFINS change their field and nothing else: the field of the new
  register, and of the new memory window, is the new value (the complement, zeros, ones, or
  the source register cut to the width), and the bits outside the field keep theirs.
\<close>

theorem bitfield_update_is_local:
  "let spec = decode_bitfield_spec ext s; width = bf_width spec; at = bf_offset spec AND 7; offset = bf_offset spec AND 31
   in (case bitfield_new op spec (window_field at width window) s of
         None \<Rightarrow> True
       | Some (new, _) \<Rightarrow>
           let window' = bitfield_window op at width new window
           in window_field at width window' = new \<and>
              window' AND NOT (window_mask at width) = window AND NOT (window_mask at width)) \<and>
      (case bitfield_new op spec (bf_extract_reg_msb0 v offset width) s of
         None \<Rightarrow> True
       | Some (new, _) \<Rightarrow>
           let v' = bf_insert_reg_msb0 v offset width new
           in bf_extract_reg_msb0 v' offset width = new \<and>
              (if k \<in> (\<lambda>i. 31 - (unat offset + i) mod 32) ` {..< unat width} then True else bit v' k = bit v k))"
proof -
  define spec where "spec = decode_bitfield_spec ext s"
  have w: "unat (bf_width spec) \<le> 32"
    using decoded_width [of ext s] by (simp add: spec_def)
  have new: "new AND bf_mask (bf_width spec) = new"
    if "bitfield_new op spec (bf_extract_reg_msb0 v offset (bf_width spec)) s = Some (new, t)" for offset new t
    using that bf_extract_masked [OF w, of v offset]
    by (auto simp: bitfield_new_def Let_def bit_eq_iff bit_and_iff bit_xor_iff split: if_splits)
  have out: "bit (bf_insert_reg_msb0 v offset (bf_width spec) new) k = bit v k"
    if "k \<notin> (\<lambda>i. 31 - (unat offset + i) mod 32) ` {..< unat (bf_width spec)}" for offset new
    using that w by (intro bit_bf_insert(2)) (auto simp: bf_position_eq)
  show ?thesis
    unfolding Let_def spec_def [symmetric]
    using bitfield_window_local [OF w] new
    by (auto simp: bf_extract_insert [OF w] out split: option.splits)
qed

end
