(* ===== verification/Compare_Swap.thy ===== *)
theory Compare_Swap
  imports Data_Movement
begin

unbundle bit_operations_syntax

text \<open>
  The compare-and-swap instructions CAS and CAS2
  (\<open>src/core/instructions/compare_swap.rs\<close>) and the bounds instructions CMP2 and CHK2
  (\<open>src/core/instructions/cmp2_chk2.rs\<close>). CAS is specified on a memory of bytes; the two
  comparisons of CMP2, with its special case for reversed bounds, are one unsigned comparison
  modulo \<open>2 ^ 32\<close>.
\<close>

section \<open>CAS\<close>

definition decode_cas_size :: "u16 \<Rightarrow> opsize" where
  "decode_cas_size opcode =
     (if opcode AND 0x0E00 = 0x0A00 then Size_Byte
      else if opcode AND 0x0E00 = 0x0C00 then Size_Word
      else Size_Long)"

definition write_d_sized :: "u32 \<Rightarrow> u32 \<Rightarrow> opsize \<Rightarrow> u32" where
  "write_d_sized old v sz =
     (case sz of
        Size_Byte \<Rightarrow> (old AND 0xFFFFFF00) OR (v AND 0xFF)
      | Size_Word \<Rightarrow> (old AND 0xFFFF0000) OR (v AND 0xFFFF)
      | Size_Long \<Rightarrow> v)"

definition read_sized ::
  "'b address_bus \<Rightarrow> 'b delivery \<Rightarrow> u32 \<Rightarrow> opsize \<Rightarrow> 'b machine \<Rightarrow> (u32 \<times> 'b machine) option" where
  "read_sized B dl addr sz s =
     (case sz of
        Size_Byte \<Rightarrow> do { (v, s) \<leftarrow> read_8 B dl addr s; Some (ucast v, s) }
      | Size_Word \<Rightarrow> do { (v, s) \<leftarrow> read_16 B dl addr s; Some (ucast v, s) }
      | Size_Long \<Rightarrow> read_32 B dl addr s)"

text \<open>The access of CAS once its address is known.\<close>

definition cas_access ::
  "'b address_bus \<Rightarrow> 'b delivery \<Rightarrow> opsize \<Rightarrow> nat \<Rightarrow> nat \<Rightarrow> u32 \<Rightarrow> 'b machine \<Rightarrow> (int \<times> 'b machine) option" where
  "cas_access B dl sz dc du addr s = do {
     (mem, s) \<leftarrow> read_sized B dl addr sz s;
     let dc_val = d_reg dc s;
     let (_, s) = exec_cmp sz mem dc_val s;
     s \<leftarrow> (if dc_val AND size_mask sz = mem AND size_mask sz
           then write_sized B dl addr sz (d_reg du s AND size_mask sz) s
           else Some (set_d dc (write_d_sized dc_val mem sz) s));
     Some (20, trace_t0_68040_sync s)
   }"

text \<open>The address, with the update of a post-increment or pre-decrement register deferred.\<close>

definition cas_address ::
  "'b address_bus \<Rightarrow> 'b delivery \<Rightarrow> addressing_mode \<Rightarrow> opsize \<Rightarrow> 'b machine \<Rightarrow>
   ((u32 \<times> (nat \<times> u32) option) \<times> 'b machine) option" where
  "cas_address B dl mode sz s =
     (case mode of
        PostIncrement reg \<Rightarrow>
          (let addr = a_reg reg s; inc = (if reg = 7 \<and> sz = Size_Byte then 2 else size_bytes sz)
           in Some ((addr, Some (reg, addr + inc)), s))
      | PreDecrement reg \<Rightarrow>
          (let dec = (if reg = 7 \<and> sz = Size_Byte then 2 else size_bytes sz); addr = a_reg reg s - dec
           in Some ((addr, Some (reg, addr)), s))
      | _ \<Rightarrow> do { (addr, s) \<leftarrow> get_ea_address B dl mode sz s; Some ((addr, None), s) })"

definition exec_cas ::
  "'b address_bus \<Rightarrow> 'b delivery \<Rightarrow> u16 \<Rightarrow> 'b machine \<Rightarrow> (int \<times> 'b machine) option" where
  "exec_cas B dl opcode s = do {
     (ext, s) \<leftarrow> read_imm_16 B dl s;
     let du = unat (drop_bit 6 ext AND 7);
     let dc = unat (ext AND 7);
     let ea_mode = drop_bit 3 opcode AND 7;
     let ea_reg = opcode AND 7;
     case decode_mode (ucast ea_mode) (ucast ea_reg) of
       None \<Rightarrow> take_exception B dl 4 s
     | Some mode \<Rightarrow>
         if \<not> (2 \<le> ea_mode \<and> ea_mode \<le> 6 \<or> ea_mode = 7 \<and> ea_reg \<le> 1) then take_exception B dl 4 s
         else do {
           let sz = decode_cas_size opcode;
           ((addr, ea_commit), s) \<leftarrow> cas_address B dl mode sz s;
           let misalign_mask = (if sz = Size_Long then 3 else 1);
           if sz \<noteq> Size_Byte \<and> addr AND misalign_mask \<noteq> 0 \<and> trap_unimpl_060 s then take_exception B dl 61 s
           else
             let s = (case ea_commit of Some (reg, v) \<Rightarrow> set_a reg v s | None \<Rightarrow> s)
             in cas_access B dl sz dc du addr s
         }
   }"

section \<open>CAS2\<close>

definition decode_cas2_ext :: "u16 \<Rightarrow> nat \<times> nat \<times> nat" where
  "decode_cas2_ext ext = (unat (drop_bit 12 ext AND 0xF), unat (drop_bit 6 ext AND 7), unat (ext AND 7))"

definition read_cas2_rn_address :: "nat \<Rightarrow> 'a cpu_core_scheme \<Rightarrow> u32" where
  "read_cas2_rn_address rn s = (if 8 \<le> rn then a_reg (rn - 8) s else d_reg rn s)"

definition exec_cas2 ::
  "'b address_bus \<Rightarrow> 'b delivery \<Rightarrow> u16 \<Rightarrow> 'b machine \<Rightarrow> (int \<times> 'b machine) option" where
  "exec_cas2 B dl opcode s = do {
     (ext1, s) \<leftarrow> read_imm_16 B dl s;
     (ext2, s) \<leftarrow> read_imm_16 B dl s;
     let (rn1, du1, dc1) = decode_cas2_ext ext1;
     let (rn2, du2, dc2) = decode_cas2_ext ext2;
     let addr1 = read_cas2_rn_address rn1 s;
     let addr2 = read_cas2_rn_address rn2 s;
     let sz = decode_cas_size opcode;
     let m = size_mask sz;
     (mem1, s) \<leftarrow> read_sized B dl addr1 sz s;
     (mem2, s) \<leftarrow> read_sized B dl addr2 sz s;
     let dc1_val = d_reg dc1 s;
     let dc2_val = d_reg dc2 s;
     let (_, s) = exec_cmp sz mem1 dc1_val s;
     let (_, s) = (if dc1_val AND m = mem1 AND m then exec_cmp sz mem2 dc2_val s else (0, s));
     s \<leftarrow> (if dc1_val AND m = mem1 AND m \<and> dc2_val AND m = mem2 AND m
           then do {
             let v1 = d_reg du1 s AND m;
             let v2 = d_reg du2 s AND m;
             s \<leftarrow> write_sized B dl addr1 sz v1 s;
             write_sized B dl addr2 sz v2 s
           }
           else Some
             (if cpu_model s \<in> {M68EC040, M68LC040, M68040, M68060} then
                let s = set_d dc1 (write_d_sized (d_reg dc1 s) mem1 sz) s
                in set_d dc2 (write_d_sized (d_reg dc2 s) mem2 sz) s
              else
                let s = set_d dc2 (write_d_sized (d_reg dc2 s) mem2 sz) s
                in set_d dc1 (write_d_sized (d_reg dc1 s) mem1 sz) s));
     Some (40, trace_t0_68040_sync s)
   }"

section \<open>CMP2 and CHK2\<close>

text \<open>A bound, or the value of a data register, is sign-extended; an address register is whole.\<close>

definition bound_value :: "opsize \<Rightarrow> u32 \<Rightarrow> int" where
  "bound_value sz v =
     (case sz of
        Size_Byte \<Rightarrow> sint (ucast v :: u8)
      | Size_Word \<Rightarrow> sint (ucast v :: u16)
      | Size_Long \<Rightarrow> sint v)"

definition bounds_check :: "int \<Rightarrow> int \<Rightarrow> int \<Rightarrow> bool \<times> bool" where
  "bounds_check lower upper reg_val =
     (let on_bound = (reg_val = lower \<or> reg_val = upper)
      in (on_bound,
          \<not> on_bound \<and>
          (if lower \<le> upper then reg_val < lower \<or> upper < reg_val
           else upper < reg_val \<and> reg_val < lower)))"

definition bounds_flags :: "bool \<times> bool \<Rightarrow> 'a cpu_core_scheme \<Rightarrow> 'a cpu_core_scheme" where
  "bounds_flags r s =
     (case r of (on_bound, out_of_range) \<Rightarrow>
        s\<lparr> c_flag := flag CFLAG_SET out_of_range, v_flag := 0,
           not_z_flag := (if on_bound then 0 else 1), n_flag := 0 \<rparr>)"

definition cmp2_operand :: "nat \<Rightarrow> opsize \<Rightarrow> 'a cpu_core_scheme \<Rightarrow> int" where
  "cmp2_operand rn sz s =
     (if rn < 8 then bound_value sz (d_reg rn s) else sint (a_reg (rn - 8) s))"

definition exec_cmp2_chk2 ::
  "'b address_bus \<Rightarrow> 'b delivery \<Rightarrow> u16 \<Rightarrow> 'b machine \<Rightarrow> (int \<times> 'b machine) option" where
  "exec_cmp2_chk2 B dl opcode s =
     (let ss = drop_bit 9 opcode AND 3
      in if ss = 3 then take_exception B dl 4 s
         else do {
           let sz = (if ss = 0 then Size_Byte else if ss = 1 then Size_Word else Size_Long);
           (ext, s) \<leftarrow> read_imm_16 B dl s;
           let is_chk2 = (ext AND 0x0800 \<noteq> 0);
           let rn = unat (drop_bit 12 ext AND 0xF);
           case decode_mode (ucast (drop_bit 3 opcode AND 7)) (ucast (opcode AND 7)) of
             None \<Rightarrow> take_exception B dl 4 s
           | Some mode \<Rightarrow>
               if mode = Immediate then take_exception B dl 4 s
               else do {
                 (addr, s) \<leftarrow> get_ea_address B dl mode sz s;
                 (lower_u, s) \<leftarrow> read_sized B dl addr sz s;
                 (upper_u, s) \<leftarrow> read_sized B dl (addr + size_bytes sz) sz s;
                 let (on_bound, out_of_range) =
                   bounds_check (bound_value sz lower_u) (bound_value sz upper_u) (cmp2_operand rn sz s);
                 let s = bounds_flags (on_bound, out_of_range) s;
                 if is_chk2 \<and> out_of_range then exception_chk B dl s else Some (12, s)
               }
         })"

section \<open>CAS on a memory of bytes\<close>

lemma uvalue_long [simp]: "uvalue Size_Long x = uint x"
  using uint_masked [of x Size_Long, unfolded mask_long_id] by simp

lemma and_max_long [simp]: "(x :: u32) AND 0xFFFFFFFF = x"
  using mask_long_id [of x] by simp

lemma exec_cmp_long:
  obtains s' where "exec_cmp Size_Long src dst s = (4, s')" "flag_z s' \<longleftrightarrow> dst = src"
proof -
  obtain c s' where e: "exec_cmp Size_Long src dst s = (c, s')" by force
  moreover have "c = 4" using e by (simp add: exec_cmp_def)
  moreover have "flag_z s' \<longleftrightarrow> dst = src"
    using add_sub_cmp_parts(3) [of Size_Long dst src s] e by (auto simp: word_uint_eq_iff)
  ultimately show ?thesis using that by blast
qed

lemma exec_cmp_keeps:
  fixes s :: "'b machine"
  assumes "exec_cmp sz src dst s = (c, s')"
  shows "bus s' = bus s" "word_aligned_cpu s' = word_aligned_cpu s" "mmu_on s' = mmu_on s" "faulted s' = faulted s"
    "address_mask s' = address_mask s" "mmu_read_override s' = mmu_read_override s"
    "mmu_write_suppress s' = mmu_write_suppress s" "dar s' = dar s"
  using assms by (auto simp: exec_cmp_def set_cmp_flags_def Let_def word_aligned_cpu_def mmu_on_def faulted_def)

lemma trace_sync_keeps [simp]:
  "dar (trace_t0_68040_sync s) = dar s" "flag_z (trace_t0_68040_sync s) = flag_z s"
  "bus (trace_t0_68040_sync (m :: 'b machine)) = bus m"
  by (simp_all add: trace_t0_68040_sync_def flag_z_def)

text \<open>
  C23. CAS.L is a compare and swap: if the compare register equals the memory long, the long
  becomes the update register, otherwise it keeps its value; either way the compare register
  then holds the value the memory had, no other register changes, and Z tells the outcome.
\<close>

theorem cas_compares_and_swaps:
  assumes "flat_ram s" and "lb_block_ok (bus s) addr 4"
  shows "\<exists>s'. cas_access L dl Size_Long dc du addr s = Some (20, s') \<and>
    lb_long (bus s') addr =
      (if d_reg dc s = lb_long (bus s) addr then d_reg du s else lb_long (bus s) addr) \<and>
    dar s' = (dar s)(dc AND 7 := lb_long (bus s) addr) \<and>
    (flag_z s' \<longleftrightarrow> d_reg dc s = lb_long (bus s) addr)"
proof -
  define u where "u = s\<lparr> pending_sync_clocks := 0 \<rparr>"
  have u: "flat_ram u" "bus u = bus s" "dar u = dar s" "d_reg k u = d_reg k s" for k
    using assms(1) by (simp_all add: u_def d_reg_def)
  define mem where "mem = lb_long (bus s) addr"
  have r: "read_sized L dl addr Size_Long s = Some (mem, u)"
    using assms(1) by (simp add: read_sized_def read_32_flat u_def mem_def)
  obtain t where t: "exec_cmp Size_Long mem (d_reg dc u) u = (4, t)" "flag_z t \<longleftrightarrow> d_reg dc u = mem"
    by (rule exec_cmp_long)
  note k = exec_cmp_keeps [OF t(1)]
  have ft: "flat_ram t" using u(1) k by (simp add: flat_ram_def)
  have inv: "lb_inv (bus s)" using assms(1) by (simp add: flat_ram_def)
  have w: "write_sized L dl addr Size_Long v t = Some (stored_long addr v t)" for v
    using ft by (simp add: write_sized_def write_32_flat)
  have z: "flag_z (stored_long addr v t) = flag_z t" for v by (simp add: stored_long_def flag_z_def)
  have dt: "d_reg n t = d_reg n s" for n using k u by (simp add: d_reg_def)
  show ?thesis
  proof (cases "d_reg dc s = mem")
    case True
    then have same: "(dar s)(dc AND 7 := mem) = dar s" by (auto simp: d_reg_def)
    have "cas_access L dl Size_Long dc du addr s =
        Some (20, trace_t0_68040_sync (stored_long addr (d_reg du s) t))"
      by (simp add: cas_access_def r t(1) [unfolded u(4) True] w dt u(4) True)
    moreover have "lb_long (lb_write_long addr (d_reg du s) (bus t)) addr = d_reg du s"
      using inv assms(2) k(1) u(2) by (simp add: lb_long_same)
    moreover have "dar t = dar s" using k u by simp
    ultimately show ?thesis
      using True same t(2) z u(4) unfolding mem_def [symmetric] by simp
  next
    case False
    have "cas_access L dl Size_Long dc du addr s = Some (20, trace_t0_68040_sync (set_d dc mem t))"
      using False by (simp add: cas_access_def r t(1) [unfolded u(4)] dt u(4) write_d_sized_def)
    moreover have "bus (set_d dc mem t) = bus s" "dar (set_d dc mem t) = (dar s)(dc AND 7 := mem)"
      "flag_z (set_d dc mem t) = flag_z t" using k u by (simp_all add: set_d_def flag_z_def)
    ultimately show ?thesis
      using False t(2) u(4) mem_def by simp
  qed
qed

section \<open>The bounds of CMP2 as one comparison\<close>

lemma uint_diff_sint: "uint (x - y :: u32) = (sint x - sint y) mod 4294967296"
proof -
  have "uint w = sint w mod 4294967296" for w :: u32
    using uint_sint [of w] by (simp add: take_bit_eq_mod)
  note u = this
  have "uint (x - y) = (uint x - uint y) mod 4294967296" by (simp add: uint_word_ariths)
  also have "\<dots> = (sint x - sint y) mod 4294967296" by (simp only: u mod_diff_eq)
  finally show ?thesis .
qed

lemma wrapped_difference:
  fixes a b :: int
  assumes "- 2147483648 \<le> a" "a \<le> 2147483647" "- 2147483648 \<le> b" "b \<le> 2147483647"
  shows "(a - b) mod 4294967296 = (if b \<le> a then a - b else a - b + 4294967296)"
proof (cases "b \<le> a")
  case False
  have "(a - b) mod 4294967296 = (a - b + 4294967296) mod 4294967296" by simp
  also have "\<dots> = a - b + 4294967296" using False assms by (intro mod_pos_pos_trivial) auto
  finally show ?thesis using False by simp
qed (use assms in auto)

text \<open>
  C24. CMP2 and CHK2: whatever the order of the two bounds, the operand is out of range exactly
  when it is further from the lower bound than the upper bound is, counted upwards modulo
  \<open>2 ^ 32\<close>; Z says that it is one of the bounds, C that it is out of range.
\<close>

theorem cmp2_is_modular:
  fixes lower upper v :: u32
  shows "case bounds_check (sint lower) (sint upper) (sint v) of (on_bound, out_of_range) \<Rightarrow>
    (on_bound \<longleftrightarrow> v = lower \<or> v = upper) \<and> (out_of_range \<longleftrightarrow> upper - lower < v - lower) \<and>
    (flag_z (bounds_flags (on_bound, out_of_range) s) \<longleftrightarrow> v = lower \<or> v = upper) \<and>
    (flag_c (bounds_flags (on_bound, out_of_range) s) \<longleftrightarrow> upper - lower < v - lower)"
proof -
  have r: "- 2147483648 \<le> sint w" "sint w \<le> 2147483647" for w :: u32
    using sint_range_size [of w] by (simp_all add: word_size)
  have i: "sint x = sint y \<longleftrightarrow> x = y" for x y :: u32 by (auto intro: signed_word_eqI)
  have "upper - lower < v - lower \<longleftrightarrow> snd (bounds_check (sint lower) (sint upper) (sint v))"
    using r [of lower] r [of upper] r [of v]
    unfolding word_less_def uint_diff_sint wrapped_difference [OF r(1) r(2) r(1) r(2)] bounds_check_def Let_def snd_conv
    by (auto split: if_splits)
  then show ?thesis
    by (simp add: bounds_check_def Let_def bounds_flags_def flag_defs i)
qed

text \<open>A CAS on the small machine of \<open>Data_Movement\<close>: every register is 8.\<close>

lemma cas_compares_and_swaps_witness:
  "\<exists>s'. cas_access L (deliver 4 L) Size_Long 0 1 4 small_020 = Some (20, s') \<and>
     dar s' = (dar small_020)(0 := lb_long sample_bus 4)"
  using cas_compares_and_swaps [OF small_020(1) small_020_block(1), of "deliver 4 L" 0 1]
  by (auto simp: small_020(4))

end
