(* ===== verification/Block_Moves.thy ===== *)
theory Block_Moves
  imports Compare_Swap
begin

unbundle bit_operations_syntax

text \<open>
  MOVES, the transfers to and from another address space
  (\<open>src/core/instructions/moves.rs\<close>), MOVE16, the line transfers of the 68040
  (\<open>src/core/instructions/move16.rs\<close>), and the module calls CALLM and RTM of the 68020
  (\<open>src/core/instructions/callm.rs\<close>).
\<close>

section \<open>MOVES\<close>

definition moves_sync :: "addressing_mode \<Rightarrow> u32" where
  "moves_sync mode =
     (case mode of
        AddressIndirect _ \<Rightarrow> 6 | PreDecrement _ \<Rightarrow> 6 | PostIncrement _ \<Rightarrow> 8 | Index _ \<Rightarrow> 6
      | Displacement _ \<Rightarrow> 4 | AbsoluteShort \<Rightarrow> 4 | AbsoluteLong \<Rightarrow> 4
      | _ \<Rightarrow> 0)"

fun ea_updates_register :: "addressing_mode \<Rightarrow> bool" where
  "ea_updates_register (PostIncrement _) = True"
| "ea_updates_register (PreDecrement _) = True"
| "ea_updates_register _ = False"

definition stores_original :: "opsize \<Rightarrow> 'a cpu_core_scheme \<Rightarrow> bool" where
  "stores_original sz s =
     (case cpu_model s of
        M68060 \<Rightarrow> True
      | M68010 \<Rightarrow> sz = Size_Long
      | SCC68070 \<Rightarrow> sz = Size_Long
      | _ \<Rightarrow> False)"

definition exec_moves ::
  "'b address_bus \<Rightarrow> 'b delivery \<Rightarrow> u16 \<Rightarrow> 'b machine \<Rightarrow> (int \<times> 'b machine) option" where
  "exec_moves B dl opcode s =
     (let ss = drop_bit 6 opcode AND 3
      in if s_flag s = 0 then take_exception B dl 8 s
         else if ss = 3 then Some (0, s)
         else do {
           let sz = (if ss = 0 then Size_Byte else if ss = 1 then Size_Word else Size_Long);
           (ext, s) \<leftarrow> read_imm_16 B dl s;
           let reg_num = unat (drop_bit 12 ext AND 0xF);
           let is_areg = (8 \<le> reg_num);
           let reg_idx = reg_num AND 7;
           let direction = drop_bit 11 ext AND 1;
           case decode_mode (ucast (drop_bit 3 opcode AND 7)) (ucast (opcode AND 7)) of
             None \<Rightarrow> Some (0, s)
           | Some mode \<Rightarrow> do {
               let source_before_ea = a_reg reg_idx s;
               (addr, s) \<leftarrow> get_ea_address B dl mode sz s;
               let s = (if prefetch_enabled s then internal_cycles (moves_sync mode) s else s);
               s \<leftarrow> (if direction = 1 then do {
                       let v = (if is_areg \<and> ea_updates_register mode \<and> stores_original sz s then source_before_ea
                                else if is_areg then a_reg reg_idx s else d_reg reg_idx s);
                       let s = s\<lparr> mmu_fc_override := Some (ucast (dfc s AND 7)) \<rparr>;
                       s \<leftarrow> write_sized B dl addr sz v s;
                       Some (s\<lparr> mmu_fc_override := None \<rparr>)
                     } else do {
                       let s = s\<lparr> mmu_fc_override := Some (ucast (sfc s AND 7)) \<rparr>;
                       (v, s) \<leftarrow> read_sized B dl addr sz s;
                       let s = s\<lparr> mmu_fc_override := None \<rparr>;
                       Some (if is_areg then
                               set_a reg_idx (case sz of Size_Byte \<Rightarrow> sext8 v | Size_Word \<Rightarrow> sext16 v | Size_Long \<Rightarrow> v) s
                             else
                               set_d reg_idx (case sz of
                                   Size_Byte \<Rightarrow> (d_reg reg_idx s AND 0xFFFFFF00) OR v
                                 | Size_Word \<Rightarrow> (d_reg reg_idx s AND 0xFFFF0000) OR v
                                 | Size_Long \<Rightarrow> v) s)
                     });
               let s = trace_t0_68040_sync s;
               Some (if prefetch_enabled s
                     then 4 + ea_calc_cycles mode + uint (moves_sync mode) + (if sz = Size_Long then 8 else 4) + 4
                     else 4, s)
             }
         })"

section \<open>MOVE16\<close>

text \<open>Source, destination and the registers to increment, for the five encodings.\<close>

definition move16_operands ::
  "'b address_bus \<Rightarrow> 'b delivery \<Rightarrow> u16 \<Rightarrow> 'b machine \<Rightarrow> ((u32 \<times> u32 \<times> nat list) option \<times> 'b machine) option" where
  "move16_operands B dl opcode s =
     (let reg = unat (opcode AND 7); form = opcode AND 0xFFF8; line = (\<lambda>a :: u32. a AND NOT 15)
      in if form = 0xF620 then do {
           (ext, s) \<leftarrow> read_imm_16 B dl s;
           let dst_reg = unat (drop_bit 12 ext AND 7);
           Some (Some (line (a_reg reg s), line (a_reg dst_reg s),
             (if reg \<noteq> dst_reg then [reg] else []) @ [dst_reg]), s)
         }
         else if form \<in> {0xF600, 0xF608, 0xF610, 0xF618} then do {
           (abs, s) \<leftarrow> read_imm_32 B dl s;
           let inc = (if form = 0xF600 \<or> form = 0xF608 then [reg] else []);
           Some (Some (if form = 0xF600 \<or> form = 0xF610
                       then (line (a_reg reg s), line abs, inc)
                       else (line abs, line (a_reg reg s), inc)), s)
         }
         else Some (None, s))"

fun read_longs ::
  "'b address_bus \<Rightarrow> 'b delivery \<Rightarrow> nat list \<Rightarrow> u32 \<Rightarrow> 'b machine \<Rightarrow> (u32 list \<times> 'b machine) option" where
  "read_longs B dl [] a s = Some ([], s)"
| "read_longs B dl (i # is) a s = do {
     (v, s) \<leftarrow> read_32 B dl (a + of_nat i * 4) s;
     (vs, s) \<leftarrow> read_longs B dl is a s;
     Some (v # vs, s)
   }"

fun write_longs ::
  "'b address_bus \<Rightarrow> 'b delivery \<Rightarrow> (nat \<times> u32) list \<Rightarrow> u32 \<Rightarrow> 'b machine \<Rightarrow> 'b machine option" where
  "write_longs B dl [] a s = Some s"
| "write_longs B dl ((i, v) # ps) a s = do {
     s \<leftarrow> write_32 B dl (a + of_nat i * 4) v s;
     write_longs B dl ps a s
   }"

definition move16_line ::
  "'b address_bus \<Rightarrow> 'b delivery \<Rightarrow> u32 \<Rightarrow> u32 \<Rightarrow> 'b machine \<Rightarrow> 'b machine option" where
  "move16_line B dl src_addr dst_addr s = do {
     (v, s) \<leftarrow> read_longs B dl [0, 1, 2, 3] src_addr s;
     write_longs B dl (zip [0, 1, 2, 3] v) dst_addr s
   }"

definition exec_move16 ::
  "'b address_bus \<Rightarrow> 'b delivery \<Rightarrow> u16 \<Rightarrow> 'b machine \<Rightarrow> (int \<times> 'b machine) option" where
  "exec_move16 B dl opcode s = do {
     (operands, s) \<leftarrow> move16_operands B dl opcode s;
     case operands of
       None \<Rightarrow> Some (0, s)
     | Some (src_addr, dst_addr, inc) \<Rightarrow> do {
         s \<leftarrow> move16_line B dl src_addr dst_addr s;
         Some (4, fold (\<lambda>r s. set_a r (a_reg r s + 16) s) inc s)
       }
   }"

section \<open>CALLM and RTM\<close>

definition exec_callm ::
  "'b address_bus \<Rightarrow> 'b delivery \<Rightarrow> u16 \<Rightarrow> 'b machine \<Rightarrow> (int \<times> 'b machine) option" where
  "exec_callm B dl opcode s =
     (if cpu_model s \<noteq> M68020 then take_exception B dl 11 s
      else do {
        (ext, s) \<leftarrow> read_imm_16 B dl s;
        case decode_mode (ucast (drop_bit 3 opcode AND 7)) (ucast (opcode AND 7)) of
          None \<Rightarrow> take_exception B dl 4 s
        | Some mode \<Rightarrow> do {
            (desc_addr, s) \<leftarrow> get_ea_address B dl mode Size_Long s;
            (_, s) \<leftarrow> read_8 B dl desc_addr s;
            (_, s) \<leftarrow> read_8 B dl (desc_addr + 1) s;
            (entry_point, s) \<leftarrow> read_32 B dl (desc_addr + 4) s;
            (_, s) \<leftarrow> read_32 B dl (desc_addr + 8) s;
            s \<leftarrow> push_32 B dl (pc s) s;
            s \<leftarrow> push_32 B dl (0xC0000000 OR desc_addr) s;
            Some (60, s\<lparr> pc := entry_point \<rparr>)
          }
      })"

definition exec_rtm ::
  "'b address_bus \<Rightarrow> 'b delivery \<Rightarrow> u16 \<Rightarrow> 'b machine \<Rightarrow> (int \<times> 'b machine) option" where
  "exec_rtm B dl opcode s =
     (if cpu_model s \<noteq> M68020 then take_exception B dl 11 s
      else do {
        (frame_marker, s) \<leftarrow> pull_32 B dl s;
        (return_pc, s) \<leftarrow> pull_32 B dl s;
        Some (40, s\<lparr> pc := return_pc \<rparr>)
      })"

section \<open>MOVE16 on a memory of bytes\<close>

lemma read_longs_flat:
  "flat_ram s \<Longrightarrow> pending_sync_clocks s = 0 \<Longrightarrow>
   read_longs L dl is a s = Some (map (\<lambda>i. lb_long (bus s) (a + of_nat i * 4)) is, s)"
proof (induction "is")
  case (Cons i "is")
  have e: "s\<lparr> pending_sync_clocks := 0 \<rparr> = s" using Cons.prems(2) by (cases s) simp
  show ?case using Cons by (simp add: read_32_flat [OF Cons.prems(1), unfolded e])
qed simp

lemma move16_reads:
  assumes "flat_ram s"
  shows "read_longs L dl (i # is) a s =
    Some (map (\<lambda>i. lb_long (bus s) (a + of_nat i * 4)) (i # is), s\<lparr> pending_sync_clocks := 0 \<rparr>)"
  using assms by (simp add: read_32_flat read_longs_flat)

text \<open>The memory and the registers after the four writes.\<close>

fun stored_longs :: "(nat \<times> u32) list \<Rightarrow> u32 \<Rightarrow> linear_bus machine \<Rightarrow> linear_bus machine" where
  "stored_longs [] a s = s"
| "stored_longs ((i, v) # ps) a s = stored_longs ps a (stored_long (a + of_nat i * 4) v s)"

lemma write_longs_flat: "flat_ram s \<Longrightarrow> write_longs L dl ps a s = Some (stored_longs ps a s)"
  by (induction ps a s rule: stored_longs.induct) (simp_all add: write_32_flat)

lemma stored_longs_keeps [simp]:
  "flat_ram (stored_longs ps a s) = flat_ram s" "dar (stored_longs ps a s) = dar s"
  by (induction ps a s rule: stored_longs.induct) simp_all

lemma stored_longs_memory:
  assumes "flat_ram s" "lb_block_ok (bus s) a (4 * n)" "n \<le> 2 ^ 29" "j < n" "\<And>i. i \<in> fst ` set ps \<Longrightarrow> i < n"
  shows "lb_long (bus (stored_longs ps a s)) (a + 4 * of_nat j) =
    (case map_of (rev ps) j of Some v \<Rightarrow> v | None \<Rightarrow> lb_long (bus s) (a + 4 * of_nat j))"
  using assms
proof (induction ps a s rule: stored_longs.induct)
  case (2 i v ps a s)
  have inv: "lb_inv (bus s)" using 2(2) by (simp add: flat_ram_def)
  have i: "i < n" using 2(6) by simp
  have e: "a + of_nat i * 4 = a + 4 * of_nat i" by (simp add: mult.commute)
  have "lb_block_ok (lb_write_long (a + of_nat i * 4) v (bus s)) a (4 * n)"
    using 2(3) by simp
  then have "lb_long (bus (stored_longs ps a (stored_long (a + of_nat i * 4) v s))) (a + 4 * of_nat j) =
    (case map_of (rev ps) j of Some v \<Rightarrow> v
     | None \<Rightarrow> lb_long (bus (stored_long (a + of_nat i * 4) v s)) (a + 4 * of_nat j))"
    using 2 by (intro 2(1)) auto
  then show ?case
    using lb_long_write_long [OF inv 2(3) i 2(5) 2(4), of v]
    by (auto simp: e map_add_def split: option.splits)
qed simp

text \<open>
  C25. MOVE16 copies a line: the four longs of the destination become the four longs the source
  held before, even when the two lines overlap, and no register changes.
\<close>

theorem move16_copies_line:
  assumes "flat_ram s" and "lb_block_ok (bus s) dst 16" and "j < 4"
  shows "\<exists>s'. move16_line L dl src dst s = Some s' \<and> dar s' = dar s \<and>
    lb_long (bus s') (dst + 4 * of_nat j) = lb_long (bus s) (src + 4 * of_nat j)"
proof -
  define u where "u = s\<lparr> pending_sync_clocks := 0 \<rparr>"
  have u: "flat_ram u" "bus u = bus s" "dar u = dar s" using assms(1) by (simp_all add: u_def)
  define ps where "ps = zip [0, 1, 2, 3 :: nat] (map (\<lambda>i. lb_long (bus s) (src + of_nat i * 4)) [0, 1, 2, 3 :: nat])"
  have m: "move16_line L dl src dst s = Some (stored_longs ps dst u)"
    using write_longs_flat [OF u(1), of dl ps dst]
    by (simp only: move16_line_def move16_reads [OF assms(1)] ps_def u_def bind.bind_lunit prod.case)
  have "j = 0 \<or> j = 1 \<or> j = 2 \<or> j = 3" using assms(3) by auto
  then have "map_of (rev ps) j = Some (lb_long (bus s) (src + 4 * of_nat j))"
    by (auto simp: ps_def mult.commute)
  moreover have "i < 4" if "i \<in> fst ` set ps" for i using that by (auto simp: ps_def)
  ultimately have "lb_long (bus (stored_longs ps dst u)) (dst + 4 * of_nat j) = lb_long (bus s) (src + 4 * of_nat j)"
    using stored_longs_memory [of u dst 4 j ps] u assms(2,3) by simp
  then show ?thesis using m u(3) by (intro exI [of _ "stored_longs ps dst u"]) simp
qed

text \<open>The small 68020 with a bus of two lines.\<close>

definition two_lines :: "linear_bus machine" where
  "two_lines = small_020\<lparr> bus := the (lb_new 32) \<rparr>"

lemma two_lines: "flat_ram two_lines" "lb_block_ok (bus two_lines) 4 16"
  using small_020(1)
  by (simp_all add: two_lines_def flat_ram_def word_aligned_cpu_def mmu_on_def faulted_def lb_new_def lb_from_vec_def
      lb_inv_def lb_block_ok_def)

lemma move16_copies_line_witness:
  "\<exists>s'. move16_line L (deliver 4 L) 0 4 two_lines = Some s' \<and>
     lb_long (bus s') 16 = lb_long (bus two_lines) 12"
  using move16_copies_line [OF two_lines, of 3 "deliver 4 L" 0] by auto

end
