(* ===== verification/Decode.thy ===== *)
theory Decode
  imports Logic Shift Bcd Mul_Div Bitfield Block_Moves
begin

unbundle bit_operations_syntax

text \<open>
  The instruction groups of \<open>src/core/decode.rs\<close> that compute: MOVE and MOVEQ (groups 1, 2,
  3 and 7), quick arithmetic, Scc and DBcc (5), branches (6), and the arithmetic, logic and
  shift groups 8, 9, B, C, D and E. Each group decodes the operation, the sizes and the
  addressing mode from the opcode word, rejects the encodings no processor has, and calls the
  instruction. Results are the source's \<open>i32\<close>: a cycle count, or a negative sentinel that
  asks the caller to take a trap. None is a run that does not come back: a delivery without
  end, or an \<open>unwrap\<close> of an addressing mode that does not exist.
\<close>

section \<open>Sentinels and opcode fields\<close>

abbreviation (input) ALINE_TRAP_SENTINEL :: int where "ALINE_TRAP_SENTINEL \<equiv> -1000000"
abbreviation (input) FLINE_TRAP_SENTINEL :: int where "FLINE_TRAP_SENTINEL \<equiv> -1000001"
abbreviation (input) TRAP_SENTINEL_BASE :: int where "TRAP_SENTINEL_BASE \<equiv> -1000100"
abbreviation (input) BKPT_SENTINEL_BASE :: int where "BKPT_SENTINEL_BASE \<equiv> -1000200"
abbreviation (input) ILLEGAL_SENTINEL :: int where "ILLEGAL_SENTINEL \<equiv> -1000300"

type_synonym 'b outcome = "(int \<times> 'b machine) option"

definition illegal_instruction :: "'b machine \<Rightarrow> 'b outcome" where
  "illegal_instruction s = Some (ILLEGAL_SENTINEL, s)"

definition exception_1010 :: "'b machine \<Rightarrow> 'b outcome" where
  "exception_1010 s = Some (ALINE_TRAP_SENTINEL, s)"

definition exception_1111 :: "'b machine \<Rightarrow> 'b outcome" where
  "exception_1111 s = Some (FLINE_TRAP_SENTINEL, s)"

text \<open>The fields every group reads: register in bits 9 to 11, mode and register of the operand.\<close>

definition op_reg :: "u16 \<Rightarrow> nat" where "op_reg opcode = unat (drop_bit 9 opcode AND 7)"
definition op_mode :: "u16 \<Rightarrow> nat" where "op_mode opcode = unat (drop_bit 6 opcode AND 7)"
definition ea_mode :: "u16 \<Rightarrow> u8" where "ea_mode opcode = ucast (drop_bit 3 opcode AND 7)"
definition ea_reg :: "u16 \<Rightarrow> u8" where "ea_reg opcode = ucast (opcode AND 7)"

definition decode_size_00 :: "nat \<Rightarrow> opsize" where
  "decode_size_00 bits = (if bits = 1 then Size_Word else if bits = 2 then Size_Long else Size_Byte)"

definition decode_size_012 :: "nat \<Rightarrow> opsize" where
  "decode_size_012 bits = (if bits = 0 then Size_Byte else if bits = 1 then Size_Word else Size_Long)"

definition size_field :: "u16 \<Rightarrow> nat" where "size_field opcode = unat (drop_bit 6 opcode AND 3)"

section \<open>Classes of operands\<close>

definition ea_control :: "u8 \<Rightarrow> u8 \<Rightarrow> bool" where
  "ea_control mode reg \<longleftrightarrow> mode \<in> {2, 5, 6} \<or> mode = 7 \<and> reg \<le> 3"

definition ea_data_alterable :: "u8 \<Rightarrow> u8 \<Rightarrow> bool" where
  "ea_data_alterable mode reg \<longleftrightarrow> mode \<in> {0, 2, 3, 4, 5, 6} \<or> mode = 7 \<and> reg \<le> 1"

text \<open>The test the groups write out for a data operand, and for one that may be An but for bytes.\<close>

definition not_data :: "u16 \<Rightarrow> bool" where
  "not_data opcode \<longleftrightarrow> ea_mode opcode = 1 \<or> ea_mode opcode = 7 \<and> ea_reg opcode > 4"

definition not_source :: "opsize \<Rightarrow> u16 \<Rightarrow> bool" where
  "not_source sz opcode \<longleftrightarrow>
     ea_mode opcode = 1 \<and> sz = Size_Byte \<or> ea_mode opcode = 7 \<and> ea_reg opcode > 4"

definition not_alterable :: "u16 \<Rightarrow> bool" where
  "not_alterable opcode \<longleftrightarrow> \<not> ea_data_alterable (ea_mode opcode) (ea_reg opcode)"

definition not_memory_alterable :: "u16 \<Rightarrow> bool" where
  "not_memory_alterable opcode \<longleftrightarrow> ea_mode opcode < 2 \<or> not_alterable opcode"

text \<open>\<open>AddressingMode::decode(..).unwrap()\<close>: a mode that does not exist is a panic.\<close>

definition ea_of :: "u16 \<Rightarrow> addressing_mode option" where
  "ea_of opcode = decode_mode (ea_mode opcode) (ea_reg opcode)"

section \<open>Endings of the 68000\<close>

definition finish_m68000_tail_after_final_prefetch ::
  "'b address_bus \<Rightarrow> 'b delivery \<Rightarrow> u32 \<Rightarrow> 'b machine \<Rightarrow> (bool \<times> 'b machine) option" where
  "finish_m68000_tail_after_final_prefetch B dl clocks s = do {
     s \<leftarrow> top_up_prefetch B dl s;
     let s = ipl_poll_point B s;
     if faulted s then Some (False, s) else Some (True, flush_sync B (internal_cycles clocks s))
   }"

definition finish_m68000_alu_ea_dn_long_tail ::
  "'b address_bus \<Rightarrow> 'b delivery \<Rightarrow> addressing_mode \<Rightarrow> opsize \<Rightarrow> 'b machine \<Rightarrow> (bool \<times> 'b machine) option" where
  "finish_m68000_alu_ea_dn_long_tail B dl mode sz s =
     (if cpu_model s \<noteq> M68000 \<or> sz \<noteq> Size_Long then Some (True, s)
      else finish_m68000_tail_after_final_prefetch B dl (if ea_is_memory mode then 2 else 4) s)"

definition finish_m68000_adda_suba_tail ::
  "'b address_bus \<Rightarrow> 'b delivery \<Rightarrow> addressing_mode \<Rightarrow> opsize \<Rightarrow> 'b machine \<Rightarrow> (bool \<times> 'b machine) option" where
  "finish_m68000_adda_suba_tail B dl mode sz s =
     finish_m68000_tail_after_final_prefetch B dl
       (if sz = Size_Word \<or> \<not> ea_is_memory mode then 4 else 2) s"

definition finish_m68000_addx_subx_register_tail ::
  "'b address_bus \<Rightarrow> 'b delivery \<Rightarrow> opsize \<Rightarrow> 'b machine \<Rightarrow> (bool \<times> 'b machine) option" where
  "finish_m68000_addx_subx_register_tail B dl sz s = do {
     s \<leftarrow> top_up_prefetch B dl s;
     let s = ipl_poll_point B s;
     if faulted s then Some (False, s)
     else Some (True, if sz = Size_Long then flush_sync B (internal_cycles 4 s) else s)
   }"

text \<open>A tail that can fail, followed by the cycles of the 68000; 50 after a fault.\<close>

definition after_tail :: "(bool \<times> 'b machine) option \<Rightarrow> int \<Rightarrow> 'b outcome" where
  "after_tail m cycles = do { (ok, s) \<leftarrow> m; Some (if ok then cycles else 50, s) }"

definition on_68000 :: "int \<Rightarrow> int \<Rightarrow> 'b machine \<Rightarrow> int" where
  "on_68000 c legacy s = (if cpu_model s = M68000 then c else legacy)"

section \<open>MOVE\<close>

definition dispatch_move ::
  "'b address_bus \<Rightarrow> 'b delivery \<Rightarrow> u16 \<Rightarrow> opsize \<Rightarrow> 'b machine \<Rightarrow> 'b outcome" where
  "dispatch_move B dl opcode sz s =
     (let src_reg = ea_reg opcode; src_mode = ea_mode opcode;
          dst_reg = ucast (drop_bit 9 opcode AND 7) :: u8; dst_mode = ucast (drop_bit 6 opcode AND 7) :: u8
      in if sz = Size_Byte \<and> src_mode = 1 then illegal_instruction s
         else if dst_mode = 7 \<and> dst_reg > 1 then illegal_instruction s
         else case (decode_mode src_mode src_reg, decode_mode dst_mode dst_reg) of
             (Some src_ea, Some dst_ea) \<Rightarrow>
               if dst_mode = 1 then
                 if sz = Size_Byte then illegal_instruction s
                 else exec_movea B dl sz src_ea (unat dst_reg) s
               else exec_move B dl sz src_ea dst_ea s
           | _ \<Rightarrow> illegal_instruction s)"

definition dispatch_moveq :: "u16 \<Rightarrow> 'b machine \<Rightarrow> 'b outcome" where
  "dispatch_moveq opcode s =
     (let data = sext8 (ucast (opcode AND 0xFF)); s = set_d (op_reg opcode) data s
      in Some (4, s\<lparr> n_flag := (if sint data < 0 then 0x80 else 0), not_z_flag := data,
                     v_flag := 0, c_flag := 0 \<rparr>))"

section \<open>Quick arithmetic, Scc, DBcc and TRAPcc\<close>

text \<open>Whether the 68010 may hold the instruction before a DBcc in its loop mode.\<close>

definition loopable_68010 :: "u16 \<Rightarrow> bool" where
  "loopable_68010 op =
     (let mode = unat (drop_bit 3 op AND 7); loop_ea = (2 \<le> mode \<and> mode \<le> 4);
          opmode = op_mode op; family = unat (drop_bit 12 op)
      in if 1 \<le> family \<and> family \<le> 3 then mode \<le> 4 \<and> 2 \<le> opmode \<and> opmode \<le> 4
         else if family = 4 then
           let hi = unat (drop_bit 8 op AND 0xF); sz = size_field op
           in loop_ea \<and> (hi \<in> {0, 2, 4, 6} \<and> sz \<noteq> 3 \<or> hi = 8 \<and> sz = 0 \<or> hi = 0xA \<and> sz \<noteq> 3)
         else if family \<in> {8, 9, 0xB, 0xC, 0xD} then
           if family \<in> {0xC, 8} \<and> op AND 0x01F8 = 0x0108 then True
           else if family \<in> {9, 0xD} \<and> op AND 0x0138 = 0x0108 \<and> opmode AND 3 \<noteq> 3 then True
           else if family = 0xB \<and> op AND 0x0138 = 0x0108 \<and> opmode AND 3 \<noteq> 3 then True
           else if opmode \<le> 2 then loop_ea
           else if opmode \<in> {3, 7} then loop_ea \<and> family \<noteq> 8 \<and> family \<noteq> 0xC
           else loop_ea
         else if family = 0xE then opmode = 3 \<and> loop_ea \<and> op_reg op \<le> 3
         else False)"

definition set_d_word :: "nat \<Rightarrow> u16 \<Rightarrow> 'a cpu_core_scheme \<Rightarrow> 'a cpu_core_scheme" where
  "set_d_word reg v s = set_d reg ((d_reg reg s AND 0xFFFF0000) OR ucast v) s"

text \<open>DBcc while the 68010 holds the loop in its prefetch queue.\<close>

definition dbcc_loop_mode ::
  "'b address_bus \<Rightarrow> 'b delivery \<Rightarrow> u8 \<Rightarrow> nat \<Rightarrow> 'b machine \<Rightarrow> 'b outcome" where
  "dbcc_loop_mode B dl condition dn s =
     (let leave = (\<lambda>cycles s. do {
            s \<leftarrow> full_prefetch B dl (s\<lparr> loop_mode := False, pc := pc s + 2 \<rparr>); Some (cycles, s) })
      in if test_condition condition s then leave 12 s
         else
           let new_counter = ucast (d_reg dn s) - 1 :: u16; s = set_d_word dn new_counter s
           in if new_counter \<noteq> 0xFFFF then
                Some (6, s\<lparr> pc := pc s - 4,
                  prefetch_queue := (prefetch_queue s)(0 := loop_body_word s, 1 := loop_dbcc_word s),
                  prefetch_count := 2 \<rparr>)
              else leave 16 s)"

definition enter_loop_mode :: "u16 \<Rightarrow> u16 \<Rightarrow> 'a cpu_core_scheme \<Rightarrow> 'a cpu_core_scheme" where
  "enter_loop_mode opcode disp s =
     (if cpu_model s = M68010 \<and> disp = -4 \<and> prefetch_count s = 2 \<and> loopable_68010 (prefetch_queue s 0)
      then s\<lparr> loop_mode := True, loop_body_word := prefetch_queue s 0, loop_dbcc_word := opcode \<rparr>
      else s)"

text \<open>The discarded program read of an expired counter goes to the bus untranslated.\<close>

definition discarded_read :: "'b address_bus \<Rightarrow> 'b machine \<Rightarrow> 'b machine" where
  "discarded_read B s =
     (if pc s AND 1 = 0 then
        let s = flush_sync B s in s\<lparr> bus := snd (read_word B (address (pc s) s) (bus s)) \<rparr>
      else s)"

definition exec_dbcc ::
  "'b address_bus \<Rightarrow> 'b delivery \<Rightarrow> u16 \<Rightarrow> u8 \<Rightarrow> nat \<Rightarrow> 'b machine \<Rightarrow> 'b outcome" where
  "exec_dbcc B dl opcode condition dn s =
     (if loop_mode s then dbcc_loop_mode B dl condition dn s
      else
        let counter = ucast (d_reg dn s) :: u16; cc_true = test_condition condition s;
            s = (internal_cycles (if cc_true then 4 else 2) s)\<lparr> consume_without_prefetch := \<not> cc_true \<rparr>
        in do {
          (disp, s) \<leftarrow> read_imm_16 B dl s;
          let s = s\<lparr> consume_without_prefetch := False \<rparr>;
          unless_faulted s
            (if cc_true then Some (12, s)
             else
               let new_counter = counter - 1; s = set_d_word dn new_counter s;
                   target = pc s + (scast disp - 2)
               in if new_counter \<noteq> 0xFFFF then do {
                    s \<leftarrow> full_prefetch B dl (s\<lparr> pc := target \<rparr>);
                    let s = enter_loop_mode opcode disp s;
                    Some (if is_pre_68020 s then 10 else 12, s)
                  }
                  else do {
                    s \<leftarrow> full_prefetch B dl (discarded_read B s);
                    Some (14, s)
                  })
        })"

definition exec_scc ::
  "'b address_bus \<Rightarrow> 'b delivery \<Rightarrow> u16 \<Rightarrow> u8 \<Rightarrow> 'b machine \<Rightarrow> 'b outcome" where
  "exec_scc B dl opcode condition s =
     (if not_alterable opcode then illegal_instruction s
      else do {
        mode \<leftarrow> ea_of opcode;
        let v = (if test_condition condition s then 0xFF else 0 :: u32);
        if cpu_model s = M68000 \<and> is_register_direct mode then do {
          s \<leftarrow> top_up_prefetch B dl s;
          let s = ipl_poll_point B s;
          let s = (if v \<noteq> 0 then flush_sync B (internal_cycles 2 s) else s);
          let reg = unat (ea_reg opcode);
          Some (if v \<noteq> 0 then 6 else 4, set_d reg ((d_reg reg s AND 0xFFFFFF00) OR v) s)
        } else do {
          (ea, s) \<leftarrow> resolve_ea B dl mode Size_Byte s;
          unless_faulted s (do {
            s \<leftarrow> (if cpu_model s = M68000 \<and> \<not> is_register_direct mode
                   then map_option snd (read_resolved_ea B dl ea Size_Byte s) else Some s);
            if faulted s \<and> cpu_model s = M68000 \<and> \<not> is_register_direct mode then Some (50, s)
            else do {
              s \<leftarrow> write_resolved_ea_np_poll B dl ea Size_Byte v s;
              Some (if cpu_model s = M68000 then
                      if is_register_direct mode then if v \<noteq> 0 then 6 else 4
                      else 8 + ea_source_cycles mode Size_Byte
                    else if is_register_direct mode then 4 else 8, s)
            }
          })
        }
      })"

definition exec_trapcc ::
  "'b address_bus \<Rightarrow> 'b delivery \<Rightarrow> u16 \<Rightarrow> u8 \<Rightarrow> 'b machine \<Rightarrow> 'b outcome" where
  "exec_trapcc B dl opcode condition s = do {
     s \<leftarrow> (if ea_reg opcode = 2 then map_option snd (read_imm_16 B dl s)
           else if ea_reg opcode = 3 then map_option snd (read_imm_32 B dl s)
           else Some s);
     if test_condition condition s then take_group2_exception B dl 7 s else Some (4, s)
   }"

definition dispatch_group_5 :: "'b address_bus \<Rightarrow> 'b delivery \<Rightarrow> u16 \<Rightarrow> 'b machine \<Rightarrow> 'b outcome" where
  "dispatch_group_5 B dl opcode s =
     (let condition = ucast (drop_bit 8 opcode AND 0xF) :: u8
      in if size_field opcode = 3 then
           if is_020_plus s \<and> ea_mode opcode = 7 \<and> ea_reg opcode \<in> {2, 3, 4}
           then exec_trapcc B dl opcode condition s
           else if ea_mode opcode = 1 then exec_dbcc B dl opcode condition (unat (ea_reg opcode)) s
           else exec_scc B dl opcode condition s
         else
           let sz = decode_size_00 (size_field opcode);
               ea_ok = (if ea_mode opcode = 1 then sz \<noteq> Size_Byte
                        else if ea_mode opcode = 7 then ea_reg opcode \<le> 1 else True)
           in if \<not> ea_ok then illegal_instruction s
              else do {
                let data = (if op_reg opcode = 0 then 8 else of_nat (op_reg opcode));
                mode \<leftarrow> ea_of opcode;
                (legacy, s) \<leftarrow> (if opcode AND 0x100 = 0 then exec_addq B dl sz data mode s
                                else exec_subq B dl sz data mode s);
                Some (on_68000 (addq_subq_cycles mode sz) legacy s, s)
              })"

section \<open>Branches\<close>

definition branch_displacement ::
  "'b address_bus \<Rightarrow> 'b delivery \<Rightarrow> u16 \<Rightarrow> 'b machine \<Rightarrow> (u32 \<times> 'b machine) option" where
  "branch_displacement B dl opcode s =
     (if opcode AND 0xFF = 0 then map_option (map_prod scast id) (read_imm_16 B dl s)
      else if opcode AND 0xFF = 0xFF \<and> \<not> is_pre_68020 s then read_imm_32 B dl s
      else Some (sext8 (ucast (opcode AND 0xFF)), s))"

definition dispatch_group_6 :: "'b address_bus \<Rightarrow> 'b delivery \<Rightarrow> u16 \<Rightarrow> 'b machine \<Rightarrow> 'b outcome" where
  "dispatch_group_6 B dl opcode s =
     (let condition = ucast (drop_bit 8 opcode AND 0xF) :: u8; base_pc = pc s;
          taken = (condition < 2 \<or> test_condition condition s);
          s = (internal_cycles (if taken then 2 else 4) s)\<lparr> consume_without_prefetch := taken \<rparr>
      in do {
        (disp, s) \<leftarrow> branch_displacement B dl opcode s;
        let s = s\<lparr> consume_without_prefetch := False \<rparr>;
        if condition = 0 then do {
          s \<leftarrow> full_prefetch B dl (s\<lparr> change_of_flow := True, pc := base_pc + disp \<rparr>);
          Some (10, s)
        }
        else if condition = 1 then do {
          s \<leftarrow> push_32 B dl (pc s) (s\<lparr> change_of_flow := True, pc := base_pc + disp \<rparr>);
          s \<leftarrow> full_prefetch B dl s;
          Some (18, s)
        }
        else if taken then do {
          s \<leftarrow> full_prefetch B dl (s\<lparr> change_of_flow := True, pc := base_pc + disp \<rparr>);
          Some (10, s)
        }
        else Some (if opcode AND 0xFF = 0 then 12 else 8, s)
      })"

section \<open>Arithmetic and logic groups\<close>

text \<open>The store of a result of the operand size into Dn, and the ending of an operation on Dn.\<close>

definition store_dn :: "opsize \<Rightarrow> nat \<Rightarrow> u32 \<Rightarrow> 'a cpu_core_scheme \<Rightarrow> 'a cpu_core_scheme" where
  "store_dn sz reg result s = set_d reg ((d_reg reg s AND NOT (size_mask sz)) OR result) s"

definition finish_ea_dn ::
  "'b address_bus \<Rightarrow> 'b delivery \<Rightarrow> addressing_mode \<Rightarrow> opsize \<Rightarrow> 'b machine \<Rightarrow> 'b outcome" where
  "finish_ea_dn B dl mode sz s =
     (if cpu_model s = M68000
      then after_tail (finish_m68000_alu_ea_dn_long_tail B dl mode sz s) (alu_ea_dn_cycles mode sz)
      else Some (4, s))"

text \<open>
  An operation \<open>f\<close> on an operand and Dn, with the destination register read as \<open>dst\<close> does;
  only OR stops after a faulted read.
\<close>

definition alu_ea_dn ::
  "'b address_bus \<Rightarrow> 'b delivery \<Rightarrow> bool \<Rightarrow> (u32 \<Rightarrow> u32 \<Rightarrow> 'b machine \<Rightarrow> (u32 \<times> int) \<times> 'b machine) \<Rightarrow>
   (u32 \<Rightarrow> u32) \<Rightarrow> opsize \<Rightarrow> u16 \<Rightarrow> 'b machine \<Rightarrow> 'b outcome" where
  "alu_ea_dn B dl stops f dst_of sz opcode s = do {
     mode \<leftarrow> ea_of opcode;
     (src, s) \<leftarrow> read_ea B dl mode sz s;
     if stops \<and> faulted s then Some (50, s)
     else
       let ((result, _), s) = f src (dst_of (d_reg (op_reg opcode) s)) s
       in finish_ea_dn B dl mode sz (store_dn sz (op_reg opcode) result s)
   }"

text \<open>An operation \<open>f\<close> of Dn on memory.\<close>

definition alu_dn_ea ::
  "'b address_bus \<Rightarrow> 'b delivery \<Rightarrow> bool \<Rightarrow> (u32 \<Rightarrow> u32 \<Rightarrow> 'b machine \<Rightarrow> (u32 \<times> int) \<times> 'b machine) \<Rightarrow>
   (u32 \<Rightarrow> u32) \<Rightarrow> opsize \<Rightarrow> u16 \<Rightarrow> 'b machine \<Rightarrow> 'b outcome" where
  "alu_dn_ea B dl stops f src_of sz opcode s = do {
     mode \<leftarrow> ea_of opcode;
     (ea, s) \<leftarrow> resolve_ea B dl mode sz s;
     (dst, s) \<leftarrow> read_resolved_ea B dl ea sz s;
     if stops \<and> faulted s then Some (50, s)
     else do {
       let ((result, _), s) = f (src_of (d_reg (op_reg opcode) s)) dst s;
       s \<leftarrow> write_resolved_ea_np_poll B dl ea sz result s;
       Some (on_68000 (alu_dn_ea_cycles mode sz) 8 s, s)
     }
   }"

definition dispatch_group_8 :: "'b address_bus \<Rightarrow> 'b delivery \<Rightarrow> u16 \<Rightarrow> 'b machine \<Rightarrow> 'b outcome" where
  "dispatch_group_8 B dl opcode s =
     (let reg = op_reg opcode; mode = ea_mode opcode; er = unat (ea_reg opcode); opm = op_mode opcode
      in if opm \<le> 2 then
           if not_data opcode then illegal_instruction s
           else let sz = decode_size_012 opm in alu_ea_dn B dl True (exec_or sz) id sz opcode s
         else if opm = 3 then
           if not_data opcode then illegal_instruction s
           else do { m \<leftarrow> ea_of opcode; exec_divu B dl m reg s }
         else if opm = 7 then
           if not_data opcode then illegal_instruction s
           else do { m \<leftarrow> ea_of opcode; exec_divs B dl m reg s }
         else if opm = 4 \<and> mode = 0 then exec_sbcd_rr B dl er reg s
         else if opm = 4 \<and> mode = 1 then exec_sbcd_mm B dl er reg s
         else if opm = 5 \<and> (mode = 0 \<or> mode = 1) then
           if is_pre_68020 s then illegal_instruction s
           else do {
             (adj, s) \<leftarrow> read_imm_16 B dl s;
             if mode = 0 then Some (exec_pack_rr er reg adj s) else exec_pack_mm B dl er reg adj s
           }
         else if opm = 6 \<and> (mode = 0 \<or> mode = 1) then
           if is_pre_68020 s then illegal_instruction s
           else do {
             (adj, s) \<leftarrow> read_imm_16 B dl s;
             if mode = 0 then Some (exec_unpk_rr er reg adj s) else exec_unpk_mm B dl er reg adj s
           }
         else if not_memory_alterable opcode then illegal_instruction s
         else let sz = decode_size_012 (opm - 4) in alu_dn_ea B dl True (exec_or sz) id sz opcode s)"

text \<open>ADDA and SUBA: the operation \<open>f\<close> on an address register.\<close>

definition alu_an ::
  "'b address_bus \<Rightarrow> 'b delivery \<Rightarrow> (opsize \<Rightarrow> u32 \<Rightarrow> nat \<Rightarrow> 'b machine \<Rightarrow> int \<times> 'b machine) \<Rightarrow>
   u16 \<Rightarrow> 'b machine \<Rightarrow> 'b outcome" where
  "alu_an B dl f opcode s =
     (if ea_mode opcode = 7 \<and> ea_reg opcode > 4 then illegal_instruction s
      else do {
        let sz = (if op_mode opcode = 3 then Size_Word else Size_Long);
        mode \<leftarrow> ea_of opcode;
        (src, s) \<leftarrow> read_ea B dl mode sz s;
        let (legacy, s) = f sz src (op_reg opcode) s;
        if cpu_model s = M68000
        then after_tail (finish_m68000_adda_suba_tail B dl mode sz s) (adda_suba_cycles mode sz)
        else Some (legacy, s)
      })"

text \<open>ADDX and SUBX on registers and, with both operands predecremented, on memory.\<close>

definition extended_rr ::
  "'b address_bus \<Rightarrow> 'b delivery \<Rightarrow> (opsize \<Rightarrow> u32 \<Rightarrow> u32 \<Rightarrow> 'b machine \<Rightarrow> u32 \<times> 'b machine) \<Rightarrow>
   opsize \<Rightarrow> nat \<Rightarrow> nat \<Rightarrow> 'b machine \<Rightarrow> 'b outcome" where
  "extended_rr B dl f sz er reg s =
     (let (result, s) = f sz (d_reg er s AND size_mask sz) (d_reg reg s AND size_mask sz) s
      in do {
        (ok, s) \<leftarrow> (if cpu_model s = M68000 then finish_m68000_addx_subx_register_tail B dl sz s
                    else Some (True, s));
        if \<not> ok then Some (50, s)
        else
          let s = store_dn sz reg result s
          in Some (if cpu_model s = M68000 \<and> sz = Size_Long then 8 else 4, s)
      })"

definition extended_mm ::
  "'b address_bus \<Rightarrow> 'b delivery \<Rightarrow> (opsize \<Rightarrow> u32 \<Rightarrow> u32 \<Rightarrow> 'b machine \<Rightarrow> u32 \<times> 'b machine) \<Rightarrow>
   opsize \<Rightarrow> nat \<Rightarrow> nat \<Rightarrow> 'b machine \<Rightarrow> 'b outcome" where
  "extended_mm B dl f sz er reg s = do {
     (src_ea, s) \<leftarrow> resolve_ea B dl (PreDecrement er) sz s;
     (dst_ea, s) \<leftarrow> resolve_ea B dl (PreDecrement reg) sz s;
     let s = internal_cycles 2 (s\<lparr> pending_sync_clocks := 0 \<rparr>);
     let long_mm_68000 = (cpu_model s = M68000 \<and> sz = Size_Long);
     let fetch = (\<lambda>ea s. case ea of
           EaMemory a \<Rightarrow> if long_mm_68000 then read_long_predec_68000 B dl a s
                        else read_resolved_ea B dl ea sz s
         | _ \<Rightarrow> read_resolved_ea B dl ea sz s);
     (src, s) \<leftarrow> fetch src_ea s;
     unless_faulted s (do {
       (dst, s) \<leftarrow> fetch dst_ea s;
       unless_faulted s (do {
         let s = (if sz \<noteq> Size_Long then ipl_poll_point B s else s);
         case dst_ea of
           EaMemory addr \<Rightarrow>
             if cpu_model s = M68000 \<and> sz \<noteq> Size_Byte \<and> addr AND 1 \<noteq> 0 then do {
               s \<leftarrow> trigger_address_error dl addr True False s; Some (50, s)
             } else do {
               let (result, s) = f sz src dst s;
               s \<leftarrow> (if long_mm_68000 then write_long_mm_interleaved_68000 B dl addr result s
                     else write_resolved_ea B dl dst_ea sz result s);
               unless_faulted s (Some (if cpu_model s = M68000 \<and> sz = Size_Long then 30 else 18, s))
             }
         | _ \<Rightarrow> do {
             let (result, s) = f sz src dst s;
             s \<leftarrow> write_resolved_ea B dl dst_ea sz result s;
             unless_faulted s (Some (if cpu_model s = M68000 \<and> sz = Size_Long then 30 else 18, s))
           }
       })
     })
   }"

text \<open>Groups 9 and D have the same shape over SUB, SUBA and SUBX, and ADD, ADDA and ADDX.\<close>

definition dispatch_group_9 :: "'b address_bus \<Rightarrow> 'b delivery \<Rightarrow> u16 \<Rightarrow> 'b machine \<Rightarrow> 'b outcome" where
  "dispatch_group_9 B dl opcode s =
     (let reg = op_reg opcode; er = unat (ea_reg opcode); opm = op_mode opcode
      in if opm \<le> 2 then
           let sz = decode_size_012 opm
           in if not_source sz opcode then illegal_instruction s
              else alu_ea_dn B dl False (exec_sub sz) (\<lambda>d. d AND size_mask sz) sz opcode s
         else if opm = 3 \<or> opm = 7 then alu_an B dl exec_suba opcode s
         else
           let sz = decode_size_012 (opm - 4)
           in if ea_mode opcode = 0 then extended_rr B dl exec_subx sz er reg s
              else if ea_mode opcode = 1 then extended_mm B dl exec_subx sz er reg s
              else if not_alterable opcode then illegal_instruction s
              else alu_dn_ea B dl False (exec_sub sz) (\<lambda>d. d AND size_mask sz) sz opcode s)"

definition dispatch_group_d :: "'b address_bus \<Rightarrow> 'b delivery \<Rightarrow> u16 \<Rightarrow> 'b machine \<Rightarrow> 'b outcome" where
  "dispatch_group_d B dl opcode s =
     (let reg = op_reg opcode; er = unat (ea_reg opcode); opm = op_mode opcode
      in if opm \<le> 2 then
           let sz = decode_size_012 opm
           in if not_source sz opcode then illegal_instruction s
              else alu_ea_dn B dl False (exec_add sz) (\<lambda>d. d AND size_mask sz) sz opcode s
         else if opm = 3 \<or> opm = 7 then alu_an B dl exec_adda opcode s
         else
           let sz = decode_size_012 (opm - 4)
           in if ea_mode opcode = 0 then extended_rr B dl exec_addx sz er reg s
              else if ea_mode opcode = 1 then extended_mm B dl exec_addx sz er reg s
              else if not_alterable opcode then illegal_instruction s
              else alu_dn_ea B dl False (exec_add sz) (\<lambda>d. d AND size_mask sz) sz opcode s)"

subsection \<open>Comparisons and EOR\<close>

text \<open>Moving on after the operands only when no fault was taken; the 68000's polls and clocks.\<close>

definition dispatch_cmp :: "'b address_bus \<Rightarrow> 'b delivery \<Rightarrow> u16 \<Rightarrow> 'b machine \<Rightarrow> 'b outcome" where
  "dispatch_cmp B dl opcode s =
     (let sz = decode_size_012 (op_mode opcode)
      in if not_source sz opcode then illegal_instruction s
         else do {
           mode \<leftarrow> ea_of opcode;
           (src, s) \<leftarrow> read_ea B dl mode sz s;
           unless_faulted s
             (let (legacy, s) = exec_cmp sz src (d_reg (op_reg opcode) s) s
              in if cpu_model s = M68000 then
                   if sz = Size_Long
                   then after_tail (finish_m68000_tail_after_final_prefetch B dl 2 s) (cmp_ea_dn_cycles mode sz)
                   else Some (cmp_ea_dn_cycles mode sz, s)
                 else Some (legacy, s))
         })"

definition dispatch_cmpa :: "'b address_bus \<Rightarrow> 'b delivery \<Rightarrow> u16 \<Rightarrow> 'b machine \<Rightarrow> 'b outcome" where
  "dispatch_cmpa B dl opcode s =
     (if ea_mode opcode = 7 \<and> ea_reg opcode > 4 then illegal_instruction s
      else do {
        let sz = (if op_mode opcode = 3 then Size_Word else Size_Long);
        mode \<leftarrow> ea_of opcode;
        (src, s) \<leftarrow> read_ea B dl mode sz s;
        unless_faulted s
          (let (legacy, s) = exec_cmpa sz src (op_reg opcode) s
           in if cpu_model s = M68000
              then after_tail (finish_m68000_tail_after_final_prefetch B dl 2 s) (cmpa_cycles mode sz)
              else Some (legacy, s))
      })"

definition dispatch_cmpm ::
  "'b address_bus \<Rightarrow> 'b delivery \<Rightarrow> opsize \<Rightarrow> nat \<Rightarrow> nat \<Rightarrow> 'b machine \<Rightarrow> 'b outcome" where
  "dispatch_cmpm B dl sz er reg s = do {
     (src_ea, s) \<leftarrow> resolve_ea B dl (PostIncrement er) sz s;
     (src, s) \<leftarrow> read_resolved_ea B dl src_ea sz s;
     unless_faulted s (do {
       (dst_ea, s) \<leftarrow> resolve_ea B dl (PostIncrement reg) sz s;
       (dst, s) \<leftarrow> read_resolved_ea B dl dst_ea sz s;
       unless_faulted s
         (let s = (if cpu_model s = M68000 then ipl_poll_point B s else s);
              (legacy, s) = exec_cmp sz src dst s
          in Some (on_68000 (if sz = Size_Long then 20 else 12) legacy s, s))
     })
   }"

definition dispatch_eor ::
  "'b address_bus \<Rightarrow> 'b delivery \<Rightarrow> opsize \<Rightarrow> u16 \<Rightarrow> 'b machine \<Rightarrow> 'b outcome" where
  "dispatch_eor B dl sz opcode s = do {
     mode \<leftarrow> ea_of opcode;
     case (cpu_model s, mode) of
       (M68000, DataDirect dst_reg) \<Rightarrow> do {
         let result = (d_reg (op_reg opcode) s XOR (d_reg dst_reg s AND size_mask sz)) AND size_mask sz;
         let s = set_logic_flags result sz s;
         (ok, s) \<leftarrow> finish_m68000_tail_after_final_prefetch B dl (if sz = Size_Long then 4 else 0) s;
         if \<not> ok then Some (50, s)
         else Some (eor_cycles mode sz, write_data_reg_sized dst_reg sz result s)
       }
     | _ \<Rightarrow> do {
         (ea, s) \<leftarrow> resolve_ea B dl mode sz s;
         (dst, s) \<leftarrow> read_resolved_ea B dl ea sz s;
         unless_faulted s (do {
           let result = (d_reg (op_reg opcode) s XOR dst) AND size_mask sz;
           s \<leftarrow> write_resolved_ea_np_poll B dl ea sz result s;
           unless_faulted s
             (let s = set_logic_flags result sz s in Some (on_68000 (eor_cycles mode sz) 8 s, s))
         })
       }
   }"

definition dispatch_group_b :: "'b address_bus \<Rightarrow> 'b delivery \<Rightarrow> u16 \<Rightarrow> 'b machine \<Rightarrow> 'b outcome" where
  "dispatch_group_b B dl opcode s =
     (let opm = op_mode opcode
      in if opm \<le> 2 then dispatch_cmp B dl opcode s
         else if opm = 3 \<or> opm = 7 then dispatch_cmpa B dl opcode s
         else
           let sz = decode_size_012 (opm - 4)
           in if ea_mode opcode = 1 then dispatch_cmpm B dl sz (unat (ea_reg opcode)) (op_reg opcode) s
              else if not_alterable opcode then illegal_instruction s
              else dispatch_eor B dl sz opcode s)"

subsection \<open>AND, multiplication, ABCD and EXG\<close>

definition dispatch_group_c :: "'b address_bus \<Rightarrow> 'b delivery \<Rightarrow> u16 \<Rightarrow> 'b machine \<Rightarrow> 'b outcome" where
  "dispatch_group_c B dl opcode s =
     (let reg = op_reg opcode; mode = ea_mode opcode; er = unat (ea_reg opcode); opm = op_mode opcode;
          mode_field = drop_bit 3 opcode AND 0x1F
      in if opm \<le> 2 then
           if not_data opcode then illegal_instruction s
           else let sz = decode_size_012 opm in alu_ea_dn B dl False (exec_and sz) id sz opcode s
         else if opm = 3 then
           if not_data opcode then illegal_instruction s
           else do { m \<leftarrow> ea_of opcode; exec_mulu B dl m reg s }
         else if opm = 7 then
           if not_data opcode then illegal_instruction s
           else do { m \<leftarrow> ea_of opcode; exec_muls B dl m reg s }
         else if opm = 4 \<and> mode = 0 then exec_abcd_rr B dl er reg s
         else if opm = 4 \<and> mode = 1 then exec_abcd_mm B dl er reg s
         else if mode_field = 0x08 \<or> mode_field = 0x09 \<or> mode_field = 0x11 then exec_exg B dl opcode s
         else if not_memory_alterable opcode then illegal_instruction s
         else let sz = decode_size_012 (opm - 4) in alu_dn_ea B dl False (exec_and sz) id sz opcode s)"

subsection \<open>Shifts, rotates and bit fields\<close>

definition shift_operation ::
  "nat \<Rightarrow> bool \<Rightarrow> (opsize \<Rightarrow> u32 \<Rightarrow> u32 \<Rightarrow> 'a cpu_core_scheme \<Rightarrow> (u32 \<times> int) \<times> 'a cpu_core_scheme) option" where
  "shift_operation op left =
     (if op = 0 then Some (if left then exec_asl else exec_asr)
      else if op = 1 then Some (if left then exec_lsl else exec_lsr)
      else if op = 2 then Some (if left then exec_roxl else exec_roxr)
      else if op = 3 then Some (if left then exec_rol else exec_ror)
      else None)"

definition dispatch_memory_shift :: "'b address_bus \<Rightarrow> 'b delivery \<Rightarrow> u16 \<Rightarrow> 'b machine \<Rightarrow> 'b outcome" where
  "dispatch_memory_shift B dl opcode s =
     (if not_memory_alterable opcode then illegal_instruction s
      else do {
        mode \<leftarrow> ea_of opcode;
        (ea, s) \<leftarrow> resolve_ea B dl mode Size_Word s;
        (v, s) \<leftarrow> read_resolved_ea B dl ea Size_Word s;
        unless_faulted s
          (case shift_operation (op_reg opcode) (bit opcode 8) of
             None \<Rightarrow> illegal_instruction s
           | Some f \<Rightarrow> do {
               let ((result, cycles), s) = f Size_Word 1 v s;
               s \<leftarrow> write_resolved_ea_np_poll B dl ea Size_Word result s;
               Some (on_68000 (8 + ea_source_cycles mode Size_Word) (cycles + 4) s, s)
             })
      })"

definition dispatch_register_shift :: "u16 \<Rightarrow> 'b machine \<Rightarrow> 'b outcome" where
  "dispatch_register_shift opcode s =
     (let sz = decode_size_00 (size_field opcode); count_or_reg = op_reg opcode;
          shift = (if opcode AND 0x20 \<noteq> 0 then d_reg count_or_reg s AND 63
                   else if count_or_reg = 0 then 8 else of_nat count_or_reg);
          reg = unat (ea_reg opcode); v = d_reg reg s AND size_mask sz
      in case shift_operation (unat (drop_bit 3 opcode AND 3)) (bit opcode 8) of
           None \<Rightarrow> illegal_instruction s
         | Some f \<Rightarrow>
             let ((result, cycles), s) = f sz shift v s
             in Some (cycles, store_dn sz reg result s))"

definition dispatch_group_e :: "'b address_bus \<Rightarrow> 'b delivery \<Rightarrow> u16 \<Rightarrow> 'b machine \<Rightarrow> 'b outcome" where
  "dispatch_group_e B dl opcode s =
     (let sel = unat (drop_bit 8 opcode AND 0xF); mode = ea_mode opcode; er = ea_reg opcode
      in if opcode AND 0x00C0 = 0x00C0 \<and> 8 \<le> sel then
           if is_pre_68020 s then illegal_instruction s
           else
             let is_store = (sel \<in> {0xA, 0xC, 0xE, 0xF});
                 ea_ok = (mode = 0 \<or> mode \<in> {2, 5, 6} \<or>
                          mode = 7 \<and> (er \<le> 1 \<or> \<not> is_store \<and> er \<le> 3))
             in if ea_ok then exec_bitfield B dl opcode s else illegal_instruction s
         else if size_field opcode = 3 then dispatch_memory_shift B dl opcode s
         else dispatch_register_shift opcode s)"

end
