(* ===== verification/Control.thy ===== *)
theory Control
  imports Decode
begin

unbundle bit_operations_syntax

text \<open>
  Groups 0 and 4 of \<open>src/core/decode.rs\<close>: the immediate operations, bit operations, MOVEP,
  CAS, MOVES and CMP2; and the miscellaneous group with the single-operand instructions, the
  transfers of the status and control registers, the address calculations, calls, jumps and
  returns. RTE of the 68020 and later throws stack frames away until it meets one that ends the
  return; the loop is a partial function, None when it never does.
\<close>

section \<open>Group 0\<close>

definition before_020 :: "'a cpu_core_scheme \<Rightarrow> bool" where
  "before_020 s \<longleftrightarrow> cpu_model s \<in> {M68000, M68010, SCC68070}"

definition has_modules :: "'a cpu_core_scheme \<Rightarrow> bool" where
  "has_modules s \<longleftrightarrow> cpu_model s \<in> {M68EC020, M68020, M68EC030, M68030, M68EC040, M68LC040, M68040}"

text \<open>An integer instruction that the 68060 leaves to software.\<close>

definition unimplemented_060 :: "'b address_bus \<Rightarrow> 'b delivery \<Rightarrow> 'b machine \<Rightarrow> 'b outcome \<Rightarrow> 'b outcome" where
  "unimplemented_060 B dl s rest = (if trap_unimpl_060 s then take_exception B dl 61 s else rest)"

definition movep_store ::
  "'b address_bus \<Rightarrow> 'b delivery \<Rightarrow> u32 \<Rightarrow> nat list \<Rightarrow> u32 \<Rightarrow> 'b machine \<Rightarrow> 'b machine option" where
  "movep_store B dl v shifts addr s =
     foldr (\<lambda>(i, sh) rest s. do { s \<leftarrow> write_8 B dl (addr + of_nat (2 * i)) (ucast (drop_bit sh v)) s; rest s })
       (zip [0..<length shifts] shifts) Some s"

definition movep_load ::
  "'b address_bus \<Rightarrow> 'b delivery \<Rightarrow> nat \<Rightarrow> u32 \<Rightarrow> 'b machine \<Rightarrow> (u32 \<times> 'b machine) option" where
  "movep_load B dl n addr s =
     foldr (\<lambda>i rest (v, s). do {
         (b, s) \<leftarrow> read_8 B dl (addr + of_nat (2 * i)) s; rest (push_bit 8 v OR ucast b, s) })
       [0..<n] Some (0, s)"

definition exec_movep :: "'b address_bus \<Rightarrow> 'b delivery \<Rightarrow> u16 \<Rightarrow> 'b machine \<Rightarrow> 'b outcome" where
  "exec_movep B dl opcode s =
     (let dreg = op_reg opcode; areg = unat (opcode AND 7);
          long = (opcode AND 0x0040 \<noteq> 0); to_memory = (opcode AND 0x0080 \<noteq> 0)
      in do {
        (disp, s) \<leftarrow> read_imm_16 B dl s;
        let addr = a_reg areg s + scast disp;
        s \<leftarrow> (if to_memory then
                movep_store B dl (d_reg dreg s) (if long then [24, 16, 8, 0] else [8, 0]) addr s
              else do {
                (v, s) \<leftarrow> movep_load B dl (if long then 4 else 2) addr s;
                let s = ipl_poll_point B s;
                Some (set_d dreg (if long then v else (d_reg dreg s AND 0xFFFF0000) OR v) s)
              });
        Some (if long then 24 else 16, s)
      })"

text \<open>The 68000's own cycle count in place of the one the instruction reports.\<close>

definition timed :: "int \<Rightarrow> 'b outcome \<Rightarrow> 'b outcome" where
  "timed c m = do { (legacy, s) \<leftarrow> m; Some (on_68000 c legacy s, s) }"

definition exec_subi ::
  "'b address_bus \<Rightarrow> 'b delivery \<Rightarrow> opsize \<Rightarrow> addressing_mode \<Rightarrow> 'b machine \<Rightarrow> 'b outcome" where
  "exec_subi B dl sz mode s = do {
     (imm, s) \<leftarrow> read_immediate B dl sz s;
     unless_faulted s (do {
       s \<leftarrow> (case (cpu_model s, mode) of
           (M68000, DataDirect reg) \<Rightarrow>
             (let ((result, _), s) = exec_sub sz imm (d_reg reg s AND size_mask sz) s
              in finish_m68000_immediate_data_register_write B dl reg sz result s)
         | _ \<Rightarrow> do {
             (ea, s) \<leftarrow> resolve_ea B dl mode sz s;
             (dst, s) \<leftarrow> read_resolved_ea B dl ea sz s;
             let ((result, _), s) = exec_sub sz imm dst s;
             write_resolved_ea B dl ea sz result s
           });
       Some (on_68000 (immediate_alu_cycles mode sz) (if sz = Size_Long then 16 else 8) s, s)
     })
   }"

definition exec_addi ::
  "'b address_bus \<Rightarrow> 'b delivery \<Rightarrow> opsize \<Rightarrow> addressing_mode \<Rightarrow> 'b machine \<Rightarrow> 'b outcome" where
  "exec_addi B dl sz mode s = do {
     (imm, s) \<leftarrow> read_immediate B dl sz s;
     unless_faulted s (do {
       (ea, s) \<leftarrow> resolve_ea B dl mode sz s;
       (dst, s) \<leftarrow> read_resolved_ea B dl ea sz s;
       let ((result, cycles), s) = exec_add sz imm dst s;
       s \<leftarrow> (case (cpu_model s, mode) of
           (M68000, DataDirect reg) \<Rightarrow> finish_m68000_immediate_data_register_write B dl reg sz result s
         | _ \<Rightarrow> write_resolved_ea B dl ea sz result s);
       Some (on_68000 (immediate_alu_cycles mode sz) (cycles + (if sz = Size_Long then 8 else 4)) s, s)
     })
   }"

definition exec_cmpi ::
  "'b address_bus \<Rightarrow> 'b delivery \<Rightarrow> opsize \<Rightarrow> addressing_mode \<Rightarrow> 'b machine \<Rightarrow> 'b outcome" where
  "exec_cmpi B dl sz mode s = do {
     (imm, s) \<leftarrow> read_immediate B dl sz s;
     unless_faulted s (do {
       (dst, s) \<leftarrow> read_ea B dl mode sz s;
       unless_faulted s (do {
         s \<leftarrow> (if cpu_model s = M68000 then map_option (ipl_poll_point B) (top_up_prefetch B dl s) else Some s);
         if cpu_model s = M68000 \<and> faulted s then Some (50, s)
         else
           let s = (if cpu_model s = M68000 \<and> is_register_direct mode \<and> sz = Size_Long
                    then flush_sync B (internal_cycles 2 s) else s);
               (legacy, s) = exec_cmp sz imm dst s
           in Some (on_68000 (cmpi_cycles mode sz) legacy s, s)
       })
     })
   }"

text \<open>BTST, BCHG, BCLR and BSET with the bit number in Dn or in an extension word.\<close>

definition dispatch_bit_operation :: "'b address_bus \<Rightarrow> 'b delivery \<Rightarrow> u16 \<Rightarrow> 'b machine \<Rightarrow> 'b outcome" where
  "dispatch_bit_operation B dl opcode s =
     (let bit_op = drop_bit 6 opcode AND 3; dynamic = (opcode AND 0x100 \<noteq> 0);
          ea_ok = (if bit_op = 0 then
                     ea_mode opcode \<in> {0, 2, 3, 4, 5, 6} \<or>
                     ea_mode opcode = 7 \<and> ea_reg opcode \<le> (if dynamic then 4 else 3)
                   else \<not> not_alterable opcode)
      in if \<not> ea_ok then illegal_instruction s
         else case ea_of opcode of
             None \<Rightarrow> illegal_instruction s
           | Some ea \<Rightarrow> do {
               (n, s) \<leftarrow> (if dynamic then Some (d_reg (op_reg opcode) s, s)
                         else map_option (map_prod ucast id) (read_imm_16 B dl s));
               timed (bitop_cycles ea bit_op (\<not> dynamic) n)
                 (if bit_op = 0 then exec_btst B dl n ea s
                  else if bit_op = 1 then exec_bchg B dl n ea s
                  else if bit_op = 2 then exec_bclr B dl n ea s
                  else exec_bset B dl n ea s)
             })"

text \<open>ORI, ANDI, SUBI, ADDI, EORI and CMPI, and the forms on CCR and SR.\<close>

definition dispatch_immediate :: "'b address_bus \<Rightarrow> 'b delivery \<Rightarrow> u16 \<Rightarrow> 'b machine \<Rightarrow> 'b outcome" where
  "dispatch_immediate B dl opcode s =
     (let subop = unat (drop_bit 8 opcode AND 0xF); sf = size_field opcode; sz = decode_size_00 sf;
          status = (ea_mode opcode = 7 \<and> ea_reg opcode = 4)
      in if subop = 0 then
           if status \<and> sf = 0 then exec_ori_ccr B dl s
           else if status \<and> sf = 1 then exec_ori_sr B dl s
           else if not_alterable opcode then illegal_instruction s
           else (case ea_of opcode of None \<Rightarrow> illegal_instruction s
             | Some mode \<Rightarrow> timed (immediate_alu_cycles mode sz) (exec_ori B dl sz mode s))
         else if subop = 2 then
           if status \<and> sf = 0 then exec_andi_ccr B dl s
           else if status \<and> sf = 1 then exec_andi_sr B dl s
           else if not_alterable opcode then illegal_instruction s
           else (case ea_of opcode of None \<Rightarrow> illegal_instruction s
             | Some mode \<Rightarrow> timed (immediate_alu_cycles mode sz) (exec_andi B dl sz mode s))
         else if subop = 4 then
           if sf = 3 then Some (4, s)
           else if not_alterable opcode then illegal_instruction s
           else do { mode \<leftarrow> ea_of opcode; exec_subi B dl sz mode s }
         else if subop = 6 then
           if sf = 3 then Some (4, s)
           else if not_alterable opcode then illegal_instruction s
           else do { mode \<leftarrow> ea_of opcode; exec_addi B dl sz mode s }
         else if subop = 0xA then
           if status \<and> sf = 0 then exec_eori_ccr B dl s
           else if status \<and> sf = 1 then exec_eori_sr B dl s
           else if not_alterable opcode then illegal_instruction s
           else do { mode \<leftarrow> ea_of opcode; timed (immediate_alu_cycles mode sz) (exec_eori B dl sz mode s) }
         else if subop = 0xC then
           if not_alterable opcode \<and>
              \<not> (\<not> is_pre_68020 s \<and> ea_mode opcode = 7 \<and> (ea_reg opcode = 2 \<or> ea_reg opcode = 3))
           then illegal_instruction s
           else do { mode \<leftarrow> ea_of opcode; exec_cmpi B dl sz mode s }
         else dispatch_bit_operation B dl opcode s)"

definition dispatch_group_0 :: "'b address_bus \<Rightarrow> 'b delivery \<Rightarrow> u16 \<Rightarrow> 'b machine \<Rightarrow> 'b outcome" where
  "dispatch_group_0 B dl opcode s =
     (let control = ea_control (ea_mode opcode) (ea_reg opcode)
      in if opcode = 0x0EFC \<or> opcode = 0x0CFC then
           if before_020 s then illegal_instruction s
           else unimplemented_060 B dl s (exec_cas2 B dl opcode s)
         else if opcode AND 0x0FC0 = 0x0AC0 \<or> opcode AND 0x0FC0 = 0x0CC0 \<or> opcode AND 0x0FC0 = 0x0EC0 then
           if before_020 s then illegal_instruction s else exec_cas B dl opcode s
         else if opcode AND 0xFF00 = 0x0E00 then
           if cpu_model s = M68000 then illegal_instruction s
           else if size_field opcode = 3 \<or>
             \<not> (2 \<le> ea_mode opcode \<and> ea_mode opcode \<le> 6 \<or> ea_mode opcode = 7 \<and> ea_reg opcode \<le> 1)
           then illegal_instruction s
           else exec_moves B dl opcode s
         else if opcode AND 0xFFF0 = 0x06C0 then
           if \<not> has_modules s then illegal_instruction s else exec_rtm B dl opcode s
         else if opcode AND 0xFFC0 = 0x06C0 then
           if \<not> has_modules s \<or> \<not> control then illegal_instruction s else exec_callm B dl opcode s
         else if opcode AND 0x0800 = 0 \<and> opcode AND 0x0100 = 0 \<and> opcode AND 0x00C0 = 0x00C0 \<and>
           drop_bit 9 opcode AND 3 \<noteq> 3
         then
           if is_pre_68020 s \<or> \<not> control then illegal_instruction s
           else unimplemented_060 B dl s (exec_cmp2_chk2 B dl opcode s)
         else if opcode AND 0xF138 = 0x0108 then
           unimplemented_060 B dl s (exec_movep B dl opcode s)
         else dispatch_immediate B dl opcode s)"

section \<open>Status and control registers\<close>

text \<open>The registers MOVEC knows on each model.\<close>

definition movec_reg_legal :: "cpu_type \<Rightarrow> u16 \<Rightarrow> bool" where
  "movec_reg_legal model r \<longleftrightarrow>
     (case model of
        M68010 \<Rightarrow> r \<in> {0x000, 0x001, 0x800, 0x801}
      | SCC68070 \<Rightarrow> r \<in> {0x000, 0x001, 0x800, 0x801}
      | M68EC020 \<Rightarrow> r \<in> {0x000, 0x001, 0x002, 0x800, 0x801, 0x802, 0x803, 0x804}
      | M68020 \<Rightarrow> r \<in> {0x000, 0x001, 0x002, 0x800, 0x801, 0x802, 0x803, 0x804}
      | M68EC030 \<Rightarrow> r \<in> {0x000, 0x001, 0x002, 0x800, 0x801, 0x802, 0x803, 0x804}
      | M68030 \<Rightarrow> r \<in> {0x000, 0x001, 0x002, 0x800, 0x801, 0x802, 0x803, 0x804}
      | M68EC040 \<Rightarrow> r \<in> {0x000, 0x001, 0x002, 0x800, 0x801, 0x803, 0x804} \<or> 0x004 \<le> r \<and> r \<le> 0x007
      | M68LC040 \<Rightarrow> r \<le> 0x007 \<or> r \<in> {0x800, 0x801} \<or> 0x803 \<le> r \<and> r \<le> 0x807
      | M68040 \<Rightarrow> r \<le> 0x007 \<or> r \<in> {0x800, 0x801} \<or> 0x803 \<le> r \<and> r \<le> 0x807
      | M68060 \<Rightarrow> r \<le> 0x008 \<or> r \<in> {0x800, 0x801, 0x806, 0x807, 0x808}
      | M68000 \<Rightarrow> False
      | Invalid \<Rightarrow> False)"

definition supervised ::
  "'b address_bus \<Rightarrow> 'b delivery \<Rightarrow> 'b machine \<Rightarrow> 'b outcome \<Rightarrow> 'b outcome" where
  "supervised B dl s rest = (if is_supervisor s then rest else exception_privilege B dl s)"

text \<open>
  Both directions of MOVEC: the privilege is checked before the extension word except on the
  68060, which looks at the register first.
\<close>

definition exec_movec ::
  "'b address_bus \<Rightarrow> 'b delivery \<Rightarrow> (u16 \<Rightarrow> nat \<Rightarrow> bool \<Rightarrow> 'b machine \<Rightarrow> 'b machine) \<Rightarrow> 'b machine \<Rightarrow> 'b outcome" where
  "exec_movec B dl move s =
     (if cpu_model s = M68000 then illegal_instruction s
      else if \<not> is_supervisor s \<and> \<not> is_060 s then exception_privilege B dl s
      else do {
        (ext, s) \<leftarrow> read_imm_16 B dl s;
        let reg = unat (drop_bit 12 ext AND 7);
        let ctrl_reg = ext AND 0xFFF;
        if \<not> movec_reg_legal (cpu_model s) ctrl_reg then illegal_instruction s
        else supervised B dl s (Some (12, trace_t0_68040_sync (move ctrl_reg reg (bit ext 15) s)))
      })"

definition movec_from_control :: "u16 \<Rightarrow> nat \<Rightarrow> bool \<Rightarrow> 'a cpu_core_scheme \<Rightarrow> 'a cpu_core_scheme" where
  "movec_from_control ctrl_reg reg an s =
     (let v = read_control_register ctrl_reg s in if an then set_a reg v s else set_d reg v s)"

definition movec_to_control :: "u16 \<Rightarrow> nat \<Rightarrow> bool \<Rightarrow> 'a cpu_core_scheme \<Rightarrow> 'a cpu_core_scheme" where
  "movec_to_control ctrl_reg reg an s =
     write_control_register ctrl_reg (if an then a_reg reg s else d_reg reg s) s"

text \<open>The final prefetch before a register is written, where there is a queue; False after a fault.\<close>

definition final_prefetch ::
  "'b address_bus \<Rightarrow> 'b delivery \<Rightarrow> 'b machine \<Rightarrow> (bool \<times> 'b machine) option" where
  "final_prefetch B dl s =
     (if prefetch_enabled s then do {
        s \<leftarrow> top_up_prefetch B dl s;
        let s = ipl_poll_point B s;
        Some (\<not> faulted s, s)
      } else Some (True, s))"

definition exec_move_from_sr ::
  "'b address_bus \<Rightarrow> 'b delivery \<Rightarrow> u16 \<Rightarrow> 'b machine \<Rightarrow> 'b outcome" where
  "exec_move_from_sr B dl opcode s =
     (if not_alterable opcode then illegal_instruction s
      else if cpu_model s \<noteq> M68000 \<and> \<not> is_supervisor s then exception_privilege B dl s
      else do {
        mode \<leftarrow> ea_of opcode;
        let sr = get_sr s;
        case (cpu_model s, mode) of
          (M68000, DataDirect reg) \<Rightarrow> do {
            (ok, s) \<leftarrow> finish_m68000_tail_after_final_prefetch B dl 2 s;
            Some (if ok then (6, set_d_word reg sr s) else (50, s))
          }
        | _ \<Rightarrow>
          if cpu_model s \<in> {M68010, SCC68070} \<and> is_data_direct mode then do {
            (ok, s) \<leftarrow> final_prefetch B dl s;
            Some (if ok then (4, set_d_word (unat (ea_reg opcode)) sr s) else (50, s))
          } else do {
            (ea, s) \<leftarrow> resolve_ea B dl mode Size_Word s;
            unless_faulted s (do {
              s \<leftarrow> (if cpu_model s = M68000 \<and> \<not> is_register_direct mode
                   then map_option snd (read_resolved_ea B dl ea Size_Word s) else Some s);
              if cpu_model s = M68000 \<and> \<not> is_register_direct mode \<and> faulted s then Some (50, s)
              else do {
                s \<leftarrow> write_resolved_ea B dl ea Size_Word (ucast sr) s;
                Some (if is_register_direct mode then 6
                      else on_68000 (8 + ea_source_cycles mode Size_Word) 8 s, s)
              }
            })
          }
      })"

fun ccr_ea_internal :: "addressing_mode \<Rightarrow> int" where
  "ccr_ea_internal (AddressIndirect _) = 2"
| "ccr_ea_internal (PostIncrement _) = 4"
| "ccr_ea_internal (PreDecrement _) = 2"
| "ccr_ea_internal _ = 0"

definition exec_move_from_ccr ::
  "'b address_bus \<Rightarrow> 'b delivery \<Rightarrow> u16 \<Rightarrow> 'b machine \<Rightarrow> 'b outcome" where
  "exec_move_from_ccr B dl opcode s =
     (if cpu_model s = M68000 \<or> not_alterable opcode then illegal_instruction s
      else do {
        mode \<leftarrow> ea_of opcode;
        let ccr = get_ccr s;
        if is_data_direct mode then do {
          (ok, s) \<leftarrow> final_prefetch B dl s;
          Some (if ok then (4, set_d_word (unat (ea_reg opcode)) (ucast ccr) s) else (50, s))
        } else do {
          let s = internal_cycles (of_int (ccr_ea_internal mode)) s;
          (ea, s) \<leftarrow> resolve_ea B dl mode Size_Word s;
          s \<leftarrow> write_resolved_ea B dl ea Size_Word (ucast ccr) s;
          Some (8 + ccr_ea_internal mode + ea_calc_cycles mode, s)
        }
      })"

text \<open>MOVE to CCR and to SR: the status changes after its internal clocks, then the queue is refilled.\<close>

definition exec_move_to_status ::
  "'b address_bus \<Rightarrow> 'b delivery \<Rightarrow> (u16 \<Rightarrow> 'b machine \<Rightarrow> 'b machine) \<Rightarrow> u16 \<Rightarrow> 'b machine \<Rightarrow> 'b outcome" where
  "exec_move_to_status B dl load opcode s = do {
     mode \<leftarrow> ea_of opcode;
     (v, s) \<leftarrow> read_ea B dl mode Size_Word s;
     unless_faulted s (do {
       let s = (if prefetch_enabled s then flush_sync B (internal_cycles 4 s) else s);
       s \<leftarrow> full_prefetch B dl (load (ucast v) s);
       Some (on_68000 (12 + ea_source_cycles mode Size_Word) 12 s, s)
     })
   }"

text \<open>MOVE to and from the user stack pointer.\<close>

definition exec_move_usp ::
  "'b address_bus \<Rightarrow> 'b delivery \<Rightarrow> ('b machine \<Rightarrow> 'b machine) \<Rightarrow> 'b machine \<Rightarrow> 'b outcome" where
  "exec_move_usp B dl move s =
     supervised B dl s (do {
       let s = (if cpu_model s = M68010 then internal_cycles 2 s else s);
       (_, s) \<leftarrow> final_prefetch B dl s;
       let s = move s;
       Some (if cpu_model s = M68010 then 6 else 4, s)
     })"

section \<open>RESET, STOP and returns\<close>

definition exec_reset :: "'b address_bus \<Rightarrow> 'b delivery \<Rightarrow> 'b machine \<Rightarrow> 'b outcome" where
  "exec_reset B dl s =
     supervised B dl s
       (let s = internal_cycles 128 s in Some (132, s\<lparr> bus := reset_devices B (bus s) \<rparr>))"

definition exec_stop :: "'b address_bus \<Rightarrow> 'b delivery \<Rightarrow> 'b machine \<Rightarrow> 'b outcome" where
  "exec_stop B dl s =
     supervised B dl s (do {
       (sr, s) \<leftarrow> read_imm_16 B dl (s\<lparr> consume_without_prefetch := True \<rparr>);
       let s = s\<lparr> consume_without_prefetch := False \<rparr>;
       if is_060 s \<and> sr AND 0x2000 = 0 then exception_privilege B dl (s\<lparr> ppc := pc s \<rparr>)
       else Some (4, stop sr s)
     })"

definition skip_stack :: "u32 \<Rightarrow> 'a cpu_core_scheme \<Rightarrow> 'a cpu_core_scheme" where
  "skip_stack n s = s\<lparr> dar := (dar s)(15 := dar s 15 + n) \<rparr>"

text \<open>
  Status and program counter from the stack, the format word read when \<open>fmt\<close> asks for it, \<open>n\<close>
  more bytes discarded; the status is loaded last, when the stack pointer is final.
\<close>

definition return_frame ::
  "'b address_bus \<Rightarrow> 'b delivery \<Rightarrow> bool \<Rightarrow> u32 \<Rightarrow> 'b machine \<Rightarrow> 'b machine option" where
  "return_frame B dl fmt n s = do {
     (sr, s) \<leftarrow> pull_16 B dl s;
     (target, s) \<leftarrow> pull_32 B dl s;
     let s = s\<lparr> pc := target \<rparr>;
     s \<leftarrow> (if fmt then map_option snd (pull_16 B dl s) else Some s);
     Some (set_sr sr (skip_stack n s))
   }"

definition frame_format :: "'b address_bus \<Rightarrow> 'b delivery \<Rightarrow> 'b machine \<Rightarrow> (nat \<times> 'b machine) option" where
  "frame_format B dl s =
     map_option (map_prod (\<lambda>w. unat (drop_bit 12 w)) id) (read_16 B dl (a_reg 7 s + 6) s)"

definition rte_68000 :: "'b address_bus \<Rightarrow> 'b delivery \<Rightarrow> 'b machine \<Rightarrow> 'b outcome" where
  "rte_68000 B dl s = do {
     s \<leftarrow> return_frame B dl False 0 s;
     s \<leftarrow> full_prefetch B dl s;
     Some (20, s)
   }"

definition rte_68010 :: "'b address_bus \<Rightarrow> 'b delivery \<Rightarrow> 'b machine \<Rightarrow> 'b outcome" where
  "rte_68010 B dl s = do {
     (format, s) \<leftarrow> frame_format B dl s;
     if format = 8 then do {
       s \<leftarrow> return_frame B dl True 50 s;
       s \<leftarrow> full_prefetch B dl s;
       Some (20, s)
     }
     else if format \<noteq> 0 then take_exception B dl 14 s
     else do {
       s \<leftarrow> return_frame B dl False 2 s;
       s \<leftarrow> full_prefetch B dl s;
       Some (24, s)
     }
   }"

text \<open>
  A 68040 handler that cleared the valid bit of the faulted write-back, and a 68020 or 68030
  handler that cleared the data-fault bit of a long frame, did the access themselves: the
  restarted instruction finds the value, or its write is dropped.
\<close>

definition absorbed_write_040 ::
  "'b address_bus \<Rightarrow> 'b delivery \<Rightarrow> 'b machine \<Rightarrow> 'b machine option" where
  "absorbed_write_040 B dl s = do {
     let frame = a_reg 7 s;
     (ssw, s) \<leftarrow> read_16 B dl (frame + 0x0C) s;
     if ssw AND 0x0100 = 0 \<and> ssw AND 0x0400 \<noteq> 0 then do {
       (wb3s, s) \<leftarrow> read_16 B dl (frame + 0x0E) s;
       if wb3s AND 0x0080 = 0 then do {
         (wb3a, s) \<leftarrow> read_32 B dl (frame + 0x18) s;
         Some (s\<lparr> mmu_write_suppress := Some wb3a \<rparr>)
       } else Some s
     } else Some s
   }"

definition completed_cycle_030 ::
  "'b address_bus \<Rightarrow> 'b delivery \<Rightarrow> 'b machine \<Rightarrow> 'b machine option" where
  "completed_cycle_030 B dl s = do {
     let frame = a_reg 7 s;
     (ssw, s) \<leftarrow> read_16 B dl (frame + 0x0A) s;
     if ssw AND 0x0100 = 0 \<and> ssw AND 0xF000 = 0 then do {
       (fa, s) \<leftarrow> read_32 B dl (frame + 0x10) s;
       if ssw AND 0x0040 \<noteq> 0 then do {
         (dib, s) \<leftarrow> read_32 B dl (frame + 0x2C) s;
         Some (s\<lparr> mmu_read_override := Some (fa, dib) \<rparr>)
       } else Some (s\<lparr> mmu_write_suppress := Some fa \<rparr>)
     } else Some s
   }"

text \<open>One round of the return of the 68020 and later: the throwaway frame asks for another.\<close>

definition rte_step ::
  "'b address_bus \<Rightarrow> 'b delivery \<Rightarrow> 'b machine \<Rightarrow> ('b machine + int \<times> 'b machine) option" where
  "rte_step B dl s = do {
     (format, s) \<leftarrow> frame_format B dl s;
     let ends = map_option (\<lambda>s. Inr (20, s));
     if format = 0 then ends (return_frame B dl True 0 s)
     else if format = 1 then do {
       (sr, s) \<leftarrow> pull_16 B dl s;
       Some (Inl (set_sr sr (skip_stack 6 s)))
     }
     else if format = 2 then ends (return_frame B dl True 4 s)
     else if format = 4 \<and> is_060 s then ends (return_frame B dl True 8 s)
     else if format = 7 \<and> is_040 s then do {
       s \<leftarrow> absorbed_write_040 B dl s;
       ends (return_frame B dl True 52 s)
     }
     else if (format = 0xA \<or> format = 0xB) \<and> cpu_model s \<in> {M68EC020, M68020, M68EC030, M68030} then do {
       s \<leftarrow> (if format = 0xB then completed_cycle_030 B dl s else Some s);
       ends (return_frame B dl True (if format = 0xA then 24 else 84) s)
     }
     else map_option Inr (take_exception B dl 14 s)
   }"

partial_function (option) rte_loop :: "'b address_bus \<Rightarrow> 'b delivery \<Rightarrow> 'b machine \<Rightarrow> 'b outcome" where
  "rte_loop B dl s =
     Option.bind (rte_step B dl s) (\<lambda>r. case r of Inl s \<Rightarrow> rte_loop B dl s | Inr r \<Rightarrow> Some r)"

definition exec_rte :: "'b address_bus \<Rightarrow> 'b delivery \<Rightarrow> 'b machine \<Rightarrow> 'b outcome" where
  "exec_rte B dl s =
     supervised B dl s
       (if cpu_model s = M68000 then rte_68000 B dl s
        else if cpu_model s \<in> {M68010, SCC68070} then rte_68010 B dl s
        else rte_loop B dl s)"

definition exec_rtd :: "'b address_bus \<Rightarrow> 'b delivery \<Rightarrow> 'b machine \<Rightarrow> 'b outcome" where
  "exec_rtd B dl s =
     (if cpu_model s = M68000 then illegal_instruction s
      else do {
        (disp, s) \<leftarrow> read_imm_16 B dl (s\<lparr> change_of_flow := True \<rparr>);
        (target, s) \<leftarrow> pull_32 B dl s;
        s \<leftarrow> full_prefetch B dl (skip_stack (scast disp) (s\<lparr> pc := target \<rparr>));
        Some (20, s)
      })"

definition exec_rts :: "'b address_bus \<Rightarrow> 'b delivery \<Rightarrow> 'b machine \<Rightarrow> 'b outcome" where
  "exec_rts B dl s = do {
     (target, s) \<leftarrow> pull_32 B dl (s\<lparr> change_of_flow := True \<rparr>);
     s \<leftarrow> full_prefetch B dl (s\<lparr> pc := target \<rparr>);
     Some (16, s)
   }"

definition exec_rtr :: "'b address_bus \<Rightarrow> 'b delivery \<Rightarrow> 'b machine \<Rightarrow> 'b outcome" where
  "exec_rtr B dl s = do {
     (ccr, s) \<leftarrow> pull_16 B dl s;
     (target, s) \<leftarrow> pull_32 B dl ((set_ccr (ucast ccr) s)\<lparr> change_of_flow := True \<rparr>);
     s \<leftarrow> full_prefetch B dl (s\<lparr> pc := target \<rparr>);
     Some (20, s)
   }"

definition exec_trapv :: "'b address_bus \<Rightarrow> 'b delivery \<Rightarrow> 'b machine \<Rightarrow> 'b outcome" where
  "exec_trapv B dl s =
     (if flag_v s then do {
        s \<leftarrow> (if cpu_model s = M68000 then map_option snd (read_16 B dl (pc s + 2) s) else Some s);
        take_group2_exception B dl 7 s
      } else Some (4, s))"

section \<open>Calls, jumps and addresses\<close>

text \<open>The internal clocks of an indexed or displaced target before the refill.\<close>

fun jump_internal :: "addressing_mode \<Rightarrow> u32" where
  "jump_internal (Displacement _) = 2"
| "jump_internal AbsoluteShort = 2"
| "jump_internal PcDisplacement = 2"
| "jump_internal (Index _) = 4"
| "jump_internal PcIndex = 4"
| "jump_internal _ = 0"

definition exec_jsr :: "'b address_bus \<Rightarrow> 'b delivery \<Rightarrow> addressing_mode \<Rightarrow> 'b machine \<Rightarrow> 'b outcome" where
  "exec_jsr B dl mode s = do {
     (addr, s) \<leftarrow> get_ea_address B dl mode Size_Long (s\<lparr> consume_without_prefetch := True \<rparr>);
     let s = internal_cycles (jump_internal mode) (s\<lparr> consume_without_prefetch := False \<rparr>);
     s \<leftarrow> push_32 B dl (pc s) (s\<lparr> change_of_flow := True \<rparr>);
     s \<leftarrow> full_prefetch B dl (s\<lparr> pc := addr \<rparr>);
     Some (on_68000 (16 + jump_addr_calc_cycles mode) 16 s, s)
   }"

definition exec_jmp :: "'b address_bus \<Rightarrow> 'b delivery \<Rightarrow> addressing_mode \<Rightarrow> 'b machine \<Rightarrow> 'b outcome" where
  "exec_jmp B dl mode s = do {
     (addr, s) \<leftarrow> get_ea_address B dl mode Size_Long
       (s\<lparr> change_of_flow := True, consume_without_prefetch := True \<rparr>);
     let s = internal_cycles (jump_internal mode) (s\<lparr> pc := addr, consume_without_prefetch := False \<rparr>);
     s \<leftarrow> full_prefetch B dl s;
     Some (on_68000 (8 + jump_addr_calc_cycles mode) 8 s, s)
   }"

definition movem_store_mode :: "u16 \<Rightarrow> bool" where
  "movem_store_mode opcode \<longleftrightarrow>
     ea_mode opcode \<in> {2, 4, 5, 6} \<or> ea_mode opcode = 7 \<and> ea_reg opcode \<le> 1"

definition dispatch_movem_store ::
  "'b address_bus \<Rightarrow> 'b delivery \<Rightarrow> u16 \<Rightarrow> opsize \<Rightarrow> 'b machine \<Rightarrow> 'b outcome" where
  "dispatch_movem_store B dl opcode sz s =
     (if \<not> movem_store_mode opcode then illegal_instruction s
      else do {
        (mask, s) \<leftarrow> read_imm_16 B dl s;
        mode \<leftarrow> ea_of opcode;
        exec_movem_to_mem B dl sz mode mask s
      })"

definition dispatch_movem_load ::
  "'b address_bus \<Rightarrow> 'b delivery \<Rightarrow> u16 \<Rightarrow> 'b machine \<Rightarrow> 'b outcome" where
  "dispatch_movem_load B dl opcode s =
     (if ea_mode opcode = 4 \<or> ea_mode opcode = 7 \<and> ea_reg opcode > 3 then illegal_instruction s
      else do {
        (mask, s) \<leftarrow> read_imm_16 B dl s;
        mode \<leftarrow> ea_of opcode;
        exec_movem_to_reg B dl (if bit opcode 6 then Size_Long else Size_Word) mode mask s
      })"

text \<open>The operations that address memory or call: from MOVE USP on in the order of the source.\<close>

definition dispatch_address_group :: "'b address_bus \<Rightarrow> 'b delivery \<Rightarrow> u16 \<Rightarrow> 'b machine \<Rightarrow> 'b outcome" where
  "dispatch_address_group B dl opcode s =
     (let subop = drop_bit 8 opcode AND 0xF; reg = unat (ea_reg opcode);
          control = ea_control (ea_mode opcode) (ea_reg opcode);
          with_mode = (\<lambda>f. if control then Option.bind (ea_of opcode) f else illegal_instruction s)
      in if opcode AND 0xFFF8 = 0x4E60 then
           exec_move_usp B dl (\<lambda>s. trace_t0_68040_sync (set_usp (a_reg reg s) s)) s
         else if opcode AND 0xFFF8 = 0x4E68 then
           (let usp = get_usp s in exec_move_usp B dl (set_a reg usp) s)
         else if opcode AND 0xFFC0 = 0x4E80 then with_mode (\<lambda>mode. exec_jsr B dl mode s)
         else if opcode AND 0xFFC0 = 0x4EC0 then with_mode (\<lambda>mode. exec_jmp B dl mode s)
         else if opcode AND 0xF1C0 = 0x41C0 then
           with_mode (\<lambda>mode. timed (4 + control_addr_calc_cycles mode) (exec_lea B dl mode (op_reg opcode) s))
         else if opcode AND 0xFFC0 = 0x4840 then
           with_mode (\<lambda>mode. timed (12 + control_addr_calc_cycles mode) (exec_pea B dl mode s))
         else if subop = 8 \<and> opcode AND 0x0400 = 0 \<and> size_field opcode = 2 \<and> 2 \<le> ea_mode opcode then
           dispatch_movem_store B dl opcode Size_Word s
         else if subop = 8 \<and> opcode AND 0x0400 = 0 \<and> size_field opcode = 3 \<and> 2 \<le> ea_mode opcode then
           dispatch_movem_store B dl opcode Size_Long s
         else if subop = 0xC \<and> opcode AND 0x0400 \<noteq> 0 \<and> drop_bit 10 opcode AND 3 = 3 \<and> 2 \<le> ea_mode opcode then
           dispatch_movem_load B dl opcode s
         else illegal_instruction s)"

section \<open>Single operands\<close>

definition dispatch_tst :: "'b address_bus \<Rightarrow> 'b delivery \<Rightarrow> u16 \<Rightarrow> 'b machine \<Rightarrow> 'b outcome" where
  "dispatch_tst B dl opcode s =
     (let sz = decode_size_00 (size_field opcode)
      in if (if is_pre_68020 s then not_alterable opcode else not_source sz opcode) then illegal_instruction s
         else do { mode \<leftarrow> ea_of opcode; timed (tst_cycles mode sz) (exec_tst B dl sz mode s) })"

definition dispatch_byte_operand ::
  "(addressing_mode \<Rightarrow> 'b machine \<Rightarrow> 'b outcome) \<Rightarrow> int \<Rightarrow> int \<Rightarrow> u16 \<Rightarrow> 'b machine \<Rightarrow> 'b outcome" where
  "dispatch_byte_operand f direct memory opcode s =
     (if not_alterable opcode then illegal_instruction s
      else do {
        mode \<leftarrow> ea_of opcode;
        timed (if is_register_direct mode then direct else memory + ea_source_cycles mode Size_Byte) (f mode s)
      })"

definition dispatch_unary :: "'b address_bus \<Rightarrow> 'b delivery \<Rightarrow> u16 \<Rightarrow> 'b machine \<Rightarrow> 'b outcome" where
  "dispatch_unary B dl opcode s =
     (let subop = unat (drop_bit 8 opcode AND 0xF); sf = size_field opcode; sz = decode_size_00 sf;
          mode = ea_mode opcode; reg = unat (ea_reg opcode);
          rmw = (\<lambda>f. do { m \<leftarrow> ea_of opcode; timed (unary_rmw_cycles m sz) (f m s) })
      in if subop \<in> {0, 2, 4, 6} \<and> sf \<noteq> 3 \<and> not_alterable opcode then illegal_instruction s
         else if subop = 0 then rmw (exec_negx B dl sz)
         else if subop = 2 then rmw (exec_clr B dl sz)
         else if subop = 4 \<and> sf = 3 then
           if not_data opcode then illegal_instruction s
           else exec_move_to_status B dl (\<lambda>v. set_ccr (ucast v)) opcode s
         else if subop = 4 then rmw (exec_neg B dl sz)
         else if subop = 6 \<and> sf = 3 then
           if not_data opcode then illegal_instruction s
           else supervised B dl s
             (exec_move_to_status B dl (\<lambda>v s. set_sr v (trace_t0_sr_write s)) opcode s)
         else if subop = 6 then rmw (exec_not B dl sz)
         else if subop = 8 \<and> sf = 1 \<and> mode = 0 then exec_swap B dl reg s
         else if subop = 8 \<and> sf = 1 \<and> mode = 1 then Some (BKPT_SENTINEL_BASE + int reg, s)
         else if subop = 8 \<and> sf = 0 then dispatch_byte_operand (exec_nbcd B dl) 6 8 opcode s
         else if subop = 8 \<and> sf = 2 \<and> mode = 0 then Some (exec_ext Size_Word reg s)
         else if subop = 8 \<and> sf = 3 \<and> mode = 0 then Some (exec_ext Size_Long reg s)
         else if subop = 9 \<and> sf = 3 \<and> mode = 0 then
           if is_pre_68020 s then illegal_instruction s else Some (exec_extb reg s)
         else if subop = 0xA \<and> opcode = 0x4AFC then Some (ILLEGAL_SENTINEL, s)
         else if subop = 0xA \<and> sf = 3 then dispatch_byte_operand (exec_tas B dl) 4 10 opcode s
         else if subop = 0xA then dispatch_tst B dl opcode s
         else if subop = 0xE \<and> drop_bit 4 opcode AND 0xF = 4 then
           Some (TRAP_SENTINEL_BASE + int (unat (opcode AND 0xF)), s)
         else if subop = 0xE \<and> opcode AND 0xFFF8 = 0x4E50 then exec_link B dl reg s
         else if subop = 0xE \<and> opcode AND 0xFFF8 = 0x4E58 then exec_unlk B dl reg s
         else dispatch_address_group B dl opcode s)"

text \<open>The bound of CHK is read at word size and, on the 68020 and later, at long size.\<close>

definition dispatch_chk ::
  "'b address_bus \<Rightarrow> 'b delivery \<Rightarrow> opsize \<Rightarrow> u16 \<Rightarrow> 'b machine \<Rightarrow> 'b outcome" where
  "dispatch_chk B dl sz opcode s =
     (if sz = Size_Long \<and> is_pre_68020 s \<or> ea_mode opcode = 1 then illegal_instruction s
      else case ea_of opcode of
          None \<Rightarrow> illegal_instruction s
        | Some mode \<Rightarrow> do {
            (bound, s) \<leftarrow> read_ea B dl mode sz s;
            (cycles, s) \<leftarrow> exec_chk B dl sz bound (op_reg opcode) s;
            Some (if sz = Size_Word \<and> cpu_model s = M68000 then cycles + ea_source_cycles mode sz else cycles, s)
          })"

definition dispatch_group_4 :: "'b address_bus \<Rightarrow> 'b delivery \<Rightarrow> u16 \<Rightarrow> 'b machine \<Rightarrow> 'b outcome" where
  "dispatch_group_4 B dl opcode s =
     (if opcode AND 0xFFF8 = 0x4808 then
        if is_pre_68020 s then illegal_instruction s else exec_link_long B dl (unat (ea_reg opcode)) s
      else if opcode AND 0xFFC0 = 0x4C00 then
        if is_pre_68020 s \<or> not_data opcode then illegal_instruction s else exec_mull B dl opcode s
      else if opcode AND 0xFFC0 = 0x4C40 then
        if is_pre_68020 s \<or> not_data opcode then illegal_instruction s else exec_divl B dl opcode s
      else if opcode AND 0xFFC0 = 0x40C0 then exec_move_from_sr B dl opcode s
      else if opcode AND 0xFFC0 = 0x42C0 then exec_move_from_ccr B dl opcode s
      else if op_mode opcode = 6 then dispatch_chk B dl Size_Word opcode s
      else if op_mode opcode = 4 then dispatch_chk B dl Size_Long opcode s
      else if op_mode opcode = 5 then illegal_instruction s
      else if opcode = 0x4E70 then exec_reset B dl s
      else if opcode = 0x4E71 then Some (4, trace_t0_68040_sync s)
      else if opcode = 0x4AC8 \<and> is_060 s then supervised B dl s (Some (4, s\<lparr> stopped := 1 \<rparr>))
      else if opcode = 0x4ACC \<and> is_060 s then Some (4, s)
      else if opcode = 0x4E72 then exec_stop B dl s
      else if opcode = 0x4E73 then exec_rte B dl s
      else if opcode = 0x4E74 then exec_rtd B dl s
      else if opcode = 0x4E75 then exec_rts B dl s
      else if opcode = 0x4E76 then exec_trapv B dl s
      else if opcode = 0x4E77 then exec_rtr B dl s
      else if opcode = 0x4E7A then exec_movec B dl movec_from_control s
      else if opcode = 0x4E7B then exec_movec B dl movec_to_control s
      else dispatch_unary B dl opcode s)"

end
