(* ===== verification/Softfloat.thy ===== *)
theory Softfloat
  imports Float_X80
begin

unbundle bit_operations_syntax

text \<open>
  The extended-precision arithmetic of \<open>src/fpu/softfloat.rs\<close>: unpacking, the one rounding
  and packing path, addition, multiplication, division, square root, comparison, rounding to
  an integer, scaling, exponent and significand extraction, and the constant ROM. The flags
  accumulator is a byte threaded through; exponents are the \<open>i32\<close> of the source, with the
  wrap-around of a release build written out (\<open>i32_wrap\<close>) where a sum can leave the range: a build
  with overflow checks panics at such a sum, which this model does not show. A division by a zero
  significand is a panic of the source in every build and is None.
\<close>

section \<open>Modes and flags\<close>

datatype round_mode = Nearest | ToZero | NegInf | PosInf
datatype precision = Extended | Single | Double

definition mode_from_fpcr :: "u32 \<Rightarrow> round_mode" where
  "mode_from_fpcr fpcr =
     (let b = drop_bit 4 fpcr AND 3
      in if b = 1 then ToZero else if b = 2 then NegInf else if b = 3 then PosInf else Nearest)"

definition prec_from_fpcr :: "u32 \<Rightarrow> precision" where
  "prec_from_fpcr fpcr =
     (let b = drop_bit 6 fpcr AND 3 in if b = 1 then Single else if b = 2 then Double else Extended)"

fun prec_bits :: "precision \<Rightarrow> nat" where
  "prec_bits Extended = 64"
| "prec_bits Double = 53"
| "prec_bits Single = 24"

record round_ctx =
  mode :: round_mode
  prec :: precision

definition NEAREST_EXT :: round_ctx where "NEAREST_EXT = \<lparr> mode = Nearest, prec = Extended \<rparr>"

abbreviation (input) BSUN :: u8 where "BSUN \<equiv> 0x80"
abbreviation (input) SNAN :: u8 where "SNAN \<equiv> 0x40"
abbreviation (input) OPERR :: u8 where "OPERR \<equiv> 0x20"
abbreviation (input) OVFL :: u8 where "OVFL \<equiv> 0x10"
abbreviation (input) UNFL :: u8 where "UNFL \<equiv> 0x08"
abbreviation (input) DZ :: u8 where "DZ \<equiv> 0x04"
abbreviation (input) INEX2 :: u8 where "INEX2 \<equiv> 0x02"
abbreviation (input) INEX1 :: u8 where "INEX1 \<equiv> 0x01"

definition raise_flags :: "u8 \<Rightarrow> u8 \<Rightarrow> u8" where "raise_flags bits f = f OR bits"
definition has_flags :: "u8 \<Rightarrow> u8 \<Rightarrow> bool" where "has_flags f bits \<longleftrightarrow> f AND bits \<noteq> 0"

datatype fp_cmp = FLess | FEqual | FGreater | FUnordered

definition i32_wrap :: "int \<Rightarrow> int" where "i32_wrap x = sint (word_of_int x :: u32)"

section \<open>Unpacking and packing\<close>

definition fone :: "bool \<Rightarrow> float_x80" where
  "fone sign = \<lparr> mantissa = 0x8000000000000000, sign_exp = sign_bits sign OR 16383 \<rparr>"

record unpacked =
  un_sign :: bool
  un_exp :: int
  un_mant :: u64

definition unpack :: "float_x80 \<Rightarrow> unpacked" where
  "unpack x =
     (if biased_exp x = 0 then
        let lz = leading_zeros (mantissa x)
        in \<lparr> un_sign = fsign x, un_exp = -16382 - int lz, un_mant = push_bit lz (mantissa x) \<rparr>
      else \<lparr> un_sign = fsign x, un_exp = int (unat (biased_exp x)) - 16383, un_mant = mantissa x \<rparr>)"

definition shift_right_sticky :: "u128 \<Rightarrow> nat \<Rightarrow> u128" where
  "shift_right_sticky m sh =
     (if sh = 0 then m
      else if 128 \<le> sh then of_bool (m \<noteq> 0)
      else drop_bit sh m OR of_bool (take_bit sh m \<noteq> 0))"

definition overflow_result :: "bool \<Rightarrow> round_mode \<Rightarrow> float_x80" where
  "overflow_result sign md =
     (let to_inf = (case md of Nearest \<Rightarrow> True | ToZero \<Rightarrow> False | PosInf \<Rightarrow> \<not> sign | NegInf \<Rightarrow> sign)
      in if to_inf then infinity sign
         else \<lparr> mantissa = 0xFFFFFFFFFFFFFFFF, sign_exp = sign_bits sign OR 0x7FFE \<rparr>)"

definition round_up :: "round_mode \<Rightarrow> bool \<Rightarrow> u64 \<Rightarrow> u128 \<Rightarrow> u128 \<Rightarrow> bool" where
  "round_up md sign q rm halfway =
     (case md of
        Nearest \<Rightarrow> halfway < rm \<or> rm = halfway \<and> q AND 1 = 1
      | ToZero \<Rightarrow> False
      | PosInf \<Rightarrow> \<not> sign \<and> rm \<noteq> 0
      | NegInf \<Rightarrow> sign \<and> rm \<noteq> 0)"

text \<open>
  Normalisation, rounding and packing. The biased exponent is the sum \<open>exp - lz + BIAS\<close> of plain
  \<open>i32\<close> arithmetic, taken as a release build takes it; with overflow checks the sum panics when it
  leaves the range, which the exponents of two packed numbers cannot reach and the saturated
  exponent of \<open>scale\<close> by a count near \<open>i32::MAX\<close> can.
\<close>

definition round_pack :: "bool \<Rightarrow> int \<Rightarrow> u128 \<Rightarrow> round_ctx \<Rightarrow> u8 \<Rightarrow> float_x80 \<times> u8" where
  "round_pack sign exp m ctx f =
     (if m = 0 then (fzero sign, f)
      else
        let lz = leading_zeros m; m = push_bit lz m; biased = i32_wrap (exp - int lz + 16383);
            (m, biased) = (if biased < 1 then (shift_right_sticky m (nat (1 - biased)), 1) else (m, biased));
            p = prec_bits (prec ctx); shift = 128 - p;
            q = ucast (drop_bit shift m) :: u64; rm = take_bit shift m;
            f = (if rm \<noteq> 0 then raise_flags INEX2 f else f);
            q = ucast q :: u128;
            (q, biased) =
              (if round_up (mode ctx) sign (ucast q) rm (2 ^ (shift - 1)) then
                 let q = q + 1 in if drop_bit p q \<noteq> 0 then (drop_bit 1 q, biased + 1) else (q, biased)
               else (q, biased))
        in if \<not> bit q (p - 1) then
             if q = 0 then (fzero sign, f)
             else (\<lparr> mantissa = push_bit (64 - p) (ucast q), sign_exp = sign_bits sign \<rparr>,
                   if rm \<noteq> 0 then raise_flags UNFL f else f)
           else if 0x7FFF \<le> biased then
             (overflow_result sign (mode ctx), raise_flags INEX2 (raise_flags OVFL f))
           else
             (\<lparr> mantissa = push_bit (64 - p) (ucast q), sign_exp = sign_bits sign OR word_of_int biased \<rparr>, f))"

section \<open>NaN and sign operations\<close>

definition propagate_nan :: "float_x80 \<Rightarrow> float_x80 \<Rightarrow> u8 \<Rightarrow> float_x80 \<times> u8" where
  "propagate_nan a b f =
     (if is_nan a then quiet a else quiet b,
      if is_signaling_nan a \<or> is_signaling_nan b then raise_flags OPERR (raise_flags SNAN f) else f)"

definition fneg :: "float_x80 \<Rightarrow> float_x80" where "fneg a = a\<lparr> sign_exp := sign_exp a XOR 0x8000 \<rparr>"
definition fabs :: "float_x80 \<Rightarrow> float_x80" where "fabs a = a\<lparr> sign_exp := sign_exp a AND 0x7FFF \<rparr>"

section \<open>Addition\<close>

definition exp_hi :: "float_x80 \<Rightarrow> int \<times> u128" where
  "exp_hi x = (un_exp (unpack x), push_bit 64 (ucast (un_mant (unpack x))))"

text \<open>Two finite nonzero operands, the one with the larger exponent first.\<close>

definition add_ordered ::
  "bool \<Rightarrow> int \<Rightarrow> u128 \<Rightarrow> bool \<Rightarrow> int \<Rightarrow> u128 \<Rightarrow> round_ctx \<Rightarrow> u8 \<Rightarrow> float_x80 \<times> u8" where
  "add_ordered hs he hm ls le lm ctx f =
     (let lm = shift_right_sticky lm (nat (he - le))
      in if hs = ls then
           let sum = hm + lm
           in if uint hm + uint lm \<ge> 2 ^ 128 then
                round_pack hs (he + 1) (drop_bit 1 sum OR push_bit 127 1 OR (sum AND 1)) ctx f
              else round_pack hs he sum ctx f
         else if lm \<le> hm then
           let m = hm - lm
           in if m = 0 then (fzero (mode ctx = NegInf), f) else round_pack hs he m ctx f
         else round_pack ls he (lm - hm) ctx f)"

definition fadd :: "float_x80 \<Rightarrow> float_x80 \<Rightarrow> round_ctx \<Rightarrow> u8 \<Rightarrow> float_x80 \<times> u8" where
  "fadd a b ctx f =
     (if is_nan a \<or> is_nan b then propagate_nan a b f
      else if is_inf a \<or> is_inf b then
        if is_inf a \<and> is_inf b \<and> fsign a \<noteq> fsign b then (default_nan, raise_flags OPERR f)
        else (if is_inf a then a else b, f)
      else if is_zero a \<and> is_zero b then (fzero (fsign a \<and> fsign b \<or> mode ctx = NegInf), f)
      else if is_zero a then round_pack (fsign b) (fst (exp_hi b)) (snd (exp_hi b)) ctx f
      else if is_zero b then round_pack (fsign a) (fst (exp_hi a)) (snd (exp_hi a)) ctx f
      else
        let (ea, ma) = exp_hi a; (eb, mb) = exp_hi b
        in if eb \<le> ea then add_ordered (fsign a) ea ma (fsign b) eb mb ctx f
           else add_ordered (fsign b) eb mb (fsign a) ea ma ctx f)"

definition fsub :: "float_x80 \<Rightarrow> float_x80 \<Rightarrow> round_ctx \<Rightarrow> u8 \<Rightarrow> float_x80 \<times> u8" where
  "fsub a b ctx f = fadd a (fneg b) ctx f"

section \<open>Multiplication and division\<close>

definition fmul :: "float_x80 \<Rightarrow> float_x80 \<Rightarrow> round_ctx \<Rightarrow> u8 \<Rightarrow> float_x80 \<times> u8" where
  "fmul a b ctx f =
     (if is_nan a \<or> is_nan b then propagate_nan a b f
      else
        let sign = (fsign a \<noteq> fsign b)
        in if is_inf a \<or> is_inf b then
             if is_zero a \<or> is_zero b then (default_nan, raise_flags OPERR f) else (infinity sign, f)
           else if is_zero a \<or> is_zero b then (fzero sign, f)
           else
             let ua = unpack a; ub = unpack b
             in round_pack sign (un_exp ua + un_exp ub + 1)
                  (ucast (un_mant ua) * ucast (un_mant ub)) ctx f)"

definition fdiv :: "float_x80 \<Rightarrow> float_x80 \<Rightarrow> round_ctx \<Rightarrow> u8 \<Rightarrow> (float_x80 \<times> u8) option" where
  "fdiv a b ctx f =
     (if is_nan a \<or> is_nan b then Some (propagate_nan a b f)
      else
        let sign = (fsign a \<noteq> fsign b)
        in if is_inf a then
             if is_inf b then Some (default_nan, raise_flags OPERR f) else Some (infinity sign, f)
           else if is_inf b then Some (fzero sign, f)
           else if is_zero b then
             if is_zero a then Some (default_nan, raise_flags OPERR f)
             else Some (infinity sign, raise_flags DZ f)
           else if is_zero a then Some (fzero sign, f)
           else
             let ua = unpack a; ub = unpack b; num = push_bit 64 (ucast (un_mant ua)) :: u128;
                 den = ucast (un_mant ub) :: u128
             in if den = 0 then None
                else
                  let q = num div den; m = push_bit 63 q;
                      m = (if num mod den \<noteq> 0 then m OR 1 else m)
                  in Some (round_pack sign (un_exp ua - un_exp ub) m ctx f))"

section \<open>Square root\<close>

text \<open>The loop over the digits \<open>d = 4 ^ n\<close>, from the most significant one that fits.\<close>

fun isqrt_loop :: "nat \<Rightarrow> u128 \<Rightarrow> u128 \<times> u128 \<Rightarrow> u128 \<times> u128" where
  "isqrt_loop 0 d (x, c) = (c, x)"
| "isqrt_loop (Suc n) d (x, c) =
     (if d = 0 then (c, x)
      else isqrt_loop n (drop_bit 2 d)
             (if c + d \<le> x then (x - (c + d), drop_bit 1 c + d) else (x, drop_bit 1 c)))"

fun lower_digit :: "nat \<Rightarrow> u128 \<Rightarrow> u128 \<Rightarrow> u128" where
  "lower_digit 0 x d = d"
| "lower_digit (Suc n) x d = (if x < d then lower_digit n x (drop_bit 2 d) else d)"

definition isqrt128 :: "u128 \<Rightarrow> u128 \<times> u128" where
  "isqrt128 n =
     (if n = 0 then (0, 0)
      else
        let d = lower_digit 64 n (2 ^ (126 - (leading_zeros n - leading_zeros n mod 2)))
        in isqrt_loop 65 d (n, 0))"

definition fsqrt :: "float_x80 \<Rightarrow> round_ctx \<Rightarrow> u8 \<Rightarrow> float_x80 \<times> u8" where
  "fsqrt a ctx f =
     (if is_nan a then propagate_nan a a f
      else if is_zero a then (fzero (fsign a), f)
      else if fsign a then (default_nan, raise_flags OPERR f)
      else if is_inf a then (a, f)
      else
        let ua = unpack a; e = un_exp ua - 63;
            (s, big_e) = (if even e then (64, e - 64) else (63, e - 63));
            (root, remb) = isqrt128 (push_bit s (ucast (un_mant ua)));
            m = push_bit 64 root; m = (if remb \<noteq> 0 then m OR 1 else m)
        in round_pack False (big_e div 2 + 63) m ctx f)"

section \<open>Integers and the constant ROM\<close>

definition from_u64 :: "u64 \<Rightarrow> bool \<Rightarrow> float_x80" where
  "from_u64 v sign =
     (if v = 0 then fzero sign else fst (round_pack sign 63 (push_bit 64 (ucast v)) NEAREST_EXT 0))"

text \<open>Exponentiation by squaring, one bit of the exponent per round.\<close>

fun pow10_loop :: "nat \<Rightarrow> nat \<Rightarrow> float_x80 \<Rightarrow> float_x80 \<Rightarrow> float_x80" where
  "pow10_loop 0 e result base = result"
| "pow10_loop (Suc n) e result base =
     (if e = 0 then result
      else
        let result = (if odd e then fst (fmul result base NEAREST_EXT 0) else result); e = e div 2
        in pow10_loop n e result (if e \<noteq> 0 then fst (fmul base base NEAREST_EXT 0) else base))"

definition pow10_x80 :: "nat \<Rightarrow> float_x80" where
  "pow10_x80 n = pow10_loop 32 n (from_u64 1 False) (from_u64 10 False)"

definition const_rom :: "nat \<Rightarrow> float_x80" where
  "const_rom offset =
     (let bits = (\<lambda>se m. \<lparr> mantissa = m, sign_exp = se \<rparr>)
      in if offset = 0x00 then bits 0x4000 0xC90FDAA22168C235
         else if offset = 0x0B then bits 0x3FFD 0x9A209A84FBCFF799
         else if offset = 0x0C then bits 0x4000 0xADF85458A2BB4A9A
         else if offset = 0x0D then bits 0x3FFF 0xB8AA3B295C17F0BC
         else if offset = 0x0E then bits 0x3FFD 0xDE5BD8A937287195
         else if offset = 0x0F then fzero False
         else if offset = 0x30 then bits 0x3FFE 0xB17217F7D1CF79AC
         else if offset = 0x31 then bits 0x4000 0x935D8DDDAAA8AC17
         else if offset = 0x32 then bits 0x3FFF 0x8000000000000000
         else if 0x33 \<le> offset \<and> offset \<le> 0x3F
           then pow10_x80 ([1, 2, 4, 8, 16, 32, 64, 128, 256, 512, 1024, 2048, 4096] ! (offset - 0x33))
         else fzero False)"

definition round_to_int :: "float_x80 \<Rightarrow> round_mode \<Rightarrow> u8 \<Rightarrow> float_x80 \<times> u8" where
  "round_to_int a md f =
     (if is_nan a then propagate_nan a a f
      else if is_inf a \<or> is_zero a then (a, f)
      else
        let ua = unpack a; neg = un_sign ua
        in if 63 \<le> un_exp ua then (a, f)
           else if un_exp ua < 0 then
             let inc = (case md of
                   Nearest \<Rightarrow> un_exp ua = -1 \<and> un_mant ua > 2 ^ 63
                 | ToZero \<Rightarrow> False | PosInf \<Rightarrow> \<not> neg | NegInf \<Rightarrow> neg)
             in (if inc then fone neg else fzero neg, raise_flags INEX2 f)
           else
             let fbits = nat (63 - un_exp ua); int_part = drop_bit fbits (un_mant ua);
                 frac = take_bit fbits (un_mant ua); half = 2 ^ (fbits - 1) :: u64;
                 inc = (case md of
                   Nearest \<Rightarrow> half < frac \<or> frac = half \<and> int_part AND 1 = 1
                 | ToZero \<Rightarrow> False | PosInf \<Rightarrow> \<not> neg \<and> frac \<noteq> 0 | NegInf \<Rightarrow> neg \<and> frac \<noteq> 0);
                 int_part = int_part + of_bool inc
             in (if int_part = 0 then fzero neg
                 else fst (round_pack neg 63 (push_bit 64 (ucast int_part)) NEAREST_EXT 0),
                 if frac \<noteq> 0 then raise_flags INEX2 f else f))"

definition to_i64 :: "float_x80 \<Rightarrow> round_mode \<Rightarrow> int \<Rightarrow> int \<Rightarrow> u8 \<Rightarrow> int \<times> u8" where
  "to_i64 x md lo hi f =
     (if is_nan x then (lo, raise_flags OPERR f)
      else if is_inf x then (if fsign x then lo else hi, raise_flags OPERR f)
      else
        let (r, f) = round_to_int x md f
        in if is_zero r then (0, f)
           else
             let u = unpack r
             in if 63 < un_exp u then (if un_sign u then lo else hi, raise_flags OPERR f)
                else
                  let mag = uint (drop_bit (nat (63 - un_exp u)) (un_mant u));
                      v = (if un_sign u then - mag else mag)
                  in if v < lo then (lo, raise_flags OPERR f)
                     else if hi < v then (hi, raise_flags OPERR f) else (v, f))"

section \<open>Comparison, scaling, parts\<close>

definition fcompare :: "float_x80 \<Rightarrow> float_x80 \<Rightarrow> u8 \<Rightarrow> fp_cmp \<times> u8" where
  "fcompare a b f =
     (if is_nan a \<or> is_nan b then
        (FUnordered, if is_signaling_nan a \<or> is_signaling_nan b
                     then raise_flags OPERR (raise_flags SNAN f) else f)
      else if is_zero a \<and> is_zero b then (FEqual, f)
      else if fsign a \<noteq> fsign b then (if fsign a then FLess else FGreater, f)
      else
        let less = (biased_exp a < biased_exp b \<or> biased_exp a = biased_exp b \<and> mantissa a < mantissa b);
            eq = (biased_exp a = biased_exp b \<and> mantissa a = mantissa b)
        in (if eq then FEqual
            else if \<not> less \<and> \<not> fsign a \<or> less \<and> fsign a then FGreater else FLess, f))"

definition saturating_add_i32 :: "int \<Rightarrow> int \<Rightarrow> int" where
  "saturating_add_i32 a b = max (- (2 ^ 31)) (min (2 ^ 31 - 1) (a + b))"

definition fscale :: "float_x80 \<Rightarrow> int \<Rightarrow> round_ctx \<Rightarrow> u8 \<Rightarrow> float_x80 \<times> u8" where
  "fscale a n ctx f =
     (if is_nan a then propagate_nan a a f
      else if is_inf a \<or> is_zero a then (a, f)
      else
        let ua = unpack a
        in round_pack (un_sign ua) (saturating_add_i32 (un_exp ua) n)
             (push_bit 64 (ucast (un_mant ua))) ctx f)"

definition getexp :: "float_x80 \<Rightarrow> u8 \<Rightarrow> float_x80 \<times> u8" where
  "getexp a f =
     (if is_nan a then propagate_nan a a f
      else if is_inf a then (default_nan, raise_flags OPERR f)
      else if is_zero a then (a, f)
      else
        let e = un_exp (unpack a)
        in if e = 0 then (fzero False, f)
           else (fst (round_pack (e < 0) 63 (push_bit 64 (word_of_int \<bar>e\<bar>)) NEAREST_EXT 0), f))"

definition getman :: "float_x80 \<Rightarrow> u8 \<Rightarrow> float_x80 \<times> u8" where
  "getman a f =
     (if is_nan a then propagate_nan a a f
      else if is_inf a then (default_nan, raise_flags OPERR f)
      else if is_zero a then (a, f)
      else (\<lparr> mantissa = un_mant (unpack a), sign_exp = sign_bits (un_sign (unpack a)) OR 16383 \<rparr>, f))"

end
