(* ===== verification/Rounding.thy ===== *)
theory Rounding
  imports Complex_Main Softfloat
begin

unbundle bit_operations_syntax

text \<open>
  What the extended-precision arithmetic is supposed to compute, over the real numbers: the
  value of a register, the rounding of a real to a given number of significant bits with
  gradual underflow, and the result an operation owes for an exact value. Then the facts that
  connect the integer rounding of the source to it: two numbers that lie in the same cell of
  a grid round alike, and a sticky bit keeps a truncated number in its cell.
\<close>

section \<open>Specification\<close>

definition rnd :: "round_mode \<Rightarrow> bool \<Rightarrow> real \<Rightarrow> int" where
  "rnd md sign x =
     (case md of
        Nearest \<Rightarrow> (let k = \<lfloor>x\<rfloor>; d = x - of_int k in if d < 1/2 \<or> d = 1/2 \<and> even k then k else k + 1)
      | ToZero \<Rightarrow> \<lfloor>x\<rfloor>
      | PosInf \<Rightarrow> (if sign then \<lfloor>x\<rfloor> else \<lceil>x\<rceil>)
      | NegInf \<Rightarrow> (if sign then \<lceil>x\<rceil> else \<lfloor>x\<rfloor>))"

definition ulp_exp :: "nat \<Rightarrow> real \<Rightarrow> int" where
  "ulp_exp p v = max \<lfloor>log 2 v\<rfloor> (-16382) - (int p - 1)"

definition round_real :: "round_mode \<Rightarrow> bool \<Rightarrow> nat \<Rightarrow> real \<Rightarrow> real" where
  "round_real md sign p v = of_int (rnd md sign (v / 2 powi ulp_exp p v)) * 2 powi ulp_exp p v"

definition fmag :: "float_x80 \<Rightarrow> real" where
  "fmag x = of_int (uint (mantissa x)) * 2 powi (max 1 (int (unat (biased_exp x))) - 16446)"

definition fvalue :: "float_x80 \<Rightarrow> real" where
  "fvalue x = (if fsign x then - fmag x else fmag x)"

definition finite80 :: "float_x80 \<Rightarrow> bool" where
  "finite80 x \<longleftrightarrow> biased_exp x \<noteq> 0x7FFF"

text \<open>
  The result owed for an exact magnitude \<open>v\<close>: the rounded value and the inexact and underflow
  flags when it is below the overflow threshold, the overflow result otherwise.
\<close>

definition rounds_to :: "bool \<Rightarrow> real \<Rightarrow> round_ctx \<Rightarrow> u8 \<Rightarrow> float_x80 \<times> u8 \<Rightarrow> bool" where
  "rounds_to sign v ctx f r \<longleftrightarrow>
     (let w = round_real (mode ctx) sign (prec_bits (prec ctx)) v
      in if w < 2 ^ 16384 then
           finite80 (fst r) \<and> fsign (fst r) = sign \<and> fmag (fst r) = w \<and>
           snd r = (f OR (if w \<noteq> v then INEX2 else 0)) OR
             (if w \<noteq> v \<and> 0 < w \<and> w < 2 powi (-16382) then UNFL else 0)
         else fst r = overflow_result sign (mode ctx) \<and> snd r = (f OR OVFL) OR INEX2)"

section \<open>Cells of a grid\<close>

definition agree :: "real \<Rightarrow> real \<Rightarrow> real \<Rightarrow> bool" where
  "agree c a b \<longleftrightarrow> (\<forall>i :: int. (a < of_int i * c \<longleftrightarrow> b < of_int i * c) \<and> (a \<le> of_int i * c \<longleftrightarrow> b \<le> of_int i * c))"

lemma agree_refl [simp]: "agree c a a"
  by (simp add: agree_def)

lemma agree_trans: "agree c a b \<Longrightarrow> agree c b d \<Longrightarrow> agree c a d"
  by (simp add: agree_def)

lemma agree_less: "agree c a b \<Longrightarrow> a < of_int i * c \<longleftrightarrow> b < of_int i * c"
  and agree_le: "agree c a b \<Longrightarrow> a \<le> of_int i * c \<longleftrightarrow> b \<le> of_int i * c"
  by (simp_all add: agree_def)

lemma agree_multiple:
  assumes "agree c a b"
  shows "agree (of_int n * c) a b"
proof -
  have "of_int i * (of_int n * c) = of_int (i * n) * c" for i :: int by simp
  then show ?thesis unfolding agree_def by (metis agree_less [OF assms] agree_le [OF assms])
qed

lemma agree_pow2: "agree (2 ^ j) a b \<Longrightarrow> j \<le> k \<Longrightarrow> agree (2 ^ k) a b"
  using agree_multiple [of "2 ^ j" a b "2 ^ (k - j)"] by (simp flip: power_add)

lemma agree_scale:
  assumes "agree c a b" and "0 < s"
  shows "agree (c * s) (a * s) (b * s)"
proof -
  have e: "of_int i * (c * s) = (of_int i * c) * s" for i :: int by simp
  show ?thesis
    unfolding agree_def e using assms by (simp add: agree_less [OF assms(1)] agree_le [OF assms(1)])
qed

definition sticky :: "int \<Rightarrow> real \<Rightarrow> bool" where
  "sticky m x \<longleftrightarrow> x = of_int m \<or> odd m \<and> of_int m - 1 < x \<and> x < of_int m + 1"

lemma sticky_agree: "sticky m x \<Longrightarrow> agree 2 (of_int m) x"
proof (cases "x = of_int m")
  case False
  assume "sticky m x"
  with False have o: "odd m" and x: "of_int m - 1 < x" "x < of_int m + 1" by (auto simp: sticky_def)
  show ?thesis
    unfolding agree_def
  proof
    fix i :: int
    have c: "m < 2 * i \<longleftrightarrow> m + 1 \<le> 2 * i" "\<not> m < 2 * i \<longleftrightarrow> 2 * i \<le> m - 1" "m \<noteq> 2 * i"
      using o by presburger+
    have r: "real_of_int i * 2 = of_int (2 * i)" by simp
    show "(real_of_int m < of_int i * 2 \<longleftrightarrow> x < of_int i * 2) \<and> (real_of_int m \<le> of_int i * 2 \<longleftrightarrow> x \<le> of_int i * 2)"
    proof (cases "m < 2 * i")
      case True
      then have "real_of_int (m + 1) \<le> of_int (2 * i)" using c(1) by (simp only: of_int_le_iff)
      with x True show ?thesis unfolding r by (simp del: of_int_mult, (linarith)?)
    next
      case False
      then have "real_of_int (2 * i) \<le> of_int (m - 1)" using c(2) by (simp only: of_int_le_iff)
      with x False c(3) show ?thesis unfolding r by (simp del: of_int_mult, (linarith)?)
    qed
  qed
qed simp

lemma agree_half:
  assumes "agree (1/2) a b"
  shows "\<lfloor>a\<rfloor> = \<lfloor>b\<rfloor>" and "rnd md sign a = rnd md sign b" and "a = of_int k \<longleftrightarrow> b = of_int k"
proof -
  have le: "of_int i * (1/2) \<le> a \<longleftrightarrow> of_int i * (1/2) \<le> b" for i :: int
    using agree_less [OF assms, of i] by linarith
  have ge: "a \<le> of_int i * (1/2) \<longleftrightarrow> b \<le> of_int i * (1/2)" for i :: int by (rule agree_le [OF assms])
  have le1: "of_int i \<le> a \<longleftrightarrow> of_int i \<le> b" for i :: int using le [of "2 * i"] by simp
  have ge1: "a \<le> of_int i \<longleftrightarrow> b \<le> of_int i" for i :: int using ge [of "2 * i"] by simp
  show fl: "\<lfloor>a\<rfloor> = \<lfloor>b\<rfloor>" using le1 by (metis le_floor_iff order.eq_iff order.refl)
  have ce: "\<lceil>a\<rceil> = \<lceil>b\<rceil>" using ge1 by (metis ceiling_le_iff order.eq_iff order.refl)
  show "a = of_int k \<longleftrightarrow> b = of_int k" using le1 [of k] ge1 [of k] by linarith
  have h: "a - of_int \<lfloor>b\<rfloor> < 1/2 \<longleftrightarrow> b - of_int \<lfloor>b\<rfloor> < 1/2" "a - of_int \<lfloor>b\<rfloor> = 1/2 \<longleftrightarrow> b - of_int \<lfloor>b\<rfloor> = 1/2"
    using le [of "2 * \<lfloor>b\<rfloor> + 1"] ge [of "2 * \<lfloor>b\<rfloor> + 1"] by (simp_all add: field_simps) linarith+
  show "rnd md sign a = rnd md sign b"
    unfolding rnd_def Let_def fl ce h by simp
qed

text \<open>Directed rounding only needs the cells of the integers, rounding to nearest their halves.\<close>

lemma agree_rnd:
  assumes "agree (if md = Nearest then 1 / 2 else 1) a b"
  shows "rnd md sign a = rnd md sign b" and "a = of_int k \<longleftrightarrow> b = of_int k"
proof -
  have ge1: "a \<le> of_int i \<longleftrightarrow> b \<le> of_int i" and le1: "a < of_int i \<longleftrightarrow> b < of_int i" for i :: int
  proof -
    have "agree 1 a b" using assms agree_multiple [of "1 / 2" a b 2] by (simp split: if_splits)
    then show "a \<le> of_int i \<longleftrightarrow> b \<le> of_int i" "a < of_int i \<longleftrightarrow> b < of_int i"
      using agree_le [of 1 a b i] agree_less [of 1 a b i] by simp_all
  qed
  show "a = of_int k \<longleftrightarrow> b = of_int k" using le1 [of k] ge1 [of k] by linarith
  show "rnd md sign a = rnd md sign b"
  proof (cases "md = Nearest")
    case True
    with assms show ?thesis by (simp add: agree_half(2))
  next
    case False
    have "\<lfloor>a\<rfloor> = \<lfloor>b\<rfloor>" using le1 by (metis floor_less_iff linorder_neq_iff)
    moreover have "\<lceil>a\<rceil> = \<lceil>b\<rceil>" using ge1 by (metis ceiling_le_iff order.eq_iff order.refl)
    ultimately show ?thesis using False by (cases md) (simp_all add: rnd_def)
  qed
qed

section \<open>Integer rounding\<close>

lemma rnd_quotient:
  fixes J :: int
  assumes "0 < k"
  shows "rnd md sign (of_int J / 2 ^ k) = J div 2 ^ k + of_bool (case md of
      Nearest \<Rightarrow> 2 ^ (k - 1) < J mod 2 ^ k \<or> J mod 2 ^ k = 2 ^ (k - 1) \<and> odd (J div 2 ^ k)
    | ToZero \<Rightarrow> False | PosInf \<Rightarrow> \<not> sign \<and> J mod 2 ^ k \<noteq> 0 | NegInf \<Rightarrow> sign \<and> J mod 2 ^ k \<noteq> 0)"
    and "of_int J / 2 ^ k = (of_int i :: real) \<longleftrightarrow> J mod 2 ^ k = 0 \<and> J div 2 ^ k = i"
proof -
  define q where "q = J div 2 ^ k"
  define r where "r = J mod 2 ^ k"
  have J: "J = q * 2 ^ k + r" unfolding q_def r_def by (rule div_mult_mod_eq [symmetric])
  have r: "0 \<le> r" "r < 2 ^ k" by (simp_all add: r_def)
  have P: "(0 :: real) < 2 ^ k" by simp
  have x: "of_int J / 2 ^ k = (of_int q + of_int r / 2 ^ k :: real)"
    unfolding J by (simp add: add_divide_distrib)
  have rr: "real_of_int r < 2 ^ k" using r(2) by (metis of_int_less_iff of_int_numeral of_int_power)
  have fr: "0 \<le> real_of_int r / 2 ^ k" "real_of_int r / 2 ^ k < 1" using r(1) rr P by (simp_all add: field_simps)
  have fl: "\<lfloor>of_int J / (2 ^ k :: real)\<rfloor> = q" unfolding x using fr by linarith
  have z: "real_of_int r / 2 ^ k = 0 \<longleftrightarrow> r = 0" by simp
  have ce: "\<lceil>of_int J / (2 ^ k :: real)\<rceil> = q + of_bool (r \<noteq> 0)"
  proof (cases "r = 0")
    case False
    then have "0 < r" using r(1) by simp
    then have "0 < real_of_int r / 2 ^ k" by simp
    then have "\<lceil>of_int J / (2 ^ k :: real)\<rceil> = q + 1"
      unfolding x using fr by (intro ceiling_unique) linarith+
    with False show ?thesis by simp
  qed (simp add: x)
  have two: "(2 :: real) ^ k = 2 * of_int (2 ^ (k - 1))" using assms by (cases k) simp_all
  have half: "real_of_int r / 2 ^ k < 1/2 \<longleftrightarrow> r < 2 ^ (k - 1)" "real_of_int r / 2 ^ k = 1/2 \<longleftrightarrow> r = 2 ^ (k - 1)"
    unfolding two by (simp_all only: divide_less_eq divide_eq_eq of_int_less_iff of_int_eq_iff) (auto simp del: of_int_power)
  have d: "of_int J / 2 ^ k - of_int q = (of_int r / 2 ^ k :: real)" unfolding x by simp
  show "rnd md sign (of_int J / 2 ^ k) = J div 2 ^ k + of_bool (case md of
      Nearest \<Rightarrow> 2 ^ (k - 1) < J mod 2 ^ k \<or> J mod 2 ^ k = 2 ^ (k - 1) \<and> odd (J div 2 ^ k)
    | ToZero \<Rightarrow> False | PosInf \<Rightarrow> \<not> sign \<and> J mod 2 ^ k \<noteq> 0 | NegInf \<Rightarrow> sign \<and> J mod 2 ^ k \<noteq> 0)"
    unfolding rnd_def Let_def fl ce d half q_def [symmetric] r_def [symmetric]
    by (auto split: round_mode.split)
  show "of_int J / 2 ^ k = (of_int i :: real) \<longleftrightarrow> J mod 2 ^ k = 0 \<and> J div 2 ^ k = i"
  proof
    assume e: "of_int J / 2 ^ k = (of_int i :: real)"
    then have "q = i" using fl by simp
    with e z show "J mod 2 ^ k = 0 \<and> J div 2 ^ k = i" unfolding x q_def [symmetric] r_def [symmetric] by simp
  next
    assume "J mod 2 ^ k = 0 \<and> J div 2 ^ k = i"
    then show "of_int J / 2 ^ k = (of_int i :: real)" unfolding x q_def r_def by simp
  qed
qed

lemma sticky_quotient:
  fixes M :: int
  assumes "0 \<le> M"
  shows "sticky (M div 2 ^ sh OR of_bool (M mod 2 ^ sh \<noteq> 0)) (of_int M / 2 ^ sh)"
proof (cases "sh = 0 \<or> M mod 2 ^ sh = 0")
  case True
  then show ?thesis
    by (auto simp: sticky_def real_of_int_div)
next
  case False
  define q where "q = M div 2 ^ sh"
  have x: "of_int q < of_int M / (2 ^ sh :: real)" "of_int M / (2 ^ sh :: real) < of_int q + 1"
  proof -
    define r where "r = M mod 2 ^ sh"
    have e: "M = q * 2 ^ sh + r" unfolding q_def r_def by (rule div_mult_mod_eq [symmetric])
    have "0 \<le> r" "r < 2 ^ sh" "r \<noteq> 0" using False by (simp_all add: r_def)
    then have "q * 2 ^ sh < M" "M < (q + 1) * 2 ^ sh" unfolding e by (simp_all add: algebra_simps)
    then have "real_of_int (q * 2 ^ sh) < of_int M" "real_of_int M < of_int ((q + 1) * 2 ^ sh)"
      by (simp_all only: of_int_less_iff)
    then show "of_int q < of_int M / (2 ^ sh :: real)" "of_int M / (2 ^ sh :: real) < of_int q + 1"
      by (simp_all add: field_simps)
  qed
  have "q OR 1 = (if even q then q + 1 else q)"
    by (simp add: or_one_eq)
  then have "sticky (q OR 1) (of_int M / 2 ^ sh)"
    unfolding sticky_def using x by (cases "even q") simp_all
  then show ?thesis using False by (simp add: q_def)
qed

end
