(* ===== verification/Softfloat_Correct.thy ===== *)
theory Softfloat_Correct
  imports Rounding
begin

unbundle bit_operations_syntax

text \<open>
  The arithmetic of \<open>Softfloat\<close> against the specification of \<open>Rounding\<close>: the rounding and
  packing path is correctly rounded for every mode and precision, with gradual underflow,
  overflow and the inexact flag, for exact significands and for truncated ones with a sticky
  bit; from it multiplication, addition, and what division and square root achieve.
\<close>

section \<open>Powers of two\<close>

lemma pow2_add: "2 powi (i + j) = (2 powi i * 2 powi j :: real)"
  by (simp add: power_int_add)

lemma pow2_nat: "(2 :: real) powi int n = 2 ^ n"
  by (rule power_int_of_nat)

lemma pow2_mult: "int n + i = j \<Longrightarrow> 2 ^ n * 2 powi i = (2 powi j :: real)"
  by (simp only: pow2_add [symmetric] pow2_nat [symmetric])

lemma pow2_pos [simp]: "(0 :: real) < 2 powi i"
  by (simp add: zero_less_power_int)

lemma pow2_less: "(2 :: real) powi i < 2 powi j \<longleftrightarrow> i < j"
  by (metis linorder_less_linear one_less_numeral_iff order_less_asym power_int_strict_increasing semiring_norm(76))

lemma pow2_le: "(2 :: real) powi i \<le> 2 powi j \<longleftrightarrow> i \<le> j"
  using pow2_less [of j i] by linarith

lemma binade_eq:
  assumes "2 powi E \<le> v" and "v < 2 powi (E + 1)"
  shows "\<lfloor>log 2 v\<rfloor> = E"
proof -
  have "0 < v" using assms(1) pow2_pos [of E] by linarith
  moreover have p: "(2 :: real) powr real_of_int i = 2 powi i" for i by (rule powr_real_of_int') simp_all
  have "2 powr real_of_int E \<le> v" "v < 2 powr (real_of_int E + 1)"
    using assms p [of E] p [of "E + 1"] by simp_all
  ultimately show ?thesis using floor_log_eq_powr_iff [of v 2 E] by simp
qed

section \<open>Word arithmetic of the packing\<close>

lemma prec_bits_bounds: "24 \<le> prec_bits P" "prec_bits P \<le> 64"
  by (cases P; simp)+

lemma i32_wrap_id: "- (2 ^ 31) \<le> x \<Longrightarrow> x < 2 ^ 31 \<Longrightarrow> i32_wrap x = x"
  by (simp add: i32_wrap_def sint_sbintrunc' signed_take_bit_int_eq_self)

lemma uint_drop_bit: "uint (drop_bit n w) = uint w div 2 ^ n"
  unfolding drop_bit_eq_div [symmetric] by (rule bit_eqI) (simp add: bit_unsigned_iff bit_drop_bit_eq)

lemma uint_exp: "n < LENGTH('a) \<Longrightarrow> uint (2 ^ n :: 'a::len word) = 2 ^ n"
  by (rule bit_eqI) (auto simp: bit_uint_iff bit_exp_iff possible_bit_def)

lemma uint_take_bit: "uint (take_bit n w) = uint w mod 2 ^ n"
  unfolding unsigned_take_bit_eq by (rule take_bit_eq_mod)

lemma uint_shift_right_sticky:
  fixes m :: u128
  shows "uint (shift_right_sticky m sh) = uint m div 2 ^ sh OR of_bool (uint m mod 2 ^ sh \<noteq> 0)"
proof -
  have z: "take_bit sh m = 0 \<longleftrightarrow> uint m mod 2 ^ sh = 0" if "sh < 128"
  proof -
    have "take_bit sh m = 0 \<longleftrightarrow> uint (take_bit sh m) = 0" by (simp only: uint_0_iff)
    also have "uint (take_bit sh m) = uint m mod 2 ^ sh" by (rule uint_take_bit)
    finally show ?thesis .
  qed
  have o: "uint (of_bool b :: u128) = of_bool b" for b by (cases b) simp_all
  consider "sh = 0" | "0 < sh" "sh < 128" | "128 \<le> sh" by linarith
  then show ?thesis
  proof cases
    case 2
    then show ?thesis
      by (simp add: shift_right_sticky_def unsigned_or_eq o z uint_drop_bit)
  next
    case 3
    have "uint m < 2 ^ 128" using uint_lt2p [of m] by simp
    also have "(2 :: int) ^ 128 \<le> 2 ^ sh" using 3 by (intro power_increasing) simp_all
    finally have "uint m div 2 ^ sh = 0" "uint m mod 2 ^ sh = uint m" by (simp_all add: div_pos_pos_trivial)
    moreover have "uint m = 0 \<longleftrightarrow> m = 0" by (rule uint_0_iff)
    ultimately show ?thesis using 3 by (simp add: shift_right_sticky_def o)
  qed (simp add: shift_right_sticky_def)
qed

lemma round_up_iff:
  fixes J :: u128
  assumes "p \<le> 64" and "0 < p"
  shows "round_up md sign (ucast (drop_bit (128 - p) J)) (take_bit (128 - p) J) (2 ^ (128 - p - 1)) \<longleftrightarrow>
    (case md of
      Nearest \<Rightarrow> 2 ^ (128 - p - 1) < uint J mod 2 ^ (128 - p) \<or>
        uint J mod 2 ^ (128 - p) = 2 ^ (128 - p - 1) \<and> odd (uint J div 2 ^ (128 - p))
    | ToZero \<Rightarrow> False | PosInf \<Rightarrow> \<not> sign \<and> uint J mod 2 ^ (128 - p) \<noteq> 0
    | NegInf \<Rightarrow> sign \<and> uint J mod 2 ^ (128 - p) \<noteq> 0)"
proof -
  define k where "k = 128 - p"
  have k: "64 \<le> k" "k < 128" using assms by (simp_all add: k_def)
  have r: "uint (take_bit k J) = uint J mod 2 ^ k"
    by (rule uint_take_bit)
  have h: "uint (2 ^ (k - 1) :: u128) = 2 ^ (k - 1)"
    using k by (intro uint_exp) simp
  have n: "take_bit k J = 0 \<longleftrightarrow> uint J mod 2 ^ k = 0"
    by (simp only: uint_0_iff [symmetric] r)
  have one: "q AND 1 = 1 \<longleftrightarrow> odd q" for q :: u64
    by (simp add: and_one_eq mod_2_eq_odd)
  have o: "odd (ucast (drop_bit k J) :: u64) \<longleftrightarrow> odd (uint J div 2 ^ k)"
  proof -
    have "odd (ucast (drop_bit k J) :: u64) \<longleftrightarrow> bit (drop_bit k J) 0"
      by (simp add: bit_0 [symmetric] bit_ucast_iff)
    also have "\<dots> \<longleftrightarrow> bit (uint J) k" by (simp only: bit_drop_bit_eq bit_uint_iff o_apply) (use k in simp)
    also have "\<dots> \<longleftrightarrow> odd (uint J div 2 ^ k)" by (simp add: bit_iff_odd)
    finally show ?thesis .
  qed
  show ?thesis
    unfolding k_def [symmetric] round_up_def one o n
    by (cases md) (simp_all add: word_less_def word_uint_eq_iff r h h [unfolded One_nat_def])
qed

text \<open>The value of a packed significand.\<close>

lemma fmag_packed:
  assumes "0 \<le> b" and "b \<le> 0x7FFE"
  shows "fmag \<lparr> mantissa = m, sign_exp = sign_bits s OR word_of_int b \<rparr> =
      of_int (uint m) * 2 powi (max 1 b - 16446)"
    and "finite80 \<lparr> mantissa = m, sign_exp = sign_bits s OR word_of_int b \<rparr>"
    and "fsign \<lparr> mantissa = m, sign_exp = sign_bits s OR word_of_int b \<rparr> = s"
    and "biased_exp \<lparr> mantissa = m, sign_exp = sign_bits s OR word_of_int b \<rparr> = word_of_int b"
proof -
  have e: "word_of_int b = (word_of_nat (nat b) :: u16)" using assms(1) by simp
  have n: "nat b \<le> 0x7FFF" "nat b \<noteq> 0x7FFF" using assms by simp_all
  have u: "unat (word_of_nat (nat b) :: u16) = nat b" by (rule unat_small16 [OF n(1)])
  show "fmag \<lparr> mantissa = m, sign_exp = sign_bits s OR word_of_int b \<rparr> =
      of_int (uint m) * 2 powi (max 1 b - 16446)"
    unfolding fmag_def e packed_fields(2) [OF n(1)] u using assms(1) by simp
  show "fsign \<lparr> mantissa = m, sign_exp = sign_bits s OR word_of_int b \<rparr> = s"
    unfolding e by (rule packed_fields(1) [OF n(1)])
  show "biased_exp \<lparr> mantissa = m, sign_exp = sign_bits s OR word_of_int b \<rparr> = word_of_int b"
    unfolding e by (rule packed_fields(2) [OF n(1)])
  have "unat (word_of_nat (nat b) :: u16) \<noteq> unat (0x7FFF :: u16)" unfolding u using n(2) by simp
  then show "finite80 \<lparr> mantissa = m, sign_exp = sign_bits s OR word_of_int b \<rparr>"
    unfolding finite80_def e packed_fields(2) [OF n(1)] by metis
qed

text \<open>
  The second half of the path: \<open>J\<close> is the significand after denormalising, \<open>b\<close> the biased
  exponent, \<open>R\<close> what rounding its top \<open>p\<close> bits gives.
\<close>

definition pack_rounded :: "bool \<Rightarrow> int \<Rightarrow> u128 \<Rightarrow> round_ctx \<Rightarrow> u8 \<Rightarrow> float_x80 \<times> u8" where
  "pack_rounded sign biased m ctx f =
     (let p = prec_bits (prec ctx); shift = 128 - p;
          q = ucast (drop_bit shift m) :: u64; rm = take_bit shift m;
          f = (if rm \<noteq> 0 then raise_flags INEX2 f else f);
          q = ucast q :: u128;
          (q, biased) =
            (if round_up (mode ctx) sign (ucast q) rm (2 ^ (shift - 1)) then
               let q = q + 1 in if drop_bit p q \<noteq> 0 then (drop_bit 1 q, biased + 1) else (q, biased)
             else (q, biased))
      in if \<not> bit q (p - 1) then
           if q = 0 then (fzero sign, f)
           else (\<lparr> mantissa = push_bit (64 - p) (ucast q), sign_exp = sign_bits sign \<rparr>,
                 if rm \<noteq> 0 then raise_flags UNFL f else f)
         else if 0x7FFF \<le> biased then
           (overflow_result sign (mode ctx), raise_flags INEX2 (raise_flags OVFL f))
         else
           (\<lparr> mantissa = push_bit (64 - p) (ucast q), sign_exp = sign_bits sign OR word_of_int biased \<rparr>, f))"

lemma round_pack_split:
  assumes "m \<noteq> 0" and "- (2 ^ 30) \<le> e" and "e \<le> 2 ^ 30"
  shows "round_pack sign e m ctx f =
    (let lz = leading_zeros m; b = e - int lz + 16383
     in pack_rounded sign (max 1 b) (shift_right_sticky (push_bit lz m) (nat (1 - b))) ctx f)"
proof -
  have "leading_zeros m < 128" using leading_zeros_top(1) [OF assms(1)] by simp
  then have w: "i32_wrap (e - int (leading_zeros m) + 16383) = e - int (leading_zeros m) + 16383"
    using assms(2,3) by (intro i32_wrap_id) simp_all
  show ?thesis
  proof (cases "e - int (leading_zeros m) + 16383 < 1")
    case True
    then have "max 1 (e - int (leading_zeros m) + 16383) = 1" by simp
    with True assms(1) show ?thesis unfolding round_pack_def pack_rounded_def Let_def w by simp
  next
    case False
    then have "max 1 (e - int (leading_zeros m) + 16383) = e - int (leading_zeros m) + 16383"
      "nat (1 - (e - int (leading_zeros m) + 16383)) = 0" by simp_all
    with False assms(1) show ?thesis
      unfolding round_pack_def pack_rounded_def Let_def w shift_right_sticky_def by simp
  qed
qed

lemma pack_rounded_eq:
  fixes J :: u128 and ctx :: round_ctx and b :: int and f :: u8 and sign :: bool
  defines "p \<equiv> prec_bits (prec ctx)"
  defines "R \<equiv> rnd (mode ctx) sign (of_int (uint J) / 2 ^ (128 - p))"
  defines "Q \<equiv> (if R = 2 ^ p then 2 ^ (p - 1) else R)"
  defines "c \<equiv> b + of_bool (R = 2 ^ p)"
  defines "f' \<equiv> (if uint J mod 2 ^ (128 - p) \<noteq> 0 then f OR INEX2 else f)"
  shows "pack_rounded sign b J ctx f =
    (if Q < 2 ^ (p - 1) then
       if Q = 0 then (fzero sign, f')
       else (\<lparr> mantissa = push_bit (64 - p) (word_of_int Q), sign_exp = sign_bits sign \<rparr>,
             if uint J mod 2 ^ (128 - p) \<noteq> 0 then f' OR UNFL else f')
     else if 0x7FFF \<le> c then (overflow_result sign (mode ctx), (f' OR OVFL) OR INEX2)
     else (\<lparr> mantissa = push_bit (64 - p) (word_of_int Q), sign_exp = sign_bits sign OR word_of_int c \<rparr>, f'))"
    and "0 \<le> R" and "R \<le> 2 ^ p"
proof -
  have p: "24 \<le> p" "p \<le> 64" by (simp_all add: p_def prec_bits_bounds)
  define q where "q = uint J div 2 ^ (128 - p)"
  define up where "up \<longleftrightarrow> round_up (mode ctx) sign (ucast (drop_bit (128 - p) J)) (take_bit (128 - p) J) (2 ^ (128 - p - 1))"
  have q: "0 \<le> q" "q < 2 ^ p"
  proof -
    have "uint J < 2 ^ 128" using uint_lt2p [of J] by simp
    also have "(2 :: int) ^ 128 = 2 ^ p * 2 ^ (128 - p)" using p by (simp flip: power_add)
    finally have "uint J < 2 ^ p * 2 ^ (128 - p)" .
    moreover have "uint J = q * 2 ^ (128 - p) + uint J mod 2 ^ (128 - p)"
      unfolding q_def by (rule div_mult_mod_eq [symmetric])
    moreover have "0 \<le> uint J mod 2 ^ (128 - p)" by simp
    ultimately have "q * 2 ^ (128 - p) < 2 ^ p * 2 ^ (128 - p)" by linarith
    then show "q < 2 ^ p" by simp
    show "0 \<le> q" unfolding q_def by (simp add: pos_imp_zdiv_nonneg_iff)
  qed
  have R: "R = q + of_bool up"
  proof -
    have "0 < p" "0 < 128 - p" using p by simp_all
    then show ?thesis
      unfolding R_def q_def up_def round_up_iff [OF p(2) \<open>0 < p\<close>] by (intro rnd_quotient(1))
  qed
  show bounds: "0 \<le> R" "R \<le> 2 ^ p" using q unfolding R by (cases up; simp)+
  define w :: u128 where "w = ucast (ucast (drop_bit (128 - p) J) :: u64)"
  have two: "(2 :: int) ^ p = 2 * 2 ^ (p - 1)" using p by (cases p) simp_all
  have lim: "(2 :: int) ^ p \<le> 2 ^ 64" using p by (intro power_increasing) simp_all
  have "uint (drop_bit (128 - p) J) = q" by (simp add: uint_drop_bit q_def)
  moreover have "uint w = uint (drop_bit (128 - p) J) mod 2 ^ 64"
    unfolding w_def by (simp only: unsigned_ucast_eq uint_take_bit) (simp add: uint_take_bit take_bit_eq_mod mod_mod_cancel)
  ultimately have "uint w = q" using q lim by simp
  then have w: "w = word_of_int q" by (metis word_of_int_uint)
  have Q: "0 \<le> Q" "Q < 2 ^ p" using bounds two by (auto simp: Q_def)
  have wo: "uint (word_of_int i :: u128) = i" if "0 \<le> i" "i \<le> 2 ^ p" for i
    using that lim by (simp add: uint_word_of_int_eq take_bit_int_eq_self)
  have pair: "(if up then let q' = w + 1 in if drop_bit p q' \<noteq> 0 then (drop_bit 1 q', b + 1) else (q', b) else (w, b)) =
      (word_of_int Q, c)"
  proof (cases up)
    case False
    then show ?thesis using q by (simp add: w Q_def c_def R)
  next
    case True
    have s: "w + 1 = word_of_int R" using True by (simp add: w R)
    have d: "drop_bit p (word_of_int R :: u128) \<noteq> 0 \<longleftrightarrow> R = 2 ^ p"
    proof -
      have "drop_bit p (word_of_int R :: u128) = 0 \<longleftrightarrow> R div 2 ^ p = 0"
        by (simp only: uint_0_iff [symmetric] uint_drop_bit wo [OF bounds])
      also have "\<dots> \<longleftrightarrow> R < 2 ^ p" using bounds by (cases "R = 2 ^ p") (auto simp: div_pos_pos_trivial)
      finally show ?thesis using bounds by auto
    qed
    have "drop_bit 1 (word_of_int (2 ^ p) :: u128) = word_of_int (2 ^ (p - 1))"
    proof -
      have "uint (drop_bit 1 (word_of_int (2 ^ p) :: u128)) = 2 ^ (p - 1)"
        by (simp only: uint_drop_bit wo [OF _ order.refl] zero_le_power zero_le_numeral) (simp add: two)
      also have "\<dots> = uint (word_of_int (2 ^ (p - 1)) :: u128)" using two by (subst wo) simp_all
      finally show ?thesis by (simp only: word_uint_eq_iff)
    qed
    with True d show ?thesis unfolding s Let_def by (simp add: Q_def c_def)
  qed
  have b: "bit (word_of_int Q :: u128) (p - 1) \<longleftrightarrow> \<not> Q < 2 ^ (p - 1)"
  proof -
    have "bit (word_of_int Q :: u128) (p - 1) \<longleftrightarrow> bit (uint (word_of_int Q :: u128)) (p - 1)"
      using p by (auto simp: bit_uint_iff)
    also have "uint (word_of_int Q :: u128) = Q" using Q by (intro wo) simp_all
    also have "bit Q (p - 1) \<longleftrightarrow> 2 ^ (p - 1) \<le> Q" using Q p by (intro bit_top_iff) simp_all
    finally show ?thesis by (simp add: not_less)
  qed
  have z: "(word_of_int Q :: u128) = 0 \<longleftrightarrow> Q = 0" using Q by (simp only: uint_0_iff [symmetric] wo)
  have u: "ucast (word_of_int Q :: u128) = (word_of_int Q :: u64)"
    by (rule bit_word_eqI) (simp add: bit_ucast_iff bit_word_of_int_iff)
  have r: "take_bit (128 - p) J \<noteq> 0 \<longleftrightarrow> uint J mod 2 ^ (128 - p) \<noteq> 0"
    by (simp only: uint_0_iff [symmetric] uint_take_bit)
  have "ucast w = (ucast (drop_bit (128 - p) J) :: u64)"
    unfolding w_def by (rule bit_word_eqI) (simp add: bit_ucast_iff)
  then have upw: "round_up (mode ctx) sign (ucast w) (take_bit (128 - p) J) (2 ^ (128 - p - 1)) = up"
    unfolding up_def by (rule arg_cong)
  show "pack_rounded sign b J ctx f =
    (if Q < 2 ^ (p - 1) then
       if Q = 0 then (fzero sign, f')
       else (\<lparr> mantissa = push_bit (64 - p) (word_of_int Q), sign_exp = sign_bits sign \<rparr>,
             if uint J mod 2 ^ (128 - p) \<noteq> 0 then f' OR UNFL else f')
     else if 0x7FFF \<le> c then (overflow_result sign (mode ctx), (f' OR OVFL) OR INEX2)
     else (\<lparr> mantissa = push_bit (64 - p) (word_of_int Q), sign_exp = sign_bits sign OR word_of_int c \<rparr>, f'))"
  proof -
    have "pack_rounded sign b J ctx f =
      (case (if up then let q' = w + 1 in if drop_bit p q' \<noteq> 0 then (drop_bit 1 q', b + 1) else (q', b) else (w, b)) of
        (q, biased) \<Rightarrow>
          if \<not> bit q (p - 1) then
            if q = 0 then (fzero sign, f')
            else (\<lparr> mantissa = push_bit (64 - p) (ucast q), sign_exp = sign_bits sign \<rparr>,
                  if uint J mod 2 ^ (128 - p) \<noteq> 0 then f' OR UNFL else f')
          else if 0x7FFF \<le> biased then (overflow_result sign (mode ctx), (f' OR OVFL) OR INEX2)
          else (\<lparr> mantissa = push_bit (64 - p) (ucast q), sign_exp = sign_bits sign OR word_of_int biased \<rparr>, f'))"
      unfolding pack_rounded_def Let_def p_def [symmetric] w_def [symmetric] upw r
        raise_flags_def f'_def by (rule refl)
    then show ?thesis unfolding pair prod.case b u z by (simp only: not_not)
  qed
qed

text \<open>
  How closely the 128-bit significand has to agree with the exact one: to half a unit of the
  last place kept when rounding to nearest, to a whole unit otherwise.
\<close>

definition rounding_grid :: "round_ctx \<Rightarrow> nat" where
  "rounding_grid ctx = 127 - prec_bits (prec ctx) + of_bool (mode ctx \<noteq> Nearest)"

lemma rounding_grid_ge: "63 \<le> rounding_grid ctx"
  using prec_bits_bounds(2) [of "prec ctx"] by (simp add: rounding_grid_def)

lemma uint_packed_significand:
  assumes "0 \<le> Q" and "Q < 2 ^ p" and "p \<le> 64"
  shows "uint (push_bit (64 - p) (word_of_int Q) :: u64) = Q * 2 ^ (64 - p)"
proof -
  have "Q * 2 ^ (64 - p) < 2 ^ p * 2 ^ (64 - p)" using assms(2) by simp
  also have "(2 :: int) ^ p * 2 ^ (64 - p) = 2 ^ 64" using assms(3) by (simp flip: power_add)
  finally have l: "Q * 2 ^ (64 - p) < 2 ^ 64" .
  have "push_bit (64 - p) (word_of_int Q) = (word_of_int (Q * 2 ^ (64 - p)) :: u64)"
    by (simp add: push_bit_eq_mult)
  show ?thesis
    unfolding \<open>push_bit (64 - p) (word_of_int Q) = word_of_int (Q * 2 ^ (64 - p))\<close> uint_word_of_int_eq
    using l assms(1) by (intro take_bit_int_eq_self) simp_all
qed

lemma or_again: "((f OR a) OR b) OR a = (f OR b) OR (a :: u8)"
  by (rule bit_word_eqI) (auto simp: bit_or_iff)

lemma rounds_to_finite:
  assumes "round_real (mode ctx) sign (prec_bits (prec ctx)) v = w" and "w < 2 ^ 16384"
    and "finite80 x" and "fsign x = sign" and "fmag x = w" and "w \<noteq> v \<longleftrightarrow> i"
    and "i \<and> 0 < w \<and> w < 2 powi (-16382) \<longleftrightarrow> u"
    and "fl = (f OR (if i then INEX2 else 0)) OR (if u then UNFL else 0)"
  shows "rounds_to sign v ctx f (x, fl)"
  unfolding rounds_to_def Let_def assms(1) if_P [OF assms(2)] fst_conv snd_conv
  by (simp only: assms(3-8) simp_thms)

lemma rounds_to_overflow:
  assumes "round_real (mode ctx) sign (prec_bits (prec ctx)) v = w" and "\<not> w < 2 ^ 16384"
    and "fl = (f OR OVFL) OR INEX2"
  shows "rounds_to sign v ctx f (overflow_result sign (mode ctx), fl)"
  unfolding rounds_to_def Let_def assms(1) if_not_P [OF assms(2)] fst_conv snd_conv assms(3) by simp

lemma pack_rounded_rounds:
  fixes J :: u128 and x :: real
  assumes "1 \<le> b" and "b = 1 \<or> 2 ^ 127 \<le> uint J" and "agree (2 ^ rounding_grid ctx) (of_int (uint J)) x"
    and v: "v = x / 2 ^ (128 - prec_bits (prec ctx)) * 2 powi (b - 16382 - int (prec_bits (prec ctx)))"
    and ulp: "ulp_exp (prec_bits (prec ctx)) v = b - 16382 - int (prec_bits (prec ctx))"
  shows "rounds_to sign v ctx f (pack_rounded sign b J ctx f)"
proof -
  define p where "p = prec_bits (prec ctx)"
  define T where "T = b - 16382 - int p"
  define k where "k = 128 - p"
  define R where "R = rnd (mode ctx) sign (of_int (uint J) / 2 ^ k)"
  define Q where "Q = (if R = 2 ^ p then 2 ^ (p - 1) else R)"
  define c where "c = b + of_bool (R = 2 ^ p)"
  define rm where "rm \<longleftrightarrow> uint J mod 2 ^ k \<noteq> 0"
  define w where "w = round_real (mode ctx) sign p v"
  have p: "24 \<le> p" "p \<le> 64" by (simp_all add: p_def prec_bits_bounds)
  have k: "64 \<le> k" "k < 128" using p by (simp_all add: k_def)
  note eq = pack_rounded_eq(1) [where sign = sign and b = b and J = J and ctx = ctx and f = f,
    folded p_def, folded k_def, folded R_def, folded Q_def c_def rm_def]
  note bounds = pack_rounded_eq(2,3) [where sign = sign and J = J and ctx = ctx, folded p_def, folded k_def, folded R_def]
  have two: "(2 :: int) ^ p = 2 * 2 ^ (p - 1)" using p by (cases p) simp_all
  have half: "agree (if mode ctx = Nearest then 1 / 2 else 1) (of_int (uint J) / 2 ^ k) (x / 2 ^ k)"
  proof -
    have "agree (2 ^ rounding_grid ctx * (1 / 2 ^ k)) (of_int (uint J) * (1 / 2 ^ k)) (x * (1 / 2 ^ k))"
      using assms(3) by (rule agree_scale) simp
    moreover have "2 ^ rounding_grid ctx * (1 / 2 ^ k) = (if mode ctx = Nearest then 1 / 2 else 1 :: real)"
    proof -
      have g: "rounding_grid ctx = k - 1 + of_bool (mode ctx \<noteq> Nearest)"
        by (simp add: rounding_grid_def k_def p_def)
      have "(2 :: real) ^ k = 2 * 2 ^ (k - 1)" using k by (cases k) simp_all
      then show ?thesis unfolding g by simp
    qed
    ultimately show ?thesis by (simp only: times_divide_eq_right mult_1_right)
  qed
  have vT: "v / 2 powi T = x / 2 ^ k" unfolding v p_def [symmetric] k_def [symmetric] T_def by simp
  have ulp': "ulp_exp p v = T" using ulp by (simp add: p_def T_def)
  have w: "w = of_int R * 2 powi T"
    unfolding w_def round_real_def ulp' vT R_def using agree_rnd(1) [OF half] by simp
  have "0 < k" using k by simp
  note Rq = rnd_quotient(1) [of k "mode ctx" sign "uint J", OF \<open>0 < k\<close>, folded R_def]
  have inexact: "w \<noteq> v \<longleftrightarrow> rm"
  proof -
    have "w = v \<longleftrightarrow> x / 2 ^ k = of_int R"
      using vT pow2_pos [of T] unfolding w by (auto simp: field_simps)
    also have "\<dots> \<longleftrightarrow> of_int (uint J) / (2 ^ k :: real) = of_int R" using agree_rnd(2) [OF half] by simp
    also have "\<dots> \<longleftrightarrow> uint J mod 2 ^ k = 0 \<and> uint J div 2 ^ k = R"
      using k by (intro rnd_quotient(2)) simp
    also have "\<dots> \<longleftrightarrow> \<not> rm"
      using Rq by (auto simp: rm_def split: round_mode.splits)
    finally show ?thesis by simp
  qed
  have Q: "0 \<le> Q" "Q < 2 ^ p" using bounds two by (auto simp: Q_def)
  have wQ: "w = of_int Q * 2 powi (c - 16382 - int p)"
  proof (cases "R = 2 ^ p")
    case True
    have "(2 :: real) ^ p = 2 * 2 ^ (p - 1)" using p by (cases p) simp_all
    moreover have e: "c - 16382 - int p = T + 1" using True by (simp add: c_def T_def)
    ultimately show ?thesis unfolding w e pow2_add using True by (simp add: Q_def)
  qed (simp add: w Q_def c_def T_def)
  have top: "w < 2 powi (c - 16382)"
  proof -
    have "real_of_int Q < 2 ^ p" using Q(2) by (metis of_int_less_iff of_int_numeral of_int_power)
    then have "w < 2 ^ p * 2 powi (c - 16382 - int p)" unfolding wQ by simp
    also have "\<dots> = 2 powi (c - 16382)" by (rule pow2_mult) simp
    finally show ?thesis .
  qed
  have word: "fmag \<lparr> mantissa = push_bit (64 - p) (word_of_int Q), sign_exp = sign_bits sign OR word_of_int e \<rparr> = w"
    if "0 \<le> e" "e \<le> 0x7FFE" "max 1 e = c" for e
  proof -
    have "of_int (Q * 2 ^ (64 - p)) * 2 powi (c - 16446) = of_int Q * (2 ^ (64 - p) * 2 powi (c - 16446) :: real)"
      by simp
    also have "(2 :: real) ^ (64 - p) * 2 powi (c - 16446) = 2 powi (c - 16382 - int p)"
      using p by (intro pow2_mult) simp
    finally show ?thesis
      unfolding fmag_packed(1) [OF that(1,2)] that(3) uint_packed_significand [OF Q p(2)] wQ .
  qed
  show ?thesis
  proof (cases "Q < 2 ^ (p - 1)")
    case True
    have "\<not> 2 ^ 127 \<le> uint J"
    proof
      assume "2 ^ 127 \<le> uint J"
      then have "2 ^ 127 div 2 ^ k \<le> uint J div 2 ^ k" by (intro zdiv_mono1) simp_all
      also have "(2 :: int) ^ 127 div 2 ^ k = 2 ^ (p - 1)"
      proof -
        have "p - 1 + k = 127" using p by (simp add: k_def)
        then have e: "(2 :: int) ^ 127 = 2 ^ (p - 1) * 2 ^ k" by (metis power_add)
        show ?thesis unfolding e by simp
      qed
      also have "uint J div 2 ^ k \<le> R" unfolding Rq by simp
      finally show False using True by (auto simp: Q_def split: if_splits)
    qed
    then have b: "b = 1" "R \<noteq> 2 ^ p" "c = 1" using assms(2) True by (auto simp: Q_def c_def)
    have small: "w < 2 powi (-16382)"
    proof -
      have "real_of_int Q < 2 ^ (p - 1)" using True by (metis of_int_less_iff of_int_numeral of_int_power)
      then have "w < 2 ^ (p - 1) * 2 powi (c - 16382 - int p)" unfolding wQ by simp
      also have "\<dots> = 2 powi (-16382)" using p b by (intro pow2_mult) simp
      finally show ?thesis .
    qed
    also have "(2 :: real) powi (-16382) < 2 powi 16384" unfolding pow2_less by simp
    also have "(2 :: real) powi 16384 = 2 ^ 16384" using pow2_nat [of 16384] by (simp only: of_nat_numeral)
    finally have lim: "w < 2 ^ 16384" .
    have pos: "0 < w \<longleftrightarrow> Q \<noteq> 0" using Q(1) by (auto simp: wQ zero_less_mult_iff)
    have packed: "\<lparr> mantissa = push_bit (64 - p) (word_of_int Q), sign_exp = sign_bits sign \<rparr> =
        \<lparr> mantissa = push_bit (64 - p) (word_of_int Q), sign_exp = sign_bits sign OR word_of_int 0 \<rparr>" by simp
    have zero: "fzero sign = \<lparr> mantissa = push_bit (64 - p) (word_of_int Q), sign_exp = sign_bits sign OR word_of_int 0 \<rparr>"
      if "Q = 0" using that by (simp add: fzero_def)
    have r: "pack_rounded sign b J ctx f =
        (\<lparr> mantissa = push_bit (64 - p) (word_of_int Q), sign_exp = sign_bits sign OR word_of_int 0 \<rparr>,
         (f OR (if rm then INEX2 else 0)) OR (if rm \<and> Q \<noteq> 0 then UNFL else 0))"
      unfolding eq packed using True zero by (cases "Q = 0"; cases rm) simp_all
    show ?thesis
      unfolding r
    proof (rule rounds_to_finite [OF w_def [symmetric, unfolded p_def] lim fmag_packed(2,3) word inexact])
      show "rm \<and> 0 < w \<and> w < 2 powi (-16382) \<longleftrightarrow> rm \<and> Q \<noteq> 0" using small by (simp only: pos simp_thms)
    qed (use b(3) in \<open>simp_all\<close>)
  next
    case False
    then have "real_of_int (2 ^ (p - 1)) \<le> of_int Q" by (simp only: of_int_le_iff not_less)
    then have "2 ^ (p - 1) * 2 powi (c - 16382 - int p) \<le> w" unfolding wQ by simp
    moreover have "(2 :: real) ^ (p - 1) * 2 powi (c - 16382 - int p) = 2 powi (c - 16383)"
      using p by (intro pow2_mult) simp
    ultimately have low: "2 powi (c - 16383) \<le> w" by simp
    have c: "1 \<le> c" using assms(1) by (simp add: c_def)
    have lim: "(2 :: real) ^ 16384 = 2 powi 16384" using pow2_nat [of 16384] by (simp only: of_nat_numeral)
    have big: "w < 2 ^ 16384 \<longleftrightarrow> c < 0x7FFF"
    proof
      assume "w < 2 ^ 16384"
      with low have "(2 :: real) powi (c - 16383) < 2 powi 16384" unfolding lim by (rule order.strict_trans1)
      then show "c < 0x7FFF" unfolding pow2_less by simp
    next
      assume "c < 0x7FFF"
      then have "(2 :: real) powi (c - 16382) \<le> 2 powi 16384" unfolding pow2_le by simp
      with top show "w < 2 ^ 16384" unfolding lim by (rule order.strict_trans2)
    qed
    have "(2 :: real) powi (-16382) \<le> 2 powi (c - 16383)" using c unfolding pow2_le by simp
    with low have nounfl: "\<not> w < 2 powi (-16382)" by linarith
    show ?thesis
    proof (cases "c < 0x7FFF")
      case True
      have r: "pack_rounded sign b J ctx f =
          (\<lparr> mantissa = push_bit (64 - p) (word_of_int Q), sign_exp = sign_bits sign OR word_of_int c \<rparr>,
           (f OR (if rm then INEX2 else 0)) OR (if False then UNFL else 0))"
        unfolding eq using True False by (cases rm) simp_all
      have lt: "w < 2 ^ 16384" using True by (simp only: big)
      show ?thesis
        unfolding r
      proof (rule rounds_to_finite [OF w_def [symmetric, unfolded p_def] lt fmag_packed(2,3) word inexact])
        show "rm \<and> 0 < w \<and> w < 2 powi (-16382) \<longleftrightarrow> False" by (simp only: nounfl simp_thms)
      qed (use c True in \<open>simp_all\<close>)
    next
      case over: False
      have r: "pack_rounded sign b J ctx f = (overflow_result sign (mode ctx), (f OR OVFL) OR INEX2)"
        unfolding eq using over False or_again [of f INEX2 OVFL] by (cases rm) simp_all
      have ge: "\<not> w < 2 ^ 16384" using over unfolding big .
      show ?thesis
        unfolding r by (rule rounds_to_overflow [OF w_def [symmetric, unfolded p_def] ge refl])
    qed
  qed
qed

lemma round_pack_rounds:
  fixes m :: u128
  assumes m: "m \<noteq> 0" and e: "- (2 ^ 30) \<le> e" "e \<le> 2 ^ 30"
    and x: "agree (2 ^ rounding_grid ctx) (of_int (uint m * 2 ^ leading_zeros m)) x"
    and v: "v = x * 2 powi (e - int (leading_zeros m) - 127)"
  shows "rounds_to sign v ctx f (round_pack sign e m ctx f)"
proof -
  define lz where "lz = leading_zeros m"
  define M where "M = push_bit lz m"
  define E where "E = e - int lz"
  define b where "b = E + 16383"
  define sh where "sh = nat (1 - b)"
  define p where "p = prec_bits (prec ctx)"
  have p: "24 \<le> p" "p \<le> 64" by (simp_all add: p_def prec_bits_bounds)
  have uM: "uint M = uint m * 2 ^ lz" and low: "2 ^ 127 \<le> uint M"
    using normalized [OF m] by (simp_all add: M_def lz_def)
  have high: "uint M < 2 ^ 128" using uint_lt2p [of M] by simp
  have xM: "agree (2 ^ rounding_grid ctx) (of_int (uint M)) x" using x by (simp only: uM lz_def)
  have xb: "2 ^ 127 \<le> x" "x < 2 ^ 128"
  proof -
    have l: "real_of_int (2 ^ 127) \<le> of_int (uint M)" "real_of_int (uint M) < of_int (2 ^ 128)"
      using low high by (simp_all only: of_int_le_iff of_int_less_iff)
    have g: "rounding_grid ctx \<le> 127" using prec_bits_bounds(1) [of "prec ctx"]
      by (cases "mode ctx = Nearest") (simp_all add: rounding_grid_def)
    define i :: int where "i = 2 ^ (127 - rounding_grid ctx)"
    have i: "real_of_int i * 2 ^ rounding_grid ctx = 2 ^ 127"
    proof -
      have "real_of_int i * 2 ^ rounding_grid ctx = 2 ^ (127 - rounding_grid ctx + rounding_grid ctx)"
        unfolding power_add by (simp add: i_def)
      then show ?thesis using g by simp
    qed
    have c: "real_of_int (2 * i) * 2 ^ rounding_grid ctx = 2 ^ 128" using i by simp
    show "2 ^ 127 \<le> x" "x < 2 ^ 128"
      using agree_less [OF xM, of i] agree_less [OF xM, of "2 * i"] l unfolding c i by (simp_all add: not_less)
  qed
  have vE: "v = x * 2 powi (E - 127)" by (simp only: v E_def lz_def)
  have binade: "2 powi E \<le> v" "v < 2 powi (E + 1)"
  proof -
    have "(2 :: real) ^ 127 * 2 powi (E - 127) = 2 powi E" "(2 :: real) ^ 128 * 2 powi (E - 127) = 2 powi (E + 1)"
      by (rule pow2_mult; simp)+
    then show "2 powi E \<le> v" "v < 2 powi (E + 1)" unfolding vE using xb by (metis mult_le_cancel_right_pos mult_less_cancel_right_pos pow2_pos)+
  qed
  have E: "max E (-16382) = max 1 b - 16383" and sb: "int sh = max 1 b - b"
    by (simp_all add: b_def sh_def)
  have ulp: "ulp_exp p v = max 1 b - 16382 - int p"
    unfolding ulp_exp_def binade_eq [OF binade] E using p by simp
  have J: "agree (2 ^ rounding_grid ctx) (of_int (uint (shift_right_sticky M sh))) (x / 2 ^ sh)"
  proof (cases "sh = 0")
    case True
    then show ?thesis using xM by (simp add: shift_right_sticky_def)
  next
    case False
    have "sticky (uint (shift_right_sticky M sh)) (of_int (uint M) / 2 ^ sh)"
      unfolding uint_shift_right_sticky by (rule sticky_quotient) simp
    then have "agree (2 ^ 1) (of_int (uint (shift_right_sticky M sh))) (of_int (uint M) / 2 ^ sh)"
      unfolding power_one_right by (rule sticky_agree)
    then have "agree (2 ^ rounding_grid ctx) (of_int (uint (shift_right_sticky M sh))) (of_int (uint M) / 2 ^ sh)"
      by (rule agree_pow2) (use rounding_grid_ge [of ctx] in simp)
    moreover have "agree (2 ^ rounding_grid ctx) (of_int (uint M) / 2 ^ sh) (x / 2 ^ sh)"
      using agree_multiple [OF agree_scale [OF xM, of "1 / 2 ^ sh"], of "2 ^ sh"] by simp
    ultimately show ?thesis by (rule agree_trans)
  qed
  have top: "max 1 b = 1 \<or> 2 ^ 127 \<le> uint (shift_right_sticky M sh)"
  proof (cases "sh = 0")
    case True
    then show ?thesis using low by (simp add: shift_right_sticky_def)
  qed (simp add: sh_def max_def)
  have vT: "v = x / 2 ^ sh / 2 ^ (128 - p) * 2 powi (max 1 b - 16382 - int p)"
  proof -
    have "(2 :: real) ^ (sh + (128 - p)) * 2 powi (E - 127) = 2 powi (max 1 b - 16382 - int p)"
      using p sb by (intro pow2_mult) (simp add: b_def)
    then show ?thesis unfolding vE by (simp add: power_add field_simps)
  qed
  have rp: "round_pack sign e m ctx f = pack_rounded sign (max 1 b) (shift_right_sticky M sh) ctx f"
    unfolding round_pack_split [OF m e] Let_def M_def sh_def b_def E_def lz_def ..
  show ?thesis
    unfolding rp by (rule pack_rounded_rounds [OF _ top J vT [unfolded p_def] ulp [unfolded p_def]]) simp
qed

corollary round_pack_exact:
  assumes "- (2 ^ 30) \<le> e" and "e \<le> 2 ^ 30"
  shows "rounds_to sign (of_int (uint m) * 2 powi (e - 127)) ctx f (round_pack sign e m ctx f)"
proof (cases "m = 0")
  case True
  have "\<lfloor>0 :: real\<rfloor> = 0" by simp
  then have w: "round_real (mode ctx) sign (prec_bits (prec ctx)) 0 = 0"
    by (simp add: round_real_def rnd_def split: round_mode.split)
  have z: "fzero sign = \<lparr> mantissa = 0, sign_exp = sign_bits sign OR word_of_int 0 \<rparr>" by (simp add: fzero_def)
  have "rounds_to sign 0 ctx f (fzero sign, f)"
    by (rule rounds_to_finite [OF w, where i = False and u = False]) (simp_all add: z fmag_packed del: word_of_int_0 of_int_0)
  then show ?thesis using True by (simp add: round_pack_def)
next
  case False
  have "real_of_int (2 ^ leading_zeros m) * 2 powi (e - int (leading_zeros m) - 127) = 2 powi (e - 127)"
    by (simp only: of_int_power of_int_numeral) (rule pow2_mult, simp)
  then show ?thesis
    by (intro round_pack_rounds [OF False assms agree_refl]) (simp add: mult.assoc)
qed

corollary round_pack_sticky:
  fixes m :: u128
  assumes "- (2 ^ 30) \<le> e" and "e \<le> 2 ^ 30" and "2 ^ 65 \<le> uint m" and "sticky (uint m) x"
  shows "rounds_to sign (x * 2 powi (e - 127)) ctx f (round_pack sign e m ctx f)"
proof -
  have m: "m \<noteq> 0" using assms(3) by auto
  have lz: "leading_zeros m \<le> 62"
  proof (rule ccontr)
    assume "\<not> leading_zeros m \<le> 62"
    then have "(2 :: int) ^ (128 - leading_zeros m) \<le> 2 ^ 65" by (intro power_increasing) simp_all
    with leading_zeros_bounds(2) [OF m] assms(3) show False by simp
  qed
  have "agree (2 ^ 1) (of_int (uint m)) x" unfolding power_one_right by (rule sticky_agree [OF assms(4)])
  then have "agree (2 ^ 1 * 2 ^ leading_zeros m) (of_int (uint m) * 2 ^ leading_zeros m) (x * 2 ^ leading_zeros m)"
    by (rule agree_scale) simp
  then have "agree (2 ^ Suc (leading_zeros m)) (of_int (uint m * 2 ^ leading_zeros m)) (x * 2 ^ leading_zeros m)"
    by simp
  then have a: "agree (2 ^ rounding_grid ctx) (of_int (uint m * 2 ^ leading_zeros m)) (x * 2 ^ leading_zeros m)"
    by (rule agree_pow2) (use lz rounding_grid_ge [of ctx] in simp)
  have "(2 :: real) ^ leading_zeros m * 2 powi (e - int (leading_zeros m) - 127) = 2 powi (e - 127)"
    by (rule pow2_mult) simp
  then show ?thesis
    by (intro round_pack_rounds [OF m assms(1,2) a]) (simp add: mult.assoc)
qed

end
