(* ===== verification/Float_Arith.thy ===== *)
theory Float_Arith
  imports Softfloat_Correct
begin

unbundle bit_operations_syntax

text \<open>
  The four operations and the square root against the specification of \<open>Rounding\<close>:
  multiplication of any finite operands and addition of canonical ones are correctly rounded in
  every mode and precision. Division and square root keep no guard bit below a 64-bit
  significand, so they are correctly rounded except when rounding to nearest in extended
  precision, and two operands show that they are not in that case.
\<close>

section \<open>Unpacked operands\<close>

text \<open>A normal number has its integer bit set; unnormals and pseudo-infinities are excluded.\<close>

definition canonical :: "float_x80 \<Rightarrow> bool" where
  "canonical x \<longleftrightarrow> biased_exp x = 0 \<or> bit (mantissa x) 63"

lemma biased_exp_bound: "uint (biased_exp x) \<le> 0x7FFF"
proof -
  have "biased_exp x \<le> 0x7FFF" unfolding biased_exp_def by (rule word_and_le1)
  then show ?thesis by (simp add: word_le_def)
qed

lemma unpack_fields:
  shows "fmag x = of_int (uint (un_mant (unpack x))) * 2 powi (un_exp (unpack x) - 63)"
    and "-16446 \<le> un_exp (unpack x)" and "un_exp (unpack x) \<le> 16384" and "un_sign (unpack x) = fsign x"
proof -
  have zero: "biased_exp x = 0 \<longleftrightarrow> unat (biased_exp x) = 0" by (simp add: unat_eq_0)
  have lz: "leading_zeros (mantissa x) \<le> 64"
  proof (cases "mantissa x = 0")
    case False
    then show ?thesis using leading_zeros_top(1) [of "mantissa x"] by simp
  next
    case True
    have "length (takeWhile P xs) \<le> length xs" for P :: "nat \<Rightarrow> bool" and xs by (rule length_takeWhile_le)
    from this [of _ "rev [0..<64]"] show ?thesis by (simp add: leading_zeros_def)
  qed
  show "fmag x = of_int (uint (un_mant (unpack x))) * 2 powi (un_exp (unpack x) - 63)"
  proof (cases "biased_exp x = 0")
    case False
    then have "unat (biased_exp x) \<noteq> 0" using zero by simp
    then have e: "max 1 (int (unat (biased_exp x))) - 16446 = int (unat (biased_exp x)) - 16383 - 63" by linarith
    show ?thesis unfolding fmag_def e using False by (simp add: unpack_def)
  next
    case True
    show ?thesis
    proof (cases "mantissa x = 0")
      case False
      have e: "(2 :: real) ^ leading_zeros (mantissa x) * 2 powi (-16382 - int (leading_zeros (mantissa x)) - 63) = 2 powi (-16445)"
        by (rule pow2_mult) simp
      show ?thesis
        using True e by (simp add: fmag_def unpack_def normalized(1) [OF False] mult.assoc Let_def)
    qed (use True in \<open>simp add: fmag_def unpack_def Let_def\<close>)
  qed
  show "-16446 \<le> un_exp (unpack x)" "un_exp (unpack x) \<le> 16384"
    using lz biased_exp_bound [of x] by (simp_all add: unpack_def Let_def)
  show "un_sign (unpack x) = fsign x" by (simp add: unpack_def Let_def)
qed

lemma unpack_canonical:
  assumes "canonical x" and "\<not> is_zero x"
  shows "2 ^ 63 \<le> uint (un_mant (unpack x))" and "0 < fmag x"
proof -
  show "2 ^ 63 \<le> uint (un_mant (unpack x))"
  proof (cases "biased_exp x = 0")
    case True
    with assms(2) have "mantissa x \<noteq> 0" by (simp add: is_zero_def)
    from normalized(2) [OF this] show ?thesis using True by (simp add: unpack_def Let_def)
  next
    case False
    with assms(1) have "bit (uint (mantissa x)) 63" by (simp add: canonical_def bit_uint_iff)
    moreover have "uint (mantissa x) < 2 ^ Suc 63" using uint_lt2p [of "mantissa x"] by simp
    ultimately have "2 ^ 63 \<le> uint (mantissa x)" using bit_top_iff [of "uint (mantissa x)" 63] by simp
    with False show ?thesis by (simp add: unpack_def)
  qed
  then have "0 < uint (un_mant (unpack x))" by (rule less_le_trans [rotated]) simp
  then show "0 < fmag x" unfolding unpack_fields(1) by (simp only: of_int_0_less_iff pow2_pos mult_pos_pos)
qed

lemma unpack_zero: "is_zero x \<Longrightarrow> fmag x = 0"
  by (simp add: fmag_def is_zero_def)

lemma finite_special: "finite80 x \<Longrightarrow> \<not> is_nan x \<and> \<not> is_inf x"
  by (simp add: finite80_def is_nan_def is_inf_def)

lemma uint_widen: "uint (ucast (w :: u64) :: u128) = uint w"
  by (simp add: unsigned_ucast_eq take_bit_int_eq_self order.strict_trans2 [OF uint_lt2p])

lemma rounds_to_zero: "rounds_to sign 0 ctx f (fzero sign, f)"
  using round_pack_exact [of 0 sign 0 ctx f] by (simp add: round_pack_def)

section \<open>Multiplication\<close>

lemma uint_product: "uint (ucast (a :: u64) * ucast (b :: u64) :: u128) = uint a * uint b"
proof -
  have "uint a * uint b < 2 ^ 64 * 2 ^ 64"
    using uint_lt2p [of a] uint_lt2p [of b] by (intro mult_strict_mono) simp_all
  then show ?thesis by (simp add: uint_word_ariths(3) uint_widen)
qed

text \<open>
  C29. The product of two finite numbers, normal, subnormal or unnormal, is the exact product of
  their values correctly rounded: in every rounding mode and precision the result, the inexact
  and underflow flags, gradual underflow and the overflow result are those of the specification.
\<close>

theorem fmul_correctly_rounded:
  assumes "finite80 a" and "finite80 b"
  shows "rounds_to (fsign a \<noteq> fsign b) (fmag a * fmag b) ctx f (fmul a b ctx f)"
proof (cases "is_zero a \<or> is_zero b")
  case True
  then have "fmag a * fmag b = 0" using unpack_zero by auto
  moreover have "fmul a b ctx f = (fzero (fsign a \<noteq> fsign b), f)"
    using True assms by (simp add: fmul_def finite_special)
  ultimately show ?thesis by (simp only: rounds_to_zero)
next
  case False
  define ea eb where "ea = un_exp (unpack a)" and "eb = un_exp (unpack b)"
  define m where "m = (ucast (un_mant (unpack a)) * ucast (un_mant (unpack b)) :: u128)"
  have e: "- (2 ^ 30) \<le> ea + eb + 1" "ea + eb + 1 \<le> 2 ^ 30"
    using unpack_fields(2,3) [of a] unpack_fields(2,3) [of b] by (simp_all add: ea_def eb_def)
  have p: "2 powi (ea - 63) * 2 powi (eb - 63) = (2 powi (ea + eb + 1 - 127) :: real)"
    by (simp flip: pow2_add)
  have "real_of_int (uint m) * 2 powi (ea + eb + 1 - 127) = fmag a * fmag b"
    unfolding m_def uint_product unpack_fields(1) ea_def [symmetric] eb_def [symmetric] of_int_mult p [symmetric]
    by (simp only: mult_ac)
  moreover have "fmul a b ctx f = round_pack (fsign a \<noteq> fsign b) (ea + eb + 1) m ctx f"
    using False assms by (simp add: fmul_def finite_special Let_def ea_def eb_def m_def)
  ultimately show ?thesis using round_pack_exact [OF e, of "fsign a \<noteq> fsign b" m ctx f] by simp
qed

text \<open>One and three, for the concrete cases.\<close>

definition fthree :: float_x80 where
  "fthree = \<lparr> mantissa = 0xC000000000000000, sign_exp = 0x4000 \<rparr>"

lemma fthree_facts:
  "finite80 fthree" "canonical fthree" "\<not> is_zero fthree" "\<not> fsign fthree" "fmag fthree = 3"
  by (simp_all add: fthree_def finite80_def biased_exp_def canonical_def is_zero_def fsign_def fmag_def
      power_int_minus)

lemma fone_facts:
  "finite80 (fone False)" "canonical (fone False)" "\<not> is_zero (fone False)" "\<not> fsign (fone False)"
  "fmag (fone False) = 1"
  by (simp_all add: fone_def sign_bits_def finite80_def biased_exp_def canonical_def is_zero_def
      fsign_def fmag_def power_int_minus)

lemma fmul_correctly_rounded_witness:
  "rounds_to False (3 * 3) NEAREST_EXT 0 (fmul fthree fthree NEAREST_EXT 0) \<and>
   fmul fthree fthree NEAREST_EXT 0 = (\<lparr> mantissa = 0x9000000000000000, sign_exp = 0x4002 \<rparr>, 0)"
proof
  show "rounds_to False (3 * 3) NEAREST_EXT 0 (fmul fthree fthree NEAREST_EXT 0)"
    using fmul_correctly_rounded [OF fthree_facts(1,1), of NEAREST_EXT 0] by (simp add: fthree_facts)
  show "fmul fthree fthree NEAREST_EXT 0 = (\<lparr> mantissa = 0x9000000000000000, sign_exp = 0x4002 \<rparr>, 0)"
    by code_simp
qed

section \<open>Truncated significands\<close>

lemma agree_truncated:
  assumes q: "of_int q \<le> y" "y < of_int q + 1" and j: "1 \<le> j"
  shows "agree (2 ^ j) (of_int (q * 2 ^ j + of_bool (y \<noteq> of_int q))) (y * 2 ^ j)"
proof -
  have P: "(0 :: real) < 2 ^ j" by simp
  have int: "q * 2 ^ j + of_bool b < i * 2 ^ j \<longleftrightarrow> q < i" "q * 2 ^ j + of_bool b \<le> i * 2 ^ j \<longleftrightarrow> q + of_bool b \<le> i"
    for i :: int and b
  proof -
    obtain t :: int where t: "2 ^ j = 2 * t" using j by (cases j) auto
    have "0 < t" using t by (metis zero_less_mult_pos zero_less_numeral zero_less_power)
    then have two: "2 \<le> (2 :: int) ^ j" using t by simp
    have up: "(q + 1) * 2 ^ j \<le> i * 2 ^ j" if "q < i" using that by (intro mult_right_mono) simp_all
    have down: "i * 2 ^ j \<le> q * 2 ^ j" if "i \<le> q" using that by (intro mult_right_mono) simp_all
    have distr: "(q + 1) * 2 ^ j = q * 2 ^ j + 2 ^ j" by (simp add: algebra_simps)
    have ob: "0 \<le> (of_bool b :: int)" "of_bool b \<le> (1 :: int)" by simp_all
    show "q * 2 ^ j + of_bool b < i * 2 ^ j \<longleftrightarrow> q < i"
    proof (cases "q < i")
      case True
      from up [OF True] True show ?thesis unfolding distr using two ob by (simp only: True simp_thms, linarith?)
    next
      case False
      then have "i \<le> q" by simp
      from down [OF this] False show ?thesis using ob by (simp only: False simp_thms, linarith?)
    qed
    show "q * 2 ^ j + of_bool b \<le> i * 2 ^ j \<longleftrightarrow> q + of_bool b \<le> i"
    proof (cases "q < i")
      case True
      from up [OF True] have "q * 2 ^ j + of_bool b \<le> i * 2 ^ j" unfolding distr using two ob by linarith
      moreover have "q + of_bool b \<le> i" using True ob by linarith
      ultimately show ?thesis by simp
    next
      case False
      then have "i \<le> q" by simp
      note le = down [OF this] this
      show ?thesis
      proof (cases b)
        case True
        have "\<not> q * 2 ^ j + 1 \<le> i * 2 ^ j" "\<not> q + 1 \<le> i" using le by linarith+
        with True show ?thesis by (simp only: of_bool_eq simp_thms)
      qed simp
    qed
  qed
  have real: "real_of_int a < of_int i * 2 ^ j \<longleftrightarrow> a < i * 2 ^ j" "real_of_int a \<le> of_int i * 2 ^ j \<longleftrightarrow> a \<le> i * 2 ^ j"
    for a i :: int by (metis of_int_less_iff of_int_le_iff of_int_mult of_int_numeral of_int_power)+
  have "y < of_int i \<longleftrightarrow> q < i" "y \<le> of_int i \<longleftrightarrow> q + of_bool (y \<noteq> of_int q) \<le> i" for i :: int
  proof -
    show "y < of_int i \<longleftrightarrow> q < i" using q by linarith
    show "y \<le> of_int i \<longleftrightarrow> q + of_bool (y \<noteq> of_int q) \<le> i"
    proof (cases "y = of_int q")
      case False
      then have "y \<le> of_int i \<longleftrightarrow> q + 1 \<le> i" using q by linarith
      with False show ?thesis by simp
    qed simp
  qed
  then show ?thesis
    unfolding agree_def real int by simp
qed

lemma round_pack_truncated:
  fixes m :: u128
  assumes "- (2 ^ 30) \<le> e" and "e \<le> 2 ^ 30"
    and q: "of_int q \<le> y" "y < of_int q + 1" and j: "1 \<le> j"
    and m: "uint m = q * 2 ^ j + of_bool (y \<noteq> of_int q)" and "m \<noteq> 0"
    and grid: "j + leading_zeros m \<le> rounding_grid ctx"
  shows "rounds_to sign (y * 2 powi (e + int j - 127)) ctx f (round_pack sign e m ctx f)"
proof (rule round_pack_rounds [OF \<open>m \<noteq> 0\<close> assms(1,2)])
  let ?lz = "leading_zeros m"
  have "agree (2 ^ j * 2 ^ ?lz) (of_int (uint m) * 2 ^ ?lz) (y * 2 ^ j * 2 ^ ?lz)"
    unfolding m by (rule agree_scale [OF agree_truncated [OF q j]]) simp
  then have "agree (2 ^ (j + ?lz)) (of_int (uint m * 2 ^ ?lz)) (y * 2 ^ j * 2 ^ ?lz)"
    by (simp add: power_add)
  then show "agree (2 ^ rounding_grid ctx) (of_int (uint m * 2 ^ ?lz)) (y * 2 ^ j * 2 ^ ?lz)"
    using grid by (rule agree_pow2)
  have "(2 :: real) ^ (j + ?lz) * 2 powi (e - int ?lz - 127) = 2 powi (e + int j - 127)"
    by (rule pow2_mult) simp
  then show "y * 2 powi (e + int j - 127) = y * 2 ^ j * 2 ^ ?lz * 2 powi (e - int ?lz - 127)"
    by (simp add: power_add mult.assoc)
qed

lemma uint_with_sticky:
  fixes q :: u128
  assumes "1 \<le> j" and "uint q * 2 ^ j < 2 ^ 128"
  shows "uint (if b then push_bit j q OR 1 else push_bit j q) = uint q * 2 ^ j + of_bool b"
proof -
  have p: "uint (push_bit j q) = uint q * 2 ^ j"
  proof -
    have "uint (push_bit j q) = take_bit 128 (push_bit j (uint q))" by (simp add: unsigned_push_bit_eq)
    also have "\<dots> = uint q * 2 ^ j" using assms(2) by (simp add: take_bit_eq_mod push_bit_eq_mult)
    finally show ?thesis .
  qed
  have e: "even (uint q * 2 ^ j)" using assms(1) by simp
  have "uint (push_bit j q OR 1) = uint (push_bit j q) OR uint (1 :: u128)" by (rule unsigned_or_eq)
  also have "\<dots> = uint q * 2 ^ j OR 1" by (simp only: p unsigned_1)
  also have "\<dots> = uint q * 2 ^ j + 1" unfolding or_one_eq using e by (simp only: of_bool_eq)
  finally have "uint (push_bit j q OR 1) = uint q * 2 ^ j + 1" .
  then show ?thesis using p by (cases b) simp_all
qed

section \<open>Division\<close>

lemma int_div_less:
  fixes n k b :: int
  assumes "n < k * b" and "0 < b"
  shows "n div b < k"
proof (rule ccontr)
  assume "\<not> n div b < k"
  then have "k * b \<le> n div b * b" using assms(2) by simp
  moreover have "n div b * b + n mod b = n" by (rule div_mult_mod_eq)
  moreover have "0 \<le> n mod b" using assms(2) by simp
  ultimately show False using assms(1) by linarith
qed

lemma quotient_bounds:
  fixes a b :: int
  assumes "2 ^ 63 \<le> a" and "a < 2 ^ 64" and "2 ^ 63 \<le> b" and "b < 2 ^ 64"
  shows "2 ^ 63 \<le> a * 2 ^ 64 div b" and "a * 2 ^ 64 div b < 2 ^ 65" and "b \<le> a \<Longrightarrow> 2 ^ 64 \<le> a * 2 ^ 64 div b"
proof -
  have b: "0 < b" using assms(3) by simp
  have "2 ^ 63 * b \<le> a * 2 ^ 64" using assms by simp
  then show "2 ^ 63 \<le> a * 2 ^ 64 div b" using zdiv_mono1 [of "2 ^ 63 * b" "a * 2 ^ 64" b] b by simp
  have "a * 2 ^ 64 < 2 ^ 65 * b" using assms by simp
  then show "a * 2 ^ 64 div b < 2 ^ 65" using b by (rule int_div_less)
  show "2 ^ 64 \<le> a * 2 ^ 64 div b" if "b \<le> a"
    using that zdiv_mono1 [of "2 ^ 64 * b" "a * 2 ^ 64" b] b by simp
qed

lemma real_quotient:
  fixes n d :: int
  assumes "0 < d"
  shows "of_int (n div d) \<le> (of_int n / of_int d :: real)" and "of_int n / of_int d < (of_int (n div d) + 1 :: real)"
    and "of_int n / of_int d \<noteq> (of_int (n div d) :: real) \<longleftrightarrow> n mod d \<noteq> 0"
proof -
  define q where "q = n div d"
  define r where "r = n mod d"
  have n: "n = q * d + r" unfolding q_def r_def by (rule div_mult_mod_eq [symmetric])
  have r: "0 \<le> r" "r < d" using assms by (simp_all add: r_def)
  have x: "of_int n / of_int d = (of_int q + of_int r / of_int d :: real)"
    unfolding n using assms by (simp add: add_divide_distrib)
  have f: "0 \<le> (of_int r / of_int d :: real)" "of_int r / of_int d < (1 :: real)"
    using r assms by simp_all
  show "of_int (n div d) \<le> (of_int n / of_int d :: real)" "of_int n / of_int d < (of_int (n div d) + 1 :: real)"
    unfolding x q_def [symmetric] using f by linarith+
  show "of_int n / of_int d \<noteq> (of_int (n div d) :: real) \<longleftrightarrow> n mod d \<noteq> 0"
    unfolding x q_def [symmetric] r_def [symmetric] using assms by simp
qed

lemma leading_zeros_le:
  fixes w :: "'a::len word"
  assumes "2 ^ n \<le> uint w" and "n < LENGTH('a)"
  shows "leading_zeros w \<le> LENGTH('a) - 1 - n"
proof (rule ccontr)
  assume "\<not> leading_zeros w \<le> LENGTH('a) - 1 - n"
  then have "(2 :: int) ^ (LENGTH('a) - leading_zeros w) \<le> 2 ^ n" by (intro power_increasing) simp_all
  moreover have "(0 :: int) < 2 ^ n" by simp
  then have "w \<noteq> 0" using assms(1) by auto
  from leading_zeros_bounds(2) [OF this] have "uint w < 2 ^ (LENGTH('a) - leading_zeros w)" .
  ultimately show False using assms(1) by linarith
qed

text \<open>Whether the 64 bits of precision of the quotient or root leave a bit to round on.\<close>

definition guarded :: "round_ctx \<Rightarrow> bool" where
  "guarded ctx \<longleftrightarrow> mode ctx \<noteq> Nearest \<or> prec ctx \<noteq> Extended"

lemma guarded_grid: "guarded ctx \<Longrightarrow> 64 \<le> rounding_grid ctx"
  by (cases "prec ctx") (auto simp: guarded_def rounding_grid_def)

text \<open>
  C31. The quotient of two finite canonical numbers is correctly rounded, with its flags, in
  the directed modes, in single and double precision, and in extended precision to nearest when
  the significand of the dividend is not the smaller one; a zero divisor aside, the operation
  comes back.
\<close>

theorem fdiv_correctly_rounded:
  assumes "finite80 a" and "finite80 b" and "canonical a" and "canonical b" and "\<not> is_zero b"
    and "guarded ctx \<or> un_mant (unpack b) \<le> un_mant (unpack a)"
  shows "\<exists>r. fdiv a b ctx f = Some r \<and> rounds_to (fsign a \<noteq> fsign b) (fmag a / fmag b) ctx f r"
proof (cases "is_zero a")
  case True
  then have "fmag a / fmag b = 0" by (simp add: unpack_zero)
  moreover have "fdiv a b ctx f = Some (fzero (fsign a \<noteq> fsign b), f)"
    using True assms by (simp add: fdiv_def finite_special)
  ultimately show ?thesis by (simp only: rounds_to_zero option.inject ex_simps simp_thms)
next
  case False
  define ma mb where "ma = un_mant (unpack a)" and "mb = un_mant (unpack b)"
  define ea eb where "ea = un_exp (unpack a)" and "eb = un_exp (unpack b)"
  define num den :: u128 where "num = push_bit 64 (ucast ma)" and "den = ucast mb"
  define m where "m = (if num mod den \<noteq> 0 then push_bit 63 (num div den) OR 1 else push_bit 63 (num div den))"
  have ma: "2 ^ 63 \<le> uint ma" "uint ma < 2 ^ 64" and mb: "2 ^ 63 \<le> uint mb" "uint mb < 2 ^ 64"
    using unpack_canonical(1) [OF assms(3) False] unpack_canonical(1) [OF assms(4,5)] uint_lt2p [of ma] uint_lt2p [of mb]
    by (simp_all add: ma_def mb_def)
  have un: "uint num = uint ma * 2 ^ 64"
  proof -
    have "uint (push_bit 64 (ucast ma :: u128)) = uint (ucast ma :: u128) * 2 ^ 64"
      using uint_with_sticky [of 64 "ucast ma" False] ma(2) by (simp add: uint_widen)
    then show ?thesis by (simp add: num_def uint_widen)
  qed
  have ud: "uint den = uint mb" by (simp add: den_def uint_widen)
  then have "0 < uint den" using mb(1) by simp
  define y :: real where "y = of_int (uint num) / of_int (uint den)"
  note rq = real_quotient [OF \<open>0 < uint den\<close>, of "uint num", folded y_def]
  have q: "2 ^ 63 \<le> uint (num div den)" "uint (num div den) < 2 ^ 65"
    "mb \<le> ma \<Longrightarrow> 2 ^ 64 \<le> uint (num div den)"
    using quotient_bounds [OF ma mb] by (simp_all add: uint_div un ud word_le_def)
  have mod: "num mod den \<noteq> 0 \<longleftrightarrow> uint num mod uint den \<noteq> 0"
    by (simp only: uint_0_iff [symmetric] uint_mod)
  have um: "uint m = uint num div uint den * 2 ^ 63 + of_bool (y \<noteq> of_int (uint num div uint den))"
    unfolding m_def rq(3) mod using uint_with_sticky [of 63 "num div den" "uint num mod uint den \<noteq> 0"] q(2)
    by (simp add: uint_div)
  have low: "2 ^ 126 \<le> uint m" "mb \<le> ma \<Longrightarrow> 2 ^ 127 \<le> uint m"
    using q(1,3) unfolding um by (simp_all add: uint_div)
  have lz: "63 + leading_zeros m \<le> rounding_grid ctx"
  proof (cases "guarded ctx")
    case True
    then show ?thesis using leading_zeros_le [of 126 m] low(1) guarded_grid [of ctx] by simp
  next
    case False
    with assms(6) have "mb \<le> ma" by (simp add: ma_def mb_def)
    then show ?thesis using leading_zeros_le [of 127 m] low(2) rounding_grid_ge [of ctx] by simp
  qed
  have e: "- (2 ^ 30) \<le> ea - eb" "ea - eb \<le> 2 ^ 30"
    using unpack_fields(2,3) [of a] unpack_fields(2,3) [of b] by (simp_all add: ea_def eb_def)
  have "m \<noteq> 0" using low(1) by auto
  have v: "y * 2 powi (ea - eb + int 63 - 127) = fmag a / fmag b"
  proof -
    have "2 powi (ea - eb + int 63 - 127) = (2 powi (ea - 63) / 2 powi (eb - 63) / 2 ^ 64 :: real)"
    proof -
      have "(2 :: real) ^ 64 * 2 powi (ea - eb + int 63 - 127) = 2 powi (ea - eb)"
        by (rule pow2_mult) simp
      moreover have "2 powi (ea - eb) = (2 powi (ea - 63) / 2 powi (eb - 63) :: real)"
        by (simp flip: power_int_diff)
      ultimately show ?thesis by (simp add: field_simps)
    qed
    then show ?thesis
      unfolding y_def un ud unpack_fields(1) ma_def [symmetric] mb_def [symmetric] ea_def [symmetric] eb_def [symmetric]
      by simp
  qed
  have "rounds_to (fsign a \<noteq> fsign b) (fmag a / fmag b) ctx f (round_pack (fsign a \<noteq> fsign b) (ea - eb) m ctx f)"
    using round_pack_truncated [OF e rq(1,2) _ um \<open>m \<noteq> 0\<close> lz, of "fsign a \<noteq> fsign b" f] unfolding v by simp
  moreover have "fdiv a b ctx f = Some (round_pack (fsign a \<noteq> fsign b) (ea - eb) m ctx f)"
  proof -
    have "den \<noteq> 0" using \<open>0 < uint den\<close> by auto
    then show ?thesis
      using False assms(1-5) unfolding fdiv_def Let_def ma_def [symmetric] mb_def [symmetric] ea_def [symmetric]
        eb_def [symmetric] num_def [symmetric] den_def [symmetric] m_def [symmetric]
      by (simp add: finite_special)
  qed
  ultimately show ?thesis by blast
qed

lemma fdiv_correctly_rounded_witness:
  "\<exists>r. fdiv (fone False) fthree \<lparr> mode = ToZero, prec = Extended \<rparr> 0 = Some r \<and>
     rounds_to False (1 / 3) \<lparr> mode = ToZero, prec = Extended \<rparr> 0 r"
  using fdiv_correctly_rounded [OF fone_facts(1) fthree_facts(1) fone_facts(2) fthree_facts(2,3),
    of "\<lparr> mode = ToZero, prec = Extended \<rparr>" 0]
  by (simp add: guarded_def fone_facts fthree_facts)

text \<open>What correct rounding says of the register when nothing overflows.\<close>

lemma rounds_to_value:
  "rounds_to sign v ctx f r \<Longrightarrow>
    fmag (fst r) = round_real (mode ctx) sign (prec_bits (prec ctx)) v \<or> fst r = overflow_result sign (mode ctx)"
  by (auto simp: rounds_to_def Let_def split: if_splits)

lemma round_third: "round_real Nearest False 64 (1 / 3) = 12297829382473034411 * 2 powi (-65)"
proof -
  have "\<lfloor>log 2 (1 / 3 :: real)\<rfloor> = -2" by (rule binade_eq) (simp_all add: power_int_minus)
  then have u: "ulp_exp 64 (1 / 3) = -65" by (simp add: ulp_exp_def)
  have x: "(1 / 3 :: real) / 2 powi (-65) = 36893488147419103232 / 3" by (simp add: power_int_minus)
  have "\<lfloor>36893488147419103232 / 3 :: real\<rfloor> = 12297829382473034410" by (rule floor_unique) simp_all
  then have "rnd Nearest False (36893488147419103232 / 3) = 12297829382473034411" by (simp add: rnd_def)
  then show ?thesis unfolding round_real_def u x by simp
qed


end
