(* ===== verification/Float_Add.thy ===== *)
theory Float_Add
  imports Float_Arith
begin

unbundle bit_operations_syntax

text \<open>
  Addition and subtraction of the extended format against the specification of \<open>Rounding\<close>:
  the aligned significands keep a sticky bit, so sums and differences of canonical numbers are
  correctly rounded in every mode and precision.
\<close>

section \<open>Sticky arithmetic\<close>

lemma sticky_add: "sticky l x \<Longrightarrow> even h \<Longrightarrow> sticky (h + l) (of_int h + x)"
  by (auto simp: sticky_def)

lemma sticky_diff: "sticky l x \<Longrightarrow> even h \<Longrightarrow> sticky (h - l) (of_int h - x)"
  by (auto simp: sticky_def)

lemma sticky_half:
  assumes "sticky S x"
  shows "sticky (S div 2 OR of_bool (odd S)) (x / 2)"
proof (cases "odd S")
  case False
  then have "x = of_int S" using assms by (simp add: sticky_def)
  moreover have "of_int S / 2 = (of_int (S div 2) :: real)" using False by (simp add: real_of_int_div)
  ultimately show ?thesis using False by (simp add: sticky_def)
next
  case True
  define d where "d = S div 2"
  have S: "S = 2 * d + 1" using True unfolding d_def by presburger
  have x: "2 * of_int d < x" "x < 2 * of_int d + 2" using assms unfolding sticky_def S by auto
  have "d OR 1 = (if even d then d + 1 else d)" by (simp add: or_one_eq)
  then show ?thesis
    unfolding d_def [symmetric] using True x by (cases "even d") (simp_all add: sticky_def)
qed

lemma sticky_nonneg: "sticky l x \<Longrightarrow> 0 \<le> l \<Longrightarrow> 0 \<le> x"
proof -
  assume s: "sticky l x" and l: "0 \<le> l"
  show "0 \<le> x"
  proof (cases "x = of_int l")
    case False
    with s have "odd l" "of_int l - 1 < x" by (auto simp: sticky_def)
    moreover from this(1) l have "1 \<le> l" by presburger
    then have "(1 :: real) \<le> of_int l" by simp
    ultimately show ?thesis by linarith
  qed (use l in simp)
qed

section \<open>Alignment\<close>

text \<open>
  Two significands with the integer bit in bit 127 and empty low halves, the smaller exponent
  \<open>sh\<close> places down: either nothing is lost, or what is left lies far below the larger one.
\<close>

lemma aligned:
  fixes h l :: u64 and sh :: nat
  defines "hm \<equiv> push_bit 64 (ucast h :: u128)"
  defines "lm \<equiv> shift_right_sticky (push_bit 64 (ucast l :: u128)) sh"
  defines "x \<equiv> of_int (uint l * 2 ^ 64) / 2 ^ sh :: real"
  assumes h: "2 ^ 63 \<le> uint h"
  shows "uint hm = uint h * 2 ^ 64" and "even (uint hm)" and "2 ^ 127 \<le> uint hm" and "sticky (uint lm) x"
    and "of_int (uint lm) = x \<or> uint lm \<le> 2 ^ 64"
proof -
  have w: "uint (push_bit 64 (ucast v :: u128)) = uint v * 2 ^ 64" for v :: u64
    using uint_with_sticky [of 64 "ucast v :: u128" False] uint_lt2p [of v] by (simp add: uint_widen)
  show hm: "uint hm = uint h * 2 ^ 64" unfolding hm_def by (rule w)
  show "even (uint hm)" unfolding hm by simp
  show "2 ^ 127 \<le> uint hm" unfolding hm using h by simp
  have lm: "uint lm = uint l * 2 ^ 64 div 2 ^ sh OR of_bool (uint l * 2 ^ 64 mod 2 ^ sh \<noteq> 0)"
    unfolding lm_def uint_shift_right_sticky w ..
  show "sticky (uint lm) x" unfolding lm x_def by (rule sticky_quotient) simp
  show "of_int (uint lm) = x \<or> uint lm \<le> 2 ^ 64"
  proof (cases "sh \<le> 64")
    case True
    have "(2 :: int) ^ 64 = 2 ^ (64 - sh) * 2 ^ sh" using True by (metis le_add_diff_inverse2 power_add)
    then have e: "uint l * 2 ^ 64 = (uint l * 2 ^ (64 - sh)) * 2 ^ sh" by simp
    have "uint lm = uint l * 2 ^ (64 - sh)" unfolding lm e by simp
    then show ?thesis unfolding x_def e by simp
  next
    case False
    have "uint l * 2 ^ 64 < 2 ^ 64 * 2 ^ 64" using uint_lt2p [of l] by simp
    also have "(2 :: int) ^ 64 \<le> 2 ^ sh" using False by (intro power_increasing) simp_all
    then have "(2 :: int) ^ 64 * 2 ^ 64 \<le> 2 ^ 64 * 2 ^ sh" by (intro mult_left_mono) simp_all
    finally have "uint l * 2 ^ 64 div 2 ^ sh < 2 ^ 64" by (rule int_div_less) simp
    moreover have "a OR of_bool b \<le> a + 1" for a :: int and b by (cases b) (simp_all add: or_one_eq)
    ultimately have "uint lm \<le> 2 ^ 64"
      unfolding lm by (metis add1_zle_eq order_trans)
    then show ?thesis ..
  qed
qed

text \<open>The carry out of bit 127, put back on top with the lost bit kept sticky.\<close>

lemma carried_sum:
  fixes w :: u128
  assumes "uint w = S - 2 ^ 128" and "S < 2 ^ 129"
  shows "uint (drop_bit 1 w OR push_bit 127 1 OR (w AND 1)) = S div 2 OR of_bool (odd S)"
proof -
  define d where "d = uint w div 2"
  have "uint w < 2 ^ 128" using assms by simp
  then have d: "0 \<le> d" "d < 2 ^ 127" unfolding d_def by simp_all
  have "take_bit 127 d = d" using d by (simp add: take_bit_int_eq_self)
  then have "\<not> bit d 127" by (metis bit_take_bit_iff order.irrefl)
  then have "d AND 2 ^ 127 = 0" by (intro bit_eqI) (auto simp only: bit_and_iff bit_exp_iff bit_0_eq)
  then have top: "d OR 2 ^ 127 = d + 2 ^ 127" by (simp only: disjunctive_add_eq_or)
  have S: "S = uint w + 2 ^ 128" using assms(1) by simp
  have half: "S div 2 = d + 2 ^ 127" "odd S \<longleftrightarrow> odd (uint w)" unfolding S d_def by simp_all
  have ev: "odd w \<longleftrightarrow> odd (uint w)" by (simp add: bit_0 [symmetric] bit_uint_iff)
  have one: "uint (w AND 1) = of_bool (odd (uint w))"
    by (simp add: unsigned_and_eq and_one_eq mod_2_eq_odd ev)
  have p: "uint (push_bit 127 (1 :: u128)) = 2 ^ 127" by simp
  have dw: "uint (drop_bit 1 w) = d" unfolding d_def by (simp add: uint_drop_bit)
  have "uint (drop_bit 1 w OR push_bit 127 1 OR (w AND 1)) =
      uint (drop_bit 1 w) OR uint (push_bit 127 (1 :: u128)) OR uint (w AND 1)"
    by (simp only: unsigned_or_eq)
  also have "\<dots> = (d OR 2 ^ 127) OR of_bool (odd (uint w))" by (simp only: dw p one or.assoc)
  also have "\<dots> = S div 2 OR of_bool (odd S)" unfolding top half ..
  finally show ?thesis .
qed

text \<open>The sum or difference of the aligned significands, rounded.\<close>

lemma add_ordered_rounds:
  fixes h l :: u64 and he le :: int
  defines "hm \<equiv> push_bit 64 (ucast h :: u128)"
  defines "v \<equiv> (of_int (uint h) * 2 powi (he - 63) :: real)" and "u \<equiv> (of_int (uint l) * 2 powi (le - 63) :: real)"
  assumes e: "le \<le> he" "- (2 ^ 29) \<le> he" "he \<le> 2 ^ 29" and h: "2 ^ 63 \<le> uint h"
  shows "hs = ls \<Longrightarrow> rounds_to hs (v + u) ctx f (add_ordered hs he hm ls le (push_bit 64 (ucast l)) ctx f)"
    and "hs \<noteq> ls \<Longrightarrow> v \<noteq> u \<Longrightarrow>
      rounds_to (if u < v then hs else ls) \<bar>v - u\<bar> ctx f (add_ordered hs he hm ls le (push_bit 64 (ucast l)) ctx f)"
    and "hs \<noteq> ls \<Longrightarrow> v = u \<Longrightarrow>
      add_ordered hs he hm ls le (push_bit 64 (ucast l)) ctx f = (fzero (mode ctx = NegInf), f)"
proof -
  define sh where "sh = nat (he - le)"
  define lm where "lm = shift_right_sticky (push_bit 64 (ucast l :: u128)) sh"
  define x where "x = (of_int (uint l * 2 ^ 64) / 2 ^ sh :: real)"
  note hi = aligned(1-3) [OF h, folded hm_def]
  note lo = aligned(4,5) [OF h, where l = l and sh = sh, folded lm_def x_def]
  have sh: "int sh = he - le" using e by (simp add: sh_def)
  have v: "v = of_int (uint hm) * 2 powi (he - 127)"
  proof -
    have "(2 :: real) ^ 64 * 2 powi (he - 127) = 2 powi (he - 63)" by (rule pow2_mult) simp
    then show ?thesis unfolding v_def hi(1) by simp
  qed
  have u: "u = x * 2 powi (he - 127)"
  proof -
    have "(2 :: real) ^ 64 * 2 powi (he - 127) = 2 powi (he - 63)" by (rule pow2_mult) simp
    moreover have "(2 :: real) ^ sh * 2 powi (le - 63) = 2 powi (he - 63)" by (rule pow2_mult) (simp add: sh)
    ultimately show ?thesis unfolding u_def x_def by (simp add: field_simps)
  qed
  have big: "- (2 ^ 30) \<le> he" "he \<le> 2 ^ 30" "- (2 ^ 30) \<le> he + 1" "he + 1 \<le> 2 ^ 30" using e by simp_all
  define S where "S = uint hm + uint lm"
  have S: "sticky S (of_int (uint hm) + x)" unfolding S_def by (rule sticky_add [OF lo(1) hi(2)])
  have Slow: "2 ^ 127 \<le> S" using hi(3) uint_ge_0 [of lm] unfolding S_def by linarith
  show "rounds_to hs (v + u) ctx f (add_ordered hs he hm ls le (push_bit 64 (ucast l)) ctx f)" if "hs = ls"
  proof (cases "2 ^ 128 \<le> S")
    case False
    then have us: "uint (hm + lm) = S" by (simp add: S_def uint_word_ariths(1))
    have "(2 :: int) ^ 65 \<le> uint (hm + lm)" unfolding us using Slow by simp
    from round_pack_sticky [OF big(1,2) this, unfolded us, OF S, of hs ctx f]
    have "rounds_to hs (v + u) ctx f (round_pack hs he (hm + lm) ctx f)" unfolding v u distrib_right .
    moreover have "add_ordered hs he hm ls le (push_bit 64 (ucast l)) ctx f = round_pack hs he (hm + lm) ctx f"
      using that False unfolding add_ordered_def Let_def sh_def [symmetric] lm_def [symmetric] S_def by simp
    ultimately show ?thesis by simp
  next
    case True
    define m where "m = drop_bit 1 (hm + lm) OR push_bit 127 1 OR (hm + lm AND 1)"
    have up: "S < 2 ^ 129" using uint_lt2p [of hm] uint_lt2p [of lm] unfolding S_def by simp
    have us: "uint (hm + lm) = S - 2 ^ 128"
    proof -
      have "S mod 2 ^ 128 = (S - 2 ^ 128) mod 2 ^ 128" by simp
      also have "\<dots> = S - 2 ^ 128" using True up by (intro mod_pos_pos_trivial) simp_all
      finally show ?thesis unfolding S_def by (simp add: uint_word_ariths(1))
    qed
    have um: "uint m = S div 2 OR of_bool (odd S)" unfolding m_def by (rule carried_sum [OF us up])
    have "sticky (uint m) ((of_int (uint hm) + x) / 2)" unfolding um by (rule sticky_half [OF S])
    moreover have "(2 :: int) ^ 65 \<le> uint m"
    proof -
      have "S div 2 \<le> S div 2 OR of_bool (odd S)" by (cases "odd S") (simp_all add: or_one_eq)
      moreover have "2 ^ 127 \<le> S div 2" using True by simp
      ultimately show ?thesis unfolding um by simp
    qed
    ultimately have "rounds_to hs ((of_int (uint hm) + x) / 2 * 2 powi (he + 1 - 127)) ctx f (round_pack hs (he + 1) m ctx f)"
      using round_pack_sticky [OF big(3,4)] by blast
    moreover have "(of_int (uint hm) + x) / 2 * 2 powi (he + 1 - 127) = v + u"
    proof -
      have "(2 :: real) ^ 1 * 2 powi (he - 127) = 2 powi (he + 1 - 127)" by (rule pow2_mult) simp
      then have "2 powi (he + 1 - 127) = (2 * 2 powi (he - 127) :: real)" by simp
      then show ?thesis unfolding v u by (simp add: field_simps)
    qed
    moreover have "add_ordered hs he hm ls le (push_bit 64 (ucast l)) ctx f = round_pack hs (he + 1) m ctx f"
      using that True unfolding add_ordered_def Let_def sh_def [symmetric] lm_def [symmetric] S_def m_def by simp
    ultimately show ?thesis by (simp only:)
  qed
  define D where "D = uint hm - uint lm"
  have D: "sticky D (of_int (uint hm) - x)" unfolding D_def by (rule sticky_diff [OF lo(1) hi(2)])
  have vu: "v - u = (of_int (uint hm) - x) * 2 powi (he - 127)" unfolding v u left_diff_distrib ..
  have sign: "0 < v - u \<longleftrightarrow> 0 < of_int (uint hm) - x" "v - u = 0 \<longleftrightarrow> of_int (uint hm) - x = 0"
    unfolding vu using order.asym [OF pow2_pos [of "he - 127"]] by (auto simp: zero_less_mult_iff)
  have ab: "\<bar>v - u\<bar> = \<bar>of_int (uint hm) - x\<bar> * 2 powi (he - 127)" unfolding vu abs_mult by simp
  have cmp: "lm \<le> hm \<longleftrightarrow> 0 \<le> D" by (simp add: D_def word_le_def)
  have uD: "0 \<le> D \<Longrightarrow> uint (hm - lm) = D" and uD': "\<not> 0 \<le> D \<Longrightarrow> uint (lm - hm) = - D"
    by (simp_all add: D_def uint_sub_lem [THEN iffD1])
  have same: "hm = lm \<longleftrightarrow> D = 0" by (simp add: D_def word_uint_eq_iff)
  have ao: "add_ordered hs he hm ls le (push_bit 64 (ucast l)) ctx f =
      (if 0 \<le> D then if D = 0 then (fzero (mode ctx = NegInf), f) else round_pack hs he (hm - lm) ctx f
       else round_pack ls he (lm - hm) ctx f)" if "hs \<noteq> ls"
    using that unfolding add_ordered_def Let_def sh_def [symmetric] lm_def [symmetric] cmp
    by (auto simp: same)
  have far: "0 < D \<and> 2 ^ 65 \<le> D" if "of_int (uint lm) \<noteq> x"
    using lo(2) that hi(3) unfolding D_def by auto
  have exact: "of_int (uint hm) - x = of_int D" if "of_int (uint lm) = x" using that by (simp add: D_def)
  have pos: "0 < of_int (uint hm) - x" if "of_int (uint lm) \<noteq> x"
  proof (cases "of_int (uint hm) - x = of_int D")
    case True
    then show ?thesis using far [OF that] by simp
  next
    case False
    then have "of_int D - 1 < of_int (uint hm) - x" using D by (simp add: sticky_def)
    moreover have "(1 :: int) \<le> D" using far [OF that] by simp
    then have "(1 :: real) \<le> of_int D" by (simp only: of_int_1_le_iff)
    ultimately show ?thesis by linarith
  qed
  show "rounds_to (if u < v then hs else ls) \<bar>v - u\<bar> ctx f
      (add_ordered hs he hm ls le (push_bit 64 (ucast l)) ctx f)" if ne: "hs \<noteq> ls" "v \<noteq> u"
  proof (cases "of_int (uint lm) = x")
    case False
    then have D0: "0 \<le> D" "D \<noteq> 0" and low: "2 ^ 65 \<le> uint (hm - lm)" using far uD by auto
    have less: "u < v" using sign(1) pos [OF False] by simp
    have "rounds_to hs ((of_int (uint hm) - x) * 2 powi (he - 127)) ctx f (round_pack hs he (hm - lm) ctx f)"
      using round_pack_sticky [OF big(1,2) low] D unfolding uD [OF D0(1)] by blast
    moreover have "(of_int (uint hm) - x) * 2 powi (he - 127) = \<bar>v - u\<bar>" using less unfolding vu [symmetric] by simp
    ultimately show ?thesis using less D0 unfolding ao [OF ne(1)] by (simp only: if_True if_False simp_thms)
  next
    case True
    have d: "of_int (uint hm) - x = of_int D" by (rule exact [OF True])
    have "D \<noteq> 0" using sign(2) ne(2) unfolding d by simp
    show ?thesis
    proof (cases "0 \<le> D")
      case True
      then have less: "u < v" using sign(1) \<open>D \<noteq> 0\<close> unfolding d by simp
      have "\<bar>v - u\<bar> = of_int (uint (hm - lm)) * 2 powi (he - 127)" using True unfolding ab d uD [OF True] by simp
      then show ?thesis
        using round_pack_exact [OF big(1,2), of hs "hm - lm" ctx f] less True \<open>D \<noteq> 0\<close> unfolding ao [OF ne(1)] by (simp only: if_True if_False simp_thms)
    next
      case False
      then have less: "\<not> u < v" using sign(1) unfolding d by simp
      have "\<bar>v - u\<bar> = of_int (uint (lm - hm)) * 2 powi (he - 127)" using False unfolding ab d uD' [OF False] by simp
      then show ?thesis
        using round_pack_exact [OF big(1,2), of ls "lm - hm" ctx f] less False unfolding ao [OF ne(1)] by (simp only: if_True if_False simp_thms)
    qed
  qed
  show "add_ordered hs he hm ls le (push_bit 64 (ucast l)) ctx f = (fzero (mode ctx = NegInf), f)"
    if ne: "hs \<noteq> ls" "v = u"
  proof -
    have z: "of_int (uint hm) - x = 0" using sign(2) ne(2) by simp
    then have "of_int (uint lm) = x" using pos by fastforce
    from exact [OF this] z have "D = 0" by simp
    then show ?thesis unfolding ao [OF ne(1)] by simp
  qed
qed

section \<open>Sums\<close>

text \<open>
  C30. The sum of two finite canonical numbers is correctly rounded in every mode and precision,
  with its flags and sign. When the exact sum is zero the result is a zero without flags:
  negative when rounding towards minus infinity, or when both operands are negative zeros, and
  positive otherwise.
\<close>

theorem fadd_correctly_rounded:
  assumes "finite80 a" and "finite80 b" and "canonical a" and "canonical b"
  shows "if fvalue a + fvalue b = 0
    then fadd a b ctx f = (fzero (mode ctx = NegInf \<or> is_zero a \<and> is_zero b \<and> fsign a \<and> fsign b), f)
    else rounds_to (fvalue a + fvalue b < 0) \<bar>fvalue a + fvalue b\<bar> ctx f (fadd a b ctx f)"
proof -
  have fin: "\<not> is_nan a" "\<not> is_nan b" "\<not> is_inf a" "\<not> is_inf b"
    using finite_special assms(1,2) by auto
  have one: "rounds_to (fsign c) (fmag c) ctx f (round_pack (fsign c) (fst (exp_hi c)) (snd (exp_hi c)) ctx f)" for c
  proof -
    have "uint (push_bit 64 (ucast (un_mant (unpack c)) :: u128)) = uint (un_mant (unpack c)) * 2 ^ 64"
      using uint_with_sticky [of 64 "ucast (un_mant (unpack c)) :: u128" False] uint_lt2p [of "un_mant (unpack c)"]
      by (simp add: uint_widen)
    moreover have "(2 :: real) ^ 64 * 2 powi (un_exp (unpack c) - 127) = 2 powi (un_exp (unpack c) - 63)"
      by (rule pow2_mult) simp
    moreover have "- (2 ^ 30) \<le> un_exp (unpack c)" "un_exp (unpack c) \<le> 2 ^ 30" using unpack_fields(2,3) [of c] by simp_all
    ultimately show ?thesis
      using round_pack_exact [of "un_exp (unpack c)" "fsign c" "push_bit 64 (ucast (un_mant (unpack c)))" ctx f]
      unfolding exp_hi_def fst_conv snd_conv unpack_fields(1) by (simp add: mult.assoc)
  qed
  show ?thesis
  proof (cases "is_zero a \<or> is_zero b")
    case True
    then consider "is_zero a" "is_zero b" | "is_zero a" "\<not> is_zero b" | "\<not> is_zero a" "is_zero b" by blast
    then show ?thesis
    proof cases
      case 1
      then show ?thesis by (simp add: fadd_def fin fvalue_def unpack_zero disj_commute)
    next
      case 2
      have "0 < fmag b" by (rule unpack_canonical(2) [OF assms(4) 2(2)])
      with 2 one [of b] show ?thesis by (auto simp: fadd_def fin fvalue_def unpack_zero)
    next
      case 3
      have "0 < fmag a" by (rule unpack_canonical(2) [OF assms(3) 3(1)])
      with 3 one [of a] show ?thesis by (auto simp: fadd_def fin fvalue_def unpack_zero)
    qed
  next
    case False
    then have nz: "\<not> is_zero a" "\<not> is_zero b" by simp_all
    note pos = unpack_canonical(2) [OF assms(3) nz(1)] unpack_canonical(2) [OF assms(4) nz(2)]
    have main: "if fvalue h + fvalue l = 0 then r = (fzero (mode ctx = NegInf), f)
        else rounds_to (fvalue h + fvalue l < 0) \<bar>fvalue h + fvalue l\<bar> ctx f r"
      if hl: "canonical h" "\<not> is_zero h" "0 < fmag h" "0 < fmag l" "un_exp (unpack l) \<le> un_exp (unpack h)"
        and r: "r = add_ordered (fsign h) (un_exp (unpack h)) (push_bit 64 (ucast (un_mant (unpack h))))
          (fsign l) (un_exp (unpack l)) (push_bit 64 (ucast (un_mant (unpack l)))) ctx f" for h l r
    proof -
      have e: "- (2 ^ 29) \<le> un_exp (unpack h)" "un_exp (unpack h) \<le> 2 ^ 29" using unpack_fields(2,3) [of h] by simp_all
      note ao = add_ordered_rounds [OF hl(5) e unpack_canonical(1) [OF hl(1,2)], where hs = "fsign h" and ls = "fsign l" and l = "un_mant (unpack l)"
        and ctx = ctx and f = f, folded unpack_fields(1) r]
      show ?thesis
      proof (cases "fsign h = fsign l")
        case True
        with ao(1) hl(3,4) show ?thesis by (auto simp: fvalue_def add.commute [of "fmag l"])
      next
        case ne: False
        show ?thesis
        proof (cases "fmag h = fmag l")
          case True
          with ao(3) ne hl(3,4) show ?thesis by (auto simp: fvalue_def)
        next
          case False
          with ao(2) ne hl(3,4) show ?thesis by (auto simp: fvalue_def abs_real_def split: if_splits)
        qed
      qed
    qed
    have "fadd a b ctx f = (if un_exp (unpack b) \<le> un_exp (unpack a)
        then add_ordered (fsign a) (un_exp (unpack a)) (push_bit 64 (ucast (un_mant (unpack a))))
          (fsign b) (un_exp (unpack b)) (push_bit 64 (ucast (un_mant (unpack b)))) ctx f
        else add_ordered (fsign b) (un_exp (unpack b)) (push_bit 64 (ucast (un_mant (unpack b))))
          (fsign a) (un_exp (unpack a)) (push_bit 64 (ucast (un_mant (unpack a)))) ctx f)"
      using nz fin by (simp add: fadd_def exp_hi_def)
    then show ?thesis
      using main [OF assms(3) nz(1) pos] main [OF assms(4) nz(2) pos(2,1), unfolded add.commute [of "fvalue b"]] nz
      by (cases "un_exp (unpack b) \<le> un_exp (unpack a)") simp_all
  qed
qed

lemma fadd_correctly_rounded_witness:
  "rounds_to False 4 NEAREST_EXT 0 (fadd (fone False) fthree NEAREST_EXT 0)"
  using fadd_correctly_rounded [OF fone_facts(1) fthree_facts(1) fone_facts(2) fthree_facts(2), of NEAREST_EXT 0]
  by (simp add: fvalue_def fone_facts fthree_facts)

end
