(* ===== verification/Float_Sqrt.thy ===== *)
theory Float_Sqrt
  imports Float_Arith
begin

unbundle bit_operations_syntax

text \<open>
  The digit-by-digit integer square root of \<open>src/fpu/softfloat.rs\<close> and the square root of the
  extended format built on it, against the specification of \<open>Rounding\<close>.
\<close>

section \<open>Square root\<close>

text \<open>
  The invariant of the digit loop at place \<open>k\<close>: the root found so far is \<open>R\<close>, a multiple of
  \<open>2 ^ k\<close>, \<open>x\<close> is what is left of the number \<open>N\<close>, and \<open>c\<close> is \<open>R\<close> shifted.
\<close>

definition isqrt_inv :: "int \<Rightarrow> nat \<Rightarrow> int \<Rightarrow> u128 \<Rightarrow> u128 \<Rightarrow> bool" where
  "isqrt_inv N k R x c \<longleftrightarrow>
     0 \<le> R \<and> R mod 2 ^ k = 0 \<and> R < 2 ^ 64 \<and> uint c = R * 2 ^ k \<and> N = R * R + uint x \<and>
     N < (R + 2 ^ k) * (R + 2 ^ k)"

definition isqrt_step :: "u128 \<Rightarrow> u128 \<times> u128 \<Rightarrow> u128 \<times> u128" where
  "isqrt_step d = (\<lambda>(x, c). if c + d \<le> x then (x - (c + d), drop_bit 1 c + d) else (x, drop_bit 1 c))"

lemma isqrt_step_inv:
  assumes inv: "isqrt_inv N (Suc k) R x c" and "k < 64"
  shows "\<exists>R'. isqrt_inv N k R' (fst (isqrt_step (2 ^ (2 * k)) (x, c))) (snd (isqrt_step (2 ^ (2 * k)) (x, c)))"
proof -
  define P :: int where "P = 2 ^ k"
  define d :: u128 where "d = 2 ^ (2 * k)"
  have P: "0 < P" "(2 :: int) ^ Suc k = 2 * P" by (simp_all add: P_def)
  have R: "0 \<le> R" "R mod (2 * P) = 0" "R < 2 ^ 64" "uint c = R * (2 * P)" "N = R * R + uint x"
    "N < (R + 2 * P) * (R + 2 * P)"
    using inv unfolding isqrt_inv_def P(2) by simp_all
  have ud: "uint d = P * P"
  proof -
    have "uint d = 2 ^ (2 * k)" unfolding d_def using assms(2) by (intro uint_exp) simp
    also have "\<dots> = P * P" by (simp add: P_def mult_2 power_add)
    finally show ?thesis .
  qed
  have dv: "(2 * P) dvd 2 ^ 64"
    unfolding P(2) [symmetric] using assms(2) by (intro le_imp_power_dvd) simp
  have lim: "R + 2 * P \<le> 2 ^ 64"
  proof -
    obtain i j where i: "R = 2 * P * i" and j: "2 ^ 64 = 2 * P * j" using R(2) dv by (metis dvdE mod_0_imp_dvd)
    have "2 * P * i < 2 * P * j" using R(3) unfolding i j .
    then have "i + 1 \<le> j" using P(1) by simp
    then have "2 * P * (i + 1) \<le> 2 * P * j" using P(1) by (intro mult_left_mono) simp_all
    then show ?thesis unfolding i j by (simp add: algebra_simps)
  qed
  have sq: "(R + P) * (R + P) = R * R + (R * (2 * P) + P * P)" by (simp add: algebra_simps)
  have small: "R * (2 * P) + P * P < 2 ^ 128"
  proof -
    have "(R + P) * (R + P) < 2 ^ 64 * 2 ^ 64" using R(1) P(1) lim by (intro mult_strict_mono) linarith+
    then have "R * R + (R * (2 * P) + P * P) < 2 ^ 128" unfolding sq by simp
    moreover have "0 \<le> R * R" by simp
    ultimately show ?thesis by linarith
  qed
  have uc: "uint (c + d) = R * (2 * P) + P * P"
    using small R(1) P(1) by (simp add: uint_word_ariths(1) R(4) ud)
  have half: "uint (drop_bit 1 c) = R * P" by (simp add: uint_drop_bit R(4))
  have R2: "R mod P = 0" using R(2) by (metis dvd_mult_right mod_0_imp_dvd mod_eq_0_iff_dvd mult.commute dvd_def)
  show ?thesis
  proof (cases "c + d \<le> x")
    case True
    then have ge: "R * (2 * P) + P * P \<le> uint x" using uc by (simp add: word_le_def)
    have "uint (x - (c + d)) = uint x - (R * (2 * P) + P * P)"
      using True by (simp add: uint_sub_lem [THEN iffD1] uc word_le_def)
    moreover have "uint (drop_bit 1 c + d) = (R + P) * P"
    proof -
      have "uint (drop_bit 1 c) + uint d = R * P + P * P" by (simp only: half ud)
      also have "\<dots> \<le> R * (2 * P) + P * P" using R(1) P(1) by simp
      finally have "uint (drop_bit 1 c) + uint d < 2 ^ 128" using small by linarith
      then have "uint (drop_bit 1 c + d) = uint (drop_bit 1 c) + uint d" by (simp add: uint_word_ariths(1))
      then show ?thesis by (simp only: half ud distrib_right)
    qed
    ultimately have "isqrt_inv N k (R + P) (x - (c + d)) (drop_bit 1 c + d)"
      using R P lim R2 sq unfolding isqrt_inv_def P_def [symmetric] by (simp add: algebra_simps)
    then show ?thesis using True unfolding isqrt_step_def d_def [symmetric] by auto
  next
    case False
    then have "uint x < R * (2 * P) + P * P" using uc by (simp add: word_le_def)
    then have "isqrt_inv N k R x (drop_bit 1 c)"
      using R R2 sq half unfolding isqrt_inv_def P_def [symmetric] by simp
    then show ?thesis using False unfolding isqrt_step_def d_def [symmetric] by auto
  qed
qed

lemma isqrt_loop_step:
  "d \<noteq> 0 \<Longrightarrow> isqrt_loop (Suc n) d y = isqrt_loop n (drop_bit 2 d) (isqrt_step d y)"
  by (cases y) (simp add: isqrt_step_def)

lemma isqrt_loop_inv:
  assumes "isqrt_inv N (Suc k) R x c" and "k < 64" and "Suc k \<le> n"
  shows "\<exists>r. isqrt_inv N 0 r (snd (isqrt_loop n (2 ^ (2 * k)) (x, c))) (fst (isqrt_loop n (2 ^ (2 * k)) (x, c)))"
  using assms
proof (induction k arbitrary: x c R n)
  case 0
  then obtain n' where n: "n = Suc n'" by (cases n) auto
  have z: "isqrt_loop n' 0 y = (snd y, fst y)" for y by (cases n'; cases y) simp_all
  have d: "drop_bit 2 (2 ^ (2 * 0) :: u128) = 0" by simp
  show ?case
    unfolding n by (subst (1 2) isqrt_loop_step) (simp_all only: d z fst_conv snd_conv isqrt_step_inv [OF 0(1,2)], simp_all)
next
  case (Suc k)
  then obtain n' where n: "n = Suc n'" by (cases n) auto
  define d :: u128 where "d = 2 ^ (2 * Suc k)"
  define y where "y = isqrt_step d (x, c)"
  obtain R' where "isqrt_inv N (Suc k) R' (fst y) (snd y)"
    using isqrt_step_inv [OF Suc.prems(1,2)] unfolding y_def d_def by blast
  from Suc.IH [OF this] have ih: "\<exists>r. isqrt_inv N 0 r (snd (isqrt_loop n' (2 ^ (2 * k)) y)) (fst (isqrt_loop n' (2 ^ (2 * k)) y))"
    using Suc.prems n by simp
  have "uint d = 2 ^ (2 * Suc k)" unfolding d_def using Suc.prems(2) by (intro uint_exp) simp
  then have "d \<noteq> 0" by (metis power_not_zero uint_0_iff zero_neq_numeral)
  moreover have "drop_bit 2 d = 2 ^ (2 * k)"
  proof (rule bit_word_eqI)
    fix i
    show "bit (drop_bit 2 d) i \<longleftrightarrow> bit (2 ^ (2 * k) :: u128) i"
      unfolding d_def bit_drop_bit_eq o_apply bit_exp_iff possible_bit_word using Suc.prems(2) by auto
  qed
  ultimately have "isqrt_loop n d (x, c) = isqrt_loop n' (2 ^ (2 * k)) y"
    unfolding n y_def by (subst isqrt_loop_step) simp_all
  then show ?case using ih unfolding d_def by simp
qed

lemma lower_digit_id: "\<not> x < d \<Longrightarrow> lower_digit n x d = d"
  by (cases n) simp_all

text \<open>
  C32. The integer square root of any 128-bit number: the root squared plus the remainder is
  the number, and the next root is too large.
\<close>

theorem isqrt128_correct:
  "uint n = uint (fst (isqrt128 n)) * uint (fst (isqrt128 n)) + uint (snd (isqrt128 n)) \<and>
   uint n < (uint (fst (isqrt128 n)) + 1) * (uint (fst (isqrt128 n)) + 1) \<and> uint (fst (isqrt128 n)) < 2 ^ 64"
proof (cases "n = 0")
  case False
  define lz where "lz = leading_zeros n"
  define k where "k = (126 - (lz - lz mod 2)) div 2"
  have lz: "lz < 128" unfolding lz_def using leading_zeros_top(1) [OF False] by simp
  have k: "126 - (lz - lz mod 2) = 2 * k" "k < 64" using lz unfolding k_def by presburger+
  have range: "2 ^ (127 - lz) \<le> uint n" "uint n < 2 ^ (128 - lz)"
    using leading_zeros_bounds [OF False] by (simp_all add: lz_def)
  have "2 * k \<le> 127 - lz" "128 - lz \<le> 2 * Suc k" using k lz by presburger+
  then have "(2 :: int) ^ (2 * k) \<le> 2 ^ (127 - lz)" "(2 :: int) ^ (128 - lz) \<le> 2 ^ (2 * Suc k)"
    by (intro power_increasing; simp)+
  with range have ge: "2 ^ (2 * k) \<le> uint n" and less: "uint n < 2 ^ (2 * Suc k)" by linarith+
  have ud: "uint (2 ^ (2 * k) :: u128) = 2 ^ (2 * k)" using k(2) by (intro uint_exp) simp
  have "\<not> n < 2 ^ (2 * k)" using ge ud by (simp only: word_less_def not_less)
  then have digit: "lower_digit 64 n (2 ^ (2 * k)) = 2 ^ (2 * k)" by (rule lower_digit_id)
  have "uint n < 2 ^ Suc k * 2 ^ Suc k" using less unfolding mult_2 power_add .
  then have "isqrt_inv (uint n) (Suc k) 0 n 0" unfolding isqrt_inv_def by simp
  from isqrt_loop_inv [OF this k(2), of 65] k(2) obtain r where
    r: "isqrt_inv (uint n) 0 r (snd (isqrt_loop 65 (2 ^ (2 * k)) (n, 0))) (fst (isqrt_loop 65 (2 ^ (2 * k)) (n, 0)))"
    by auto
  have "isqrt128 n = isqrt_loop 65 (2 ^ (2 * k)) (n, 0)"
    using False digit k(1) unfolding isqrt128_def Let_def lz_def [symmetric] by simp
  with r show ?thesis unfolding isqrt_inv_def by simp
qed (simp add: isqrt128_def)

text \<open>
  C33. The square root of a finite canonical number that is not negative is correctly rounded,
  with its flags, in the directed modes and in single and double precision.
\<close>

theorem fsqrt_correctly_rounded:
  assumes "finite80 a" and "canonical a" and "\<not> fsign a" and "guarded ctx"
  shows "rounds_to False (sqrt (fmag a)) ctx f (fsqrt a ctx f)"
proof (cases "is_zero a")
  case True
  then have "sqrt (fmag a) = 0" by (simp add: unpack_zero)
  moreover have "fsqrt a ctx f = (fzero False, f)"
    using True assms by (simp add: fsqrt_def finite_special)
  ultimately show ?thesis by (simp only: rounds_to_zero)
next
  case False
  define ma where "ma = un_mant (unpack a)"
  define e where "e = un_exp (unpack a) - 63"
  define s where "s = (if even e then 64 else 63 :: nat)"
  define h where "h = (e - int s) div 2"
  define n :: u128 where "n = push_bit s (ucast ma)"
  define root where "root = fst (isqrt128 n)"
  define left where "left = snd (isqrt128 n)"
  define m where "m = (if left \<noteq> 0 then push_bit 64 root OR 1 else push_bit 64 root)"
  have "even (e - int s)" by (simp add: s_def)
  then have h: "2 * h = e - int s" by (simp add: h_def)
  have ma: "2 ^ 63 \<le> uint ma" "uint ma < 2 ^ 64"
    using unpack_canonical(1) [OF assms(2) False] uint_lt2p [of ma] by (simp_all add: ma_def)
  have s: "s = 64 \<or> s = 63" by (simp add: s_def)
  have un: "uint n = uint ma * 2 ^ s"
  proof -
    have "uint (ucast ma :: u128) * 2 ^ s < 2 ^ 128" using s ma(2) by (auto simp: uint_widen)
    then show ?thesis using uint_with_sticky [of s "ucast ma" False] s by (auto simp: n_def uint_widen)
  qed
  have nb: "2 ^ 126 \<le> uint n" using s ma(1) unfolding un by auto
  note isqrt = isqrt128_correct [of n, folded root_def left_def]
  have rlow: "2 ^ 63 \<le> uint root"
  proof (rule ccontr)
    assume "\<not> 2 ^ 63 \<le> uint root"
    then have "(uint root + 1) * (uint root + 1) \<le> 2 ^ 63 * 2 ^ 63" by (intro mult_mono) simp_all
    then show False using isqrt nb by simp
  qed
  define y where "y = sqrt (of_int (uint n))"
  have y: "of_int (uint root) \<le> y" "y < of_int (uint root) + 1"
  proof -
    have "uint root * uint root \<le> uint n" using isqrt uint_ge_0 [of left] by linarith
    then have "of_int (uint root) * of_int (uint root) \<le> (of_int (uint n) :: real)"
      by (simp only: of_int_mult [symmetric] of_int_le_iff)
    then show "of_int (uint root) \<le> y" unfolding y_def by (intro real_le_rsqrt) (simp add: power2_eq_square)
    have "(of_int (uint n) :: real) < of_int ((uint root + 1) * (uint root + 1))"
      unfolding of_int_less_iff using isqrt by blast
    then have "of_int (uint n) < (of_int (uint root) + 1 :: real)\<^sup>2"
      by (simp only: power2_eq_square of_int_add of_int_mult of_int_1)
    moreover have "0 \<le> (of_int (uint root) :: real)" unfolding of_int_0_le_iff by simp
    then have "0 \<le> (of_int (uint root) + 1 :: real)" by linarith
    ultimately show "y < of_int (uint root) + 1" unfolding y_def by (intro real_less_lsqrt)
  qed
  have exact: "y \<noteq> of_int (uint root) \<longleftrightarrow> left \<noteq> 0"
  proof -
    have "y = of_int (uint root) \<longleftrightarrow> of_int (uint n) = (of_int (uint root) * of_int (uint root) :: real)"
    proof
      have n: "0 \<le> (of_int (uint n) :: real)" unfolding of_int_0_le_iff by simp
      assume "y = of_int (uint root)"
      then show "of_int (uint n) = (of_int (uint root) * of_int (uint root) :: real)"
        using real_sqrt_mult_self [of "of_int (uint n)"] abs_of_nonneg [OF n] unfolding y_def by (simp only:)
    next
      have r: "0 \<le> (of_int (uint root) :: real)" unfolding of_int_0_le_iff by simp
      assume e: "of_int (uint n) = (of_int (uint root) * of_int (uint root) :: real)"
      show "y = of_int (uint root)" unfolding y_def e real_sqrt_abs2 by (rule abs_of_nonneg [OF r])
    qed
    also have "\<dots> \<longleftrightarrow> uint n = uint root * uint root" by (simp only: of_int_mult [symmetric] of_int_eq_iff)
    also have "\<dots> \<longleftrightarrow> left = 0" using isqrt by (simp only: uint_0_iff [symmetric]) linarith
    finally show ?thesis by simp
  qed
  have um: "uint m = uint root * 2 ^ 64 + of_bool (y \<noteq> of_int (uint root))"
    unfolding m_def exact using isqrt by (intro uint_with_sticky) simp_all
  have low: "2 ^ 127 \<le> uint m" using rlow unfolding um by simp
  then have "m \<noteq> 0" by auto
  have lz: "64 + leading_zeros m \<le> rounding_grid ctx"
    using leading_zeros_le [of 127 m] low guarded_grid [OF assms(4)] by simp
  have eb: "- (2 ^ 30) \<le> h + 63" "h + 63 \<le> 2 ^ 30"
    using unpack_fields(2,3) [of a] h s by (auto simp: e_def)
  have v: "y * 2 powi (h + 63 + int 64 - 127) = sqrt (fmag a)"
  proof -
    have "2 powi (2 * h) = (2 powi h * 2 powi h :: real)" by (simp flip: pow2_add)
    moreover have "fmag a = of_int (uint n) * 2 powi (2 * h)"
    proof -
      have "(2 :: real) ^ s * 2 powi (2 * h) = 2 powi e" by (rule pow2_mult) (simp add: h)
      then show ?thesis unfolding un unpack_fields(1) ma_def [symmetric] e_def [symmetric] by (simp add: mult.assoc)
    qed
    ultimately show ?thesis by (simp add: y_def real_sqrt_mult)
  qed
  have "rounds_to False (sqrt (fmag a)) ctx f (round_pack False (h + 63) m ctx f)"
    using round_pack_truncated [OF eb y _ um \<open>m \<noteq> 0\<close> lz, of False f] unfolding v by simp
  moreover have "fsqrt a ctx f = round_pack False (h + 63) m ctx f"
  proof -
    have "(if even e then (64, e - 64) else (63, e - 63)) = (s, e - int s)" by (simp add: s_def)
    then show ?thesis
      using False assms(1,3) unfolding fsqrt_def Let_def ma_def [symmetric] e_def [symmetric]
      by (simp add: finite_special n_def [symmetric] m_def root_def left_def h_def split: prod.split)
  qed
  ultimately show ?thesis by simp
qed

lemma fsqrt_correctly_rounded_witness:
  "rounds_to False (sqrt 3) \<lparr> mode = ToZero, prec = Extended \<rparr> 0
     (fsqrt fthree \<lparr> mode = ToZero, prec = Extended \<rparr> 0) \<and>
   fsqrt fthree \<lparr> mode = ToZero, prec = Extended \<rparr> 0 =
     (\<lparr> mantissa = 0xDDB3D742C265539D, sign_exp = 0x3FFF \<rparr>, INEX2)"
proof
  show "rounds_to False (sqrt 3) \<lparr> mode = ToZero, prec = Extended \<rparr> 0
      (fsqrt fthree \<lparr> mode = ToZero, prec = Extended \<rparr> 0)"
    using fsqrt_correctly_rounded [OF fthree_facts(1,2,4), of "\<lparr> mode = ToZero, prec = Extended \<rparr>" 0]
    by (simp add: guarded_def fthree_facts)
  show "fsqrt fthree \<lparr> mode = ToZero, prec = Extended \<rparr> 0 =
      (\<lparr> mantissa = 0xDDB3D742C265539D, sign_exp = 0x3FFF \<rparr>, INEX2)"
    by code_simp
qed

end
