(* ===== verification/Binary64.thy ===== *)
theory Binary64
  imports Float_X80 Complex_Main "HOL-Library.Log_Nat"
begin

unbundle bit_operations_syntax

text \<open>
  The floating point numbers of Rust that the coprocessor uses beside its own format: \<open>f64\<close> and
  \<open>f32\<close> as bit patterns, with the operations of the standard library the source calls. A finite
  pattern is a rational number; an arithmetic result is the exact rational rounded to nearest,
  ties to even, as IEEE 754 has it. What Rust leaves to the host (the digits of \<open>log10\<close>, the bits
  of a not-a-number that a cast makes) is a parameter, the record \<open>host_float\<close>.
\<close>

record host_float =
  log10_host :: "u64 \<Rightarrow> u64"
  widen_nan :: "u32 \<Rightarrow> u64"
  narrow_nan :: "u64 \<Rightarrow> u32"

section \<open>Values\<close>

definition scaled :: "int \<Rightarrow> int \<Rightarrow> rat" where
  "scaled m e = (if 0 \<le> e then of_int (m * 2 ^ nat e) else Fract m (2 ^ nat (- e)))"

definition f64_is_nan :: "u64 \<Rightarrow> bool" where
  "f64_is_nan b \<longleftrightarrow> drop_bit 52 b AND 0x7FF = 0x7FF \<and> take_bit 52 b \<noteq> 0"

definition f64_is_inf :: "u64 \<Rightarrow> bool" where
  "f64_is_inf b \<longleftrightarrow> drop_bit 52 b AND 0x7FF = 0x7FF \<and> take_bit 52 b = 0"

definition f64_value :: "u64 \<Rightarrow> rat" where
  "f64_value b =
     (let e = int (unat (drop_bit 52 b AND 0x7FF)); frac = uint (take_bit 52 b);
          v = (if e = 0 then scaled frac (-1074) else scaled (2 ^ 52 + frac) (e - 1075))
      in if bit b 63 then - v else v)"

section \<open>Rounding\<close>

text \<open>The exponent of the leading binary digit of a positive rational.\<close>

definition binary_exponent :: "rat \<Rightarrow> int" where
  "binary_exponent r =
     (let (p, q) = quotient_of r; e = bitlen p - bitlen q in if scaled 1 e \<le> r then e else e - 1)"

definition round_half_even :: "rat \<Rightarrow> int" where
  "round_half_even r =
     (let n = \<lfloor>r\<rfloor>; d = r - of_int n
      in if d < 1 / 2 \<or> d = 1 / 2 \<and> even n then n else n + 1)"

text \<open>
  The pattern without sign of a nonnegative rational in a format of \<open>p\<close> significant bits whose
  smallest positive number is \<open>2 powi emin\<close>: the significand with its hidden bit carries into the
  exponent field above it.
\<close>

definition nearest_pattern :: "nat \<Rightarrow> int \<Rightarrow> rat \<Rightarrow> int" where
  "nearest_pattern p emin r =
     (if r = 0 then 0
      else
        let e = max emin (binary_exponent r - int (p - 1))
        in (e - emin) * 2 ^ (p - 1) + round_half_even (r * scaled 1 (- e)))"

definition f64_of_rat :: "bool \<Rightarrow> rat \<Rightarrow> u64" where
  "f64_of_rat sign r = f64_sign sign OR word_of_int (min 0x7FF0000000000000 (nearest_pattern 53 (-1074) \<bar>r\<bar>))"

definition f64_of_int :: "int \<Rightarrow> u64" where
  "f64_of_int n = f64_of_rat (n < 0) (of_int n)"

section \<open>Operations\<close>

definition f64_mul :: "u64 \<Rightarrow> u64 \<Rightarrow> u64" where
  "f64_mul a b =
     (let sign = (bit a 63 \<noteq> bit b 63)
      in if f64_is_nan a \<or> f64_is_nan b then f64_nan
         else if f64_is_inf a \<or> f64_is_inf b then
           if f64_is_inf a \<and> f64_is_inf b \<or> f64_value (if f64_is_inf a then b else a) \<noteq> 0
           then f64_infinity sign else f64_nan
         else f64_of_rat sign (f64_value a * f64_value b))"

definition f64_abs :: "u64 \<Rightarrow> u64" where "f64_abs b = b AND 0x7FFFFFFFFFFFFFFF"

text \<open>\<open>round\<close>: to an integer, halves away from zero.\<close>

definition f64_round :: "u64 \<Rightarrow> u64" where
  "f64_round b =
     (if f64_is_nan b \<or> f64_is_inf b then b
      else f64_of_rat (bit b 63) (of_int \<lfloor>\<bar>f64_value b\<bar> + 1 / 2\<rfloor>))"

definition f64_floor :: "u64 \<Rightarrow> u64" where
  "f64_floor b =
     (if f64_is_nan b \<or> f64_is_inf b then b
      else f64_of_rat (bit b 63) (of_int \<lfloor>f64_value b\<rfloor>))"

definition f64_greater :: "u64 \<Rightarrow> u64 \<Rightarrow> bool" where
  "f64_greater a b \<longleftrightarrow>
     (if f64_is_nan a \<or> f64_is_nan b then False
      else if f64_is_inf a then \<not> bit a 63 \<and> \<not> (f64_is_inf b \<and> \<not> bit b 63)
      else if f64_is_inf b then bit b 63
      else f64_value b < f64_value a)"

text \<open>A comparison with \<open><=\<close> is false on a not-a-number too.\<close>

definition f64_at_most :: "u64 \<Rightarrow> u64 \<Rightarrow> bool" where
  "f64_at_most a b \<longleftrightarrow> \<not> f64_is_nan a \<and> \<not> f64_is_nan b \<and> \<not> f64_greater a b"

text \<open>The casts \<open>as i32\<close> and \<open>as i64\<close>: towards zero, saturating, zero for a not-a-number.\<close>

definition f64_to_int :: "int \<Rightarrow> int \<Rightarrow> u64 \<Rightarrow> int" where
  "f64_to_int least greatest b =
     (if f64_is_nan b then 0
      else if f64_is_inf b then if bit b 63 then least else greatest
      else max least (min greatest (if bit b 63 then \<lceil>f64_value b\<rceil> else \<lfloor>f64_value b\<rfloor>)))"

definition f64_as_i32 :: "u64 \<Rightarrow> int" where "f64_as_i32 = f64_to_int (- (2 ^ 31)) (2 ^ 31 - 1)"
definition f64_as_i64 :: "u64 \<Rightarrow> int" where "f64_as_i64 = f64_to_int (- (2 ^ 63)) (2 ^ 63 - 1)"

section \<open>Binary32\<close>

definition f32_value :: "u32 \<Rightarrow> rat" where
  "f32_value b =
     (let e = int (unat (drop_bit 23 b AND 0xFF)); frac = uint (take_bit 23 b);
          v = (if e = 0 then scaled frac (-149) else scaled (2 ^ 23 + frac) (e - 150))
      in if bit b 31 then - v else v)"

definition f32_to_f64 :: "host_float \<Rightarrow> u32 \<Rightarrow> u64" where
  "f32_to_f64 H b =
     (if drop_bit 23 b AND 0xFF = 0xFF then
        if take_bit 23 b = 0 then f64_infinity (bit b 31) else widen_nan H b
      else f64_of_rat (bit b 31) (f32_value b))"

definition f64_to_f32 :: "host_float \<Rightarrow> u64 \<Rightarrow> u32" where
  "f64_to_f32 H b =
     (let sign = (if bit b 63 then 0x80000000 else 0 :: u32)
      in if f64_is_nan b then narrow_nan H b
         else if f64_is_inf b then sign OR 0x7F800000
         else sign OR word_of_int (min 0x7F800000 (nearest_pattern 24 (-149) \<bar>f64_value b\<bar>)))"

end
