(* ===== verification/Packed.thy ===== *)
theory Packed
  imports Softfloat Binary64
begin

unbundle bit_operations_syntax

text \<open>
  The packed decimal real format of \<open>src/fpu/packed.rs\<close>: a sign, three digits of exponent and
  seventeen digits of significand. The twelve bytes of the source are here the three big-endian
  longwords its callers make them of. The scaling by a power of ten goes through the soft floating
  point; the leading decimal exponent comes from the \<open>log10\<close> of the host, a parameter. Sums of
  \<open>i32\<close> that can leave their range wrap.
\<close>

section \<open>Powers of ten\<close>

text \<open>Exponentiation by squaring with the flags threaded through; the exponent has 32 bits.\<close>

fun packed_pow10_loop :: "nat \<Rightarrow> nat \<Rightarrow> float_x80 \<Rightarrow> float_x80 \<Rightarrow> u8 \<Rightarrow> float_x80 \<times> u8" where
  "packed_pow10_loop 0 e result base f = (result, f)"
| "packed_pow10_loop (Suc n) e result base f =
     (if e = 0 then (result, f)
      else
        let (result, f) = (if odd e then fmul result base NEAREST_EXT f else (result, f));
            e = e div 2;
            (base, f) = (if e \<noteq> 0 then fmul base base NEAREST_EXT f else (base, f))
        in packed_pow10_loop n e result base f)"

definition packed_pow10 :: "nat \<Rightarrow> u8 \<Rightarrow> float_x80 \<times> u8" where
  "packed_pow10 n f = packed_pow10_loop 32 n (from_u64 1 False) (from_u64 10 False) f"

definition mul_pow10 :: "float_x80 \<Rightarrow> int \<Rightarrow> u8 \<Rightarrow> (float_x80 \<times> u8) option" where
  "mul_pow10 x p f =
     (if p = 0 then Some (x, f)
      else
        let (tp, f) = packed_pow10 (nat \<bar>p\<bar>) f
        in if 0 < p then Some (fmul x tp NEAREST_EXT f) else fdiv x tp NEAREST_EXT f)"

section \<open>Decoding\<close>

text \<open>A digit of a longword, from the most significant one, \<open>i = 0\<close>, on.\<close>

definition packed_digit :: "u32 \<Rightarrow> nat \<Rightarrow> nat" where
  "packed_digit w i = unat (drop_bit (28 - 4 * i) w AND 0xF)"

definition decimal_number :: "nat list \<Rightarrow> int" where
  "decimal_number ds = foldl (\<lambda>m d. m * 10 + int d) 0 ds"

definition real_digits :: "u32 \<Rightarrow> u32 \<Rightarrow> u32 \<Rightarrow> nat list" where
  "real_digits w0 w1 w2 =
     unat (w0 AND 0xF) # map (packed_digit w1) [0..<8] @ map (packed_digit w2) [0..<8]"

definition packed_exponent :: "u32 \<Rightarrow> int" where
  "packed_exponent w0 =
     (let e = int (packed_digit w0 1 * 100 + packed_digit w0 2 * 10 + packed_digit w0 3)
      in if bit w0 30 then - e else e)"

definition from_packed :: "u32 \<Rightarrow> u32 \<Rightarrow> u32 \<Rightarrow> u8 \<Rightarrow> (float_x80 \<times> u8) option" where
  "from_packed w0 w1 w2 f =
     (let sm = bit w0 31
      in if drop_bit 16 w0 AND 0xFFF = 0xFFF then
           Some (if w0 AND 0xF = 0 \<and> w1 = 0 \<and> w2 = 0 then infinity sm else default_nan, f)
         else
           let m = word_of_int (decimal_number (real_digits w0 w1 w2)) :: u64
           in if m = 0 then Some (fzero sm, f)
              else mul_pow10 (from_u64 m sm) (packed_exponent w0 - 16) f)"

section \<open>Encoding\<close>

definition pack_special :: "bool \<Rightarrow> bool \<Rightarrow> u32 \<times> u32 \<times> u32" where
  "pack_special sign nan =
     (push_bit 31 (of_bool sign) OR 0x0FFF0000 OR (if nan then 0xF else 0),
      if nan then 0xFFFFFFFF else 0, 0)"

text \<open>Eight digits in a longword, the most significant one first.\<close>

definition pack_digits :: "nat list \<Rightarrow> u32" where
  "pack_digits ds =
     foldr (\<lambda>(i, d) w. push_bit (28 - 4 * i) (word_of_nat d AND 0xF) OR w) (zip [0..<length ds] ds) 0"

definition pack_value :: "bool \<Rightarrow> int \<Rightarrow> nat list \<Rightarrow> u32 \<times> u32 \<times> u32" where
  "pack_value sign_m ex digits =
     (let ea = min (nat \<bar>ex\<bar>) 999
      in (push_bit 31 (of_bool sign_m) OR push_bit 30 (of_bool (ex < 0)) OR
            push_bit 24 (word_of_nat (ea div 100 mod 10)) OR push_bit 20 (word_of_nat (ea div 10 mod 10)) OR
            push_bit 16 (word_of_nat (ea mod 10)) OR (word_of_nat (digits ! 0) AND 0xF),
          pack_digits (take 8 (drop 1 digits)), pack_digits (take 8 (drop 9 digits))))"

text \<open>
  The carry of a round-up runs from digit \<open>i - 1\<close> towards the leading digit; past it the digits
  shift right and the exponent grows.
\<close>

fun carry_digit :: "nat \<Rightarrow> nat list \<Rightarrow> int \<Rightarrow> nat list \<times> int" where
  "carry_digit 0 digits ex = (1 # butlast digits, ex + 1)"
| "carry_digit (Suc i) digits ex =
     (if digits ! i = 9 then carry_digit i (digits[i := 0]) ex
      else (digits[i := digits ! i + 1], ex))"

definition round_to_sig :: "nat list \<Rightarrow> int \<Rightarrow> nat \<Rightarrow> u8 \<Rightarrow> (nat list \<times> int) \<times> u8" where
  "round_to_sig digits ex sig0 f =
     (let sig = max 1 (min 17 sig0)
      in if 17 \<le> sig then ((digits, ex), f)
         else
           let f = (if \<exists>d \<in> set (drop sig digits). d \<noteq> 0 then raise_flags INEX1 f else f);
               round_up = (5 \<le> digits ! sig);
               digits = take sig digits @ replicate (17 - sig) 0
           in (if round_up then carry_digit sig digits ex else (digits, ex), f))"

text \<open>The seventeen digits of an integer.\<close>

definition decimal_digits :: "int \<Rightarrow> nat list" where
  "decimal_digits t = map (\<lambda>i. nat (t div 10 ^ (16 - i) mod 10)) [0..<17]"

definition to_packed :: "host_float \<Rightarrow> float_x80 \<Rightarrow> int \<Rightarrow> u8 \<Rightarrow> ((u32 \<times> u32 \<times> u32) \<times> u8) option" where
  "to_packed H x k f =
     (if is_nan x then Some (pack_special (fsign x) True, f)
      else if is_inf x then Some (pack_special (fsign x) False, f)
      else if is_zero x then Some (pack_value (fsign x) 0 (replicate 17 0), f)
      else do {
        let mag = fabs x;
        let e10 = f64_as_i32 (f64_floor (log10_host H (f64_abs (to_f64 mag))));
        (scaled, f) \<leftarrow> mul_pow10 mag (i32_wrap (16 - e10)) f;
        let (iv, f) = to_i64 scaled Nearest 0 (2 ^ 63 - 1) f;
        let (iv, ex) = (if 10 ^ 17 \<le> iv then (iv div 10, i32_wrap (e10 + 1))
                         else if iv \<noteq> 0 \<and> iv < 10 ^ 16 then (iv * 10, i32_wrap (e10 - 1)) else (iv, e10));
        let sig = (if 0 < k then nat k else nat (max 1 (min 17 (i32_wrap (ex + 1 - k)))));
        let ((digits, ex), f) = round_to_sig (decimal_digits iv) ex sig f;
        let f = (if 999 < \<bar>ex\<bar> then raise_flags OPERR f else f);
        Some (pack_value (fsign x) ex digits, f)
      })"

end
