(* ===== verification/Double_Double.thy ===== *)
theory Double_Double
  imports Float_Arith
begin

unbundle bit_operations_syntax

text \<open>
  The double-\<open>FloatX80\<close> arithmetic of \<open>src/fpu/dd.rs\<close>: a number is an unevaluated sum of two
  extended numbers. Every step rounds to nearest in extended precision and discards its flags.
  A division is None where the soft floating point division panics. The theorems follow
  infinities and not-a-numbers through the error-free transforms, which do not expect them.
\<close>

section \<open>Scalar operations to nearest\<close>

definition near_add :: "float_x80 \<Rightarrow> float_x80 \<Rightarrow> float_x80" where "near_add a b = fst (fadd a b NEAREST_EXT 0)"
definition near_sub :: "float_x80 \<Rightarrow> float_x80 \<Rightarrow> float_x80" where "near_sub a b = fst (fsub a b NEAREST_EXT 0)"
definition near_mul :: "float_x80 \<Rightarrow> float_x80 \<Rightarrow> float_x80" where "near_mul a b = fst (fmul a b NEAREST_EXT 0)"
definition near_div :: "float_x80 \<Rightarrow> float_x80 \<Rightarrow> float_x80 option" where
  "near_div a b = map_option fst (fdiv a b NEAREST_EXT 0)"

section \<open>Error-free transforms\<close>

definition two_sum :: "float_x80 \<Rightarrow> float_x80 \<Rightarrow> float_x80 \<times> float_x80" where
  "two_sum a b =
     (let s = near_add a b; bb = near_sub s a
      in (s, near_add (near_sub a (near_sub s bb)) (near_sub b bb)))"

definition quick_two_sum :: "float_x80 \<Rightarrow> float_x80 \<Rightarrow> float_x80 \<times> float_x80" where
  "quick_two_sum a b = (let s = near_add a b in (s, near_sub b (near_sub s a)))"

text \<open>The factor is \<open>2 ^ 32 + 1\<close>, given as a binary64 literal.\<close>

definition split_factor :: float_x80 where "split_factor = from_f64 0x41F0000000100000"

definition split_halves :: "float_x80 \<Rightarrow> float_x80 \<times> float_x80" where
  "split_halves a =
     (let t = near_mul split_factor a; top = near_sub t (near_sub t a) in (top, near_sub a top))"

definition two_prod :: "float_x80 \<Rightarrow> float_x80 \<Rightarrow> float_x80 \<times> float_x80" where
  "two_prod a b =
     (let p = near_mul a b; (ah, al) = split_halves a; (bh, bl) = split_halves b
      in (p, near_add
               (near_add (near_add (near_sub (near_mul ah bh) p) (near_mul ah bl)) (near_mul al bh))
               (near_mul al bl)))"

section \<open>The double format\<close>

record df =
  df_hi :: float_x80
  df_lo :: float_x80

definition df_of_pair :: "float_x80 \<times> float_x80 \<Rightarrow> df" where
  "df_of_pair p = \<lparr> df_hi = fst p, df_lo = snd p \<rparr>"

definition df_from_x80 :: "float_x80 \<Rightarrow> df" where
  "df_from_x80 a = \<lparr> df_hi = a, df_lo = fzero False \<rparr>"

definition df_from_i32 :: "int \<Rightarrow> df" where
  "df_from_i32 n = df_from_x80 (from_u64 (word_of_int \<bar>n\<bar>) (n < 0))"

definition df_neg :: "df \<Rightarrow> df" where
  "df_neg a = \<lparr> df_hi = fneg (df_hi a), df_lo = fneg (df_lo a) \<rparr>"

definition df_to_x80 :: "df \<Rightarrow> round_ctx \<Rightarrow> u8 \<Rightarrow> float_x80 \<times> u8" where
  "df_to_x80 a ctx f = fadd (df_hi a) (df_lo a) ctx f"

definition df_add :: "df \<Rightarrow> df \<Rightarrow> df" where
  "df_add a b =
     (let (s, e) = two_sum (df_hi a) (df_hi b); e = near_add e (near_add (df_lo a) (df_lo b))
      in df_of_pair (quick_two_sum s e))"

definition df_sub :: "df \<Rightarrow> df \<Rightarrow> df" where "df_sub a b = df_add a (df_neg b)"

definition df_add_x80 :: "df \<Rightarrow> float_x80 \<Rightarrow> df" where
  "df_add_x80 a b =
     (let (s, e) = two_sum (df_hi a) b; e = near_add e (df_lo a) in df_of_pair (quick_two_sum s e))"

definition df_mul :: "df \<Rightarrow> df \<Rightarrow> df" where
  "df_mul a b =
     (let (p, e) = two_prod (df_hi a) (df_hi b);
          e = near_add e (near_add (near_mul (df_hi a) (df_lo b)) (near_mul (df_lo a) (df_hi b)))
      in df_of_pair (quick_two_sum p e))"

definition df_mul_x80 :: "df \<Rightarrow> float_x80 \<Rightarrow> df" where
  "df_mul_x80 a b =
     (let (p, e) = two_prod (df_hi a) b; e = near_add e (near_mul (df_lo a) b)
      in df_of_pair (quick_two_sum p e))"

definition df_sqr :: "df \<Rightarrow> df" where "df_sqr a = df_mul a a"

definition df_div :: "df \<Rightarrow> df \<Rightarrow> df option" where
  "df_div a b = do {
     q1 \<leftarrow> near_div (df_hi a) (df_hi b);
     let r = df_sub a (df_mul_x80 b q1);
     q2 \<leftarrow> near_div (df_hi r) (df_hi b);
     let r = df_sub r (df_mul_x80 b q2);
     q3 \<leftarrow> near_div (df_hi r) (df_hi b);
     Some (df_add_x80 (df_of_pair (quick_two_sum q1 q2)) q3)
   }"

definition df_recip :: "df \<Rightarrow> df option" where "df_recip b = df_div (df_from_i32 1) b"

section \<open>Series\<close>

definition negligible :: "float_x80 \<Rightarrow> float_x80 \<Rightarrow> bool" where
  "negligible pow acc \<longleftrightarrow>
     (if is_zero pow then True
      else if is_zero acc then False
      else int (unat (biased_exp acc)) - int (unat (biased_exp pow)) > 130)"

text \<open>The rounds of the source are at most \<open>k = 1, \<dots>, 201\<close>: the fuel counts those that are left.\<close>

fun odd_series_loop :: "nat \<Rightarrow> nat \<Rightarrow> bool \<Rightarrow> df \<Rightarrow> df \<Rightarrow> df \<Rightarrow> df option" where
  "odd_series_loop 0 k alternating x2 pow acc = Some acc"
| "odd_series_loop (Suc n) k alternating x2 pow acc = do {
     let pow = df_mul pow x2;
     term \<leftarrow> df_div pow (df_from_i32 (2 * int k + 1));
     let acc = df_add acc (if alternating \<and> odd k then df_neg term else term);
     if negligible (df_hi pow) (df_hi acc) then Some acc
     else odd_series_loop n (k + 1) alternating x2 pow acc
   }"

definition odd_series :: "df \<Rightarrow> bool \<Rightarrow> df option" where
  "odd_series x alternating = odd_series_loop 201 1 alternating (df_sqr x) x x"

definition term_negligible :: "df \<Rightarrow> df \<Rightarrow> bool" where
  "term_negligible t acc = negligible (df_hi t) (df_hi acc)"

definition atan_small :: "df \<Rightarrow> df option" where "atan_small x = odd_series x True"
definition atanh_small :: "df \<Rightarrow> df option" where "atanh_small x = odd_series x False"

section \<open>Constants\<close>

record dd_consts =
  c_pi :: df
  c_pi_2 :: df
  c_ln2 :: df
  c_ln10 :: df
  c_log2e :: df
  c_log10e :: df

abbreviation (input) F64_HALF :: u64 where "F64_HALF \<equiv> 0x3FE0000000000000"
abbreviation (input) F64_ONE :: u64 where "F64_ONE \<equiv> 0x3FF0000000000000"
abbreviation (input) F64_TWO :: u64 where "F64_TWO \<equiv> 0x4000000000000000"
abbreviation (input) F64_THREE :: u64 where "F64_THREE \<equiv> 0x4008000000000000"
abbreviation (input) F64_FOUR :: u64 where "F64_FOUR \<equiv> 0x4010000000000000"
abbreviation (input) F64_SIXTEEN :: u64 where "F64_SIXTEEN \<equiv> 0x4030000000000000"

text \<open>Machin's formula for pi, and the logarithms of two and ten by the series of atanh.\<close>

definition consts_df :: "dd_consts option" where
  "consts_df = do {
     i5 \<leftarrow> df_div (df_from_i32 1) (df_from_i32 5);
     a5 \<leftarrow> atan_small i5;
     i239 \<leftarrow> df_div (df_from_i32 1) (df_from_i32 239);
     a239 \<leftarrow> atan_small i239;
     let pi = df_sub (df_mul_x80 a5 (from_f64 F64_SIXTEEN)) (df_mul_x80 a239 (from_f64 F64_FOUR));
     i3 \<leftarrow> df_div (df_from_i32 1) (df_from_i32 3);
     h3 \<leftarrow> atanh_small i3;
     let ln2 = df_mul_x80 h3 (from_f64 F64_TWO);
     i9 \<leftarrow> df_div (df_from_i32 1) (df_from_i32 9);
     h9 \<leftarrow> atanh_small i9;
     let ln10 = df_add (df_mul_x80 ln2 (from_f64 F64_THREE)) (df_mul_x80 h9 (from_f64 F64_TWO));
     log2e \<leftarrow> df_recip ln2;
     log10e \<leftarrow> df_recip ln10;
     Some \<lparr> c_pi = pi, c_pi_2 = df_mul_x80 pi (from_f64 F64_HALF), c_ln2 = ln2, c_ln10 = ln10,
            c_log2e = log2e, c_log10e = log10e \<rparr>
   }"

section \<open>No panic\<close>

text \<open>
  The division panics only on a divisor whose significand is zero under an exponent that is not.
  Every operation returns canonical numbers, and on canonical operands every division returns.
\<close>

definition canonical_df :: "df \<Rightarrow> bool" where
  "canonical_df a \<longleftrightarrow> canonical (df_hi a) \<and> canonical (df_lo a)"

named_theorems canonical_intros \<open>operations that return canonical numbers\<close>

lemma biased_exp_sign_bits: "biased_exp \<lparr> mantissa = m, sign_exp = sign_bits s \<rparr> = 0"
  using packed_fields(2) [of 0 m s] by simp

lemma canonical_constants [canonical_intros, simp]:
  "canonical (fzero s)" "canonical default_nan" "canonical (infinity s)"
  by (simp_all add: canonical_def fzero_def biased_exp_sign_bits default_nan_def infinity_def bit_numeral_word_iff)

lemma biased_exp_fneg [simp]: "biased_exp (fneg x) = biased_exp x"
proof -
  define c :: u16 where "c = 0x8000"
  have c: "bit c n \<longleftrightarrow> n = 15" for n using bit_sign_bits [of True n] by (simp add: sign_bits_def c_def)
  show ?thesis
    unfolding biased_exp_def fneg_def u16_masks c_def [symmetric]
    by (intro bit_word_eqI) (auto simp: bit_and_iff bit_xor_iff bit_mask_iff c)
qed

lemma mantissa_fneg [simp]: "mantissa (fneg x) = mantissa x" by (simp add: fneg_def)

lemma canonical_fneg [canonical_intros, simp]: "canonical (fneg x) \<longleftrightarrow> canonical x"
  by (simp add: canonical_def)

lemma canonical_quiet [canonical_intros]: "canonical x \<Longrightarrow> canonical (quiet x)"
  by (auto simp: canonical_def quiet_def biased_exp_def bit_or_iff)

lemma canonical_pack_rounded: "canonical (fst (pack_rounded sign b m ctx f))"
proof -
  define p where "p = prec_bits (prec ctx)"
  have p: "24 \<le> p" "p \<le> 64" by (simp_all add: p_def prec_bits_bounds)
  have top: "bit (push_bit (64 - p) (word_of_int Q) :: u64) 63" if "2 ^ (p - 1) \<le> Q" "Q < 2 ^ p" for Q
  proof -
    let ?w = "push_bit (64 - p) (word_of_int Q) :: u64"
    have "0 \<le> Q" using that(1) by (rule order_trans [rotated]) simp
    then have u: "uint ?w = Q * 2 ^ (64 - p)" using that p by (intro uint_packed_significand) simp_all
    have "(2 :: int) ^ 63 = 2 ^ (p - 1) * 2 ^ (64 - p)" using p by (simp flip: power_add)
    also have "\<dots> \<le> Q * 2 ^ (64 - p)" using that by simp
    finally have "2 ^ 63 \<le> uint ?w" unfolding u .
    moreover have "uint ?w < 2 ^ Suc 63" using uint_lt2p [of ?w] by simp
    ultimately have "bit (uint ?w) 63" using bit_top_iff [of "uint ?w" 63] by simp
    then show ?thesis by (simp add: bit_uint_iff)
  qed
  note eq = pack_rounded_eq(1) [where sign = sign and J = m and ctx = ctx, folded p_def]
  note le = pack_rounded_eq(3) [where sign = sign and J = m and ctx = ctx, folded p_def]
  define R where "R = rnd (mode ctx) sign (of_int (uint m) / 2 ^ (128 - p))"
  define Q where "Q = (if R = 2 ^ p then 2 ^ (p - 1) else R)"
  have "(2 :: int) ^ (p - 1) < 2 ^ p" using p by (intro power_strict_increasing) simp_all
  then have "Q < 2 ^ p" using le unfolding Q_def R_def by auto
  then have "2 ^ (p - 1) \<le> Q \<Longrightarrow> bit (push_bit (64 - p) (word_of_int Q) :: u64) 63" by (rule top [rotated])
  moreover have "canonical (overflow_result sign (mode ctx))"
    by (auto simp: overflow_result_def canonical_def infinity_def bit_numeral_word_iff split: round_mode.splits)
  ultimately show ?thesis
    unfolding eq R_def [symmetric] Q_def [symmetric]
    by (auto simp: canonical_def biased_exp_sign_bits fzero_def)
qed

text \<open>The packing path for every exponent, its sum wrapped to 32 bits.\<close>

lemma round_pack_wrapped:
  "round_pack sign e m ctx f =
    (if m = 0 then (fzero sign, f)
     else let lz = leading_zeros m; b = i32_wrap (e - int lz + 16383)
          in pack_rounded sign (max 1 b) (shift_right_sticky (push_bit lz m) (nat (1 - b))) ctx f)"
proof (cases "m = 0")
  case False
  define b where "b = i32_wrap (e - int (leading_zeros m) + 16383)"
  show ?thesis
  proof (cases "b < 1")
    case True
    then have "max 1 b = 1" by simp
    with True False show ?thesis unfolding round_pack_def pack_rounded_def Let_def b_def [symmetric] by simp
  next
    case ge: False
    then have "max 1 b = b" "nat (1 - b) = 0" by simp_all
    with ge False show ?thesis
      unfolding round_pack_def pack_rounded_def Let_def shift_right_sticky_def b_def [symmetric] by simp
  qed
qed (simp add: round_pack_def)

lemma canonical_round_pack [canonical_intros]: "canonical (fst (round_pack sign e m ctx f))"
  unfolding round_pack_wrapped by (simp add: canonical_pack_rounded Let_def canonical_intros)

lemma canonical_propagate_nan [canonical_intros]:
  "canonical a \<Longrightarrow> canonical b \<Longrightarrow> canonical (fst (propagate_nan a b f))"
  by (simp add: propagate_nan_def canonical_quiet)

lemma canonical_add_ordered [canonical_intros]: "canonical (fst (add_ordered hs he hm ls le lm ctx f))"
  by (simp add: add_ordered_def Let_def canonical_intros)

lemma canonical_fadd [canonical_intros]:
  "canonical a \<Longrightarrow> canonical b \<Longrightarrow> canonical (fst (fadd a b ctx f))"
  by (simp add: fadd_def Let_def canonical_intros split: prod.splits)

lemma canonical_fmul [canonical_intros]:
  "canonical a \<Longrightarrow> canonical b \<Longrightarrow> canonical (fst (fmul a b ctx f))"
  by (simp add: fmul_def Let_def canonical_intros)

lemma canonical_fsub [canonical_intros]:
  "canonical a \<Longrightarrow> canonical b \<Longrightarrow> canonical (fst (fsub a b ctx f))"
  by (simp add: fsub_def canonical_intros)

lemma fdiv_returns:
  assumes "canonical a" and "canonical b"
  shows "\<exists>y f'. fdiv a b ctx f = Some (y, f') \<and> canonical y"
proof (cases "is_nan a \<or> is_nan b")
  case True
  then show ?thesis
    using canonical_propagate_nan [OF assms, of f] by (auto simp: fdiv_def intro: prod.collapse [symmetric])
next
  case False
  have "(ucast (un_mant (unpack b)) :: u128) \<noteq> 0" if "\<not> is_zero b"
    using unpack_canonical(1) [OF assms(2) that] by (auto simp: word_uint_eq_iff uint_up_ucast is_up)
  with False canonical_round_pack show ?thesis
    by (auto simp: fdiv_def Let_def canonical_intros intro!: prod.collapse [symmetric])
qed

subsection \<open>The double format\<close>

lemma yields_if: "(c \<Longrightarrow> yields P a) \<Longrightarrow> (\<not> c \<Longrightarrow> yields P b) \<Longrightarrow> yields P (if c then a else b)"
  by simp

lemmas yields_SomeI [canonical_intros] = yields_Some [THEN iffD2]

lemma canonical_near [canonical_intros]:
  assumes "canonical a" and "canonical b"
  shows "canonical (near_add a b)" and "canonical (near_sub a b)" and "canonical (near_mul a b)"
  using assms by (simp_all add: near_add_def near_sub_def near_mul_def canonical_intros)

lemma near_div_yields:
  assumes "canonical a" and "canonical b"
  shows "yields canonical (near_div a b)"
  using fdiv_returns [OF assms] by (fastforce simp: near_div_def yields_def)

lemma canonical_from_f64 [canonical_intros]: "canonical (from_f64 bits)"
proof -
  define g where "g = bits AND 0x000FFFFFFFFFFFFF"
  have "bit (push_bit (leading_zeros g) g) 63" if "g \<noteq> 0"
    using leading_zeros_top(1,2) [OF that] by (simp add: bit_push_bit_iff)
  moreover have "bit (0x8000000000000000 :: u64) 63" "bit (0xC000000000000000 :: u64) 63" by simp_all
  ultimately show ?thesis
    unfolding from_f64_def Let_def g_def [symmetric]
    by (simp add: canonical_def bit_or_iff) (simp add: biased_exp_sign_bits)
qed

lemma canonical_from_u64 [canonical_intros]: "canonical (from_u64 v s)"
  by (simp add: from_u64_def canonical_intros)

lemma canonical_two_sum [canonical_intros]:
  assumes "canonical a" and "canonical b"
  shows "canonical (fst (two_sum a b))" and "canonical (snd (two_sum a b))"
  using assms by (simp_all add: two_sum_def Let_def canonical_intros)

lemma canonical_quick_two_sum [canonical_intros]:
  assumes "canonical a" and "canonical b"
  shows "canonical_df (df_of_pair (quick_two_sum a b))"
  using assms by (simp add: quick_two_sum_def df_of_pair_def canonical_df_def Let_def canonical_intros)

lemma canonical_two_prod [canonical_intros]:
  assumes "canonical a" and "canonical b"
  shows "canonical (fst (two_prod a b))" and "canonical (snd (two_prod a b))"
proof -
  have "canonical (fst (split_halves x))" "canonical (snd (split_halves x))" if "canonical x" for x
    using that by (simp_all add: split_halves_def split_factor_def Let_def canonical_intros)
  then show "canonical (fst (two_prod a b))" and "canonical (snd (two_prod a b))"
    using assms by (simp_all add: two_prod_def case_prod_beta Let_def canonical_intros)
qed

lemma canonical_df_add [canonical_intros]: "canonical_df a \<Longrightarrow> canonical_df b \<Longrightarrow> canonical_df (df_add a b)"
  by (simp add: df_add_def case_prod_beta canonical_df_def [of a] canonical_df_def [of b] canonical_intros)

lemma canonical_df_neg [canonical_intros]: "canonical_df a \<Longrightarrow> canonical_df (df_neg a)"
  by (simp add: df_neg_def canonical_df_def)

lemma canonical_df_sub [canonical_intros]: "canonical_df a \<Longrightarrow> canonical_df b \<Longrightarrow> canonical_df (df_sub a b)"
  by (simp add: df_sub_def canonical_intros)

lemma canonical_df_add_x80 [canonical_intros]: "canonical_df a \<Longrightarrow> canonical b \<Longrightarrow> canonical_df (df_add_x80 a b)"
  by (simp add: df_add_x80_def case_prod_beta canonical_df_def [of a] canonical_intros)

lemma canonical_df_mul [canonical_intros]: "canonical_df a \<Longrightarrow> canonical_df b \<Longrightarrow> canonical_df (df_mul a b)"
  by (simp add: df_mul_def case_prod_beta canonical_df_def [of a] canonical_df_def [of b] canonical_intros)

lemma canonical_df_mul_x80 [canonical_intros]: "canonical_df a \<Longrightarrow> canonical b \<Longrightarrow> canonical_df (df_mul_x80 a b)"
  by (simp add: df_mul_x80_def case_prod_beta canonical_df_def [of a] canonical_intros)

lemma canonical_df_sqr [canonical_intros]: "canonical_df a \<Longrightarrow> canonical_df (df_sqr a)"
  by (simp add: df_sqr_def canonical_intros)

lemma canonical_df_of [canonical_intros]:
  "canonical x \<Longrightarrow> canonical_df (df_from_x80 x)" "canonical_df (df_from_i32 n)"
  "canonical_df a \<Longrightarrow> canonical (df_hi a)" "canonical_df a \<Longrightarrow> canonical (df_lo a)"
  by (simp_all add: df_from_x80_def df_from_i32_def canonical_df_def canonical_intros)

lemma df_div_yields:
  assumes "canonical_df a" and "canonical_df b"
  shows "yields canonical_df (df_div a b)"
  unfolding df_div_def Let_def using assms
  by (intro yields_bind [OF near_div_yields] yields_SomeI canonical_intros)

lemma odd_series_loop_yields:
  assumes "canonical_df x2" and "canonical_df p" and "canonical_df acc"
  shows "yields canonical_df (odd_series_loop n k alternating x2 p acc)"
  using assms
proof (induction n arbitrary: k p acc)
  case (Suc n)
  then show ?case
    unfolding odd_series_loop.simps Let_def
    by (intro yields_bind [OF df_div_yields] yields_if yields_SomeI Suc.IH canonical_intros)
      (auto intro!: canonical_intros)
qed simp

lemma odd_series_yields: "canonical_df x \<Longrightarrow> yields canonical_df (odd_series x alternating)"
  unfolding odd_series_def by (intro odd_series_loop_yields canonical_intros)

definition canonical_consts :: "dd_consts \<Rightarrow> bool" where
  "canonical_consts c \<longleftrightarrow>
     canonical_df (c_pi c) \<and> canonical_df (c_pi_2 c) \<and> canonical_df (c_ln2 c) \<and>
     canonical_df (c_ln10 c) \<and> canonical_df (c_log2e c) \<and> canonical_df (c_log10e c)"

lemma consts_df_yields: "yields canonical_consts consts_df"
  unfolding consts_df_def Let_def df_recip_def atan_small_def atanh_small_def
  by (intro yields_bind [OF df_div_yields] yields_bind [OF odd_series_yields] yields_SomeI canonical_intros)
    (simp_all add: canonical_consts_def canonical_intros)

section \<open>Infinities\<close>

text \<open>
  The error-free transforms subtract a number from its own image: on an infinity that is a
  not-a-number, so the product with an infinity is one, whatever the other factor.
\<close>

lemma nan_constants [simp]: "is_nan default_nan" "is_inf (infinity s)" "\<not> is_nan (infinity s)"
    "\<not> is_nan (fzero s)" "is_zero (fzero s)" "\<not> is_inf (fzero s)"
proof -
  have w: "(0x7FFF :: u16) = word_of_nat 0x7FFF" by simp
  show "is_nan default_nan" by (simp add: is_nan_def default_nan_def biased_exp_def)
  have "biased_exp (infinity s) = 0x7FFF"
    using packed_fields(2) [of "0x7FFF" _ s] unfolding infinity_def w by simp
  then show "is_inf (infinity s)" "\<not> is_nan (infinity s)" by (simp_all add: is_inf_def is_nan_def infinity_def)
  have "biased_exp (fzero s) = 0" by (simp add: fzero_def biased_exp_sign_bits)
  then show "\<not> is_nan (fzero s)" "is_zero (fzero s)" "\<not> is_inf (fzero s)"
    by (simp_all add: is_nan_def is_zero_def is_inf_def fzero_def)
qed

lemma is_nan_quiet: "is_nan (quiet x) \<longleftrightarrow> biased_exp x = 0x7FFF"
proof -
  define c :: u64 where "c = 0x4000000000000000"
  have "bit c 62" by (simp add: c_def)
  then have "bit (push_bit 1 (mantissa x OR c)) 63" by (simp only: bit_push_bit_iff bit_or_iff) simp
  then have "push_bit 1 (mantissa x OR c) \<noteq> 0" by (metis bit_0_eq bot_apply bot_bool_def)
  then show ?thesis by (simp add: is_nan_def quiet_def biased_exp_def c_def [symmetric])
qed

lemma fneg_class [simp]: "is_nan (fneg x) \<longleftrightarrow> is_nan x" "is_inf (fneg x) \<longleftrightarrow> is_inf x" "fsign (fneg x) \<longleftrightarrow> \<not> fsign x"
proof -
  have "bit (0x8000 :: u16) 15" by simp
  then show "fsign (fneg x) \<longleftrightarrow> \<not> fsign x" by (simp add: fsign_def fneg_def bit_xor_iff)
qed (simp_all add: is_nan_def is_inf_def)

lemma propagate_nan_nan: "is_nan a \<or> is_nan b \<Longrightarrow> is_nan (fst (propagate_nan a b f))"
  by (auto simp: propagate_nan_def is_nan_quiet) (simp_all add: is_nan_def)

lemma nan_near:
  assumes "is_nan a \<or> is_nan b"
  shows "is_nan (near_add a b)" and "is_nan (near_sub a b)" and "is_nan (near_mul a b)"
  using assms
  by (auto simp: near_add_def near_sub_def near_mul_def fsub_def fadd_def fmul_def intro!: propagate_nan_nan)

lemma infinities_cancel:
  assumes "is_inf a" and "is_inf b" and "fsign a = fsign b"
  shows "is_nan (near_sub a b)"
  using assms by (auto simp: near_sub_def fsub_def fadd_def intro!: propagate_nan_nan)

lemma split_factor_class: "\<not> is_nan split_factor" "\<not> is_zero split_factor" "\<not> is_inf split_factor" "\<not> fsign split_factor"
  by (code_simp+)

lemma fsign_infinity [simp]: "fsign (infinity s) = s"
  using packed_fields(1) [of "0x7FFF" _ s] by (simp add: infinity_def)

lemma split_halves_infinite:
  assumes "is_inf b"
  shows "is_nan (fst (split_halves b))" and "is_nan (snd (split_halves b))"
proof -
  have "\<not> is_nan b" using assms by (auto simp: is_inf_def is_nan_def)
  moreover have "\<not> is_zero b" using assms by (auto simp: is_inf_def is_zero_def)
  ultimately have t: "near_mul split_factor b = infinity (fsign b)"
    using assms by (simp add: near_mul_def fmul_def split_factor_class)
  have "is_nan (near_sub (infinity (fsign b)) b)" using assms by (intro infinities_cancel) simp_all
  then show "is_nan (fst (split_halves b))" and "is_nan (snd (split_halves b))"
    by (simp_all add: split_halves_def t Let_def nan_near)
qed

lemma two_prod_infinite: "is_inf b \<Longrightarrow> is_nan (snd (two_prod a b))"
  by (simp add: two_prod_def case_prod_beta Let_def nan_near split_halves_infinite)

lemma df_mul_x80_infinite: "is_inf b \<Longrightarrow> is_nan (df_hi (df_mul_x80 a b))"
  by (simp add: df_mul_x80_def df_of_pair_def quick_two_sum_def case_prod_beta Let_def nan_near two_prod_infinite)

lemma df_to_x80_nan: "is_nan (df_hi a) \<Longrightarrow> is_nan (fst (df_to_x80 a ctx f))"
  by (simp add: df_to_x80_def fadd_def propagate_nan_nan)

end
