(* ===== verification/Elementary.thy ===== *)
theory Elementary
  imports Double_Double Binary64
begin

unbundle bit_operations_syntax

text \<open>
  The elementary functions and remainders of \<open>src/fpu/transcendental.rs\<close>: argument reduction,
  a series in double-\<open>FloatX80\<close> arithmetic, and one rounding under the caller's mode. A result
  carries the exception flags; None is a panic of the division underneath, or the half-angle
  loop of the arc tangent not ending. Sums of exponents wrap as in a release build. Loops of the source that stop after a fixed number of
  rounds are recursions on the rounds that are left.
\<close>

section \<open>Helpers\<close>

abbreviation (input) F64_LOG2_E :: u64 where "F64_LOG2_E \<equiv> 0x3FF71547652B82FE"
abbreviation (input) F64_SQRT_2 :: u64 where "F64_SQRT_2 \<equiv> 0x3FF6A09E667F3BCD"
abbreviation (input) F64_FRAC_2_PI :: u64 where "F64_FRAC_2_PI \<equiv> 0x3FE45F306DC9C883"
abbreviation (input) F64_0_3 :: u64 where "F64_0_3 \<equiv> 0x3FD3333333333333"
abbreviation (input) F64_32 :: u64 where "F64_32 \<equiv> 0x4040000000000000"

definition one_x80 :: float_x80 where "one_x80 = from_u64 1 False"

text \<open>
  A power of two, for an exponent that a reduction made. \<open>round_pack\<close> adds the bias to the exponent
  with the wrap-around of a release build, so the largest exponents give zero and not the infinity
  that the comment of the source promises (\<open>two_pow_wraps\<close>); with overflow checks that sum panics.
\<close>

definition two_pow :: "int \<Rightarrow> float_x80" where
  "two_pow k = fst (fscale one_x80 k NEAREST_EXT 0)"

definition nan_result :: "float_x80 \<Rightarrow> u8 \<Rightarrow> float_x80 \<times> u8" where
  "nan_result x f =
     (quiet x, if is_signaling_nan x then raise_flags OPERR (raise_flags SNAN f) else f)"

definition unbiased_exp :: "float_x80 \<Rightarrow> int" where
  "unbiased_exp x = i32_wrap (fst (to_i64 (fst (getexp x 0)) ToZero (- (2 ^ 63)) (2 ^ 63 - 1) 0))"

definition rounded :: "df option \<Rightarrow> round_ctx \<Rightarrow> u8 \<Rightarrow> (float_x80 \<times> u8) option" where
  "rounded m ctx f = map_option (\<lambda>d. df_to_x80 d ctx f) m"

text \<open>
  A power or factorial series: \<open>step k\<close> makes the next term, the sum ends when the term no longer
  counts or when no round is left; in the second case too the sum so far is the result, so that a
  value of \<open>series_loop\<close> does not say that the series had converged.
\<close>

fun series_loop :: "nat \<Rightarrow> (int \<Rightarrow> df \<Rightarrow> df option) \<Rightarrow> int \<Rightarrow> df \<Rightarrow> df \<Rightarrow> df option" where
  "series_loop 0 step k t acc = Some acc"
| "series_loop (Suc n) step k t acc = do {
     t \<leftarrow> step k t;
     let acc = df_add acc t;
     if term_negligible t acc then Some acc else series_loop n step (k + 1) t acc
   }"

section \<open>Exponentials\<close>

definition exp_reduced :: "df \<Rightarrow> df option" where
  "exp_reduced r =
     series_loop 61 (\<lambda>k t. df_div (df_mul t r) (df_from_i32 k)) 1 (df_from_i32 1) (df_from_i32 1)"

text \<open>The multiple of ln 2 that the exponent is reduced by.\<close>

definition exp_multiple :: "df \<Rightarrow> u64" where
  "exp_multiple p = f64_round (f64_mul (to_f64 (df_hi p)) F64_LOG2_E)"

definition exp_dd :: "df \<Rightarrow> df option" where
  "exp_dd p = do {
     let k = exp_multiple p;
     c \<leftarrow> consts_df;
     let r = df_sub p (df_mul_x80 (c_ln2 c) (from_f64 k));
     e \<leftarrow> exp_reduced r;
     Some (df_mul_x80 e (two_pow (f64_as_i32 k)))
   }"

text \<open>\<open>exp\<close>, \<open>exp2\<close> and \<open>exp10\<close> differ in the exponent they hand over.\<close>

definition exp_family :: "df option \<Rightarrow> float_x80 \<Rightarrow> round_ctx \<Rightarrow> u8 \<Rightarrow> (float_x80 \<times> u8) option" where
  "exp_family p x ctx f =
     (if is_nan x then Some (nan_result x f)
      else if is_inf x then Some (if fsign x then fzero False else x, f)
      else if is_zero x then Some (one_x80, f)
      else rounded (Option.bind p exp_dd) ctx f)"

definition exp_x80 :: "float_x80 \<Rightarrow> round_ctx \<Rightarrow> u8 \<Rightarrow> (float_x80 \<times> u8) option" where
  "exp_x80 x = exp_family (Some (df_from_x80 x)) x"

definition exp2_x80 :: "float_x80 \<Rightarrow> round_ctx \<Rightarrow> u8 \<Rightarrow> (float_x80 \<times> u8) option" where
  "exp2_x80 x = exp_family (map_option (\<lambda>c. df_mul_x80 (c_ln2 c) x) consts_df) x"

definition exp10_x80 :: "float_x80 \<Rightarrow> round_ctx \<Rightarrow> u8 \<Rightarrow> (float_x80 \<times> u8) option" where
  "exp10_x80 x = exp_family (map_option (\<lambda>c. df_mul_x80 (c_ln10 c) x) consts_df) x"

definition small :: "float_x80 \<Rightarrow> bool" where
  "small x \<longleftrightarrow> f64_at_most (f64_abs (to_f64 x)) F64_HALF"

definition expm1_df :: "float_x80 \<Rightarrow> df option" where
  "expm1_df x =
     (let xd = df_from_x80 x
      in if small x then series_loop 60 (\<lambda>k t. df_div (df_mul t xd) (df_from_i32 k)) 2 xd xd
         else map_option (\<lambda>e. df_sub e (df_from_i32 1)) (exp_dd xd))"

definition expm1_x80 :: "float_x80 \<Rightarrow> round_ctx \<Rightarrow> u8 \<Rightarrow> (float_x80 \<times> u8) option" where
  "expm1_x80 x ctx f =
     (if is_nan x then Some (nan_result x f)
      else if is_inf x then Some (if fsign x then fneg one_x80 else x, f)
      else if is_zero x then Some (x, f)
      else rounded (expm1_df x) ctx f)"

section \<open>Logarithms\<close>

definition log_special :: "float_x80 \<Rightarrow> u8 \<Rightarrow> (float_x80 \<times> u8) option" where
  "log_special x f =
     (if is_nan x then Some (nan_result x f)
      else if is_zero x then Some (infinity True, raise_flags DZ f)
      else if fsign x then Some (default_nan, raise_flags OPERR f)
      else if is_inf x then Some (x, f)
      else None)"

definition scale_df :: "df \<Rightarrow> int \<Rightarrow> df" where
  "scale_df d n =
     \<lparr> df_hi = fst (fscale (df_hi d) n NEAREST_EXT 0), df_lo = fst (fscale (df_lo d) n NEAREST_EXT 0) \<rparr>"

definition ln_df :: "df \<Rightarrow> df option" where
  "ln_df x = do {
     let e = unbiased_exp (df_hi x);
     let g = scale_df x (- e);
     let big = f64_greater (to_f64 (df_hi g)) F64_SQRT_2;
     let g = (if big then scale_df g (-1) else g);
     let e = (if big then e + 1 else e);
     let one = df_from_i32 1;
     s \<leftarrow> df_div (df_sub g one) (df_add g one);
     c \<leftarrow> consts_df;
     h \<leftarrow> atanh_small s;
     Some (df_add (df_mul_x80 (c_ln2 c) (from_f64 (f64_of_int e))) (df_mul_x80 h (from_f64 F64_TWO)))
   }"

definition log_family :: "(dd_consts \<Rightarrow> df \<Rightarrow> df) \<Rightarrow> float_x80 \<Rightarrow> round_ctx \<Rightarrow> u8 \<Rightarrow> (float_x80 \<times> u8) option" where
  "log_family g x ctx f =
     (case log_special x f of
        Some r \<Rightarrow> Some r
      | None \<Rightarrow> rounded (do { l \<leftarrow> ln_df (df_from_x80 x); c \<leftarrow> consts_df; Some (g c l) }) ctx f)"

definition ln_x80 :: "float_x80 \<Rightarrow> round_ctx \<Rightarrow> u8 \<Rightarrow> (float_x80 \<times> u8) option" where
  "ln_x80 = log_family (\<lambda>c l. l)"

definition log2_x80 :: "float_x80 \<Rightarrow> round_ctx \<Rightarrow> u8 \<Rightarrow> (float_x80 \<times> u8) option" where
  "log2_x80 = log_family (\<lambda>c l. df_mul l (c_log2e c))"

definition log10_x80 :: "float_x80 \<Rightarrow> round_ctx \<Rightarrow> u8 \<Rightarrow> (float_x80 \<times> u8) option" where
  "log10_x80 = log_family (\<lambda>c l. df_mul l (c_log10e c))"

definition log1p_x80 :: "float_x80 \<Rightarrow> round_ctx \<Rightarrow> u8 \<Rightarrow> (float_x80 \<times> u8) option" where
  "log1p_x80 x ctx f =
     (if is_nan x then Some (nan_result x f)
      else if is_zero x then Some (x, f)
      else if is_inf x then Some (if fsign x then (default_nan, raise_flags OPERR f) else (x, f))
      else
        let cmp = fst (fcompare x (fneg one_x80) 0); xd = df_from_x80 x
        in if fsign x \<and> cmp = FEqual then Some (infinity True, raise_flags DZ f)
           else if fsign x \<and> cmp = FLess then Some (default_nan, raise_flags OPERR f)
           else rounded
             (if small x then do {
                s \<leftarrow> df_div xd (df_add_x80 xd (from_f64 F64_TWO));
                h \<leftarrow> atanh_small s;
                Some (df_mul_x80 h (from_f64 F64_TWO))
              } else ln_df (df_add_x80 xd one_x80)) ctx f)"

section \<open>Sine, cosine, tangent\<close>

definition reduce_quadrant :: "float_x80 \<Rightarrow> (int \<times> df) option" where
  "reduce_quadrant x = do {
     let kf = f64_round (f64_mul (to_f64 x) F64_FRAC_2_PI);
     c \<leftarrow> consts_df;
     Some (f64_as_i64 kf, df_sub (df_from_x80 x) (df_mul_x80 (c_pi_2 c) (from_f64 kf)))
   }"

definition sin_cos_kernel :: "df \<Rightarrow> (df \<times> df) option" where
  "sin_cos_kernel r = do {
     let neg_r2 = df_neg (df_sqr r);
     s \<leftarrow> series_loop 31 (\<lambda>k t. df_div (df_mul t neg_r2) (df_from_i32 ((2 * k) * (2 * k + 1)))) 1 r r;
     c \<leftarrow> series_loop 31 (\<lambda>k t. df_div (df_mul t neg_r2) (df_from_i32 ((2 * k - 1) * (2 * k)))) 1
           (df_from_i32 1) (df_from_i32 1);
     Some (s, c)
   }"

text \<open>The remainder \<open>((k % 4) + 4) % 4\<close> of the source is the residue of \<open>k\<close>.\<close>

definition sin_cos_df :: "float_x80 \<Rightarrow> u8 \<Rightarrow> ((df \<times> df) \<times> u8) option" where
  "sin_cos_df x f =
     (if is_nan x then
        let (n, f) = nan_result x f in Some ((df_from_x80 n, df_from_x80 n), f)
      else if is_inf x then
        Some ((df_from_x80 default_nan, df_from_x80 default_nan), raise_flags OPERR f)
      else if is_zero x then Some ((df_from_x80 x, df_from_i32 1), f)
      else do {
        (k, r) \<leftarrow> reduce_quadrant x;
        (sr, cr) \<leftarrow> sin_cos_kernel r;
        let q = k mod 4;
        Some (if q = 0 then (sr, cr) else if q = 1 then (cr, df_neg sr)
              else if q = 2 then (df_neg sr, df_neg cr) else (df_neg cr, sr), f)
      })"

definition sincos_x80 :: "float_x80 \<Rightarrow> round_ctx \<Rightarrow> u8 \<Rightarrow> ((float_x80 \<times> float_x80) \<times> u8) option" where
  "sincos_x80 x ctx f = do {
     ((s, c), f) \<leftarrow> sin_cos_df x f;
     let (s, f) = df_to_x80 s ctx f;
     let (c, f) = df_to_x80 c ctx f;
     Some ((s, c), f)
   }"

definition sin_x80 :: "float_x80 \<Rightarrow> round_ctx \<Rightarrow> u8 \<Rightarrow> (float_x80 \<times> u8) option" where
  "sin_x80 x ctx f = do { ((s, c), f) \<leftarrow> sin_cos_df x f; Some (df_to_x80 s ctx f) }"

definition cos_x80 :: "float_x80 \<Rightarrow> round_ctx \<Rightarrow> u8 \<Rightarrow> (float_x80 \<times> u8) option" where
  "cos_x80 x ctx f = do { ((s, c), f) \<leftarrow> sin_cos_df x f; Some (df_to_x80 c ctx f) }"

definition tan_x80 :: "float_x80 \<Rightarrow> round_ctx \<Rightarrow> u8 \<Rightarrow> (float_x80 \<times> u8) option" where
  "tan_x80 x ctx f =
     (if is_nan x then Some (nan_result x f)
      else if is_inf x then Some (default_nan, raise_flags OPERR f)
      else if is_zero x then Some (x, f)
      else rounded (do {
        (k, r) \<leftarrow> reduce_quadrant x;
        (sr, cr) \<leftarrow> sin_cos_kernel r;
        if even k then df_div sr cr else map_option df_neg (df_div cr sr)
      }) ctx f)"

section \<open>Inverse functions\<close>

definition sqrt_df :: "df \<Rightarrow> df option" where
  "sqrt_df v =
     (if is_zero (df_hi v) then Some v
      else
        let x0 = fst (fsqrt (df_hi v) NEAREST_EXT 0)
        in map_option (\<lambda>q. df_mul_x80 (df_add_x80 q x0) (from_f64 F64_HALF)) (df_div v (df_from_x80 x0)))"

text \<open>The half-angle loop: \<open>a\<close> is replaced by \<open>a / (1 + sqrt (1 + a^2))\<close> while it exceeds 0.3.\<close>

definition half_angle :: "df \<Rightarrow> df option" where
  "half_angle a = do {
     s \<leftarrow> sqrt_df (df_add_x80 (df_sqr a) (from_f64 F64_ONE));
     df_div a (df_add_x80 s (from_f64 F64_ONE))
   }"

partial_function (option) halve_loop :: "df \<Rightarrow> nat \<Rightarrow> (df \<times> nat) option" where
  "halve_loop a halvings =
     (if f64_greater (to_f64 (df_hi a)) F64_0_3
      then Option.bind (half_angle a) (\<lambda>a. halve_loop a (halvings + 1))
      else Some (a, halvings))"

definition atan_df :: "df \<Rightarrow> df option" where
  "atan_df x = do {
     let neg = fsign (df_hi x);
     let ax = (if neg then df_neg x else x);
     let comp = f64_greater (to_f64 (df_hi ax)) F64_ONE;
     a \<leftarrow> (if comp then df_recip ax else Some ax);
     (a, halvings) \<leftarrow> halve_loop a 0;
     r \<leftarrow> atan_small a;
     let r = ((\<lambda>r. df_mul_x80 r (from_f64 F64_TWO)) ^^ halvings) r;
     r \<leftarrow> (if comp then map_option (\<lambda>c. df_sub (c_pi_2 c) r) consts_df else Some r);
     Some (if neg then df_neg r else r)
   }"

text \<open>Half of pi with the sign of the operand.\<close>

definition signed_pi_2 :: "float_x80 \<Rightarrow> round_ctx \<Rightarrow> u8 \<Rightarrow> (float_x80 \<times> u8) option" where
  "signed_pi_2 x ctx f =
     rounded (map_option (\<lambda>c. if fsign x then df_neg (c_pi_2 c) else c_pi_2 c) consts_df) ctx f"

definition atan_x80 :: "float_x80 \<Rightarrow> round_ctx \<Rightarrow> u8 \<Rightarrow> (float_x80 \<times> u8) option" where
  "atan_x80 x ctx f =
     (if is_nan x then Some (nan_result x f)
      else if is_zero x then Some (x, f)
      else if is_inf x then signed_pi_2 x ctx f
      else rounded (atan_df (df_from_x80 x)) ctx f)"

definition abs_gt_one :: "float_x80 \<Rightarrow> bool" where
  "abs_gt_one x \<longleftrightarrow> fst (fcompare (fabs x) one_x80 0) = FGreater"

definition abs_eq_one :: "float_x80 \<Rightarrow> bool" where
  "abs_eq_one x \<longleftrightarrow> fst (fcompare (fabs x) one_x80 0) = FEqual"

definition asin_df :: "float_x80 \<Rightarrow> df option" where
  "asin_df x = do {
     let xd = df_from_x80 x;
     denom \<leftarrow> sqrt_df (df_sub (df_from_i32 1) (df_sqr xd));
     q \<leftarrow> df_div xd denom;
     atan_df q
   }"

definition asin_x80 :: "float_x80 \<Rightarrow> round_ctx \<Rightarrow> u8 \<Rightarrow> (float_x80 \<times> u8) option" where
  "asin_x80 x ctx f =
     (if is_nan x then Some (nan_result x f)
      else if is_zero x then Some (x, f)
      else if is_inf x \<or> abs_gt_one x then Some (default_nan, raise_flags OPERR f)
      else if abs_eq_one x then signed_pi_2 x ctx f
      else rounded (asin_df x) ctx f)"

definition acos_x80 :: "float_x80 \<Rightarrow> round_ctx \<Rightarrow> u8 \<Rightarrow> (float_x80 \<times> u8) option" where
  "acos_x80 x ctx f =
     (if is_nan x then Some (nan_result x f)
      else if is_inf x \<or> abs_gt_one x then Some (default_nan, raise_flags OPERR f)
      else if abs_eq_one x then
        if fsign x then rounded (map_option c_pi consts_df) ctx f else Some (fzero False, f)
      else rounded (do { a \<leftarrow> asin_df x; c \<leftarrow> consts_df; Some (df_sub (c_pi_2 c) a) }) ctx f)"

section \<open>Hyperbolic functions\<close>

definition sinh_df :: "float_x80 \<Rightarrow> df option" where
  "sinh_df x =
     (let xd = df_from_x80 x; x2 = df_sqr xd
      in if small x then
           series_loop 41 (\<lambda>k t. df_div (df_mul t x2) (df_from_i32 ((2 * k) * (2 * k + 1)))) 1 xd xd
         else do {
           e \<leftarrow> exp_dd xd;
           i \<leftarrow> df_recip e;
           Some (df_mul_x80 (df_sub e i) (from_f64 F64_HALF))
         })"

definition sinh_x80 :: "float_x80 \<Rightarrow> round_ctx \<Rightarrow> u8 \<Rightarrow> (float_x80 \<times> u8) option" where
  "sinh_x80 x ctx f =
     (if is_nan x then Some (nan_result x f)
      else if is_inf x \<or> is_zero x then Some (x, f)
      else rounded (sinh_df x) ctx f)"

definition cosh_x80 :: "float_x80 \<Rightarrow> round_ctx \<Rightarrow> u8 \<Rightarrow> (float_x80 \<times> u8) option" where
  "cosh_x80 x ctx f =
     (if is_nan x then Some (nan_result x f)
      else if is_inf x then Some (infinity False, f)
      else if is_zero x then Some (one_x80, f)
      else rounded (do {
        e \<leftarrow> exp_dd (df_from_x80 x);
        i \<leftarrow> df_recip e;
        Some (df_mul_x80 (df_add e i) (from_f64 F64_HALF))
      }) ctx f)"

definition tanh_x80 :: "float_x80 \<Rightarrow> round_ctx \<Rightarrow> u8 \<Rightarrow> (float_x80 \<times> u8) option" where
  "tanh_x80 x ctx f =
     (if is_nan x then Some (nan_result x f)
      else if is_zero x then Some (x, f)
      else if is_inf x \<or> f64_greater (f64_abs (to_f64 x)) F64_32 then
        Some (if fsign x then fneg one_x80 else one_x80, if is_inf x then f else raise_flags INEX2 f)
      else rounded (do {
        u \<leftarrow> expm1_df (fst (fscale x 1 NEAREST_EXT 0));
        df_div u (df_add_x80 u (from_f64 F64_TWO))
      }) ctx f)"

definition atanh_x80 :: "float_x80 \<Rightarrow> round_ctx \<Rightarrow> u8 \<Rightarrow> (float_x80 \<times> u8) option" where
  "atanh_x80 x ctx f =
     (if is_nan x then Some (nan_result x f)
      else if is_zero x then Some (x, f)
      else if abs_eq_one x then Some (infinity (fsign x), raise_flags DZ f)
      else if is_inf x \<or> abs_gt_one x then Some (default_nan, raise_flags OPERR f)
      else
        let xd = df_from_x80 x
        in rounded
             (if small x then atanh_small xd
              else do {
                arg \<leftarrow> df_div (df_add_x80 xd (from_f64 F64_ONE)) (df_sub (df_from_i32 1) xd);
                l \<leftarrow> ln_df arg;
                Some (df_mul_x80 l (from_f64 F64_HALF))
              }) ctx f)"

section \<open>Dispatch\<close>

text \<open>The function of an opmode; None for one that is no elementary function.\<close>

definition eval_unary :: "u16 \<Rightarrow> (float_x80 \<Rightarrow> round_ctx \<Rightarrow> u8 \<Rightarrow> (float_x80 \<times> u8) option) option" where
  "eval_unary opmode =
     (if opmode = 0x10 then Some exp_x80
      else if opmode = 0x08 then Some expm1_x80
      else if opmode = 0x11 then Some exp2_x80
      else if opmode = 0x12 then Some exp10_x80
      else if opmode = 0x14 then Some ln_x80
      else if opmode = 0x06 then Some log1p_x80
      else if opmode = 0x15 then Some log10_x80
      else if opmode = 0x16 then Some log2_x80
      else if opmode = 0x0E then Some sin_x80
      else if opmode = 0x1D then Some cos_x80
      else if opmode = 0x0F then Some tan_x80
      else if opmode = 0x0C then Some asin_x80
      else if opmode = 0x1C then Some acos_x80
      else if opmode = 0x0A then Some atan_x80
      else if opmode = 0x02 then Some sinh_x80
      else if opmode = 0x19 then Some cosh_x80
      else if opmode = 0x09 then Some tanh_x80
      else if opmode = 0x0D then Some atanh_x80
      else None)"

section \<open>No panic\<close>

lemma canonical_fscale [canonical_intros]: "canonical a \<Longrightarrow> canonical (fst (fscale a n ctx f))"
  by (simp add: fscale_def Let_def canonical_intros)

lemma canonical_one [canonical_intros]: "canonical one_x80"
  by (simp add: one_x80_def canonical_intros)

lemma canonical_two_pow [canonical_intros]: "canonical (two_pow k)"
  by (simp add: two_pow_def canonical_intros)

lemma canonical_scale_df [canonical_intros]: "canonical_df d \<Longrightarrow> canonical_df (scale_df d n)"
  by (simp add: canonical_df_def scale_df_def canonical_fscale)

lemma canonical_df_to_x80 [canonical_intros]: "canonical_df d \<Longrightarrow> canonical (fst (df_to_x80 d ctx f))"
  by (simp add: df_to_x80_def canonical_df_def canonical_fadd)

lemma canonical_fsqrt [canonical_intros]: "canonical a \<Longrightarrow> canonical (fst (fsqrt a ctx f))"
  by (simp add: fsqrt_def Let_def case_prod_beta canonical_intros)

abbreviation returns :: "(float_x80 \<times> u8) option \<Rightarrow> bool" where
  "returns m \<equiv> yields (\<lambda>r. canonical (fst r)) m"

lemma yields_map_option: "yields P m \<Longrightarrow> (\<And>y. P y \<Longrightarrow> Q (g y)) \<Longrightarrow> yields Q (map_option g m)"
  by (auto simp: yields_def)

lemma rounded_returns: "yields canonical_df m \<Longrightarrow> returns (rounded m ctx f)"
  unfolding rounded_def by (erule yields_map_option) (simp add: canonical_intros)

lemma series_loop_yields:
  assumes "\<And>k t. canonical_df t \<Longrightarrow> yields canonical_df (step k t)"
    and "canonical_df t" and "canonical_df acc"
  shows "yields canonical_df (series_loop n step k t acc)"
  using assms(2,3)
proof (induction n arbitrary: k t acc)
  case (Suc n)
  then show ?case
    by (auto simp: Let_def intro!: yields_bind [OF assms(1)] Suc.IH canonical_df_add)
qed simp

lemma consts_fields:
  assumes "canonical_consts c"
  shows "canonical_df (c_pi c)" "canonical_df (c_pi_2 c)" "canonical_df (c_ln2 c)"
    "canonical_df (c_ln10 c)" "canonical_df (c_log2e c)" "canonical_df (c_log10e c)"
  using assms by (simp_all add: canonical_consts_def)

lemmas yields_steps = yields_bind [OF df_div_yields] yields_bind [OF consts_df_yields]
  series_loop_yields df_div_yields yields_map_option [OF consts_df_yields] canonical_intros consts_fields

lemma exp_dd_yields: "canonical_df p \<Longrightarrow> yields canonical_df (exp_dd p)"
  unfolding exp_dd_def Let_def exp_reduced_def
  by (intro yields_bind [OF consts_df_yields] yields_bind [OF series_loop_yields] yields_steps)

lemma expm1_df_yields: "canonical x \<Longrightarrow> yields canonical_df (expm1_df x)"
  unfolding expm1_df_def Let_def
  by (intro yields_if yields_map_option [OF exp_dd_yields] yields_steps)

lemma exp_family_returns:
  assumes "canonical x" and "yields canonical_df p"
  shows "returns (exp_family p x ctx f)"
  using assms
  by (auto simp: exp_family_def nan_result_def
      intro!: rounded_returns yields_bind [OF assms(2)] exp_dd_yields canonical_intros)

lemma ln_df_yields: "canonical_df x \<Longrightarrow> yields canonical_df (ln_df x)"
  unfolding ln_df_def Let_def atanh_small_def
  by (intro yields_bind [OF odd_series_yields] yields_steps) (auto intro!: canonical_intros)

lemma log_family_returns:
  assumes "canonical x" and "\<And>c l. canonical_consts c \<Longrightarrow> canonical_df l \<Longrightarrow> canonical_df (g c l)"
  shows "returns (log_family g x ctx f)"
proof -
  have "returns (rounded (do { l \<leftarrow> ln_df (df_from_x80 x); c \<leftarrow> consts_df; Some (g c l) }) ctx f)"
    using assms by (intro rounded_returns yields_bind [OF ln_df_yields] yields_bind [OF consts_df_yields] yields_SomeI
        canonical_intros)
  moreover have "canonical (fst r)" if "log_special x f = Some r" for r
    using that assms(1) by (auto simp: log_special_def nan_result_def canonical_intros split: if_splits)
  ultimately show ?thesis by (auto simp: log_family_def split: option.split)
qed

lemma reduce_quadrant_yields: "canonical x \<Longrightarrow> yields (\<lambda>r. canonical_df (snd r)) (reduce_quadrant x)"
  unfolding reduce_quadrant_def Let_def by (intro yields_steps) (auto intro!: yields_steps)

lemma sin_cos_kernel_yields:
  "canonical_df r \<Longrightarrow> yields (\<lambda>r. canonical_df (fst r) \<and> canonical_df (snd r)) (sin_cos_kernel r)"
  unfolding sin_cos_kernel_def Let_def
  by (intro yields_bind [OF series_loop_yields] yields_steps) simp_all

lemma sin_cos_df_yields:
  assumes "canonical x"
  shows "yields (\<lambda>r. canonical_df (fst (fst r)) \<and> canonical_df (snd (fst r))) (sin_cos_df x f)"
  using assms
  by (auto simp: sin_cos_df_def nan_result_def Let_def case_prod_beta
      intro!: canonical_intros yields_bind [OF reduce_quadrant_yields] yields_bind [OF sin_cos_kernel_yields])

lemma sin_cos_returns:
  assumes "canonical x"
  shows "returns (sin_x80 x ctx f)" and "returns (cos_x80 x ctx f)"
    and "yields (\<lambda>r. canonical (fst (fst r)) \<and> canonical (snd (fst r))) (sincos_x80 x ctx f)"
  using assms
  by (auto simp: sin_x80_def cos_x80_def sincos_x80_def Let_def case_prod_beta
      intro!: yields_bind [OF sin_cos_df_yields] canonical_intros)

lemma df_div_neg_yields:
  "canonical_df a \<Longrightarrow> canonical_df b \<Longrightarrow> yields (\<lambda>r. canonical_df (df_neg r)) (df_div a b)"
  using df_div_yields [of a b] by (auto simp: yields_def canonical_df_neg)

lemma tan_returns: "canonical x \<Longrightarrow> returns (tan_x80 x ctx f)"
  by (auto simp: tan_x80_def nan_result_def case_prod_beta
      intro!: rounded_returns yields_bind [OF reduce_quadrant_yields] yields_bind [OF sin_cos_kernel_yields]
        df_div_neg_yields df_div_yields canonical_intros)

lemma hyperbolic_returns:
  assumes "canonical x"
  shows "returns (sinh_x80 x ctx f)" and "returns (cosh_x80 x ctx f)" and "returns (tanh_x80 x ctx f)"
  using assms
  by (auto simp: sinh_x80_def sinh_df_def cosh_x80_def tanh_x80_def nan_result_def df_recip_def Let_def
      intro!: rounded_returns series_loop_yields yields_bind [OF exp_dd_yields] yields_bind [OF expm1_df_yields]
        yields_bind [OF df_div_yields] df_div_yields canonical_intros)

lemma log1p_returns: "canonical x \<Longrightarrow> returns (log1p_x80 x ctx f)"
  by (auto simp: log1p_x80_def nan_result_def atanh_small_def Let_def
      intro!: rounded_returns ln_df_yields yields_bind [OF odd_series_yields]
        yields_bind [OF df_div_yields] canonical_intros)

lemma atanh_returns: "canonical x \<Longrightarrow> returns (atanh_x80 x ctx f)"
  by (auto simp: atanh_x80_def nan_result_def atanh_small_def Let_def
      intro!: rounded_returns odd_series_yields yields_bind [OF ln_df_yields]
        yields_bind [OF df_div_yields] canonical_intros)

lemma expm1_returns: "canonical x \<Longrightarrow> returns (expm1_x80 x ctx f)"
  by (auto simp: expm1_x80_def nan_result_def intro!: rounded_returns expm1_df_yields canonical_intros)



section \<open>Overflow of the exponential\<close>

lemma one_x80_eq: "one_x80 = fone False"
  by code_simp

lemma one_x80_unpacked:
  "\<not> is_nan one_x80" "\<not> is_inf one_x80" "\<not> is_zero one_x80" "un_exp (unpack one_x80) = 0"
  "un_sign (unpack one_x80) = False" "push_bit 64 (ucast (un_mant (unpack one_x80))) = (2 ^ 127 :: u128)"
  unfolding one_x80_eq by (code_simp+)

lemma two_pow_packed:
  assumes "0 \<le> k" and "k < 2 ^ 31"
  shows "two_pow k = fst (round_pack False k (2 ^ 127) NEAREST_EXT 0)"
  using assms one_x80_unpacked by (simp add: two_pow_def fscale_def Let_def saturating_add_i32_def)

lemma one_significand:
  "(2 ^ 127 :: u128) \<noteq> 0" "leading_zeros (2 ^ 127 :: u128) = 0" "drop_bit 64 (2 ^ 127 :: u128) = 2 ^ 63"
  "take_bit 64 (2 ^ 127 :: u128) = 0"
  by (code_simp+)

lemma two_pow_overflow:
  assumes "16384 \<le> k" and "k \<le> 2 ^ 31 - 16384"
  shows "two_pow k = infinity False"
proof -
  define m :: u128 where "m = 2 ^ 127"
  have m: "m \<noteq> 0" "leading_zeros m = 0" "drop_bit 64 m = 2 ^ 63" "take_bit 64 m = 0"
    unfolding m_def by (rule one_significand)+
  have q: "ucast (ucast (2 ^ 63 :: u128) :: u64) = (2 ^ 63 :: u128)" "bit (2 ^ 63 :: u128) 63" by (code_simp+)
  have w: "i32_wrap (k - int 0 + 16383) = k + 16383" using assms by (simp add: i32_wrap_id)
  have "round_pack False k m NEAREST_EXT 0 = (infinity False, raise_flags INEX2 (raise_flags OVFL 0))"
    using m(1) assms(1) q
    unfolding round_pack_def Let_def m(2) w
    by (simp add: NEAREST_EXT_def m(3,4) round_up_def overflow_result_def)
  then show ?thesis using two_pow_packed [of k] assms by (simp add: m_def)
qed

text \<open>The rest of the range: the biased exponent wraps to a negative number.\<close>

lemma two_pow_wraps:
  assumes "2 ^ 31 - 16384 < k" and "k < 2 ^ 31"
  shows "two_pow k = fzero False"
proof -
  define m :: u128 where "m = 2 ^ 127"
  have m: "m \<noteq> 0" "leading_zeros m = 0" unfolding m_def by (rule one_significand)+
  have q: "(drop_bit 64 1 :: u128) = 0" "(take_bit 64 1 :: u128) = 1" by (code_simp+)
  have "i32_wrap (k + 16383) = i32_wrap (k + 16383 - 2 ^ 32)"
    unfolding i32_wrap_def by (rule arg_cong [where f = sint]) simp
  also have "\<dots> = k + 16383 - 2 ^ 32" using assms by (intro i32_wrap_id) simp_all
  finally have w: "i32_wrap (k - int 0 + 16383) = k + 16383 - 2 ^ 32" by simp
  have "128 \<le> nat (1 - (k + 16383 - 2 ^ 32))" using assms by (simp add: le_nat_iff)
  then have sticky: "shift_right_sticky m (nat (1 - (k + 16383 - 2 ^ 32))) = 1"
    unfolding shift_right_sticky_def using m(1) by auto
  have "round_pack False k m NEAREST_EXT 0 = (fzero False, raise_flags INEX2 0)"
    using m(1) assms sticky
    unfolding round_pack_def Let_def m(2) w
    by (simp add: NEAREST_EXT_def q round_up_def)
  then show ?thesis using two_pow_packed [of k] assms by (simp add: m_def)
qed

lemma exp_dd_overflow:
  assumes "canonical_df p" and "16384 \<le> f64_as_i32 (exp_multiple p)"
    and "f64_as_i32 (exp_multiple p) \<le> 2 ^ 31 - 16384"
  shows "yields (\<lambda>d. is_nan (df_hi d)) (exp_dd p)"
  unfolding exp_dd_def Let_def exp_reduced_def two_pow_overflow [OF assms(2,3)] using assms(1)
  by (intro yields_bind [OF consts_df_yields] yields_bind [OF series_loop_yields] yields_steps)
    (simp_all add: df_mul_x80_infinite)


definition twelve_thousand :: float_x80 where
  "twelve_thousand = \<lparr> mantissa = 0xBB80000000000000, sign_exp = 0x400C \<rparr>"


end
