(* ===== verification/Remainder.thy ===== *)
theory Remainder
  imports Elementary
begin

unbundle bit_operations_syntax

text \<open>
  FMOD and FREM of \<open>src/fpu/transcendental.rs\<close>: long division of the significands, one bit of the
  aligned dividend at a time, which keeps the remainder and the low bits of the quotient.
\<close>

record fp_remainder =
  rem_value :: float_x80
  rem_quotient :: u8
  rem_quotient_sign :: bool

text \<open>The bits of \<open>mx\<close> shifted left by \<open>d\<close>, from the most significant one down.\<close>

fun rem_loop :: "nat \<Rightarrow> nat \<Rightarrow> u64 \<Rightarrow> u128 \<Rightarrow> u128 \<times> u64 \<Rightarrow> u128 \<times> u64" where
  "rem_loop 0 d mx my (rem, q) = (rem, q)"
| "rem_loop (Suc j) d mx my (rem, q) =
     (let rem = push_bit 1 rem;
          rem = (if d \<le> j then rem OR of_bool (bit mx (j - d)) else rem);
          q = push_bit 1 q
      in rem_loop j d mx my (if my \<le> rem then (rem - my, q OR 1) else (rem, q)))"

text \<open>A remainder of the division as an extended number, \<open>ey\<close> the exponent of the divisor.\<close>

definition rem_number :: "u128 \<Rightarrow> int \<Rightarrow> float_x80" where
  "rem_number r ey = fst (fscale (from_u64 (ucast r) False) (ey - 63) NEAREST_EXT 0)"

definition remainder :: "float_x80 \<Rightarrow> float_x80 \<Rightarrow> bool \<Rightarrow> u8 \<Rightarrow> fp_remainder \<times> u8" where
  "remainder dst src ieee f =
     (let none = (\<lambda>v. \<lparr> rem_value = v, rem_quotient = 0, rem_quotient_sign = False \<rparr>);
          quotient_sign = (fsign dst \<noteq> fsign src)
      in if is_nan dst then let (v, f) = nan_result dst f in (none v, f)
         else if is_nan src then let (v, f) = nan_result src f in (none v, f)
         else if is_inf dst \<or> is_zero src then (none default_nan, raise_flags OPERR f)
         else if is_inf src \<or> is_zero dst then
           (\<lparr> rem_value = dst, rem_quotient = 0, rem_quotient_sign = quotient_sign \<rparr>, f)
         else
           let ax = fabs dst; ay = fabs src; ex = unbiased_exp ax; ey = unbiased_exp ay;
               mx = mantissa (fst (getman ax 0)); my = ucast (mantissa (fst (getman ay 0))) :: u128;
               ediff = ex - ey;
               (rem_int, q) = rem_loop (nat (64 + ediff)) (nat ediff) mx my (0, 0);
               (rfloor, q) = (if ediff < 0 then (ax, 0)
                              else (if rem_int = 0 then fzero False else rem_number rem_int ey, q));
               sign = fsign dst;
               c = fst (fcompare (fst (fscale rfloor 1 NEAREST_EXT 0)) ay 0);
               round_up = (ieee \<and> (c = FGreater \<or> c = FEqual \<and> q AND 1 = 1));
               (rfloor, q, sign) =
                 (if round_up then
                    (if 0 \<le> ediff \<and> rem_int \<noteq> - 1 then rem_number (my - rem_int) ey
                     else fst (fsub ay rfloor NEAREST_EXT 0),
                     q + 1, \<not> sign)
                  else (rfloor, q, sign))
           in (\<lparr> rem_value = (if is_zero rfloor then fzero sign else if sign then fneg rfloor else rfloor),
                 rem_quotient = ucast (q AND 0x7F), rem_quotient_sign = quotient_sign \<rparr>, f))"

section \<open>The long division\<close>

lemma div_half: "(M :: int) div 2 ^ j = 2 * (M div 2 ^ Suc j) + of_bool (bit M j)"
proof -
  have d: "M div 2 ^ Suc j = M div 2 ^ j div 2" unfolding power_Suc2 by (rule zdiv_zmult2_eq) simp
  have "K = 2 * (K div 2) + of_bool (odd K)" for K :: int by (cases "odd K") auto
  then show ?thesis unfolding d bit_iff_odd .
qed

lemma shift_in: "push_bit 1 w OR of_bool c = (word_of_int (2 * uint w + of_bool c) :: 'a::len word)"
proof -
  have "push_bit 1 w OR of_bool c = push_bit 1 w + of_bool c"
  proof (rule disjunctive_add_eq_or [symmetric], rule bit_word_eqI)
    fix n
    show "bit (push_bit 1 w AND of_bool c) n \<longleftrightarrow> bit (0 :: 'a word) n"
      by (cases n; cases c) (simp_all only: bit_and_iff bit_push_bit_iff of_bool_eq bit_1_iff bit_0_eq, simp_all)
  qed
  then show ?thesis by (simp add: push_bit_eq_mult)
qed

lemma len64: "LENGTH(64) = 64" by simp

lemma rem_loop_div:
  fixes mx :: u64 and my :: u128 and d :: nat
  defines "M \<equiv> uint mx * 2 ^ d"
  assumes my: "0 < uint my" "uint my < 2 ^ 64"
    and rem: "uint r = M div 2 ^ j mod uint my" and q: "uint q = M div 2 ^ j div uint my mod 2 ^ 64"
  shows "uint (fst (rem_loop j d mx my (r, q))) = M mod uint my \<and>
         uint (snd (rem_loop j d mx my (r, q))) = M div uint my mod 2 ^ 64"
  using rem q
proof (induction j arbitrary: r q)
  case 0
  then show ?case by simp
next
  case (Suc j)
  define N where "N = M div 2 ^ Suc j"
  define b where "b = bit M j"
  define D where "D = uint my"
  define R where "R = 2 * (N mod D) + of_bool b"
  have D: "0 < D" "D < 2 ^ 64" using my by (simp_all add: D_def)
  have b: "b \<longleftrightarrow> d \<le> j \<and> bit mx (j - d)"
    using bit_imp_le_length [of mx "j - d"]
    by (auto simp: b_def M_def bit_push_bit_iff bit_uint_iff simp flip: push_bit_eq_mult)
  have N: "M div 2 ^ j = 2 * N + of_bool b" unfolding N_def b_def by (rule div_half)
  have R: "0 \<le> R" "R < 2 * D" using D by (simp_all add: R_def) (use pos_mod_bound [of D N] in linarith)
  have S: "2 * N + of_bool b = 2 * (N div D) * D + R"
  proof -
    have "2 * (N div D * D + N mod D) = 2 * N" by simp
    then show ?thesis unfolding R_def by (simp only: distrib_left mult.assoc)
  qed
  define c where "c \<longleftrightarrow> D \<le> R"
  have next_rem: "(2 * N + of_bool b) mod D = R - of_bool c * D"
    and next_q: "(2 * N + of_bool b) div D = 2 * (N div D) + of_bool c"
  proof -
    have e: "2 * N + of_bool b = D * (2 * (N div D) + of_bool c) + (R - of_bool c * D)"
      unfolding S by (simp add: algebra_simps)
    have r: "0 \<le> R - of_bool c * D" "R - of_bool c * D < D" using R by (auto simp: c_def)
    show "(2 * N + of_bool b) mod D = R - of_bool c * D" by (rule int_mod_pos_eq [OF e r])
    show "(2 * N + of_bool b) div D = 2 * (N div D) + of_bool c" by (rule int_div_pos_eq [OF e r])
  qed
  define w where "w = push_bit 1 r OR of_bool b"
  have ur: "uint w = R"
    unfolding w_def shift_in Suc.prems(1) [folded N_def D_def] R_def [symmetric]
    using R D by (simp add: uint_word_of_int_eq take_bit_int_eq_self)
  have if_b: "(if d \<le> j then push_bit 1 r OR of_bool (bit mx (j - d)) else push_bit 1 r) = w"
    using b by (simp add: w_def)
  have le: "my \<le> w \<longleftrightarrow> c" by (simp add: word_le_def ur c_def D_def)
  define r' where "r' = (if c then w - my else w)"
  define q' where "q' = push_bit 1 q OR of_bool c"
  have step: "rem_loop (Suc j) d mx my (r, q) = rem_loop j d mx my (r', q')"
    unfolding rem_loop.simps Let_def if_b le by (simp add: r'_def q'_def)
  have "uint (w - my) = R - D" if c
    using that le by (simp add: uint_sub_if' word_le_def ur D_def)
  then have "uint r' = R - of_bool c * D" by (simp add: r'_def ur)
  moreover have "uint q' = (2 * (N div D) + of_bool c) mod 2 ^ 64"
  proof -
    have "uint q' = (2 * (N div D mod 2 ^ 64) + of_bool c) mod 2 ^ 64"
      unfolding q'_def shift_in Suc.prems(2) [folded N_def D_def] uint_word_of_int_eq by (simp only: take_bit_eq_mod len64)
    also have "\<dots> = (2 * (N div D) + of_bool c) mod 2 ^ 64" by (metis mod_add_left_eq mod_mult_right_eq)
    finally show ?thesis .
  qed
  ultimately show ?case
    unfolding step by (intro Suc.IH) (simp_all add: N next_rem next_q D_def [symmetric])
qed

section \<open>Exact results of the packing path\<close>

lemma significand_binade:
  assumes "2 ^ 63 \<le> uint (m :: u64)"
  shows "2 powi e \<le> real_of_int (uint m) * 2 powi (e - 63)" and "real_of_int (uint m) * 2 powi (e - 63) < 2 powi (e + 1)"
proof -
  have "real_of_int (2 ^ 63) \<le> of_int (uint m)" using assms by (simp only: of_int_le_iff)
  then have "2 ^ 63 * 2 powi (e - 63) \<le> real_of_int (uint m) * 2 powi (e - 63)"
    by (intro mult_right_mono) (simp_all only: of_int_power of_int_numeral pow2_pos less_imp_le)
  moreover have "(2 :: real) ^ 63 * 2 powi (e - 63) = 2 powi e" by (rule pow2_mult) simp
  ultimately show "2 powi e \<le> real_of_int (uint m) * 2 powi (e - 63)" by linarith
  have "uint m < 2 ^ 64" using uint_lt2p [of m] by simp
  then have "real_of_int (uint m) < of_int (2 ^ 64)" by (simp only: of_int_less_iff)
  then have "real_of_int (uint m) * 2 powi (e - 63) < 2 ^ 64 * 2 powi (e - 63)"
    by (intro mult_strict_right_mono) (simp_all only: of_int_power of_int_numeral pow2_pos)
  moreover have "(2 :: real) ^ 64 * 2 powi (e - 63) = 2 powi (e + 1)" by (rule pow2_mult) simp
  ultimately show "real_of_int (uint m) * 2 powi (e - 63) < 2 powi (e + 1)" by linarith
qed

lemma shift_significand:
  assumes "w \<noteq> 0"
  shows "real_of_int (uint (push_bit (leading_zeros w) (w :: u64))) * 2 powi (e - int (leading_zeros w) - 63) =
    of_int (uint w) * 2 powi (e - 63)"
proof -
  have "(2 :: real) ^ leading_zeros w * 2 powi (e - int (leading_zeros w) - 63) = 2 powi (e - 63)"
    by (rule pow2_mult) simp
  then show ?thesis
    unfolding normalized(1) [OF assms] of_int_mult of_int_power of_int_numeral by (simp only: mult.assoc)
qed

lemma floor_log2_significand:
  fixes w :: u64
  assumes "w \<noteq> 0"
  shows "\<lfloor>log 2 (of_int (uint w) * 2 powi (e - 63))\<rfloor> = e - int (leading_zeros w)"
proof -
  have "2 ^ 63 \<le> uint (push_bit (leading_zeros w) w)" using normalized(2) [OF assms] by simp
  from binade_eq [OF significand_binade [OF this, of "e - int (leading_zeros w)"]]
  show ?thesis unfolding shift_significand [OF assms] .
qed

lemma round_real_grid:
  assumes "v = of_int k * 2 powi ulp_exp p v"
  shows "round_real md sign p v = v"
proof -
  have "v / 2 powi ulp_exp p v = of_int k" by (subst assms) simp
  then show ?thesis using assms by (simp add: round_real_def rnd_def split: round_mode.split)
qed

lemma rounds_to_exact:
  assumes "rounds_to sign v ctx f r" and "round_real (mode ctx) sign (prec_bits (prec ctx)) v = v" and "v < 2 ^ 16384"
  shows "finite80 (fst r) \<and> fsign (fst r) = sign \<and> fmag (fst r) = v \<and> snd r = f"
  using assms(1) unfolding rounds_to_def Let_def assms(2) if_P [OF assms(3)]
  by (simp only: simp_thms if_False or.right_neutral)

text \<open>A significand times a power of two that lies on the grid of the denormals is packed exactly.\<close>

lemma packs_exactly:
  fixes w :: u64 and e :: int and sign :: bool and f :: u8
  assumes w: "w \<noteq> 0" and e: "- (2 ^ 30) \<le> e" "e \<le> 16383"
    and grid: "real_of_int (uint w) * 2 powi (e - 63) = of_int K * 2 powi (-16445)"
  defines "res \<equiv> round_pack sign e (push_bit 64 (ucast w)) NEAREST_EXT f"
  shows "finite80 (fst res)" and "fmag (fst res) = of_int (uint w) * 2 powi (e - 63)"
    and "fsign (fst res) = sign" and "snd res = f"
proof -
  define v where "v = real_of_int (uint w) * 2 powi (e - 63)"
  define l where "l = leading_zeros w"
  have u: "uint (push_bit 64 (ucast w) :: u128) = uint w * 2 ^ 64"
    using uint_with_sticky [of 64 "ucast w :: u128" False] uint_lt2p [of w] by (simp add: uint_widen)
  have "(2 :: real) ^ 64 * 2 powi (e - 127) = 2 powi (e - 63)" by (rule pow2_mult) simp
  then have v: "of_int (uint (push_bit 64 (ucast w) :: u128)) * 2 powi (e - 127) = v"
    unfolding u v_def by (simp add: mult.assoc)
  have "\<exists>k. v = of_int k * 2 powi ulp_exp 64 v"
  proof (cases "e - int l \<le> -16382")
    case True
    then have u: "ulp_exp 64 v = -16445"
      unfolding ulp_exp_def v_def floor_log2_significand [OF w] l_def [symmetric] by simp
    show ?thesis unfolding u by (rule exI [of _ K]) (use grid in \<open>simp only: v_def\<close>)
  next
    case False
    then have "ulp_exp 64 v = e - int l - 63"
      unfolding ulp_exp_def v_def floor_log2_significand [OF w] l_def [symmetric] by simp
    moreover have "(2 :: real) ^ l * 2 powi (e - int l - 63) = 2 powi (e - 63)" by (rule pow2_mult) simp
    ultimately have "v = of_int (uint w * 2 ^ l) * 2 powi ulp_exp 64 v" by (simp add: v_def mult.assoc)
    then show ?thesis by blast
  qed
  then have r: "round_real (mode NEAREST_EXT) sign (prec_bits (prec NEAREST_EXT)) v = v"
    by (auto simp: NEAREST_EXT_def intro: round_real_grid)
  have "v < 2 powi (e + 1)"
  proof -
    have n: "2 ^ 63 \<le> uint (push_bit l w)" using normalized(2) [OF w] by (simp add: l_def)
    from significand_binade(2) [OF n, of "e - int l"] have "v < 2 powi (e - int l + 1)"
      unfolding l_def shift_significand [OF w] v_def .
    also have "\<dots> \<le> 2 powi (e + 1)" unfolding pow2_le by simp
    finally show ?thesis .
  qed
  also have "\<dots> \<le> 2 powi (int 16384)" unfolding pow2_le using e(2) by simp
  finally have lt: "v < 2 ^ 16384" unfolding pow2_nat .
  have e': "- (2 ^ 30) \<le> e" "e \<le> 2 ^ 30" using e by simp_all
  have "rounds_to sign v NEAREST_EXT f res"
    unfolding res_def v [symmetric] by (rule round_pack_exact [OF e'])
  from rounds_to_exact [OF this r lt]
  show "finite80 (fst res)" and "fmag (fst res) = of_int (uint w) * 2 powi (e - 63)"
    and "fsign (fst res) = sign" and "snd res = f" unfolding v_def by simp_all
qed

lemma unpack_of_value:
  fixes w :: u64
  assumes "canonical x" and "w \<noteq> 0" and "fmag x = of_int (uint w) * 2 powi (e - 63)"
  shows "un_exp (unpack x) = e - int (leading_zeros w)"
    and "un_mant (unpack x) = push_bit (leading_zeros w) w"
proof -
  have "uint w \<noteq> 0" using assms(2) by (simp add: unsigned_eq_0_iff)
  then have "0 < uint w" using uint_ge_0 [of w] by linarith
  then have "0 < real_of_int (uint w)" by (simp only: of_int_0_less_iff)
  then have "0 < fmag x" unfolding assms(3) by (intro mult_pos_pos pow2_pos)
  then have "\<not> is_zero x" using unpack_zero [of x] by auto
  note n = unpack_canonical(1) [OF assms(1) this]
  let ?m = "un_mant (unpack x)" and ?e = "un_exp (unpack x)"
  have v: "real_of_int (uint ?m) * 2 powi (?e - 63) = of_int (uint w) * 2 powi (e - 63)"
    using unpack_fields(1) [of x] assms(3) by simp
  show e: "?e = e - int (leading_zeros w)"
    using binade_eq [OF significand_binade [OF n, of ?e]] floor_log2_significand [OF assms(2), of e] unfolding v by simp
  have "real_of_int (uint ?m) * 2 powi (?e - 63) = of_int (uint (push_bit (leading_zeros w) w)) * 2 powi (?e - 63)"
    unfolding v unfolding e shift_significand [OF assms(2)] ..
  moreover have nz: "(2 :: real) powi (?e - 63) \<noteq> 0" using pow2_pos [of "?e - 63"] by linarith
  ultimately have "uint ?m = uint (push_bit (leading_zeros w) w)" unfolding mult_right_cancel [OF nz] of_int_eq_iff by simp
  then show "?m = push_bit (leading_zeros w) w" by (simp only: word_uint_eq_iff)
qed

lemma on_grid:
  assumes "- 16445 \<le> i"
  obtains K where "real_of_int m * 2 powi i = of_int K * 2 powi (-16445)"
proof
  have "(2 :: real) ^ nat (i + 16445) * 2 powi (-16445) = 2 powi i" by (rule pow2_mult) (use assms in simp)
  then show "real_of_int m * 2 powi i = of_int (m * 2 ^ nat (i + 16445)) * 2 powi (-16445)"
    unfolding of_int_mult of_int_power of_int_numeral by (simp only: mult.assoc)
qed

text \<open>A significand read as an integer, and packed back into a number.\<close>

lemma integer_number:
  fixes w :: u64 and f :: u8 and sign :: bool
  assumes "w \<noteq> 0"
  defines "y \<equiv> fst (round_pack sign 63 (push_bit 64 (ucast w)) NEAREST_EXT f)"
  shows "finite80 y" and "canonical y" and "fmag y = of_int (uint w)" and "fsign y = sign"
    and "un_exp (unpack y) = 63 - int (leading_zeros w)"
    and "un_mant (unpack y) = push_bit (leading_zeros w) w"
proof -
  obtain K where K: "real_of_int (uint w) * 2 powi (63 - 63) = of_int K * 2 powi (-16445)"
    by (rule on_grid [of "63 - 63"]) simp
  have le: "- (2 ^ 30) \<le> (63 :: int)" "(63 :: int) \<le> 16383" by simp_all
  note p = packs_exactly [OF assms(1) le K, where sign = sign and f = f, folded y_def]
  show "finite80 y" "fsign y = sign" by (rule p)+
  show f: "fmag y = of_int (uint w)" using p(2) by simp
  show c: "canonical y" unfolding y_def by (rule canonical_round_pack)
  show "un_exp (unpack y) = 63 - int (leading_zeros w)" "un_mant (unpack y) = push_bit (leading_zeros w) w"
    by (rule unpack_of_value [OF c assms(1) p(2)])+
qed

lemma normalized_halves:
  assumes "(w :: u64) \<noteq> 0"
  shows "drop_bit (leading_zeros w) (push_bit (leading_zeros w) w) = w"
    and "take_bit (leading_zeros w) (push_bit (leading_zeros w) w) = 0"
  by (simp_all add: word_uint_eq_iff uint_drop_bit uint_take_bit normalized(1) [OF assms] del: drop_bit_push_bit take_bit_push_bit)

lemma to_i64_integer:
  fixes w :: u64 and s :: bool
  assumes "canonical y" and "finite80 y" and "fsign y = s" and "fmag y = of_int (uint w)" and "w \<noteq> 0"
    and "uint w < 2 ^ 63" and "least \<le> (if s then - uint w else uint w)" and "(if s then - uint w else uint w) \<le> greatest"
  shows "to_i64 y ToZero least greatest f = (if s then - uint w else uint w, f)"
proof -
  define l where "l = leading_zeros w"
  have l: "l < 64" using leading_zeros_top(1) [OF assms(5)] by (simp add: l_def)
  have l0: "0 < l"
  proof (rule ccontr)
    assume "\<not> 0 < l"
    then show False using leading_zeros_bounds(1) [OF assms(5)] assms(6) by (simp add: l_def)
  qed
  have "fmag y = of_int (uint w) * 2 powi (63 - 63)" using assms(4) by simp
  note u = unpack_of_value [OF assms(1,5) this, folded l_def] unpack_fields(4) [of y, unfolded assms(3)]
  have z: "\<not> is_zero y" using unpack_zero [of y] assms(4,5) by (auto simp: unsigned_eq_0_iff)
  note h = normalized_halves [OF assms(5), folded l_def]
  have n: "nat (63 - (63 - int l)) = l" by simp
  define r where "r = fst (round_pack s 63 (push_bit 64 (ucast w)) NEAREST_EXT 0)"
  note ri = integer_number [OF assms(5), of s 0, folded r_def l_def]
  have zr: "\<not> is_zero r" using unpack_zero [of r] ri(3) assms(5) by (auto simp: unsigned_eq_0_iff)
  have int: "round_to_int y ToZero f = (r, f)"
    using l l0 z finite_special [OF assms(2)] assms(5)
    unfolding round_to_int_def Let_def u n h r_def by simp
  have "un_sign (unpack r) = s" using unpack_fields(4) [of r] ri(4) by simp
  then show ?thesis
    using assms(7,8) finite_special [OF assms(2)] zr l
    unfolding to_i64_def Let_def int case_prod_conv ri(5,6) n h by (cases s) simp_all
qed

lemma unbiased_exp_eq:
  assumes "canonical x" and "finite80 x" and "\<not> is_zero x"
  shows "unbiased_exp x = un_exp (unpack x)"
proof -
  define e where "e = un_exp (unpack x)"
  have b: "-16446 \<le> e" "e \<le> 16384" using unpack_fields(2,3) [of x] by (simp_all add: e_def)
  have i: "i32_wrap e = e" using b by (intro i32_wrap_id) simp_all
  show ?thesis
  proof (cases "e = 0")
    case True
    then have "getexp x 0 = (fzero False, 0)"
      using finite_special [OF assms(2)] assms(3) by (simp add: getexp_def e_def [symmetric] Let_def)
    then show ?thesis
      using True by (simp add: unbiased_exp_def to_i64_def round_to_int_def e_def [symmetric] i32_wrap_def)
  next
    case False
    define w :: u64 where "w = word_of_int \<bar>e\<bar>"
    have uw: "uint w = \<bar>e\<bar>" using b by (simp add: w_def uint_word_of_int_eq take_bit_int_eq_self)
    have w0: "w \<noteq> 0" using uw False by auto
    have uc: "(word_of_int \<bar>e\<bar> :: u128) = ucast w"
      by (simp add: word_uint_eq_iff uint_widen uw) (use b in \<open>simp add: uint_word_of_int_eq take_bit_int_eq_self\<close>)
    define y where "y = fst (round_pack (e < 0) 63 (push_bit 64 (ucast w)) NEAREST_EXT 0)"
    have g: "getexp x 0 = (y, 0)"
      using finite_special [OF assms(2)] assms(3) False
      by (simp add: getexp_def e_def [symmetric] Let_def y_def uc)
    note yi = integer_number [OF w0, of "e < 0" 0, folded y_def]
    have s: "(if e < 0 then - uint w else uint w) = e" unfolding uw by simp
    have "to_i64 y ToZero (- (2 ^ 63)) (2 ^ 63 - 1) 0 = (e, 0)"
      using to_i64_integer [OF yi(2,1,4,3) w0, of "- (2 ^ 63)" "2 ^ 63 - 1" 0] b unfolding s uw by simp
    then show ?thesis by (simp add: unbiased_exp_def g i e_def [symmetric])
  qed
qed

section \<open>The exact remainder\<close>

lemma fabs_fields:
  shows "biased_exp (fabs x) = biased_exp x" and "mantissa (fabs x) = mantissa x" and "\<not> fsign (fabs x)"
proof -
  show "biased_exp (fabs x) = biased_exp x" by (simp add: biased_exp_def fabs_def and.assoc)
  show "mantissa (fabs x) = mantissa x" by (simp add: fabs_def)
  show "\<not> fsign (fabs x)" by (simp add: fabs_def fsign_def u16_masks bit_and_iff bit_mask_iff)
qed

lemma fabs_facts:
  shows "un_exp (unpack (fabs x)) = un_exp (unpack x)" and "un_mant (unpack (fabs x)) = un_mant (unpack x)"
    and "fmag (fabs x) = fmag x" and "canonical (fabs x) \<longleftrightarrow> canonical x" and "finite80 (fabs x) \<longleftrightarrow> finite80 x"
    and "is_zero (fabs x) \<longleftrightarrow> is_zero x"
  by (simp_all add: unpack_def Let_def fmag_def canonical_def finite80_def is_zero_def fabs_fields)

lemma getman_mantissa:
  "finite80 x \<Longrightarrow> \<not> is_zero x \<Longrightarrow> mantissa (fst (getman x 0)) = un_mant (unpack x)"
  using finite_special [of x] by (simp add: getman_def)

lemma fmag_on_grid: "\<exists>K. fmag x = of_int K * 2 powi (-16445)"
proof -
  have "- 16445 \<le> max 1 (int (unat (biased_exp x))) - 16446" by simp
  from on_grid [OF this, of "uint (mantissa x)"] show ?thesis unfolding fmag_def by metis
qed

lemma rem_number_exact:
  fixes r :: u128
  assumes r: "r \<noteq> 0" "uint r < 2 ^ 64" and ey: "- 16446 \<le> ey" "ey \<le> 16384"
    and grid: "real_of_int (uint r) * 2 powi (ey - 63) = of_int K * 2 powi (-16445)"
    and lt: "real_of_int (uint r) * 2 powi (ey - 63) < 2 powi 16384"
  shows "finite80 (rem_number r ey)" and "fmag (rem_number r ey) = of_int (uint r) * 2 powi (ey - 63)"
    and "\<not> fsign (rem_number r ey)"
proof -
  define w :: u64 where "w = ucast r"
  have uw: "uint w = uint r"
    using r(2) by (simp add: w_def unsigned_ucast_eq take_bit_int_eq_self)
  have w: "w \<noteq> 0" using r(1) uw by (auto simp: unsigned_eq_0_iff)
  define l where "l = leading_zeros w"
  define m where "m = push_bit l w"
  define n where "n = from_u64 w False"
  have n: "n = fst (round_pack False 63 (push_bit 64 (ucast w)) NEAREST_EXT 0)"
    using w by (simp add: n_def from_u64_def)
  note ni = integer_number [OF w, of False 0, folded n l_def, folded m_def]
  have m: "2 ^ 63 \<le> uint m" using normalized(2) [OF w] by (simp add: m_def l_def)
  then have m0: "m \<noteq> 0" by auto
  have l: "l < 64" using leading_zeros_top(1) [OF w] by (simp add: l_def)
  have v: "real_of_int (uint m) * 2 powi (ey - int l - 63) = of_int (uint r) * 2 powi (ey - 63)"
    unfolding m_def l_def shift_significand [OF w] uw ..
  have "2 powi (ey - int l) < (2 powi 16384 :: real)"
    using significand_binade(1) [OF m, of "ey - int l"] lt unfolding v by linarith
  then have e: "- (2 ^ 30) \<le> ey - int l" "ey - int l \<le> 16383" using ey l unfolding pow2_less by simp_all
  have s: "saturating_add_i32 (63 - int l) (ey - 63) = ey - int l"
    using ey l by (simp add: saturating_add_i32_def)
  have z: "\<not> is_zero n" using unpack_zero [of n] ni(3) w by (auto simp: unsigned_eq_0_iff)
  have eq: "rem_number r ey = fst (round_pack False (ey - int l) (push_bit 64 (ucast m)) NEAREST_EXT 0)"
    unfolding rem_number_def w_def [symmetric] n_def [symmetric] fscale_def Let_def unpack_fields(4) ni(4-) s
    using finite_special [OF ni(1)] z by simp
  note p = packs_exactly [OF m0 e grid [folded v], of False 0, folded eq]
  show "finite80 (rem_number r ey)" "\<not> fsign (rem_number r ey)" using p(1,3) by simp_all
  show "fmag (rem_number r ey) = of_int (uint r) * 2 powi (ey - 63)" unfolding p(2) by (rule v)
qed

lemma signed_remainder:
  fixes sign :: bool
  assumes "finite80 v" and "\<not> fsign v"
  defines "r \<equiv> (if is_zero v then fzero sign else if sign then fneg v else v)"
  shows "finite80 r" and "fsign r = sign" and "fmag r = fmag v"
proof -
  have "fzero sign = \<lparr> mantissa = 0, sign_exp = sign_bits sign OR word_of_nat 0 \<rparr>" by (simp add: fzero_def)
  then have "fsign (fzero sign) = sign" using packed_fields(1) [of 0 0 sign] by simp
  then show "finite80 r" "fsign r = sign" "fmag r = fmag v"
    using assms(1,2) unpack_zero [of v]
    by (simp_all add: r_def finite80_def fmag_def) (simp_all add: fzero_def biased_exp_sign_bits)
qed

lemma uint_low_quotient: "uint (ucast (q AND 0x7F :: u64) :: u8) = uint q mod 128"
proof -
  have "q AND 0x7F = take_bit 7 q" by (simp add: take_bit_eq_mask mask_eq_exp_minus_1)
  then have u: "uint (q AND 0x7F) = uint q mod 128" by (simp add: uint_take_bit)
  have "uint q mod 128 < 128" "0 \<le> uint q mod 128" by simp_all
  then have "take_bit 8 (uint q mod 128) = uint q mod 128" by (intro take_bit_int_eq_self) simp_all
  then show ?thesis by (simp add: unsigned_ucast_eq u)
qed

definition exact_remainder :: "float_x80 \<Rightarrow> float_x80 \<Rightarrow> u8 \<Rightarrow> fp_remainder \<times> u8 \<Rightarrow> bool" where
  "exact_remainder x y f r \<longleftrightarrow>
     finite80 (rem_value (fst r)) \<and> fsign (rem_value (fst r)) = fsign x \<and>
     fmag (rem_value (fst r)) = fmag x - of_int \<lfloor>fmag x / fmag y\<rfloor> * fmag y \<and>
     uint (rem_quotient (fst r)) = \<lfloor>fmag x / fmag y\<rfloor> mod 128 \<and>
     rem_quotient_sign (fst r) = (fsign x \<noteq> fsign y) \<and> snd r = f"

lemma exact_remainderI:
  fixes q :: u64
  assumes "finite80 v" and "\<not> fsign v" and "fmag v = fmag x - of_int \<lfloor>fmag x / fmag y\<rfloor> * fmag y"
    and "uint q mod 128 = \<lfloor>fmag x / fmag y\<rfloor> mod 128"
  shows "exact_remainder x y f
    (\<lparr> rem_value = (if is_zero v then fzero (fsign x) else if fsign x then fneg v else v),
       rem_quotient = ucast (q AND 0x7F), rem_quotient_sign = (fsign x \<noteq> fsign y) \<rparr>, f)"
  using signed_remainder [OF assms(1,2), of "fsign x"] assms(3,4)
  unfolding exact_remainder_def fst_conv snd_conv fp_remainder.select_convs uint_low_quotient by simp

text \<open>The aligned significands: the quotient and the remainder in terms of the values.\<close>

lemma aligned_division:
  fixes mx my :: u64 and ex ey :: int
  assumes my: "2 ^ 63 \<le> uint my" and d: "ey \<le> ex"
  defines "X \<equiv> real_of_int (uint mx) * 2 powi (ex - 63)" and "Y \<equiv> real_of_int (uint my) * 2 powi (ey - 63)"
    and "M \<equiv> uint mx * 2 ^ nat (ex - ey)"
  shows "\<lfloor>X / Y\<rfloor> = M div uint my" and "X - of_int \<lfloor>X / Y\<rfloor> * Y = of_int (M mod uint my) * 2 powi (ey - 63)"
proof -
  have my0: "0 < uint my" using my by (rule less_le_trans [rotated]) simp
  have "(2 :: real) ^ nat (ex - ey) * 2 powi (ey - 63) = 2 powi (ex - 63)" by (rule pow2_mult) (use d in simp)
  then have X: "X = of_int M * 2 powi (ey - 63)"
    unfolding X_def M_def of_int_mult of_int_power of_int_numeral by (simp only: mult.assoc)
  have nz: "(2 :: real) powi (ey - 63) \<noteq> 0" using pow2_pos [of "ey - 63"] by linarith
  have "X / Y = of_int M / of_int (uint my)"
    unfolding X Y_def by (rule mult_divide_mult_cancel_right [OF nz])
  then show q: "\<lfloor>X / Y\<rfloor> = M div uint my" by (simp only: floor_divide_of_int_eq)
  have "M = M div uint my * uint my + M mod uint my" by simp
  then have "real_of_int M - of_int (M div uint my) * of_int (uint my) = of_int (M mod uint my)"
    by (metis add_diff_cancel_left' of_int_diff of_int_mult)
  then show "X - of_int \<lfloor>X / Y\<rfloor> * Y = of_int (M mod uint my) * 2 powi (ey - 63)"
    unfolding q unfolding X Y_def by (metis left_diff_distrib mult.assoc)
qed

text \<open>The quotient and the remainder that the loop leaves, and the remainder as a number.\<close>

lemma finite_exp: "finite80 x \<Longrightarrow> un_exp (unpack x) \<le> 16383"
proof -
  assume "finite80 x"
  moreover have "uint (biased_exp x) \<le> 0x7FFF" by (rule biased_exp_bound)
  ultimately have "int (unat (biased_exp x)) < 0x7FFF"
    by (auto simp: finite80_def word_uint_eq_iff less_le)
  then show ?thesis by (simp add: unpack_def Let_def)
qed

lemma long_division_exact:
  fixes mx my :: u64 and ex ey :: int
  assumes mx: "2 ^ 63 \<le> uint mx" and my: "2 ^ 63 \<le> uint my" and d: "ey \<le> ex"
    and loop: "rem_loop (nat (64 + (ex - ey))) (nat (ex - ey)) mx (ucast my) (0, 0) = (ri, q)"
    and x: "fmag x = real_of_int (uint mx) * 2 powi (ex - 63)"
    and y: "fmag y = real_of_int (uint my) * 2 powi (ey - 63)"
    and ey: "- 16446 \<le> ey" "ey \<le> 16383"
  defines "v \<equiv> (if ri = 0 then fzero False else rem_number ri ey)"
  shows "finite80 v" and "\<not> fsign v" and "fmag v = fmag x - of_int \<lfloor>fmag x / fmag y\<rfloor> * fmag y"
    and "uint q mod 128 = \<lfloor>fmag x / fmag y\<rfloor> mod 128"
proof -
  define n where "n = nat (ex - ey)"
  define M where "M = uint mx * 2 ^ n"
  have n: "nat (64 + (ex - ey)) = 64 + n" using d by (simp add: n_def nat_add_distrib)
  note div = aligned_division [OF my d, of mx, folded x y n_def, folded M_def]
  have my0: "0 < uint my" "uint my < 2 ^ 64" using my uint_lt2p [of my] by simp_all
  have "M < 2 ^ 64 * 2 ^ n" unfolding M_def using uint_lt2p [of mx] by (intro mult_strict_right_mono) simp_all
  then have M: "M div 2 ^ (64 + n) = 0" by (simp add: M_def power_add)
  have r: "uint ri = M mod uint my" "uint q = M div uint my mod 2 ^ 64"
    using rem_loop_div [of "ucast my" 0 mx n "64 + n" 0, folded M_def] my0 loop [unfolded n, folded n_def] M
    by (simp_all add: uint_widen)
  show "uint q mod 128 = \<lfloor>fmag x / fmag y\<rfloor> mod 128"
    unfolding r(2) div(1) by (simp add: mod_mod_cancel)
  have val: "real_of_int (uint ri) * 2 powi (ey - 63) = fmag x - of_int \<lfloor>fmag x / fmag y\<rfloor> * fmag y"
    unfolding r(1) div(2) ..
  have "finite80 v \<and> \<not> fsign v \<and> fmag v = of_int (uint ri) * 2 powi (ey - 63)"
  proof (cases "ri = 0")
    case True
    then show ?thesis
      using signed_remainder [of "fzero False" False] packed_fields(1) [of 0 0 False]
      by (simp add: v_def finite80_def fzero_def biased_exp_sign_bits fmag_def)
  next
    case False
    obtain Kx Ky where K: "fmag x = of_int Kx * 2 powi (-16445)" "fmag y = of_int Ky * 2 powi (-16445)"
      using fmag_on_grid by metis
    let ?q = "\<lfloor>fmag x / fmag y\<rfloor>"
    have grid: "real_of_int (uint ri) * 2 powi (ey - 63) = of_int (Kx - ?q * Ky) * 2 powi (-16445)"
      unfolding val K of_int_diff of_int_mult by (simp only: left_diff_distrib mult.assoc)
    have "uint ri < 2 ^ 64" unfolding r(1) using my0 pos_mod_bound [of "uint my" M] by linarith
    have "real_of_int (uint ri) \<le> of_int (uint my)"
      unfolding of_int_le_iff r(1) using my0 pos_mod_bound [of "uint my" M] by linarith
    then have "real_of_int (uint ri) * 2 powi (ey - 63) \<le> of_int (uint my) * 2 powi (ey - 63)"
      by (intro mult_right_mono less_imp_le [OF pow2_pos])
    also have "\<dots> < 2 powi (ey + 1)" by (rule significand_binade(2) [OF my])
    also have "\<dots> \<le> 2 powi 16384" unfolding pow2_le using ey by simp
    finally have lt: "real_of_int (uint ri) * 2 powi (ey - 63) < 2 powi 16384" .
    have "ey \<le> 16384" using ey by simp
    show ?thesis using rem_number_exact [OF False \<open>uint ri < 2 ^ 64\<close> ey(1) \<open>ey \<le> 16384\<close> grid lt] False by (simp add: v_def)
  qed
  then show "finite80 v" "\<not> fsign v" "fmag v = fmag x - of_int \<lfloor>fmag x / fmag y\<rfloor> * fmag y"
    unfolding val by simp_all
qed

lemma remainder_finite:
  assumes "canonical x" "finite80 x" "\<not> is_zero x" and "canonical y" "finite80 y" "\<not> is_zero y"
    and loop: "rem_loop (nat (64 + d)) (nat d) (un_mant (unpack x)) (ucast (un_mant (unpack y))) (0, 0) = (ri, q)"
    and d: "d = un_exp (unpack x) - un_exp (unpack y)"
  defines "v \<equiv> (if d < 0 then fabs x else if ri = 0 then fzero False else rem_number ri (un_exp (unpack y)))"
  shows "remainder x y False f =
    (\<lparr> rem_value = (if is_zero v then fzero (fsign x) else if fsign x then fneg v else v),
       rem_quotient = ucast ((if d < 0 then 0 else q) AND 0x7F), rem_quotient_sign = (fsign x \<noteq> fsign y) \<rparr>, f)"
proof -
  have e: "unbiased_exp (fabs z) = un_exp (unpack z)" if "canonical z" "finite80 z" "\<not> is_zero z" for z
    using that unbiased_exp_eq [of "fabs z"] by (simp add: fabs_facts)
  have m: "mantissa (fst (getman (fabs z) 0)) = un_mant (unpack z)" if "finite80 z" "\<not> is_zero z" for z
    using that getman_mantissa [of "fabs z"] by (simp add: fabs_facts)
  show ?thesis
    using finite_special [OF assms(2)] finite_special [OF assms(5)] assms(3,6)
    unfolding remainder_def Let_def e [OF assms(1-3)] e [OF assms(4-6)] m [OF assms(2,3)] m [OF assms(5,6)]
      d [symmetric] loop v_def by simp
qed

text \<open>
  C37. FMOD is exact: for finite operands and a divisor that is not zero it returns the dividend
  minus the divisor times the truncated quotient, with the sign of the dividend, without rounding
  and without raising a flag, and the low seven bits of the quotient's magnitude.
\<close>

theorem fmod_exact:
  assumes x: "canonical x" "finite80 x" and y: "canonical y" "finite80 y" "\<not> is_zero y"
  shows "exact_remainder x y f (remainder x y False f)"
proof (cases "is_zero x")
  case True
  then show ?thesis
    using finite_special [OF x(2)] finite_special [OF y(2)] y(3) x(2) unpack_zero [OF True]
    by (simp add: remainder_def exact_remainder_def)
next
  case xz: False
  define mx my ex ey where "mx = un_mant (unpack x)" and "my = un_mant (unpack y)"
    and "ex = un_exp (unpack x)" and "ey = un_exp (unpack y)"
  note v = unpack_fields(1) [of x, folded mx_def ex_def] unpack_fields(1) [of y, folded my_def ey_def]
  have mx: "2 ^ 63 \<le> uint mx" and my: "2 ^ 63 \<le> uint my"
    unfolding mx_def my_def by (rule unpack_canonical [OF x(1) xz] unpack_canonical [OF y(1,3)])+
  obtain ri q where loop: "rem_loop (nat (64 + (ex - ey))) (nat (ex - ey)) mx (ucast my) (0, 0) = (ri, q)"
    by fastforce
  have ey: "- 16446 \<le> ey" "ey \<le> 16383" unfolding ey_def by (rule unpack_fields(2) finite_exp [OF y(2)])+
  note rf = remainder_finite [OF x xz y, folded mx_def my_def ex_def ey_def, OF loop refl]
  have lt: "2 powi ey \<le> fmag y" unfolding v(2) by (rule significand_binade(1) [OF my])
  have pos: "0 < fmag x" "0 < fmag y" by (rule unpack_canonical(2) [OF x(1) xz] unpack_canonical(2) [OF y(1,3)])+
  show ?thesis
  proof (cases "ex < ey")
    case True
    have "fmag x < 2 powi (ex + 1)" unfolding v by (rule significand_binade(2) [OF mx])
    also have "\<dots> \<le> 2 powi ey" unfolding pow2_le using True by simp
    finally have "fmag x < fmag y" using lt by linarith
    with pos have "0 \<le> fmag x / fmag y" "fmag x / fmag y < 1" by simp_all
    then have q: "\<lfloor>fmag x / fmag y\<rfloor> = 0" by (simp add: floor_eq_iff)
    show ?thesis
      using True x(2) unfolding rf by (intro exact_remainderI) (simp_all add: fabs_facts fabs_fields q)
  next
    case False
    then have d: "ey \<le> ex" by simp
    show ?thesis
      using False long_division_exact [OF mx my d loop v ey] unfolding rf
      by (intro exact_remainderI) simp_all
  qed
qed

lemma fmod_exact_witness:
  "exact_remainder twelve_thousand fthree 0 (remainder twelve_thousand fthree False 0)"
  by (rule fmod_exact [OF _ _ fthree_facts(2,1,3)])
    (simp_all add: twelve_thousand_def canonical_def finite80_def biased_exp_def)

end
