(* ===== verification/Fpu_Ops.thy ===== *)
theory Fpu_Ops
  imports Ea Packed Remainder
begin

unbundle bit_operations_syntax

text \<open>
  The coprocessor instructions of \<open>src/fpu/operations.rs\<close>: the general instruction with its
  arithmetic table, the moves of registers in every format, the control registers, the
  conditionals, and the state frames of FSAVE and FRESTORE. A count of zero tells the dispatcher
  that the encoding is no instruction. None is also a panic of the arithmetic (a division by a
  pseudo-zero).
\<close>

type_synonym 'b fpu_outcome = "(int \<times> 'b machine) option"

datatype fpu_ea = FpuDataReg nat | FpuMemory u32 | FpuImmediate

section \<open>Condition codes, status and control\<close>

definition FPCC_MASK :: u32 where "FPCC_MASK = 0x0F000000"

definition fpcc :: "bool \<Rightarrow> bool \<Rightarrow> bool \<Rightarrow> bool \<Rightarrow> u32" where
  "fpcc n z i nan =
     (if n then 0x08000000 else 0) OR (if z then 0x04000000 else 0) OR
     (if i then 0x02000000 else 0) OR (if nan then 0x01000000 else 0)"

definition fpu_set_cc :: "float_x80 \<Rightarrow> 'a cpu_core_scheme \<Rightarrow> 'a cpu_core_scheme" where
  "fpu_set_cc v s = s\<lparr> fpsr := (fpsr s AND NOT FPCC_MASK) OR
     fpcc (fsign v) (\<not> is_nan v \<and> \<not> is_inf v \<and> is_zero v) (\<not> is_nan v \<and> is_inf v) (is_nan v) \<rparr>"

definition fpu_set_cc_cmp :: "fp_cmp \<Rightarrow> 'a cpu_core_scheme \<Rightarrow> 'a cpu_core_scheme" where
  "fpu_set_cc_cmp cmp s = s\<lparr> fpsr := (fpsr s AND NOT FPCC_MASK) OR
     fpcc (cmp = FLess) (cmp = FEqual) False (cmp = FUnordered) \<rparr>"

definition opmode_precision :: "u16 \<Rightarrow> 'a cpu_core_scheme \<Rightarrow> precision" where
  "opmode_precision opmode s =
     (if opmode AND 0x40 = 0 then prec_from_fpcr (fpcr s)
      else if opmode AND 0x04 = 0 then Single else Double)"

definition fpu_set_quotient :: "u8 \<Rightarrow> bool \<Rightarrow> 'a cpu_core_scheme \<Rightarrow> 'a cpu_core_scheme" where
  "fpu_set_quotient q sign s = s\<lparr> fpsr := (fpsr s AND NOT 0x00FF0000) OR
     push_bit 16 (ucast (q AND 0x7F)) OR (if sign then 2 ^ 23 else 0) \<rparr>"

definition fpu_ctx :: "u16 \<Rightarrow> 'a cpu_core_scheme \<Rightarrow> round_ctx" where
  "fpu_ctx opmode s = \<lparr> mode = mode_from_fpcr (fpcr s), prec = opmode_precision opmode s \<rparr>"

text \<open>The accrued exceptions of a set of exception flags.\<close>

definition accrued :: "u8 \<Rightarrow> u32" where
  "accrued f =
     (if has_flags f (BSUN OR SNAN OR OPERR) then 2 ^ 7 else 0) OR
     (if has_flags f OVFL then 2 ^ 6 else 0) OR
     (if has_flags f UNFL \<and> has_flags f INEX2 then 2 ^ 5 else 0) OR
     (if has_flags f DZ then 2 ^ 4 else 0) OR
     (if has_flags f (OVFL OR INEX2 OR INEX1) then 2 ^ 3 else 0)"

definition fpu_commit :: "u8 \<Rightarrow> 'a cpu_core_scheme \<Rightarrow> 'a cpu_core_scheme" where
  "fpu_commit f s = s\<lparr> fpsr := (fpsr s AND NOT 0x0000FF00) OR push_bit 8 (ucast f) OR accrued f \<rparr>"

definition fpu_condition :: "u8 \<Rightarrow> 'a cpu_core_scheme \<Rightarrow> bool" where
  "fpu_condition condition s =
     (let n = (fpsr s AND 0x08000000 \<noteq> 0); z = (fpsr s AND 0x04000000 \<noteq> 0);
          nan = (fpsr s AND 0x01000000 \<noteq> 0); c = condition AND 0x0F
      in if c = 0x0 then False
         else if c = 0x1 then z
         else if c = 0x2 then \<not> (nan \<or> z \<or> n)
         else if c = 0x3 then z \<or> \<not> (nan \<or> n)
         else if c = 0x4 then n \<and> \<not> (nan \<or> z)
         else if c = 0x5 then z \<or> n \<and> \<not> nan
         else if c = 0x6 then \<not> (nan \<or> z)
         else if c = 0x7 then \<not> nan
         else if c = 0x8 then nan
         else if c = 0x9 then nan \<or> z
         else if c = 0xA then nan \<or> \<not> (n \<or> z)
         else if c = 0xB then nan \<or> z \<or> \<not> n
         else if c = 0xC then nan \<or> n \<and> \<not> z
         else if c = 0xD then nan \<or> n \<or> z
         else if c = 0xE then \<not> z
         else True)"

section \<open>The arithmetic table\<close>

definition fpu_060_traps_opmode :: "u16 \<Rightarrow> bool" where
  "fpu_060_traps_opmode opmode \<longleftrightarrow>
     opmode \<in> {0x01, 0x02, 0x03, 0x06, 0x08, 0x09, 0x0A, 0x0C, 0x0D, 0x0E, 0x0F, 0x10, 0x11, 0x12,
       0x14, 0x15, 0x16, 0x19, 0x1C, 0x1D, 0x1E, 0x1F, 0x21, 0x25, 0x26} \<or>
     0x30 \<le> opmode \<and> opmode \<le> 0x37"

definition sgl_truncate :: "float_x80 \<Rightarrow> float_x80" where
  "sgl_truncate v =
     (if is_nan v \<or> is_inf v then v else v\<lparr> mantissa := mantissa v AND 0xFFFFFF0000000000 \<rparr>)"

definition set_fpr :: "nat \<Rightarrow> float_x80 \<Rightarrow> 'a cpu_core_scheme \<Rightarrow> 'a cpu_core_scheme" where
  "set_fpr n v s = s\<lparr> fpr := (fpr s)(n := v) \<rparr>"

text \<open>A result without flags, and one with them: register, condition codes, status.\<close>

definition fpu_move :: "nat \<Rightarrow> float_x80 \<Rightarrow> 'a cpu_core_scheme \<Rightarrow> 'a cpu_core_scheme" where
  "fpu_move dst v s = fpu_set_cc v (set_fpr dst v s)"

definition fpu_result :: "nat \<Rightarrow> float_x80 \<times> u8 \<Rightarrow> 'a cpu_core_scheme \<Rightarrow> 'a cpu_core_scheme" where
  "fpu_result dst r s = fpu_commit (snd r) (fpu_move dst (fst r) s)"

definition fpu_remainder :: "nat \<Rightarrow> float_x80 \<Rightarrow> bool \<Rightarrow> 'a cpu_core_scheme \<Rightarrow> 'a cpu_core_scheme" where
  "fpu_remainder dst src ieee s =
     (let (r, f) = remainder (fpr s dst) src ieee 0
      in fpu_commit f (fpu_set_quotient (rem_quotient r) (rem_quotient_sign r) (fpu_move dst (rem_value r) s)))"

definition fpu_apply_op :: "u16 \<Rightarrow> nat \<Rightarrow> float_x80 \<Rightarrow> 'a cpu_core_scheme \<Rightarrow> (int \<times> 'a cpu_core_scheme) option" where
  "fpu_apply_op opmode dst src s =
     (let ctx = fpu_ctx opmode s; sgl = \<lparr> mode = mode_from_fpcr (fpcr s), prec = Single \<rparr>; d = fpr s dst;
          result = (\<lambda>r. Some (4, fpu_result dst r s)); partial = map_option (\<lambda>r. (4, fpu_result dst r s))
      in if opmode \<in> {0x00, 0x40, 0x44} then Some (4, fpu_move dst src s)
         else if opmode = 0x01 then result (round_to_int src (mode_from_fpcr (fpcr s)) 0)
         else if opmode = 0x03 then result (round_to_int src ToZero 0)
         else if opmode \<in> {0x04, 0x41, 0x45} then result (fsqrt src ctx 0)
         else if opmode \<in> {0x18, 0x58, 0x5C} then Some (4, fpu_move dst (fabs src) s)
         else if opmode \<in> {0x1A, 0x5A, 0x5E} then Some (4, fpu_move dst (fneg src) s)
         else if opmode \<in> {0x20, 0x60, 0x64} then partial (fdiv d src ctx 0)
         else if opmode \<in> {0x22, 0x62, 0x66} then result (fadd d src ctx 0)
         else if opmode \<in> {0x23, 0x63, 0x67} then result (fmul d src ctx 0)
         else if opmode = 0x24 then partial (fdiv d src sgl 0)
         else if opmode = 0x27 then result (fmul (sgl_truncate d) (sgl_truncate src) sgl 0)
         else if opmode \<in> {0x28, 0x68, 0x6C} then result (fsub d src ctx 0)
         else if opmode = 0x38 then
           let (cmp, f) = fcompare d src 0 in Some (4, fpu_commit f (fpu_set_cc_cmp cmp s))
         else if opmode = 0x3A then Some (4, fpu_set_cc src s)
         else if opmode = 0x1E then result (getexp src 0)
         else if opmode = 0x1F then result (getman src 0)
         else if opmode = 0x21 then Some (4, fpu_remainder dst src False s)
         else if opmode = 0x25 then Some (4, fpu_remainder dst src True s)
         else if opmode = 0x26 then
           let (n, f) = to_i64 src ToZero (- (2 ^ 31)) (2 ^ 31 - 1) 0 in result (fscale d n ctx f)
         else if 0x30 \<le> opmode \<and> opmode \<le> 0x37 then do {
           ((sn, cs), f) \<leftarrow> sincos_x80 src ctx 0;
           let s = set_fpr (unat (opmode AND 7)) cs (set_fpr dst sn s);
           Some (4, fpu_commit f (fpu_set_cc (fpr s dst) s))
         }
         else case eval_unary opmode of
             Some g \<Rightarrow> partial (g src ctx 0)
           | None \<Rightarrow> Some (0, s))"

section \<open>Operands\<close>

text \<open>The inner option is the \<open>Option\<close> of the source; A7 stays even for a byte.\<close>

definition fpu_ea :: "'b address_bus \<Rightarrow> 'b delivery \<Rightarrow> u8 \<Rightarrow> nat \<Rightarrow> u32 \<Rightarrow> 'b machine \<Rightarrow> (fpu_ea option \<times> 'b machine) option" where
  "fpu_ea B dl m reg bytes s =
     (case decode_mode m (word_of_nat reg) of
        None \<Rightarrow> Some (None, s)
      | Some (DataDirect r) \<Rightarrow> Some (Some (FpuDataReg r), s)
      | Some (AddressDirect r) \<Rightarrow> Some (None, s)
      | Some (PostIncrement r) \<Rightarrow>
          (let inc = (if bytes = 1 \<and> r = 7 then 2 else bytes)
           in Some (Some (FpuMemory (a_reg r s)), set_a r (a_reg r s + inc) s))
      | Some (PreDecrement r) \<Rightarrow>
          (let addr = a_reg r s - (if bytes = 1 \<and> r = 7 then 2 else bytes)
           in Some (Some (FpuMemory addr), set_a r addr s))
      | Some Immediate \<Rightarrow> Some (Some FpuImmediate, s)
      | Some other \<Rightarrow> do {
          (ea, s) \<leftarrow> resolve_ea B dl other Size_Long s;
          Some (case ea of EaMemory addr \<Rightarrow> Some (FpuMemory addr) | _ \<Rightarrow> None, s)
        })"

definition format_bytes :: "nat \<Rightarrow> u32 option" where
  "format_bytes fmt =
     (if fmt = 6 then Some 1 else if fmt = 4 then Some 2 else if fmt \<in> {0, 1} then Some 4
      else if fmt = 5 then Some 8 else if fmt \<in> {2, 3} then Some 12 else None)"

definition x80_of_i32 :: "u32 \<Rightarrow> float_x80" where "x80_of_i32 v = from_f64 (f64_of_int (sint v))"
definition x80_of_i16 :: "u16 \<Rightarrow> float_x80" where "x80_of_i16 v = from_f64 (f64_of_int (sint v))"
definition x80_of_i8 :: "u8 \<Rightarrow> float_x80" where "x80_of_i8 v = from_f64 (f64_of_int (sint v))"
definition x80_of_f32 :: "host_float \<Rightarrow> u32 \<Rightarrow> float_x80" where "x80_of_f32 H v = from_f64 (f32_to_f64 H v)"
definition join64 :: "u32 \<Rightarrow> u32 \<Rightarrow> u64" where "join64 a b = push_bit 32 (ucast a) OR ucast b"

text \<open>A register, the instruction stream and memory as the source of an operand.\<close>

definition source_register :: "host_float \<Rightarrow> nat \<Rightarrow> u32 \<Rightarrow> float_x80 option" where
  "source_register H fmt v =
     (if fmt = 0 then Some (x80_of_i32 v)
      else if fmt = 1 then Some (x80_of_f32 H v)
      else if fmt = 4 then Some (x80_of_i16 (ucast v))
      else if fmt = 6 then Some (x80_of_i8 (ucast v))
      else None)"

definition source_immediate ::
  "host_float \<Rightarrow> 'b address_bus \<Rightarrow> 'b delivery \<Rightarrow> nat \<Rightarrow> 'b machine \<Rightarrow> (float_x80 option \<times> 'b machine) option" where
  "source_immediate H B dl fmt s =
     (if fmt = 0 then do { (v, s) \<leftarrow> read_imm_32 B dl s; Some (Some (x80_of_i32 v), s) }
      else if fmt = 1 then do { (v, s) \<leftarrow> read_imm_32 B dl s; Some (Some (x80_of_f32 H v), s) }
      else if fmt = 4 then do { (v, s) \<leftarrow> read_imm_16 B dl s; Some (Some (x80_of_i16 v), s) }
      else if fmt = 6 then do { (v, s) \<leftarrow> read_imm_16 B dl s; Some (Some (x80_of_i8 (ucast v)), s) }
      else if fmt = 5 then do {
        (a, s) \<leftarrow> read_imm_32 B dl s;
        (b, s) \<leftarrow> read_imm_32 B dl s;
        Some (Some (from_f64 (join64 a b)), s)
      }
      else if fmt = 2 then do {
        (e, s) \<leftarrow> read_imm_32 B dl s;
        (a, s) \<leftarrow> read_imm_32 B dl s;
        (b, s) \<leftarrow> read_imm_32 B dl s;
        Some (Some (from_extended (ucast (drop_bit 16 e)) (join64 a b)), s)
      }
      else if fmt = 3 then do {
        (w0, s) \<leftarrow> read_imm_32 B dl s;
        (w1, s) \<leftarrow> read_imm_32 B dl s;
        (w2, s) \<leftarrow> read_imm_32 B dl s;
        (v, _) \<leftarrow> from_packed w0 w1 w2 0;
        Some (Some v, s)
      }
      else Some (None, s))"

definition source_memory ::
  "host_float \<Rightarrow> 'b address_bus \<Rightarrow> 'b delivery \<Rightarrow> nat \<Rightarrow> u32 \<Rightarrow> 'b machine \<Rightarrow> (float_x80 option \<times> 'b machine) option" where
  "source_memory H B dl fmt addr s =
     (if fmt = 0 then do { (v, s) \<leftarrow> read_32 B dl addr s; Some (Some (x80_of_i32 v), s) }
      else if fmt = 1 then do { (v, s) \<leftarrow> read_32 B dl addr s; Some (Some (x80_of_f32 H v), s) }
      else if fmt = 4 then do { (v, s) \<leftarrow> read_16 B dl addr s; Some (Some (x80_of_i16 v), s) }
      else if fmt = 6 then do { (v, s) \<leftarrow> read_8 B dl addr s; Some (Some (x80_of_i8 v), s) }
      else if fmt = 5 then do {
        (a, s) \<leftarrow> read_32 B dl addr s;
        (b, s) \<leftarrow> read_32 B dl (addr + 4) s;
        Some (Some (from_f64 (join64 a b)), s)
      }
      else if fmt = 2 then do {
        (e, s) \<leftarrow> read_16 B dl addr s;
        (a, s) \<leftarrow> read_32 B dl (addr + 4) s;
        (b, s) \<leftarrow> read_32 B dl (addr + 8) s;
        Some (Some (from_extended e (join64 a b)), s)
      }
      else if fmt = 3 then do {
        (w0, s) \<leftarrow> read_32 B dl addr s;
        (w1, s) \<leftarrow> read_32 B dl (addr + 4) s;
        (w2, s) \<leftarrow> read_32 B dl (addr + 8) s;
        (v, _) \<leftarrow> from_packed w0 w1 w2 0;
        Some (Some v, s)
      }
      else Some (None, s))"

definition fpu_read_source ::
  "host_float \<Rightarrow> 'b address_bus \<Rightarrow> 'b delivery \<Rightarrow> u8 \<Rightarrow> nat \<Rightarrow> nat \<Rightarrow> 'b machine \<Rightarrow> (float_x80 option \<times> 'b machine) option" where
  "fpu_read_source H B dl m reg fmt s =
     (case format_bytes fmt of
        None \<Rightarrow> Some (None, s)
      | Some bytes \<Rightarrow> do {
          (ea, s) \<leftarrow> fpu_ea B dl m reg bytes s;
          case ea of
            None \<Rightarrow> Some (None, s)
          | Some (FpuDataReg r) \<Rightarrow> Some (source_register H fmt (d_reg r s), s)
          | Some FpuImmediate \<Rightarrow> source_immediate H B dl fmt s
          | Some (FpuMemory addr) \<Rightarrow> source_memory H B dl fmt addr s
        })"

text \<open>
  FMOVE to an integer: the rounding mode of FPCR on the binary64 value, ties to even as a
  correction of \<open>round\<close>, saturating; a not-a-number gives the least integer.
\<close>

definition f64_to_int_saturating :: "u64 \<Rightarrow> u32 \<Rightarrow> int \<Rightarrow> int \<Rightarrow> int" where
  "f64_to_int_saturating b cr least greatest =
     (if f64_is_nan b then least
      else if f64_is_inf b then if bit b 63 then least else greatest
      else
        let v = f64_value b; sg = (if bit b 63 then -1 else 1); m = drop_bit 4 cr AND 3;
            trunc = sg * \<lfloor>\<bar>v\<bar>\<rfloor>; away = sg * \<lfloor>\<bar>v\<bar> + 1 / 2\<rfloor>;
            rounded = (if m = 1 then trunc
                       else if m = 2 then \<lfloor>v\<rfloor>
                       else if m = 3 then \<lceil>v\<rceil>
                       else if \<bar>v - of_int trunc\<bar> = 1 / 2 \<and> odd away then away - sg else away)
        in if rounded < least then least else if greatest < rounded then greatest else rounded)"

definition int_of_format :: "nat \<Rightarrow> u64 \<Rightarrow> u32 \<Rightarrow> u32" where
  "int_of_format bits b cr = word_of_int (f64_to_int_saturating b cr (- (2 ^ (bits - 1))) (2 ^ (bits - 1) - 1))"

definition store_longs ::
  "'b address_bus \<Rightarrow> 'b delivery \<Rightarrow> (u32 \<times> u32) list \<Rightarrow> 'b machine \<Rightarrow> 'b machine option" where
  "store_longs B dl ws = foldr (\<lambda>(a, v) rest s. Option.bind (write_32 B dl a v s) rest) ws Some"

definition extended_longs :: "u32 \<Rightarrow> float_x80 \<Rightarrow> (u32 \<times> u32) list" where
  "extended_longs addr v =
     [(addr, push_bit 16 (ucast (sign_exp v))), (addr + 4, ucast (drop_bit 32 (mantissa v))),
      (addr + 8, ucast (mantissa v))]"

definition dest_register :: "host_float \<Rightarrow> nat \<Rightarrow> nat \<Rightarrow> u64 \<Rightarrow> 'a cpu_core_scheme \<Rightarrow> bool \<times> 'a cpu_core_scheme" where
  "dest_register H fmt r fv s =
     (if fmt = 0 then (True, set_d r (int_of_format 32 fv (fpcr s)) s)
      else if fmt = 1 then (True, set_d r (f64_to_f32 H fv) s)
      else if fmt = 4 then
        (True, set_d r ((d_reg r s AND 0xFFFF0000) OR (int_of_format 16 fv (fpcr s) AND 0xFFFF)) s)
      else if fmt = 6 then
        (True, set_d r ((d_reg r s AND 0xFFFFFF00) OR (int_of_format 8 fv (fpcr s) AND 0xFF)) s)
      else (False, s))"

definition dest_memory ::
  "host_float \<Rightarrow> 'b address_bus \<Rightarrow> 'b delivery \<Rightarrow> nat \<Rightarrow> u32 \<Rightarrow> int \<Rightarrow> float_x80 \<Rightarrow> 'b machine \<Rightarrow> (bool \<times> 'b machine) option" where
  "dest_memory H B dl fmt addr k v s =
     (let fv = to_f64 v; done = map_option (\<lambda>s. (True, s))
      in if fmt = 0 then done (write_32 B dl addr (int_of_format 32 fv (fpcr s)) s)
         else if fmt = 1 then done (write_32 B dl addr (f64_to_f32 H fv) s)
         else if fmt = 4 then done (write_16 B dl addr (ucast (int_of_format 16 fv (fpcr s))) s)
         else if fmt = 6 then done (write_8 B dl addr (ucast (int_of_format 8 fv (fpcr s))) s)
         else if fmt = 5 then done (store_longs B dl [(addr, ucast (drop_bit 32 fv)), (addr + 4, ucast fv)] s)
         else if fmt = 2 then done (store_longs B dl (extended_longs addr v) s)
         else if fmt \<in> {3, 7} then do {
           ((w0, w1, w2), _) \<leftarrow> to_packed H v k 0;
           done (store_longs B dl [(addr, w0), (addr + 4, w1), (addr + 8, w2)] s)
         }
         else Some (False, s))"

definition fpu_write_dest ::
  "host_float \<Rightarrow> 'b address_bus \<Rightarrow> 'b delivery \<Rightarrow> u8 \<Rightarrow> nat \<Rightarrow> nat \<Rightarrow> int \<Rightarrow> float_x80 \<Rightarrow> 'b machine \<Rightarrow> (bool \<times> 'b machine) option" where
  "fpu_write_dest H B dl m reg fmt k v s =
     (case if fmt = 7 then Some 12 else format_bytes fmt of
        None \<Rightarrow> Some (False, s)
      | Some bytes \<Rightarrow> do {
          (ea, s) \<leftarrow> fpu_ea B dl m reg bytes s;
          case ea of
            None \<Rightarrow> Some (False, s)
          | Some (FpuDataReg r) \<Rightarrow> Some (dest_register H fmt r (to_f64 v) s)
          | Some (FpuMemory addr) \<Rightarrow> dest_memory H B dl fmt addr k v s
          | Some FpuImmediate \<Rightarrow> Some (False, s)
        })"

section \<open>Traps of the 68060\<close>

definition fpu_060_trap_ea ::
  "'b address_bus \<Rightarrow> 'b delivery \<Rightarrow> u8 \<Rightarrow> nat \<Rightarrow> nat \<Rightarrow> 'b machine \<Rightarrow> (u32 \<times> 'b machine) option" where
  "fpu_060_trap_ea B dl m reg fmt s =
     (let bytes = (if fmt = 4 then 2 else if fmt = 6 then 1 else if fmt = 5 then 8
                   else if fmt \<in> {2, 3} then 12 else 4 :: u32)
      in do {
        (ea, s) \<leftarrow> fpu_ea B dl m reg bytes s;
        Some (case ea of
            Some (FpuMemory addr) \<Rightarrow> (addr, s)
          | Some FpuImmediate \<Rightarrow> (0, s\<lparr> pc := pc s + (max bytes 2 AND NOT 1) \<rparr>)
          | _ \<Rightarrow> (0, s))
      })"

definition fpu_060_scc_trap ::
  "'b address_bus \<Rightarrow> 'b delivery \<Rightarrow> u8 \<Rightarrow> nat \<Rightarrow> 'b machine \<Rightarrow> 'b fpu_outcome" where
  "fpu_060_scc_trap B dl m reg s = do {
     (ea, s) \<leftarrow> fpu_ea B dl m reg 1 s;
     take_fp_unimp_060 B dl (case ea of Some (FpuMemory addr) \<Rightarrow> addr | _ \<Rightarrow> 0) s
   }"

section \<open>The general instruction\<close>

definition sign_extend7 :: "u16 \<Rightarrow> int" where
  "sign_extend7 v = (let raw = uint (v AND 0x7F) in if 0x40 \<le> raw then raw - 0x80 else raw)"

definition fmovecr :: "nat \<Rightarrow> nat \<Rightarrow> 'a cpu_core_scheme \<Rightarrow> 'a cpu_core_scheme" where
  "fmovecr dst offset s = fpu_move dst (const_rom offset) s"

text \<open>An operation on an operand of memory, the instruction stream or a data register.\<close>

definition fpu_alu_ea ::
  "host_float \<Rightarrow> 'b address_bus \<Rightarrow> 'b delivery \<Rightarrow> u16 \<Rightarrow> u16 \<Rightarrow> 'b machine \<Rightarrow> 'b fpu_outcome" where
  "fpu_alu_ea H B dl opcode w2 s =
     (let fmt = unat (drop_bit 10 w2 AND 7); dst = unat (drop_bit 7 w2 AND 7); opmode = w2 AND 0x7F;
          m = ucast (drop_bit 3 opcode AND 7) :: u8; reg = unat (opcode AND 7)
      in do {
        (_, s) \<leftarrow> read_imm_16 B dl s;
        if fmt = 7 then
          if trap_unimpl_060 s then take_fp_unimp_060 B dl 0 s
          else Some (4, fmovecr dst (unat opmode) s)
        else if trap_unimpl_060 s \<and> fpu_060_traps_opmode opmode then do {
          (ea, s) \<leftarrow> fpu_060_trap_ea B dl m reg fmt s;
          take_fp_unimp_060 B dl ea s
        }
        else if trap_unimpl_060 s \<and> fmt = 3 then
          take_exception B dl (if opcode AND 0x3F = 0x3C then 60 else 55) s
        else do {
          (src, s) \<leftarrow> fpu_read_source H B dl m reg fmt s;
          case src of None \<Rightarrow> Some (0, s) | Some v \<Rightarrow> fpu_apply_op opmode dst v s
        }
      })"

definition fpu_alu_registers ::
  "'b address_bus \<Rightarrow> 'b delivery \<Rightarrow> u16 \<Rightarrow> 'b machine \<Rightarrow> 'b fpu_outcome" where
  "fpu_alu_registers B dl w2 s =
     (let src = unat (drop_bit 10 w2 AND 7); dst = unat (drop_bit 7 w2 AND 7); opmode = w2 AND 0x7F
      in do {
        (_, s) \<leftarrow> read_imm_16 B dl s;
        if opmode = 0x17 then
          if trap_unimpl_060 s then take_fp_unimp_060 B dl 0 s else Some (4, fmovecr dst src s)
        else if trap_unimpl_060 s \<and> fpu_060_traps_opmode opmode then take_fp_unimp_060 B dl 0 s
        else fpu_apply_op opmode dst (fpr s src) s
      })"

definition fpu_move_out ::
  "host_float \<Rightarrow> 'b address_bus \<Rightarrow> 'b delivery \<Rightarrow> u16 \<Rightarrow> u16 \<Rightarrow> 'b machine \<Rightarrow> 'b fpu_outcome" where
  "fpu_move_out H B dl opcode w2 s =
     (let fmt = unat (drop_bit 10 w2 AND 7); src = unat (drop_bit 7 w2 AND 7);
          m = ucast (drop_bit 3 opcode AND 7) :: u8; reg = unat (opcode AND 7)
      in if trap_unimpl_060 s \<and> fmt \<in> {3, 7} then take_exception B dl 55 s
         else
           let k = (if fmt = 3 then sign_extend7 w2
                    else if fmt = 7 then sign_extend7 (ucast (d_reg (unat (drop_bit 4 w2 AND 7)) s)) else 0)
           in do {
             (_, s) \<leftarrow> read_imm_16 B dl s;
             (ok, s) \<leftarrow> fpu_write_dest H B dl m reg fmt k (fpr s src) s;
             Some (if ok then 4 else 0, s)
           })"

subsection \<open>FMOVEM\<close>

text \<open>The mask bit of a register: in order, or mirrored for the postincrement and control forms.\<close>

definition fmovem_bit :: "bool \<Rightarrow> nat \<Rightarrow> nat" where
  "fmovem_bit mirrored i = (if mirrored then 7 - i else i)"

fun fmovem_load ::
  "'b address_bus \<Rightarrow> 'b delivery \<Rightarrow> nat list \<Rightarrow> u32 \<Rightarrow> 'b machine \<Rightarrow> (u32 \<times> 'b machine) option" where
  "fmovem_load B dl [] addr s = Some (addr, s)"
| "fmovem_load B dl (i # is) addr s = do {
     (e, s) \<leftarrow> read_32 B dl addr s;
     (a, s) \<leftarrow> read_32 B dl (addr + 4) s;
     (b, s) \<leftarrow> read_32 B dl (addr + 8) s;
     fmovem_load B dl is (addr + 12) (set_fpr i (from_extended (ucast (drop_bit 16 e)) (join64 a b)) s)
   }"

fun fmovem_store ::
  "'b address_bus \<Rightarrow> 'b delivery \<Rightarrow> nat list \<Rightarrow> u32 \<Rightarrow> 'b machine \<Rightarrow> (u32 \<times> 'b machine) option" where
  "fmovem_store B dl [] addr s = Some (addr, s)"
| "fmovem_store B dl (i # is) addr s = do {
     s \<leftarrow> store_longs B dl (extended_longs addr (fpr s i)) s;
     fmovem_store B dl is (addr + 12) s
   }"

definition fmovem_registers :: "u16 \<Rightarrow> bool \<Rightarrow> nat list" where
  "fmovem_registers regs mirrored = filter (\<lambda>i. bit regs (fmovem_bit mirrored i)) [0..<8]"

definition fpu_movem ::
  "'b address_bus \<Rightarrow> 'b delivery \<Rightarrow> bool \<Rightarrow> u16 \<Rightarrow> u16 \<Rightarrow> 'b machine \<Rightarrow> 'b fpu_outcome" where
  "fpu_movem B dl load opcode w2 s =
     (let dynamic = bit w2 11; mirrored = bit w2 12;
          m = ucast (drop_bit 3 opcode AND 7) :: u8; reg = unat (opcode AND 7)
      in do {
        (_, s) \<leftarrow> read_imm_16 B dl s;
        if trap_unimpl_060 s \<and> dynamic then take_exception B dl 60 s
        else do {
          let regs = (if dynamic then ucast (d_reg (unat (drop_bit 4 w2 AND 7)) s AND 0xFF) else w2 AND 0xFF);
          let count = length (filter (bit regs) [0..<8]);
          (ea, s) \<leftarrow> (if m = 4 then
              let a = a_reg reg s - word_of_nat (count * 12) in Some (Some (FpuMemory a), set_a reg a s)
            else fpu_ea B dl m reg 0 s);
          case ea of
            Some (FpuMemory addr) \<Rightarrow> do {
              (addr, s) \<leftarrow> (if load then fmovem_load B dl (fmovem_registers regs mirrored) addr s
                            else fmovem_store B dl (fmovem_registers regs mirrored) addr s);
              Some (8, if m = 3 then set_a reg addr s else s)
            }
          | _ \<Rightarrow> Some (0, s)
        }
      })"

subsection \<open>The control registers\<close>

datatype fpu_control = Ctl_FPCR | Ctl_FPSR | Ctl_FPIAR

text \<open>The registers a selection names, in the order they are transferred.\<close>

definition fpu_controls :: "u16 \<Rightarrow> fpu_control list" where
  "fpu_controls sel = (if sel AND 4 \<noteq> 0 then [Ctl_FPCR] else []) @
     (if sel AND 2 \<noteq> 0 then [Ctl_FPSR] else []) @ (if sel AND 1 \<noteq> 0 then [Ctl_FPIAR] else [])"

fun get_control :: "fpu_control \<Rightarrow> 'a cpu_core_scheme \<Rightarrow> u32" where
  "get_control Ctl_FPCR s = fpcr s"
| "get_control Ctl_FPSR s = fpsr s"
| "get_control Ctl_FPIAR s = fpiar s"

fun set_control :: "fpu_control \<Rightarrow> u32 \<Rightarrow> 'a cpu_core_scheme \<Rightarrow> 'a cpu_core_scheme" where
  "set_control Ctl_FPCR v s = s\<lparr> fpcr := v \<rparr>"
| "set_control Ctl_FPSR v s = s\<lparr> fpsr := v \<rparr>"
| "set_control Ctl_FPIAR v s = s\<lparr> fpiar := v \<rparr>"

text \<open>All values are read before any register changes.\<close>

fun imm_longs :: "'b address_bus \<Rightarrow> 'b delivery \<Rightarrow> nat \<Rightarrow> 'b machine \<Rightarrow> (u32 list \<times> 'b machine) option" where
  "imm_longs B dl 0 s = Some ([], s)"
| "imm_longs B dl (Suc n) s = do {
     (v, s) \<leftarrow> read_imm_32 B dl s;
     (vs, s) \<leftarrow> imm_longs B dl n s;
     Some (v # vs, s)
   }"

fun memory_longs :: "'b address_bus \<Rightarrow> 'b delivery \<Rightarrow> nat \<Rightarrow> u32 \<Rightarrow> 'b machine \<Rightarrow> (u32 list \<times> 'b machine) option" where
  "memory_longs B dl 0 addr s = Some ([], s)"
| "memory_longs B dl (Suc n) addr s = do {
     (v, s) \<leftarrow> read_32 B dl addr s;
     (vs, s) \<leftarrow> memory_longs B dl n (addr + 4) s;
     Some (v # vs, s)
   }"

definition set_controls :: "fpu_control list \<Rightarrow> u32 list \<Rightarrow> 'a cpu_core_scheme \<Rightarrow> 'a cpu_core_scheme" where
  "set_controls cs vs s = fold (\<lambda>(c, v). set_control c v) (zip cs vs) s"

definition fpu_control_load ::
  "'b address_bus \<Rightarrow> 'b delivery \<Rightarrow> u16 \<Rightarrow> u16 \<Rightarrow> 'b machine \<Rightarrow> 'b fpu_outcome" where
  "fpu_control_load B dl opcode w2 s =
     (let cs = fpu_controls (drop_bit 10 w2 AND 7); n = length cs;
          m = ucast (drop_bit 3 opcode AND 7) :: u8; reg = unat (opcode AND 7)
      in do {
        (_, s) \<leftarrow> read_imm_16 B dl s;
        if trap_unimpl_060 s \<and> 2 \<le> n \<and> opcode AND 0x3F = 0x3C then take_exception B dl 60 s
        else do {
          (ea, s) \<leftarrow> fpu_ea B dl m reg (word_of_nat (4 * n)) s;
          case ea of
            Some (FpuDataReg r) \<Rightarrow>
              if n = 1 then Some (4, set_controls cs [d_reg r s] s) else Some (0, s)
          | Some FpuImmediate \<Rightarrow> do { (vs, s) \<leftarrow> imm_longs B dl n s; Some (4, set_controls cs vs s) }
          | Some (FpuMemory addr) \<Rightarrow> do { (vs, s) \<leftarrow> memory_longs B dl n addr s; Some (4, set_controls cs vs s) }
          | None \<Rightarrow> Some (0, s)
        }
      })"

text \<open>Each register is read when its long is written: a faulted write may have changed nothing here.\<close>

fun write_controls ::
  "'b address_bus \<Rightarrow> 'b delivery \<Rightarrow> fpu_control list \<Rightarrow> u32 \<Rightarrow> 'b machine \<Rightarrow> 'b machine option" where
  "write_controls B dl [] addr s = Some s"
| "write_controls B dl (c # cs) addr s = do {
     s \<leftarrow> write_32 B dl addr (get_control c s) s;
     write_controls B dl cs (addr + 4) s
   }"

definition fpu_control_store ::
  "'b address_bus \<Rightarrow> 'b delivery \<Rightarrow> u16 \<Rightarrow> u16 \<Rightarrow> 'b machine \<Rightarrow> 'b fpu_outcome" where
  "fpu_control_store B dl opcode w2 s =
     (let cs = fpu_controls (drop_bit 10 w2 AND 7); n = length cs;
          m = ucast (drop_bit 3 opcode AND 7) :: u8; reg = unat (opcode AND 7)
      in do {
        (_, s) \<leftarrow> read_imm_16 B dl s;
        (ea, s) \<leftarrow> fpu_ea B dl m reg (word_of_nat (4 * n)) s;
        case ea of
          Some (FpuDataReg r) \<Rightarrow>
            if n = 1 then Some (4, set_d r (get_control (hd cs) s) s) else Some (0, s)
        | Some (FpuMemory addr) \<Rightarrow> do { s \<leftarrow> write_controls B dl cs addr s; Some (4, s) }
        | _ \<Rightarrow> Some (0, s)
      })"

text \<open>The extension word is only looked at here; each form consumes it.\<close>

definition exec_fpu_op0 ::
  "host_float \<Rightarrow> 'b address_bus \<Rightarrow> 'b delivery \<Rightarrow> u16 \<Rightarrow> 'b machine \<Rightarrow> 'b fpu_outcome" where
  "exec_fpu_op0 H B dl opcode s =
     (if cpu_model s \<in> {M68LC040, M68EC040} then Some (0, s)
      else if is_060 s \<and> pcr s AND 2 \<noteq> 0 then take_fp_disabled_060 B dl s
      else do {
        (w2, s) \<leftarrow> read_16 B dl (pc s) s;
        let s = s\<lparr> fpu_just_reset := False \<rparr>;
        let subop = drop_bit 13 w2 AND 7;
        if subop = 2 then fpu_alu_ea H B dl opcode w2 s
        else if subop = 3 then fpu_move_out H B dl opcode w2 s
        else if subop = 0 then fpu_alu_registers B dl w2 s
        else if subop \<in> {6, 7} then fpu_movem B dl (subop = 6) opcode w2 s
        else if subop = 4 then fpu_control_load B dl opcode w2 s
        else if subop = 5 then fpu_control_store B dl opcode w2 s
        else Some (0, s)
      })"

section \<open>Conditionals\<close>

fun skip_words :: "'b address_bus \<Rightarrow> 'b delivery \<Rightarrow> nat \<Rightarrow> 'b machine \<Rightarrow> 'b machine option" where
  "skip_words B dl 0 s = Some s"
| "skip_words B dl (Suc n) s = do { (_, s) \<leftarrow> read_imm_16 B dl s; skip_words B dl n s }"

definition exec_fbcc :: "u8 \<Rightarrow> u32 \<Rightarrow> 'a cpu_core_scheme \<Rightarrow> int \<times> 'a cpu_core_scheme" where
  "exec_fbcc condition disp s =
     (8, if fpu_condition condition s then s\<lparr> change_of_flow := True, pc := ppc s + 2 + disp \<rparr> else s)"

definition exec_fscc ::
  "'b address_bus \<Rightarrow> 'b delivery \<Rightarrow> u8 \<Rightarrow> nat \<Rightarrow> u8 \<Rightarrow> 'b machine \<Rightarrow> 'b fpu_outcome" where
  "exec_fscc B dl m reg condition s =
     (let v = (if fpu_condition condition s then 0xFF else 0 :: u8)
      in do {
        (ea, s) \<leftarrow> fpu_ea B dl m reg 1 s;
        case ea of
          Some (FpuDataReg r) \<Rightarrow> Some (4, set_d r ((d_reg r s AND 0xFFFFFF00) OR ucast v) s)
        | Some (FpuMemory addr) \<Rightarrow> do { s \<leftarrow> write_8 B dl addr v s; Some (4, s) }
        | _ \<Rightarrow> Some (0, s)
      })"

definition exec_fdbcc ::
  "'b address_bus \<Rightarrow> 'b delivery \<Rightarrow> nat \<Rightarrow> u8 \<Rightarrow> 'b machine \<Rightarrow> 'b fpu_outcome" where
  "exec_fdbcc B dl reg condition s =
     (let disp_base = pc s
      in do {
        (disp, s) \<leftarrow> read_imm_16 B dl s;
        if fpu_condition condition s then Some (8, s)
        else do {
          let count = (ucast (d_reg reg s) - 1 :: u16);
          let s = set_d reg ((d_reg reg s AND 0xFFFF0000) OR ucast count) s;
          Some (8, if count \<noteq> 0xFFFF then s\<lparr> change_of_flow := True, pc := disp_base + scast disp \<rparr> else s)
        }
      })"

definition exec_ftrapcc ::
  "'b address_bus \<Rightarrow> 'b delivery \<Rightarrow> u8 \<Rightarrow> nat \<Rightarrow> 'b machine \<Rightarrow> 'b fpu_outcome" where
  "exec_ftrapcc B dl condition imm_words s = do {
     s \<leftarrow> skip_words B dl imm_words s;
     if fpu_condition condition s then take_group2_exception B dl 7 s else Some (4, s)
   }"

section \<open>FSAVE and FRESTORE\<close>

definition fpu_frame_control_ea ::
  "'b address_bus \<Rightarrow> 'b delivery \<Rightarrow> u8 \<Rightarrow> nat \<Rightarrow> bool \<Rightarrow> 'b machine \<Rightarrow> (u32 option \<times> 'b machine) option" where
  "fpu_frame_control_ea B dl m reg allow_pc_relative s =
     (case decode_mode m (word_of_nat reg) of
        None \<Rightarrow> Some (None, s)
      | Some am \<Rightarrow>
          let control = (case am of AddressIndirect _ \<Rightarrow> True | Displacement _ \<Rightarrow> True | Index _ \<Rightarrow> True
                | AbsoluteShort \<Rightarrow> True | AbsoluteLong \<Rightarrow> True
                | PcDisplacement \<Rightarrow> allow_pc_relative | PcIndex \<Rightarrow> allow_pc_relative | _ \<Rightarrow> False)
          in if \<not> control then Some (None, s)
             else do {
               (ea, s) \<leftarrow> resolve_ea B dl am Size_Long s;
               Some (case ea of EaMemory addr \<Rightarrow> Some addr | _ \<Rightarrow> None, s)
             })"

text \<open>Header, number of longs and last long of the idle frame.\<close>

definition fsave_idle_frame :: "'a cpu_core_scheme \<Rightarrow> u32 \<times> nat \<times> u32" where
  "fsave_idle_frame s = (if is_040 s then (0x41280000, 11, 0) else (0x1F180000, 7, 0x70000000))"

definition fsave_extra_longs :: "'a cpu_core_scheme \<Rightarrow> u32" where
  "fsave_extra_longs s = word_of_nat (fst (snd (fsave_idle_frame s))) - 1"

definition fsave_longs :: "u32 \<Rightarrow> bool \<Rightarrow> 'a cpu_core_scheme \<Rightarrow> (u32 \<times> u32) list" where
  "fsave_longs addr inc s =
     (let (header, n, final) = fsave_idle_frame s;
          slot = (\<lambda>i. if inc then addr + word_of_nat (i * 4) else addr - word_of_nat (i * 4))
      in (addr, if inc then header else final) # map (\<lambda>i. (slot i, 0)) [1..<n - 1] @
         [(slot (n - 1), if inc then final else header)])"

definition perform_fsave ::
  "'b address_bus \<Rightarrow> 'b delivery \<Rightarrow> u32 \<Rightarrow> bool \<Rightarrow> 'b machine \<Rightarrow> 'b machine option" where
  "perform_fsave B dl addr inc s = store_longs B dl (fsave_longs addr inc s) s"

definition fsave_at :: "'b address_bus \<Rightarrow> 'b delivery \<Rightarrow> u32 \<Rightarrow> bool \<Rightarrow> 'b machine \<Rightarrow> 'b machine option" where
  "fsave_at B dl addr inc s =
     (if fpu_just_reset s then write_32 B dl addr 0 s else perform_fsave B dl addr inc s)"

definition frame_060_longs :: "u32 \<Rightarrow> bool \<Rightarrow> (u32 \<times> u32) list" where
  "frame_060_longs addr null = (if null then [(addr, 0)] else [(addr, 0x6000), (addr + 4, 0), (addr + 8, 0)])"

definition exec_fsave_060 ::
  "'b address_bus \<Rightarrow> 'b delivery \<Rightarrow> u8 \<Rightarrow> nat \<Rightarrow> 'b machine \<Rightarrow> 'b fpu_outcome" where
  "exec_fsave_060 B dl m reg s =
     (let null = fpu_just_reset s; size = (if null then 4 else 12);
          save = (\<lambda>addr s. map_option (\<lambda>s. (8, s)) (store_longs B dl (frame_060_longs addr null) s))
      in if m \<in> {2, 3} then
           save (a_reg reg s) (if m = 3 then set_a reg (a_reg reg s + size) s else s)
         else if m = 4 then save (a_reg reg s - size) (set_a reg (a_reg reg s - size) s)
         else do {
           (addr, s) \<leftarrow> fpu_frame_control_ea B dl m reg False s;
           case addr of None \<Rightarrow> Some (0, s) | Some addr \<Rightarrow> save addr s
         })"

definition exec_fsave ::
  "'b address_bus \<Rightarrow> 'b delivery \<Rightarrow> u8 \<Rightarrow> nat \<Rightarrow> 'b machine \<Rightarrow> 'b fpu_outcome" where
  "exec_fsave B dl m reg s =
     (if is_060 s then exec_fsave_060 B dl m reg s
      else if m = 3 then
        let addr = a_reg reg s;
            s = set_a reg (addr + 4 + (if fpu_just_reset s then 0 else fsave_extra_longs s * 4)) s
        in map_option (\<lambda>s. (8, s)) (fsave_at B dl addr True s)
      else if m = 4 then
        let addr = a_reg reg s - 4;
            s = set_a reg (addr - (if fpu_just_reset s then 0 else fsave_extra_longs s * 4)) s
        in map_option (\<lambda>s. (8, s)) (fsave_at B dl addr False s)
      else do {
        (addr, s) \<leftarrow> fpu_frame_control_ea B dl m reg False s;
        case addr of None \<Rightarrow> Some (0, s)
        | Some addr \<Rightarrow> map_option (\<lambda>s. (8, s)) (fsave_at B dl addr True s)
      })"

definition do_frestore_null :: "'a cpu_core_scheme \<Rightarrow> 'a cpu_core_scheme" where
  "do_frestore_null s = s\<lparr> fpcr := 0, fpsr := 0, fpiar := 0, fpr := (\<lambda>_. default_nan), fpu_just_reset := True \<rparr>"

definition frestore_header :: "bool \<Rightarrow> 'a cpu_core_scheme \<Rightarrow> 'a cpu_core_scheme" where
  "frestore_header null s = (if null then do_frestore_null s else s\<lparr> fpu_just_reset := False \<rparr>)"

definition exec_frestore_060 ::
  "'b address_bus \<Rightarrow> 'b delivery \<Rightarrow> u8 \<Rightarrow> nat \<Rightarrow> 'b machine \<Rightarrow> 'b fpu_outcome" where
  "exec_frestore_060 B dl m reg s =
     (if m \<in> {2, 3} then do {
        let addr = a_reg reg s;
        (header, s) \<leftarrow> read_32 B dl addr s;
        let null = (header AND 0xFF00 = 0);
        let s = (if m = 3 then set_a reg (addr + (if null then 4 else 12)) s else s);
        Some (8, frestore_header null s)
      }
      else do {
        (addr, s) \<leftarrow> fpu_frame_control_ea B dl m reg True s;
        case addr of None \<Rightarrow> Some (0, s)
        | Some addr \<Rightarrow> do {
            (header, s) \<leftarrow> read_32 B dl addr s;
            Some (8, frestore_header (header AND 0xFF00 = 0) s)
          }
      })"

definition exec_frestore ::
  "'b address_bus \<Rightarrow> 'b delivery \<Rightarrow> u8 \<Rightarrow> nat \<Rightarrow> 'b machine \<Rightarrow> 'b fpu_outcome" where
  "exec_frestore B dl m reg s =
     (if is_060 s then exec_frestore_060 B dl m reg s
      else if m = 2 then do {
        (header, s) \<leftarrow> read_32 B dl (a_reg reg s) s;
        Some (8, frestore_header (header AND 0xFF000000 = 0) s)
      }
      else if m = 3 then do {
        let addr = a_reg reg s;
        (header, s) \<leftarrow> read_32 B dl addr (set_a reg (addr + 4) s);
        if header AND 0xFF000000 = 0 then Some (8, do_frestore_null s)
        else do {
          let s = s\<lparr> fpu_just_reset := False \<rparr>;
          Some (8, set_a reg (a_reg reg s + (drop_bit 16 header AND 0xFF)) s)
        }
      }
      else do {
        (addr, s) \<leftarrow> fpu_frame_control_ea B dl m reg True s;
        case addr of None \<Rightarrow> Some (0, s)
        | Some addr \<Rightarrow> do {
            (header, s) \<leftarrow> read_32 B dl addr s;
            Some (8, frestore_header (header AND 0xFF000000 = 0) s)
          }
      })"

definition exec_fpu_op1 ::
  "'b address_bus \<Rightarrow> 'b delivery \<Rightarrow> u16 \<Rightarrow> 'b machine \<Rightarrow> 'b fpu_outcome" where
  "exec_fpu_op1 B dl opcode s =
     (let m = ucast (drop_bit 3 opcode AND 7) :: u8; reg = unat (opcode AND 7); op = drop_bit 6 opcode AND 3
      in if is_060 s \<and> pcr s AND 2 \<noteq> 0 then take_fp_disabled_060 B dl s
         else if op = 0 then exec_fsave B dl m reg s
         else if op = 1 then exec_frestore B dl m reg s
         else Some (0, s))"

end
