(* ===== verification/Group_F.thy ===== *)
theory Group_F
  imports Block_Moves Control Fpu_Ops
begin

unbundle bit_operations_syntax

text \<open>
  The coprocessor group of \<open>src/core/decode.rs\<close> with the MMU instructions of the 68030
  (\<open>exec_mmu_op0\<close> of \<open>src/core/cpu.rs\<close>), and the dispatch of an opcode to its group. A count of
  zero means that the encoding is no instruction; \<open>dispatch_group_f\<close> turns it into the sentinel.
\<close>

section \<open>MMU instructions of the 68030\<close>

definition has_caches_040 :: "'a cpu_core_scheme \<Rightarrow> bool" where
  "has_caches_040 s \<longleftrightarrow> cpu_model s \<in> {M68EC040, M68LC040, M68040, M68060}"

definition ptest_function_code :: "u16 \<Rightarrow> 'a cpu_core_scheme \<Rightarrow> u32" where
  "ptest_function_code modes s =
     (let fcf = ucast modes AND 0x1F :: u32
      in if fcf AND 0x10 \<noteq> 0 then fcf AND 7
         else if fcf AND 8 \<noteq> 0 then d_reg (unat (fcf AND 7)) s AND 7
         else if fcf = 1 then dfc s AND 7
         else sfc s AND 7)"

definition exec_ptest_030 ::
  "'b address_bus \<Rightarrow> 'b delivery \<Rightarrow> u16 \<Rightarrow> u16 \<Rightarrow> 'b machine \<Rightarrow> 'b outcome" where
  "exec_ptest_030 B dl opcode modes s =
     (let level = ucast (drop_bit 10 modes AND 7) :: u32; reads = (modes AND 0x0200 \<noteq> 0);
          a_bit = (modes AND 0x0100 \<noteq> 0); an = unat (drop_bit 5 modes AND 7);
          fc = ptest_function_code modes s
      in case ea_of opcode of
           None \<Rightarrow> Some (0, s)
         | Some am \<Rightarrow> do {
             (ea, s) \<leftarrow> resolve_ea B dl am Size_Long s;
             case ea of
               EaMemory addr \<Rightarrow>
                 (case ptest_030 B addr fc (\<not> reads) level s of
                    (None, _) \<Rightarrow> None
                  | (Some (sr, desc_addr), s) \<Rightarrow>
                      let s = s\<lparr> mmu_sr := ucast sr \<rparr>
                      in Some (8, if a_bit \<and> level \<noteq> 0 then set_a an desc_addr s else s))
             | _ \<Rightarrow> Some (0, s)
           })"

text \<open>The root pointers move as two longs, and only to and from memory.\<close>

definition pmove_store ::
  "'b address_bus \<Rightarrow> 'b delivery \<Rightarrow> u16 \<Rightarrow> ea_result \<Rightarrow> 'b machine \<Rightarrow> 'b outcome" where
  "pmove_store B dl preg ea s =
     (let store = (\<lambda>sz v. do { s \<leftarrow> write_resolved_ea B dl ea sz v s; Some (4, s) });
          store_pair = (\<lambda>limit aptr. case ea of
             EaMemory a \<Rightarrow> do {
               s \<leftarrow> write_32 B dl a (limit s) s;
               s \<leftarrow> write_32 B dl (a + 4) (aptr s) s;
               Some (8, s)
             }
           | _ \<Rightarrow> Some (0, s))
      in if preg = 0x10 then store Size_Long (mmu_tc s)
         else if preg = 0x12 then store_pair mmu_srp_limit mmu_srp_aptr
         else if preg = 0x13 then store_pair mmu_crp_limit mmu_crp_aptr
         else if preg = 0x02 then store Size_Long (mmu_tt0 s)
         else if preg = 0x03 then store Size_Long (mmu_tt1 s)
         else if preg = 0x18 then store Size_Word (mmu_sr s AND 0xFFFF)
         else Some (0, s))"

definition pmove_load ::
  "'b address_bus \<Rightarrow> 'b delivery \<Rightarrow> u16 \<Rightarrow> ea_result \<Rightarrow> 'b machine \<Rightarrow> 'b outcome" where
  "pmove_load B dl preg ea s =
     (let load = (\<lambda>sz set. do { (v, s) \<leftarrow> read_resolved_ea B dl ea sz s; Some (4, set v s) });
          load_pair = (\<lambda>set. case ea of
             EaMemory a \<Rightarrow> do {
               (limit, s) \<leftarrow> read_32 B dl a s;
               (aptr, s) \<leftarrow> read_32 B dl (a + 4) s;
               Some (8, set limit aptr s)
             }
           | _ \<Rightarrow> Some (0, s))
      in if preg = 0x10 then load Size_Long (\<lambda>v s. let s = s\<lparr> mmu_tc := v \<rparr> in s\<lparr> pmmu_enabled := tc_enable s \<rparr>)
         else if preg = 0x12 then load_pair (\<lambda>limit aptr s. s\<lparr> mmu_srp_limit := limit, mmu_srp_aptr := aptr \<rparr>)
         else if preg = 0x13 then load_pair (\<lambda>limit aptr s. s\<lparr> mmu_crp_limit := limit, mmu_crp_aptr := aptr \<rparr>)
         else if preg = 0x02 then load Size_Long (\<lambda>v s. s\<lparr> mmu_tt0 := v \<rparr>)
         else if preg = 0x03 then load Size_Long (\<lambda>v s. s\<lparr> mmu_tt1 := v \<rparr>)
         else if preg = 0x18 then load Size_Word (\<lambda>v s. s\<lparr> mmu_sr := v AND 0xFFFF \<rparr>)
         else Some (0, s))"

definition pload_or_pflush :: "u16 \<Rightarrow> bool" where
  "pload_or_pflush modes \<longleftrightarrow>
     modes AND 0xFDE0 = 0x2000 \<or> modes AND 0xE200 = 0x2000 \<or> modes = 0xA000 \<or> modes = 0x2800 \<or>
     modes AND 0xFFF8 = 0x2C00"

definition exec_mmu_op0 ::
  "'b address_bus \<Rightarrow> 'b delivery \<Rightarrow> u16 \<Rightarrow> 'b machine \<Rightarrow> 'b outcome" where
  "exec_mmu_op0 B dl opcode s =
     (if is_060 s \<or> \<not> has_pmmu s then Some (0, s)
      else if \<not> is_supervisor s then if is_040 s then Some (0, s) else exception_privilege B dl s
      else do {
        (modes, s) \<leftarrow> read_imm_16 B dl s;
        if modes AND 0xE000 = 0x8000 then
          if is_040 s then Some (4, s) else exec_ptest_030 B dl opcode modes s
        else if pload_or_pflush modes then Some (8, s)
        else case ea_of opcode of
            None \<Rightarrow> Some (0, s)
          | Some am \<Rightarrow> do {
              let preg = drop_bit 10 modes AND 0x1F;
              (ea, s) \<leftarrow> resolve_ea B dl am Size_Long s;
              if modes AND 0x0200 \<noteq> 0 then pmove_store B dl preg ea s else pmove_load B dl preg ea s
            }
      })"

section \<open>Group F\<close>

text \<open>A count of zero lets the decoding go on.\<close>

definition or_else :: "'b outcome \<Rightarrow> ('b machine \<Rightarrow> 'b outcome) \<Rightarrow> 'b outcome" where
  "or_else r rest = do { (cycles, s) \<leftarrow> r; if cycles \<noteq> 0 then Some (cycles, s) else rest s }"

definition is_cpsave :: "u16 \<Rightarrow> bool" where
  "is_cpsave opcode \<longleftrightarrow>
     (let m = ea_mode opcode; r = ea_reg opcode
      in opcode AND 0xF1C0 = 0xF100 \<and> (m = 2 \<or> 4 \<le> m \<and> m \<le> 6 \<or> m = 7 \<and> r \<le> 1))"

definition is_cprestore :: "u16 \<Rightarrow> bool" where
  "is_cprestore opcode \<longleftrightarrow>
     (let m = ea_mode opcode; r = ea_reg opcode
      in opcode AND 0xF1C0 = 0xF140 \<and> (m = 2 \<or> m = 3 \<or> m = 5 \<or> m = 6 \<or> m = 7 \<and> r \<le> 3))"

definition cp_id :: "u16 \<Rightarrow> u16" where
  "cp_id opcode = drop_bit 9 opcode AND 7"

text \<open>CINV and CPUSH: the caches named are cleared as a whole, through the pending operations.\<close>

definition dispatch_cache_040 ::
  "'b address_bus \<Rightarrow> 'b delivery \<Rightarrow> u16 \<Rightarrow> 'b machine \<Rightarrow> 'b outcome" where
  "dispatch_cache_040 B dl opcode s =
     (if ea_mode opcode \<in> {0, 4} then exception_1111 s
      else if \<not> is_supervisor s then take_exception B dl 8 s
      else
        let caches = drop_bit 6 opcode AND 3;
            s = (if caches AND 1 \<noteq> 0 then s\<lparr> cacr_pending_ops := cacr_pending_ops s OR 0x800 \<rparr> else s);
            s = (if caches AND 2 \<noteq> 0 then s\<lparr> cacr_pending_ops := cacr_pending_ops s OR 8 \<rparr> else s)
        in Some (4, s))"

text \<open>
  A translation in the address space of DFC, as PTEST and PLPA make it; None is a panic of the
  translation.
\<close>

definition translate_dfc ::
  "'b address_bus \<Rightarrow> u32 \<Rightarrow> bool \<Rightarrow> 'b machine \<Rightarrow> ((mmu_fault + u32) \<times> 'b machine) option" where
  "translate_dfc B addr write0 s =
     (case translate B addr write0 (dfc s AND 4 \<noteq> 0) False (s\<lparr> mmu_fc_override := Some (ucast (dfc s AND 7)) \<rparr>) of
        (None, _) \<Rightarrow> None
      | (Some r, s) \<Rightarrow> Some (r, s\<lparr> mmu_fc_override := None \<rparr>))"

definition exec_plpa ::
  "'b address_bus \<Rightarrow> 'b delivery \<Rightarrow> u16 \<Rightarrow> 'b machine \<Rightarrow> 'b outcome" where
  "exec_plpa B dl opcode s =
     (let write0 = (opcode AND 0x40 = 0); an = unat (opcode AND 7)
      in do {
        (r, s) \<leftarrow> translate_dfc B (a_reg an s) write0 s;
        case r of
          Inr phys \<Rightarrow> Some (4, set_a an phys s)
        | Inl fault \<Rightarrow> do { s \<leftarrow> handle_mmu_fault dl fault write0 False 4 s; Some (50, s) }
      })"

definition exec_ptest_040 :: "'b address_bus \<Rightarrow> u16 \<Rightarrow> 'b machine \<Rightarrow> 'b outcome" where
  "exec_ptest_040 B opcode s = do {
     (r, s) \<leftarrow> translate_dfc B (a_reg (unat (opcode AND 7)) s) (opcode AND 0x20 = 0) s;
     let s = s\<lparr> mmu_sr := (case r of Inr phys \<Rightarrow> (phys AND 0xFFFFF000) OR 1 | Inl _ \<Rightarrow> 0) \<rparr>;
     Some (4, trace_t0_68040_sync s)
   }"

definition mmu_040_valid :: "bool \<Rightarrow> u16 \<Rightarrow> bool" where
  "mmu_040_valid m68060 opcode \<longleftrightarrow>
     opcode AND 0xFFE0 = 0xF500 \<or>
     \<not> m68060 \<and> opcode AND 0xFFF8 \<in> {0xF548, 0xF568} \<or>
     m68060 \<and> opcode AND 0xFFF8 \<in> {0xF588, 0xF5C8}"

definition dispatch_mmu_040 ::
  "'b address_bus \<Rightarrow> 'b delivery \<Rightarrow> u16 \<Rightarrow> 'b machine \<Rightarrow> 'b outcome" where
  "dispatch_mmu_040 B dl opcode s =
     (if \<not> mmu_040_valid (is_060 s) opcode then exception_1111 s
      else if \<not> is_supervisor s then take_exception B dl 8 s
      else if is_060 s then
        if opcode AND 0xFFF0 \<in> {0xF580, 0xF5C0} then exec_plpa B dl opcode s
        else if opcode AND 0xC0 = 0 then Some (4, s\<lparr> atc := atc_flush_all (atc s) \<rparr>)
        else Some (FLINE_TRAP_SENTINEL, s)
      else if is_040 s \<and> opcode AND 0x40 \<noteq> 0 then exec_ptest_040 B opcode s
      else Some (4, trace_t0_68040_sync (s\<lparr> atc := atc_flush_all (atc s) \<rparr>)))"

definition exec_lpstop :: "'b address_bus \<Rightarrow> 'b delivery \<Rightarrow> 'b machine \<Rightarrow> 'b outcome" where
  "exec_lpstop B dl s = do {
     (w, s) \<leftarrow> read_16 B dl (pc s) s;
     if w \<noteq> 0x01C0 then Some (FLINE_TRAP_SENTINEL, s)
     else if \<not> is_supervisor s then exception_privilege B dl s
     else do {
       (_, s) \<leftarrow> read_imm_16 B dl s;
       (sr, s) \<leftarrow> read_imm_16 B dl s;
       if sr AND 0x2000 = 0 then exception_privilege B dl s else Some (4, stop sr s)
     }
   }"

text \<open>The block of FScc, FDBcc and FTRAPcc, which the 68060 leaves to software.\<close>

definition dispatch_fpu_condition ::
  "'b address_bus \<Rightarrow> 'b delivery \<Rightarrow> u16 \<Rightarrow> 'b machine \<Rightarrow> 'b outcome" where
  "dispatch_fpu_condition B dl opcode s =
     (let m = ea_mode opcode; r = unat (ea_reg opcode)
      in if m = 7 \<and> 4 < r then exception_1111 s
         else do {
           (w2, s) \<leftarrow> read_imm_16 B dl s;
           let cond = ucast (w2 AND 0x3F);
           if m = 1 then
             if trap_unimpl_060 s then take_fp_unimp_060 B dl 0 (s\<lparr> pc := pc s + 2 \<rparr>)
             else exec_fdbcc B dl r cond s
           else if m = 7 \<and> r \<in> {2, 3, 4} then do {
             let imm_words = (if r = 2 then 1 else if r = 3 then 2 else 0);
             if trap_unimpl_060 s then take_fp_unimp_060 B dl 0 (s\<lparr> pc := pc s + word_of_nat (2 * imm_words) \<rparr>)
             else exec_ftrapcc B dl cond imm_words s
           }
           else if trap_unimpl_060 s then fpu_060_scc_trap B dl m r s
           else exec_fscc B dl m r cond s
         })"

definition fsave_valid :: "u16 \<Rightarrow> bool" where
  "fsave_valid opcode \<longleftrightarrow>
     (let m = ea_mode opcode; r = ea_reg opcode
      in if opcode AND 0x40 = 0 then m = 2 \<or> 4 \<le> m \<and> m \<le> 6 \<or> m = 7 \<and> r \<le> 1
         else m = 2 \<or> m = 3 \<or> m = 5 \<or> m = 6 \<or> m = 7 \<and> r \<le> 3)"

definition dispatch_fpu ::
  "host_float \<Rightarrow> 'b address_bus \<Rightarrow> 'b delivery \<Rightarrow> u16 \<Rightarrow> 'b machine \<Rightarrow> 'b outcome" where
  "dispatch_fpu H B dl opcode s =
     (if opcode AND 0xFFC0 = 0xF240 then dispatch_fpu_condition B dl opcode s
      else if opcode AND 0xFFC0 = 0xF280 then do {
        (disp, s) \<leftarrow> read_imm_16 B dl s;
        Some (exec_fbcc (ucast (opcode AND 0x3F)) (scast disp) s)
      }
      else if opcode AND 0xFFC0 = 0xF2C0 then do {
        (disp, s) \<leftarrow> read_imm_32 B dl s;
        Some (exec_fbcc (ucast (opcode AND 0x3F)) disp s)
      }
      else
        let sub = drop_bit 8 opcode AND 0xF
        in or_else
             (if sub = 2 then exec_fpu_op0 H B dl opcode s
              else if sub = 3 then
                if fsave_valid opcode then exec_fpu_op1 B dl opcode s else exception_1111 s
              else Some (0, s))
             (\<lambda>s. Some (FLINE_TRAP_SENTINEL, s)))"

definition dispatch_group_f ::
  "host_float \<Rightarrow> 'b address_bus \<Rightarrow> 'b delivery \<Rightarrow> u16 \<Rightarrow> 'b machine \<Rightarrow> 'b outcome" where
  "dispatch_group_f H B dl opcode s =
     (let sub = drop_bit 8 opcode AND 0xF
      in if is_pre_68020 s then exception_1111 s
         else if \<not> is_supervisor s \<and> (cp_id opcode \<noteq> 0 \<or> \<not> has_caches_040 s) \<and>
                 (is_cpsave opcode \<or> is_cprestore opcode) then exception_privilege B dl s
         else if \<not> fpu_present s \<and> cp_id opcode = 1 \<and> \<not> has_caches_040 s then exception_1111 s
         else if (opcode AND 0xFFE0 = 0xF600 \<or> opcode AND 0xFFF8 = 0xF620) \<and> has_caches_040 s then
           exec_move16 B dl opcode s
         else if has_caches_040 s \<and> sub = 4 then dispatch_cache_040 B dl opcode s
         else if has_caches_040 s \<and> sub = 5 then dispatch_mmu_040 B dl opcode s
         else if is_060 s \<and> opcode = 0xF800 then exec_lpstop B dl s
         else if cp_id opcode = 0 then or_else (exec_mmu_op0 B dl opcode s) (dispatch_fpu H B dl opcode)
         else dispatch_fpu H B dl opcode s)"

section \<open>The dispatch of an opcode\<close>

definition classify :: "u16 \<Rightarrow> int \<Rightarrow> internal_step_result" where
  "classify opcode cycles =
     (if 0 \<le> cycles then Step_Ok cycles
      else if cycles = ALINE_TRAP_SENTINEL then Step_AlineTrap opcode
      else if cycles = FLINE_TRAP_SENTINEL then Step_FlineTrap opcode
      else if TRAP_SENTINEL_BASE \<le> cycles \<and> cycles < TRAP_SENTINEL_BASE + 16 then
        Step_TrapInstruction (word_of_int (cycles - TRAP_SENTINEL_BASE))
      else if BKPT_SENTINEL_BASE \<le> cycles \<and> cycles < BKPT_SENTINEL_BASE + 8 then
        Step_Breakpoint (word_of_int (cycles - BKPT_SENTINEL_BASE))
      else if cycles = ILLEGAL_SENTINEL then Step_IllegalInstruction opcode
      else Step_Ok cycles)"

definition dispatch_instruction ::
  "host_float \<Rightarrow> 'b address_bus \<Rightarrow> 'b delivery \<Rightarrow> u16 \<Rightarrow> 'b machine \<Rightarrow> (internal_step_result \<times> 'b machine) option" where
  "dispatch_instruction H B dl opcode s =
     (let group = drop_bit 12 opcode
      in map_option (\<lambda>(cycles, s). (classify opcode cycles, s))
           (if group = 0x0 then dispatch_group_0 B dl opcode s
            else if group = 0x1 then dispatch_move B dl opcode Size_Byte s
            else if group = 0x2 then dispatch_move B dl opcode Size_Long s
            else if group = 0x3 then dispatch_move B dl opcode Size_Word s
            else if group = 0x4 then dispatch_group_4 B dl opcode s
            else if group = 0x5 then dispatch_group_5 B dl opcode s
            else if group = 0x6 then dispatch_group_6 B dl opcode s
            else if group = 0x7 then
              if opcode AND 0x0100 \<noteq> 0 then illegal_instruction s else dispatch_moveq opcode s
            else if group = 0x8 then dispatch_group_8 B dl opcode s
            else if group = 0x9 then dispatch_group_9 B dl opcode s
            else if group = 0xA then exception_1010 s
            else if group = 0xB then dispatch_group_b B dl opcode s
            else if group = 0xC then dispatch_group_c B dl opcode s
            else if group = 0xD then dispatch_group_d B dl opcode s
            else if group = 0xE then dispatch_group_e B dl opcode s
            else dispatch_group_f H B dl opcode s))"

end
