(* ===== verification/Fpu_Theorems.thy ===== *)
theory Fpu_Theorems
  imports Fpu_Ops Data_Movement Float_Add
begin

unbundle bit_operations_syntax

text \<open>
  What the coprocessor instructions promise: FCMP and the conditions read the order of the
  numbers, the condition codes stay of one class, and FSAVE with FRESTORE carry the state of the
  unit through memory.
\<close>

section \<open>Comparison\<close>

text \<open>Zero, denormal or normal: the integer bit is set exactly when the exponent is not zero.\<close>

definition well_encoded :: "float_x80 \<Rightarrow> bool" where
  "well_encoded x \<longleftrightarrow> bit (mantissa x) 63 = (biased_exp x \<noteq> 0)"

lemma bit63_iff: "bit (m :: u64) 63 \<longleftrightarrow> 2 ^ 63 \<le> uint m"
  using bit_top_iff [of "uint m" 63] uint_lt2p [of m] by (simp add: bit_uint_iff)

definition magnitude_less :: "float_x80 \<Rightarrow> float_x80 \<Rightarrow> bool" where
  "magnitude_less a b \<longleftrightarrow> biased_exp a < biased_exp b \<or> biased_exp a = biased_exp b \<and> mantissa a < mantissa b"

lemma scaled_less:
  assumes "(x :: real) < 2 ^ n" and "int n + i \<le> int m + j" and "2 ^ m \<le> (y :: real)"
  shows "x * 2 powi i < y * 2 powi j"
proof -
  have "x * 2 powi i < 2 ^ n * 2 powi i" using assms(1) by simp
  also have "2 ^ n * 2 powi i = (2 powi (int n + i) :: real)" by (rule pow2_mult) simp
  also have "\<dots> \<le> 2 powi (int m + j)" using assms(2) by (simp only: pow2_le)
  also have "2 powi (int m + j) = (2 ^ m * 2 powi j :: real)" by (rule pow2_mult [symmetric]) simp
  also have "\<dots> \<le> y * 2 powi j" using assms(3) by simp
  finally show ?thesis .
qed

lemma fmag_mono:
  assumes "well_encoded a" and "well_encoded b" and "magnitude_less a b"
  shows "fmag a < fmag b"
proof -
  define p q :: int where "p = max 1 (int (unat (biased_exp a)))" and "q = max 1 (int (unat (biased_exp b)))"
  have wa: "(2 ^ 63 \<le> uint (mantissa a)) = (biased_exp a \<noteq> 0)"
    and wb: "(2 ^ 63 \<le> uint (mantissa b)) = (biased_exp b \<noteq> 0)"
    using assms(1,2) by (simp_all add: well_encoded_def bit63_iff)
  have "of_int (uint (mantissa a)) * 2 powi (p - 16446) < (of_int (uint (mantissa b)) * 2 powi (q - 16446) :: real)"
  proof (cases "biased_exp a < biased_exp b")
    case True
    then have lt: "unat (biased_exp a) < unat (biased_exp b)" by (simp add: word_less_nat_alt)
    then have "biased_exp b \<noteq> 0" by (auto simp: unat_eq_0)
    with wb have "2 ^ 63 \<le> uint (mantissa b)" by blast
    then have "(of_int (2 ^ 63) :: real) \<le> of_int (uint (mantissa b))" by (simp only: of_int_le_iff)
    then have mb: "2 ^ 63 \<le> (of_int (uint (mantissa b)) :: real)" by (simp only: of_int_power of_int_numeral)
    show ?thesis
    proof (cases "biased_exp a = 0")
      case True
      with wa have "uint (mantissa a) < 2 ^ 63" by (simp only: not_le [symmetric])
      then have "(of_int (uint (mantissa a)) :: real) < of_int (2 ^ 63)" by (simp only: of_int_less_iff)
      then have "(of_int (uint (mantissa a)) :: real) < 2 ^ 63" by (simp only: of_int_power of_int_numeral)
      moreover have "int 63 + (p - 16446) \<le> int 63 + (q - 16446)" using True by (simp add: p_def q_def)
      ultimately show ?thesis using mb by (rule scaled_less)
    next
      case False
      have "(of_int (uint (mantissa a)) :: real) < of_int (2 ^ 64)"
        using uint_lt2p [of "mantissa a"] by (simp only: of_int_less_iff) simp
      then have "(of_int (uint (mantissa a)) :: real) < 2 ^ 64" by (simp only: of_int_power of_int_numeral)
      moreover have "int 64 + (p - 16446) \<le> int 63 + (q - 16446)"
      proof -
        have "0 < unat (biased_exp a)" using False by (simp add: unat_gt_0)
        then have "p = int (unat (biased_exp a))" "q = int (unat (biased_exp b))"
          using lt by (simp_all only: p_def q_def)
        then show ?thesis using lt by linarith
      qed
      ultimately show ?thesis using mb by (rule scaled_less)
    qed
  next
    case False
    then have "biased_exp a = biased_exp b" "mantissa a < mantissa b"
      using assms(3) by (auto simp: magnitude_less_def)
    then have "p = q" "uint (mantissa a) < uint (mantissa b)" by (simp_all add: p_def q_def word_less_def)
    then show ?thesis by (simp only: of_int_less_iff mult_strict_right_mono pow2_pos)
  qed
  then show ?thesis by (simp only: fmag_def p_def q_def)
qed

lemma magnitude_cases:
  "magnitude_less a b \<or> biased_exp a = biased_exp b \<and> mantissa a = mantissa b \<or> magnitude_less b a"
  unfolding magnitude_less_def by (metis linorder_neq_iff)

lemma fmag_order:
  assumes "well_encoded a" and "well_encoded b"
  shows "magnitude_less a b \<longleftrightarrow> fmag a < fmag b"
    and "(biased_exp a = biased_exp b \<and> mantissa a = mantissa b) \<longleftrightarrow> fmag a = fmag b"
proof -
  have "magnitude_less a b \<Longrightarrow> fmag a < fmag b" "magnitude_less b a \<Longrightarrow> fmag b < fmag a"
    using fmag_mono assms by blast+
  moreover have "biased_exp a = biased_exp b \<and> mantissa a = mantissa b \<Longrightarrow> fmag a = fmag b"
    by (simp add: fmag_def)
  ultimately show "magnitude_less a b \<longleftrightarrow> fmag a < fmag b"
    and "(biased_exp a = biased_exp b \<and> mantissa a = mantissa b) \<longleftrightarrow> fmag a = fmag b"
    using magnitude_cases [of a b] by (metis less_asym less_irrefl)+
qed

lemma fmag_pos: "well_encoded x \<Longrightarrow> \<not> is_zero x \<Longrightarrow> 0 < fmag x"
  by (rule unpack_canonical(2)) (auto simp: well_encoded_def canonical_def)

definition order_of :: "real \<Rightarrow> real \<Rightarrow> fp_cmp" where
  "order_of x y = (if x < y then FLess else if x = y then FEqual else FGreater)"

lemma fcompare_exact:
  assumes "finite80 a" and "finite80 b" and "well_encoded a" and "well_encoded b"
  shows "fcompare a b f = (order_of (fvalue a) (fvalue b), f)"
proof -
  have fin: "\<not> is_nan a" "\<not> is_nan b" using finite_special assms(1,2) by auto
  have less: "(biased_exp a < biased_exp b \<or> biased_exp a = biased_exp b \<and> mantissa a < mantissa b) = (fmag a < fmag b)"
    using fmag_order(1) [OF assms(3,4)] by (simp only: magnitude_less_def)
  note eq = fmag_order(2) [OF assms(3,4)]
  consider (zeros) "is_zero a" "is_zero b" | (left) "is_zero a" "0 < fmag b" "\<not> is_zero b"
    | (right) "0 < fmag a" "is_zero b" "\<not> is_zero a" | (none) "0 < fmag a" "0 < fmag b" "\<not> is_zero a" "\<not> is_zero b"
    using fmag_pos assms(3,4) by blast
  then show ?thesis
    by cases (auto simp: fcompare_def fin less eq Let_def fvalue_def order_of_def unpack_zero)
qed

section \<open>Condition codes\<close>

text \<open>At most one of zero, infinity and not-a-number.\<close>

definition fpcc_wf :: "u32 \<Rightarrow> bool" where
  "fpcc_wf status \<longleftrightarrow> \<not> (bit status 26 \<and> bit status 25) \<and> \<not> (bit status 26 \<and> bit status 24) \<and>
     \<not> (bit status 25 \<and> bit status 24)"

lemma fpsr_tests:
  "(v :: u32) AND 0x08000000 \<noteq> 0 \<longleftrightarrow> bit v 27" "v AND 0x04000000 \<noteq> 0 \<longleftrightarrow> bit v 26"
  "v AND 0x01000000 \<noteq> 0 \<longleftrightarrow> bit v 24"
  using and_exp_iff [where x = v and n = 27] and_exp_iff [where x = v and n = 26]
    and_exp_iff [where x = v and n = 24] by simp_all

lemma fpcc_bits [simp]:
  "bit ((v AND NOT FPCC_MASK) OR fpcc n z i nan) 27 = n" "bit ((v AND NOT FPCC_MASK) OR fpcc n z i nan) 26 = z"
  "bit ((v AND NOT FPCC_MASK) OR fpcc n z i nan) 25 = i" "bit ((v AND NOT FPCC_MASK) OR fpcc n z i nan) 24 = nan"
  by (simp_all add: FPCC_MASK_def fpcc_def bit_simps)

lemma accrued_bits [simp]:
  "\<not> bit (accrued f) 24" "\<not> bit (accrued f) 25" "\<not> bit (accrued f) 26" "\<not> bit (accrued f) 27"
  by (simp_all add: accrued_def bit_simps)

lemma byte_bits [simp]:
  "\<not> bit (f :: u8) 16" "\<not> bit (f :: u8) 17" "\<not> bit (f :: u8) 18" "\<not> bit (f :: u8) 19"
  by (simp_all add: bit_eq_iff impossible_bit)

lemma fpu_commit_cc [simp]:
  "k \<in> {24, 25, 26, 27} \<Longrightarrow> bit (fpsr (fpu_commit f s)) k = bit (fpsr s) k"
  by (auto simp: fpu_commit_def bit_simps)

lemma fpu_set_quotient_cc [simp]:
  "k \<in> {24, 25, 26, 27} \<Longrightarrow> bit (fpsr (fpu_set_quotient q sg s)) k = bit (fpsr s) k"
  by (auto simp: fpu_set_quotient_def bit_simps)

lemma fpcc_wf_kept [simp]:
  "fpcc_wf (fpsr (fpu_commit f s)) = fpcc_wf (fpsr s)"
  "fpcc_wf (fpsr (fpu_set_quotient q sg s)) = fpcc_wf (fpsr s)"
  "fpcc_wf (fpsr (set_fpr n v s)) = fpcc_wf (fpsr s)"
  by (simp_all add: fpcc_wf_def set_fpr_def)

lemma fpcc_wf_set [simp]:
  "fpcc_wf (fpsr (fpu_set_cc v s))" "fpcc_wf (fpsr (fpu_set_cc_cmp cmp s))"
  by (auto simp: fpcc_wf_def fpu_set_cc_def fpu_set_cc_cmp_def is_zero_def is_nan_def is_inf_def)

lemma fpcc_wf_results [simp]:
  "fpcc_wf (fpsr (fpu_move dst v s))" "fpcc_wf (fpsr (fpu_result dst r s))"
  "fpcc_wf (fpsr (fpu_remainder dst src ieee s))"
  by (simp_all add: fpu_move_def fpu_result_def fpu_remainder_def split: prod.split)

lemma fpu_apply_op_wf:
  assumes "fpcc_wf (fpsr s)" and "fpu_apply_op opmode dst src s = Some (n, s')"
  shows "fpcc_wf (fpsr s')"
proof -
  have maps: "map_option (\<lambda>r. (4 :: int, fpu_result dst r s)) r = Some (n, s') \<Longrightarrow> fpcc_wf (fpsr s')" for r
    by auto
  show ?thesis
    using assms(2) assms(1)
    by (auto simp: fpu_apply_op_def Let_def split: if_split_asm option.split_asm prod.split_asm bind_split_asm)
qed

lemma low_four_cases: "(c :: u8) AND 0x0F \<in> set [0, 1, 2, 3, 4, 5, 6, 7, 8, 9, 10, 11, 12, 13, 14, 15]"
proof -
  have "c AND 0x0F \<le> 15" by (rule word_and_le1)
  then have "unat (c AND 0x0F) < 16" by (simp add: word_le_nat_alt)
  then have "unat (c AND 0x0F) \<in> set [0..<16]" unfolding set_upt by simp
  moreover have "c AND 0x0F = word_of_nat (unat (c AND 0x0F))" by simp
  ultimately have "c AND 0x0F \<in> word_of_nat ` set [0..<16]" by (rule rev_image_eqI)
  then have "c AND 0x0F \<in> set (map word_of_nat [0..<16])" unfolding set_map .
  moreover have "map (word_of_nat :: nat \<Rightarrow> u8) [0..<16] = [0, 1, 2, 3, 4, 5, 6, 7, 8, 9, 10, 11, 12, 13, 14, 15]"
    by (simp add: upt_rec)
  ultimately show ?thesis by (simp only:)
qed

lemma fpu_condition_complement:
  assumes "fpcc_wf (fpsr s)"
  shows "fpu_condition (c XOR 0x0F) s = (\<not> fpu_condition c s)"
proof -
  have "(c XOR 0x0F) AND 0x0F = (c AND 0x0F) XOR 0x0F" by (rule bit_word_eqI) (auto simp: bit_simps)
  moreover have "\<not> (bit (fpsr s) 26 \<and> bit (fpsr s) 24)" using assms by (simp add: fpcc_wf_def)
  ultimately show ?thesis
    using low_four_cases [of c] by (auto simp: fpu_condition_def fpsr_tests Let_def)
qed

text \<open>
  C40. The condition codes have a type of their own: at most one of zero, infinity and
  not-a-number is set. Every operation of the arithmetic table keeps it, whatever the operation
  code and the operands, and for codes of that type the sixteen conditions come in complementary
  pairs, so that a branch on a condition and a branch on its opposite are never both taken or
  both left out.
\<close>

theorem condition_codes_typed:
  assumes "fpcc_wf (fpsr s)" and "fpu_apply_op opmode dst src s = Some (n, s')"
  shows "fpcc_wf (fpsr s') \<and> fpu_condition (c XOR 0x0F) s' = (\<not> fpu_condition c s')"
  using fpu_apply_op_wf [OF assms] fpu_condition_complement by blast

definition power_two :: "u16 \<Rightarrow> float_x80" where
  "power_two k = \<lparr> mantissa = 0x8000000000000000, sign_exp = 0x3FFF + k \<rparr>"

definition fpu_start :: "linear_bus machine" where
  "fpu_start = small_020\<lparr> fpr := (\<lambda>n. if n = 0 then power_two 0 else infinity False), fpsr := 0, fpu_just_reset := False \<rparr>"

lemma condition_codes_typed_witness:
  "\<exists>n s'. fpu_apply_op 0x38 0 (infinity False) fpu_start = Some (n, s') \<and>
     fpu_condition 0x1B s' = (\<not> fpu_condition 0x14 s')"
proof -
  obtain n s' where r: "fpu_apply_op 0x38 0 (infinity False) fpu_start = Some (n, s')"
    by (cases "fcompare (fpr fpu_start 0) (infinity False) 0") (simp add: fpu_apply_op_def Let_def)
  have "fpcc_wf (fpsr fpu_start)" by (simp add: fpcc_wf_def fpu_start_def)
  from condition_codes_typed [OF this r, of "0x14"] r show ?thesis by auto
qed

text \<open>
  C38. FCMP followed by a conditional: for two finite numbers whose integer bit agrees with their
  exponent, the conditions EQ, NE, GT, GE, LT and LE, in their ordered forms and their
  complements, are the order of the numbers, no exception is reported, and nothing but the
  status register changes.
\<close>

theorem fcmp_then_test:
  assumes "finite80 (fpr s dst)" and "finite80 src" and "well_encoded (fpr s dst)" and "well_encoded src"
  shows "\<exists>s'. fpu_apply_op 0x38 dst src s = Some (4, s') \<and> s' = s\<lparr> fpsr := fpsr s' \<rparr> \<and>
    (let x = fvalue (fpr s dst); y = fvalue src
     in fpu_condition 0x01 s' = (x = y) \<and> fpu_condition 0x0E s' = (x \<noteq> y) \<and>
        fpu_condition 0x02 s' = (y < x) \<and> fpu_condition 0x0D s' = (x \<le> y) \<and>
        fpu_condition 0x03 s' = (y \<le> x) \<and> fpu_condition 0x0C s' = (x < y) \<and>
        fpu_condition 0x04 s' = (x < y) \<and> fpu_condition 0x0B s' = (y \<le> x) \<and>
        fpu_condition 0x05 s' = (x \<le> y) \<and> fpu_condition 0x0A s' = (y < x) \<and>
        \<not> fpu_condition 0x08 s') \<and>
    fpsr s' AND 0xFF00 = 0"
proof -
  have cmp: "fcompare (fpr s dst) src 0 = (order_of (fvalue (fpr s dst)) (fvalue src), 0)"
    using assms by (rule fcompare_exact)
  define s' where "s' = fpu_commit 0 (fpu_set_cc_cmp (order_of (fvalue (fpr s dst)) (fvalue src)) s)"
  have run: "fpu_apply_op 0x38 dst src s = Some (4, s')" by (simp add: fpu_apply_op_def Let_def cmp s'_def)
  have bits: "bit (fpsr s') 27 = (fvalue (fpr s dst) < fvalue src)" "bit (fpsr s') 26 = (fvalue (fpr s dst) = fvalue src)"
    "\<not> bit (fpsr s') 24"
    by (simp_all add: s'_def fpu_set_cc_cmp_def order_of_def)
  have "(x AND NOT 0xFF00) AND 0xFF00 = 0" for x :: u32 by (rule bit_word_eqI) (auto simp: bit_simps)
  then have flags: "fpsr s' AND 0xFF00 = 0"
    by (simp add: s'_def fpu_commit_def accrued_def has_flags_def)
  have only: "s' = s\<lparr> fpsr := fpsr s' \<rparr>" by (simp add: s'_def fpu_commit_def fpu_set_cc_cmp_def)
  show ?thesis
    using run flags only
    by (auto simp: fpu_condition_def fpsr_tests bits Let_def)
qed

lemma fcmp_then_test_witness:
  "\<exists>s'. fpu_apply_op 0x38 0 (power_two 1) fpu_start = Some (4, s') \<and> fpu_condition 0x04 s'"
proof -
  have e: "biased_exp (power_two 0) = 0x3FFF" "biased_exp (power_two 1) = 0x4000"
    "\<not> fsign (power_two 0)" "\<not> fsign (power_two 1)"
    by (simp_all add: power_two_def biased_exp_def fsign_def)
  have "finite80 (power_two 0)" "finite80 (power_two 1)" "well_encoded (power_two 0)" "well_encoded (power_two 1)"
    by (simp_all add: finite80_def well_encoded_def e) (simp_all add: power_two_def)
  moreover have "magnitude_less (power_two 0) (power_two 1)" by (simp add: magnitude_less_def e)
  ultimately have "fvalue (power_two 0) < fvalue (power_two 1)" using fmag_mono by (simp add: fvalue_def e)
  moreover have "fpr fpu_start 0 = power_two 0" by (simp add: fpu_start_def)
  ultimately show ?thesis
    using fcmp_then_test [of fpu_start 0 "power_two 1"] \<open>finite80 (power_two 0)\<close> \<open>finite80 (power_two 1)\<close>
      \<open>well_encoded (power_two 0)\<close> \<open>well_encoded (power_two 1)\<close> by (auto simp: Let_def)
qed

section \<open>FSAVE and FRESTORE\<close>

fun stored_pairs :: "(u32 \<times> u32) list \<Rightarrow> linear_bus machine \<Rightarrow> linear_bus machine" where
  "stored_pairs [] s = s"
| "stored_pairs ((a, v) # ws) s = stored_pairs ws (stored_long a v s)"

lemma stored_pairs_append: "stored_pairs (ws @ vs) s = stored_pairs vs (stored_pairs ws s)"
  by (induction ws s rule: stored_pairs.induct) simp_all

lemma stored_long_fpu [simp]:
  "fpr (stored_long a v s) = fpr s" "fpcr (stored_long a v s) = fpcr s" "fpsr (stored_long a v s) = fpsr s"
  "fpiar (stored_long a v s) = fpiar s" "fpu_just_reset (stored_long a v s) = fpu_just_reset s"
  "cpu_model (stored_long a v s) = cpu_model s"
  by (simp_all add: stored_long_def)

lemma stored_pairs_simps [simp]:
  "flat_ram (stored_pairs ws s) = flat_ram s" "dar (stored_pairs ws s) = dar s"
  "fpr (stored_pairs ws s) = fpr s" "fpcr (stored_pairs ws s) = fpcr s" "fpsr (stored_pairs ws s) = fpsr s"
  "fpiar (stored_pairs ws s) = fpiar s" "fpu_just_reset (stored_pairs ws s) = fpu_just_reset s"
  "cpu_model (stored_pairs ws s) = cpu_model s"
  by (induction ws s rule: stored_pairs.induct) simp_all

lemma stored_pairs_bus [simp]:
  "lb_inv (bus (stored_pairs ws s)) = lb_inv (bus s)"
  "lb_block_ok (bus (stored_pairs ws s)) a n = lb_block_ok (bus s) a n"
  by (induction ws s rule: stored_pairs.induct) simp_all

lemma store_longs_flat:
  "flat_ram s \<Longrightarrow> store_longs linear_memory_bus dl ws s = Some (stored_pairs ws s)"
  by (induction ws s rule: stored_pairs.induct) (simp_all add: store_longs_def write_32_flat)

text \<open>The longs of a frame: one for a unit just reset, otherwise the idle frame of the model.\<close>

definition frame_longs :: "'a cpu_core_scheme \<Rightarrow> nat" where
  "frame_longs s = (if fpu_just_reset s then 1 else if is_060 s then 3 else if is_040 s then 11 else 7)"

definition frame_header :: "'a cpu_core_scheme \<Rightarrow> u32" where
  "frame_header s = (if fpu_just_reset s then 0 else if is_060 s then 0x6000
     else if is_040 s then 0x41280000 else 0x1F180000)"

lemma block_front: "lb_block_ok b a n \<Longrightarrow> m \<le> n \<Longrightarrow> lb_block_ok b a m"
  by (auto simp: lb_block_ok_def)

definition frame_pairs :: "u32 \<Rightarrow> 'a cpu_core_scheme \<Rightarrow> (u32 \<times> u32) list" where
  "frame_pairs stack s =
     (if is_060 s then frame_060_longs (stack - 4 * word_of_nat (frame_longs s)) (fpu_just_reset s)
      else if fpu_just_reset s then [(stack - 4, 0)]
      else fsave_longs (stack - 4) False s)"

lemma exec_fsave_flat:
  assumes "flat_ram s"
  shows "exec_fsave linear_memory_bus dl 4 reg s = Some (8, stored_pairs (frame_pairs (a_reg reg s) s)
    (set_a reg (a_reg reg s - 4 * word_of_nat (frame_longs s)) s))"
  using assms
  by (auto simp: exec_fsave_def exec_fsave_060_def frame_pairs_def frame_longs_def fsave_at_def perform_fsave_def
      store_longs_flat write_32_flat Let_def is_060_def is_040_def fsave_extra_longs_def fsave_idle_frame_def fsave_longs_def
      set_a_def)

lemma stored_pairs_set_a [simp]: "stored_pairs ws (set_a r v s) = set_a r v (stored_pairs ws s)"
proof -
  have "stored_long a w (set_a r v s) = set_a r v (stored_long a w s)" for a w s
    by (simp add: stored_long_def set_a_def)
  then show ?thesis by (induction ws s rule: stored_pairs.induct) simp_all
qed

lemma frame_pairs_header:
  assumes "lb_inv (bus s)" and "lb_block_ok (bus s) (stack - 4 * word_of_nat (frame_longs s)) (4 * frame_longs s)"
  shows "lb_long (bus (stored_pairs (frame_pairs stack s) s)) (stack - 4 * word_of_nat (frame_longs s)) = frame_header s"
proof -
  let ?base = "stack - 4 * word_of_nat (frame_longs s)"
  have one: "lb_block_ok (bus s) ?base 4" using assms(2) by (rule block_front) (simp add: frame_longs_def)
  have final: "lb_long (bus (stored_pairs (ws @ [(?base, v)]) s)) ?base = v" for ws v
    using assms(1) one by (simp add: stored_pairs_append lb_long_same)
  consider (null) "fpu_just_reset s" | (m060) "\<not> fpu_just_reset s" "is_060 s" | (idle) "\<not> fpu_just_reset s" "\<not> is_060 s"
    by blast
  then show ?thesis
  proof cases
    case null
    then show ?thesis using final [of "[]" 0] by (simp add: frame_pairs_def frame_060_longs_def frame_header_def frame_longs_def)
  next
    case m060
    then have "lb_block_ok (bus s) ?base (4 * 3)" using assms(2) by (simp add: frame_longs_def)
    then have "lb_long (lb_write_long (?base + 8) 0 (lb_write_long (?base + 4) 0 (lb_write_long ?base 0x6000 (bus s)))) ?base = 0x6000"
      using lb_long_write_long [of _ ?base 3 2 0] lb_long_write_long [of _ ?base 3 1 0] lb_long_write_long [of _ ?base 3 0 0]
        assms(1) by simp
    then show ?thesis using m060 by (simp add: frame_pairs_def frame_060_longs_def frame_header_def)
  next
    case idle
    then have "\<exists>ws. frame_pairs stack s = ws @ [(?base, frame_header s)]"
      by (auto simp: frame_pairs_def fsave_longs_def fsave_idle_frame_def frame_header_def frame_longs_def)
    then show ?thesis using final by auto
  qed
qed

lemma set_a_frame:
  "a_reg r (set_a r v s) = v" "bus (set_a r v s) = bus s" "fpr (set_a r v s) = fpr s" "fpcr (set_a r v s) = fpcr s"
  "fpsr (set_a r v s) = fpsr s" "fpiar (set_a r v s) = fpiar s" "fpu_just_reset (set_a r v s) = fpu_just_reset s"
  "a_reg r (s\<lparr> fpu_just_reset := b \<rparr>) = a_reg r s" "a_reg r (s\<lparr> pending_sync_clocks := c \<rparr>) = a_reg r s"
  "a_reg r (s\<lparr> fpcr := w \<rparr>) = a_reg r s" "a_reg r (s\<lparr> fpsr := w \<rparr>) = a_reg r s"
  "a_reg r (s\<lparr> fpiar := w \<rparr>) = a_reg r s" "a_reg r (s\<lparr> fpr := f \<rparr>) = a_reg r s"
  by (simp_all add: set_a_def a_reg_def)

lemma exec_frestore_flat:
  assumes "flat_ram t" and "cpu_model t = cpu_model s" and "lb_long (bus t) (a_reg reg t) = frame_header s"
  shows "\<exists>u. exec_frestore linear_memory_bus dl 3 reg t = Some (8, u) \<and>
    a_reg reg u = a_reg reg t + 4 * word_of_nat (frame_longs s) \<and> fpu_just_reset u = fpu_just_reset s \<and>
    (if fpu_just_reset s then fpr u = (\<lambda>_. default_nan) \<and> fpcr u = 0 \<and> fpsr u = 0 \<and> fpiar u = 0
     else fpr u = fpr t \<and> fpcr u = fpcr t \<and> fpsr u = fpsr t \<and> fpiar u = fpiar t)"
proof -
  have kind: "is_060 t = is_060 s" using assms(2) by (simp add: is_060_def)
  have "\<not> (is_060 s \<and> is_040 s)" by (auto simp: is_060_def is_040_def)
  then consider (null) "fpu_just_reset s" | (m060) "\<not> fpu_just_reset s" "is_060 s" "\<not> is_040 s"
    | (m040) "\<not> fpu_just_reset s" "\<not> is_060 s" "is_040 s" | (m881) "\<not> fpu_just_reset s" "\<not> is_060 s" "\<not> is_040 s"
    by blast
  then show ?thesis
    by cases (use assms(1,3) in \<open>simp_all add: exec_frestore_def exec_frestore_060_def kind read_32_flat Let_def
      frestore_header_def do_frestore_null_def frame_header_def frame_longs_def set_a_frame\<close>)
qed

text \<open>
  C39. FSAVE to -(An) followed by FRESTORE from (An)+ restores the address register, for every
  generation of the unit and whatever was done in between to a machine that kept the header of the
  frame: the size FRESTORE reads from the header is the one FSAVE reserved. A unit just reset is
  saved as a null frame, which resets the registers again; otherwise the registers stay as they
  are.
\<close>

theorem fsave_frestore_restore:
  assumes "flat_ram s" and "lb_block_ok (bus s) (a_reg reg s - 4 * word_of_nat (frame_longs s)) (4 * frame_longs s)"
  shows "\<exists>s1. exec_fsave linear_memory_bus dl 4 reg s = Some (8, s1) \<and>
    a_reg reg s1 = a_reg reg s - 4 * word_of_nat (frame_longs s) \<and>
    (\<forall>t. flat_ram t \<and> cpu_model t = cpu_model s \<and> a_reg reg t = a_reg reg s1 \<and>
         lb_long (bus t) (a_reg reg t) = lb_long (bus s1) (a_reg reg s1) \<longrightarrow>
       (\<exists>u. exec_frestore linear_memory_bus dl 3 reg t = Some (8, u) \<and>
          a_reg reg u = a_reg reg s \<and> fpu_just_reset u = fpu_just_reset s \<and>
          (if fpu_just_reset s then fpr u = (\<lambda>_. default_nan) \<and> fpcr u = 0 \<and> fpsr u = 0 \<and> fpiar u = 0
           else fpr u = fpr t \<and> fpcr u = fpcr t \<and> fpsr u = fpsr t \<and> fpiar u = fpiar t)))"
proof -
  define base where "base = a_reg reg s - 4 * word_of_nat (frame_longs s)"
  define s1 where "s1 = stored_pairs (frame_pairs (a_reg reg s) s) (set_a reg base s)"
  have run: "exec_fsave linear_memory_bus dl 4 reg s = Some (8, s1)"
    using exec_fsave_flat [OF assms(1)] by (simp add: s1_def base_def)
  have reg: "a_reg reg s1 = base" by (simp add: s1_def a_reg_def set_a_def)
  have "bus s1 = bus (stored_pairs (frame_pairs (a_reg reg s) s) s)" unfolding s1_def by simp (simp add: set_a_def)
  then have "lb_long (bus s1) base = frame_header s"
    using frame_pairs_header assms by (simp add: base_def flat_ram_def)
  then have "\<exists>u. exec_frestore linear_memory_bus dl 3 reg t = Some (8, u) \<and>
          a_reg reg u = a_reg reg s \<and> fpu_just_reset u = fpu_just_reset s \<and>
          (if fpu_just_reset s then fpr u = (\<lambda>_. default_nan) \<and> fpcr u = 0 \<and> fpsr u = 0 \<and> fpiar u = 0
           else fpr u = fpr t \<and> fpcr u = fpcr t \<and> fpsr u = fpsr t \<and> fpiar u = fpiar t)"
    if "flat_ram t" "cpu_model t = cpu_model s" "a_reg reg t = a_reg reg s1"
      "lb_long (bus t) (a_reg reg t) = lb_long (bus s1) (a_reg reg s1)" for t
    using exec_frestore_flat [OF that(1,2), of reg dl] that(3,4) by (simp add: reg base_def)
  then show ?thesis using run reg unfolding base_def by blast
qed

lemma fsave_frestore_restore_witness:
  "\<exists>s1. exec_fsave linear_memory_bus (deliver 4 linear_memory_bus) 4 2 (fpu_start\<lparr> dar := (\<lambda>_. 28), bus := the (lb_new 64) \<rparr>) = Some (8, s1) \<and>
     a_reg 2 s1 = 0"
proof -
  let ?s = "fpu_start\<lparr> dar := (\<lambda>_. 28), bus := the (lb_new 64) \<rparr>"
  have "cpu_model ?s = M68020"
    by (simp add: fpu_start_def small_020_def set_cpu_type_def cpu_new_def Let_def clear_execution_pipeline_state_def)
  then have n: "frame_longs ?s = 7" "a_reg 2 ?s = 28"
    by (simp_all add: frame_longs_def is_060_def is_040_def a_reg_def) (simp add: fpu_start_def)
  moreover have "flat_ram ?s" using small_020(1)
    by (simp add: fpu_start_def flat_ram_def word_aligned_cpu_def mmu_on_def faulted_def lb_new_def lb_from_vec_def lb_inv_def)
  moreover have "lb_block_ok (bus ?s) 0 28" by (simp add: lb_new_def lb_from_vec_def lb_block_ok_def)
  ultimately show ?thesis
    using fsave_frestore_restore [of ?s 2 "deliver 4 linear_memory_bus"] by auto
qed

end
