(* ===== verification/Op_Cache.thy ===== *)
theory Op_Cache
  imports Group_F
begin

unbundle bit_operations_syntax

text \<open>
  The decoded one-word operations of \<open>src/core/op_cache.rs\<close>: the decoder, which depends on the
  opcode and the processor model only, and the executor the batch runner uses instead of the
  dispatcher. Register numbers are naturals; the table that remembers decoded opcodes can never
  hold anything else than the decoder returns, so it is the decoder itself.
\<close>

section \<open>Operations\<close>

datatype direct_reg = DR_Data nat | DR_Addr nat

datatype unary_op = Un_Clr | Un_Neg | Un_Negx | Un_Not | Un_Tst
datatype binary_op = Bin_Add | Bin_Sub | Bin_And | Bin_Or | Bin_Eor | Bin_Cmp
datatype addr_op = Ad_Adda | Ad_Suba | Ad_Cmpa
datatype bit_op = Bit_Test | Bit_Change | Bit_Clear | Bit_Set

datatype simple_op =
  Op_Nop
| Op_MoveReg direct_reg direct_reg opsize
| Op_Moveq nat u32
| Op_UnaryDataReg unary_op nat opsize
| Op_Swap nat
| Op_Ext nat opsize
| Op_Extb nat
| Op_AddqSubqReg nat u32 opsize bool
| Op_AddqSubqAddr nat u32 bool
| Op_BinaryDataReg binary_op direct_reg nat opsize int
| Op_MulWordDataReg nat nat bool bool
| Op_AddrDataReg addr_op direct_reg nat opsize
| Op_AddSubxReg nat nat opsize bool
| Op_BitReg bit_op nat nat
| Op_BcdReg nat nat bool
| Op_Exg u16
| Op_SccDataReg u8 nat
| Op_ShiftReg nat opsize nat bool nat nat
| Op_BranchShort u8 u8

section \<open>Decoding\<close>

definition pre_68020 :: "cpu_type \<Rightarrow> bool" where
  "pre_68020 ct \<longleftrightarrow> ct \<in> {M68000, M68010, SCC68070}"

text \<open>The fields of an opcode are those of the dispatcher.\<close>

definition direct_register :: "u8 \<Rightarrow> u8 \<Rightarrow> direct_reg option" where
  "direct_register m reg =
     (if m = 0 then Some (DR_Data (unat reg)) else if m = 1 then Some (DR_Addr (unat reg)) else None)"

definition decode_move_reg :: "u16 \<Rightarrow> opsize \<Rightarrow> simple_op option" where
  "decode_move_reg opcode sz = do {
     src \<leftarrow> direct_register (ea_mode opcode) (ea_reg opcode);
     if op_mode opcode = 0 then Some (Op_MoveReg src (DR_Data (op_reg opcode)) sz)
     else if op_mode opcode = 1 \<and> sz \<noteq> Size_Byte then Some (Op_MoveReg src (DR_Addr (op_reg opcode)) sz)
     else None
   }"

definition decode_group_4_reg :: "u16 \<Rightarrow> simple_op option" where
  "decode_group_4_reg opcode =
     (let szb = size_field opcode; sel = unat (drop_bit 8 opcode AND 0xF);
          unary = (\<lambda>u. Some (Op_UnaryDataReg u (unat (ea_reg opcode)) (decode_size_00 szb)))
      in if ea_mode opcode \<noteq> 0 \<or> szb = 3 then None
         else if sel = 0x0 then unary Un_Negx
         else if sel = 0x2 then unary Un_Clr
         else if sel = 0x4 then unary Un_Neg
         else if sel = 0x6 then unary Un_Not
         else if sel = 0xA then unary Un_Tst
         else None)"

definition alu_cycles :: "cpu_type \<Rightarrow> nat \<Rightarrow> bool \<Rightarrow> int" where
  "alu_cycles ct szb cmp =
     (if pre_68020 ct then if szb \<noteq> 2 then 4 else if cmp then 6 else 8 else 4)"

definition decode_group_alu_reg :: "cpu_type \<Rightarrow> u16 \<Rightarrow> simple_op option" where
  "decode_group_alu_reg ct opcode =
     (let group = drop_bit 12 opcode; reg = op_reg opcode; m = ea_mode opcode; er = unat (ea_reg opcode);
          opmode = op_mode opcode; src = direct_register m (ea_reg opcode);
          low = (opmode \<le> 2); x = (4 \<le> opmode \<and> opmode \<le> 6);
          binary = (\<lambda>b. map_option (\<lambda>src. Op_BinaryDataReg b src reg (decode_size_00 opmode) (alu_cycles ct opmode (b = Bin_Cmp))) src);
          addr = (\<lambda>a. map_option (\<lambda>src. Op_AddrDataReg a src reg (if opmode = 3 then Size_Word else Size_Long)) src);
          addsubx = (\<lambda>is_sub. Some (Op_AddSubxReg er reg (decode_size_00 (opmode - 4)) is_sub))
      in if group = 0x8 then
           if low then binary Bin_Or else if opmode = 4 \<and> m = 0 then Some (Op_BcdReg er reg True) else None
         else if group = 0x9 then
           if low then binary Bin_Sub else if opmode \<in> {3, 7} then addr Ad_Suba
           else if x \<and> m = 0 then addsubx True else None
         else if group = 0xB then
           if low then binary Bin_Cmp else if opmode \<in> {3, 7} then addr Ad_Cmpa
           else if x \<and> m = 0 then
             Some (Op_BinaryDataReg Bin_Eor (DR_Data reg) er (decode_size_00 (opmode - 4))
               (if pre_68020 ct then alu_cycles ct (opmode - 4) False else 8))
           else None
         else if group = 0xC then
           if opmode \<in> {3, 7} \<and> m = 0 then Some (Op_MulWordDataReg er reg (opmode = 7) (ct = M68000))
           else if low then binary Bin_And
           else if opmode = 4 \<and> m = 0 then Some (Op_BcdReg er reg False)
           else if drop_bit 3 opcode AND 0x1F \<in> {0x08, 0x09, 0x11} then Some (Op_Exg opcode)
           else None
         else if group = 0xD then
           if low then binary Bin_Add else if opmode \<in> {3, 7} then addr Ad_Adda
           else if x \<and> m = 0 then addsubx False else None
         else None)"

definition decode_bit_reg :: "u16 \<Rightarrow> simple_op" where
  "decode_bit_reg opcode =
     (let sel = size_field opcode
      in Op_BitReg (if sel = 0 then Bit_Test else if sel = 1 then Bit_Change else if sel = 2 then Bit_Clear else Bit_Set)
           (op_reg opcode) (unat (ea_reg opcode)))"

definition decode_group_5_reg :: "u16 \<Rightarrow> simple_op option" where
  "decode_group_5_reg opcode =
     (let szb = size_field opcode; m = ea_mode opcode; er = unat (ea_reg opcode);
          data = (if op_reg opcode = 0 then 8 else word_of_nat (op_reg opcode)); is_sub = (opcode AND 0x100 \<noteq> 0)
      in if szb \<noteq> 3 then
           if m = 1 then Some (Op_AddqSubqAddr er data is_sub)
           else if m = 0 then Some (Op_AddqSubqReg er data (decode_size_00 szb) is_sub)
           else None
         else if m = 0 then Some (Op_SccDataReg (ucast (drop_bit 8 opcode AND 0xF)) er)
         else None)"

text \<open>The first decoding that applies.\<close>

definition decode_simple :: "cpu_type \<Rightarrow> u16 \<Rightarrow> simple_op option" where
  "decode_simple ct opcode =
     (let group = drop_bit 12 opcode; er = unat (ea_reg opcode)
      in if group = 1 then decode_move_reg opcode Size_Byte
         else if group = 2 then decode_move_reg opcode Size_Long
         else if group = 3 then decode_move_reg opcode Size_Word
         else if group = 7 then Some (Op_Moveq (op_reg opcode) (sext8 (ucast (opcode AND 0xFF))))
         else if opcode = 0x4E71 then Some Op_Nop
         else if group = 4 \<and> decode_group_4_reg opcode \<noteq> None then decode_group_4_reg opcode
         else if group = 0 \<and> opcode AND 0x0100 \<noteq> 0 \<and> ea_mode opcode = 0 then Some (decode_bit_reg opcode)
         else if opcode AND 0xFFF8 = 0x4840 then Some (Op_Swap er)
         else if opcode AND 0xFFF8 = 0x4880 then Some (Op_Ext er Size_Word)
         else if opcode AND 0xFFF8 = 0x48C0 then Some (Op_Ext er Size_Long)
         else if opcode AND 0xFFF8 = 0x49C0 \<and> \<not> pre_68020 ct then Some (Op_Extb er)
         else if group = 5 then decode_group_5_reg opcode
         else if group \<in> {8, 9, 0xB, 0xC, 0xD} then decode_group_alu_reg ct opcode
         else if group = 0xE \<and> opcode AND 0x00C0 \<noteq> 0x00C0 then
           Some (Op_ShiftReg er (decode_size_00 (size_field opcode)) (op_reg opcode) (opcode AND 0x20 \<noteq> 0)
             (unat (drop_bit 8 opcode AND 1)) (unat (drop_bit 3 opcode AND 3)))
         else if group = 6 then
           let condition = ucast (drop_bit 8 opcode AND 0xF) :: u8; displacement = ucast (opcode AND 0xFF) :: u8
           in if condition \<noteq> 1 \<and> displacement \<noteq> 0 \<and> displacement \<noteq> 0xFF
              then Some (Op_BranchShort condition displacement) else None
         else None)"

text \<open>Opcodes that cannot fault need no snapshot of the registers.\<close>

definition needs_rollback_snapshot :: "u16 \<Rightarrow> bool" where
  "needs_rollback_snapshot opcode \<longleftrightarrow> decode_simple M68040 opcode = None"

section \<open>Execution\<close>

definition read_direct_reg :: "direct_reg \<Rightarrow> opsize \<Rightarrow> 'a cpu_core_scheme \<Rightarrow> u32" where
  "read_direct_reg r sz s = (case r of DR_Data n \<Rightarrow> dar s n | DR_Addr n \<Rightarrow> dar s (8 + n)) AND size_mask sz"

definition set_dar :: "nat \<Rightarrow> u32 \<Rightarrow> 'a cpu_core_scheme \<Rightarrow> 'a cpu_core_scheme" where
  "set_dar n v s = s\<lparr> dar := (dar s)(n := v) \<rparr>"

definition write_data_reg :: "nat \<Rightarrow> opsize \<Rightarrow> u32 \<Rightarrow> 'a cpu_core_scheme \<Rightarrow> 'a cpu_core_scheme" where
  "write_data_reg n sz v s = set_dar n ((dar s n AND NOT (size_mask sz)) OR (v AND size_mask sz)) s"

definition op_unary :: "unary_op \<Rightarrow> nat \<Rightarrow> opsize \<Rightarrow> 'a cpu_core_scheme \<Rightarrow> int \<times> 'a cpu_core_scheme" where
  "op_unary u reg sz s =
     (let src = dar s reg AND size_mask sz;
          t = (case u of
             Un_Clr \<Rightarrow> (write_data_reg reg sz 0 s)\<lparr> n_flag := 0, not_z_flag := 0, v_flag := 0, c_flag := 0 \<rparr>
           | Un_Neg \<Rightarrow> set_sub_flags src 0 (0 - src) sz (write_data_reg reg sz (0 - src) s)
           | Un_Negx \<Rightarrow> (let (r, s) = exec_subx sz src 0 s in write_data_reg reg sz r s)
           | Un_Not \<Rightarrow> (let r = (NOT src) AND size_mask sz in set_logic_flags r sz (write_data_reg reg sz r s))
           | Un_Tst \<Rightarrow> set_logic_flags src sz s)
      in (if is_pre_68020 t \<and> sz = Size_Long \<and> u \<noteq> Un_Tst then 6 else 4, t))"

definition op_addq_subq :: "nat \<Rightarrow> u32 \<Rightarrow> opsize \<Rightarrow> bool \<Rightarrow> 'a cpu_core_scheme \<Rightarrow> int \<times> 'a cpu_core_scheme" where
  "op_addq_subq reg data sz is_sub s =
     (let m = size_mask sz; dst = dar s reg AND m;
          r = (if is_sub then dst - data else dst + data);
          s = (if is_sub then set_sub_flags data dst r sz s else set_add_flags data dst r sz s)
      in (if is_pre_68020 s \<and> sz = Size_Long then 8 else 4, set_dar reg ((dar s reg AND NOT m) OR (r AND m)) s))"

definition op_binary :: "binary_op \<Rightarrow> direct_reg \<Rightarrow> nat \<Rightarrow> opsize \<Rightarrow> 'a cpu_core_scheme \<Rightarrow> 'a cpu_core_scheme" where
  "op_binary b source dst sz s =
     (let m = size_mask sz; src = read_direct_reg source sz s; dv = dar s dst AND m;
          logic = (\<lambda>r. write_data_reg dst sz r (set_logic_flags r sz s))
      in case b of
           Bin_Add \<Rightarrow> (let r = dv + src in write_data_reg dst sz r (set_add_flags src dv r sz s))
         | Bin_Sub \<Rightarrow> (let r = dv - src in write_data_reg dst sz r (set_sub_flags src dv r sz s))
         | Bin_And \<Rightarrow> logic ((src AND dv) AND m)
         | Bin_Or \<Rightarrow> logic ((src OR dv) AND m)
         | Bin_Eor \<Rightarrow> logic ((src XOR dv) AND m)
         | Bin_Cmp \<Rightarrow> set_cmp_flags src dv (dv - src) sz s)"

definition op_mul_word :: "nat \<Rightarrow> nat \<Rightarrow> bool \<Rightarrow> bool \<Rightarrow> 'a cpu_core_scheme \<Rightarrow> int \<times> 'a cpu_core_scheme" where
  "op_mul_word src dst is_signed m68000_timing s =
     (let sw = ucast (dar s src) :: u16; dw = ucast (dar s dst) :: u16;
          r = (if is_signed then (scast sw * scast dw :: u32) else ucast sw * ucast dw);
          shifted = push_bit 1 (ucast sw) :: u32;
          variable = (if is_signed then count_ones ((shifted XOR drop_bit 1 shifted) AND 0xFFFF) else count_ones sw)
      in (if m68000_timing then 38 + 2 * int variable else 42, set_logic_flags r Size_Long (set_dar dst r s)))"

definition op_addr :: "addr_op \<Rightarrow> direct_reg \<Rightarrow> nat \<Rightarrow> opsize \<Rightarrow> 'a cpu_core_scheme \<Rightarrow> int \<times> 'a cpu_core_scheme" where
  "op_addr a source dst sz s =
     (let src = read_direct_reg source sz s; src = (if sz = Size_Word then sext16 src else src); dv = dar s (8 + dst)
      in case a of
           Ad_Adda \<Rightarrow> (8, set_dar (8 + dst) (dv + src) s)
         | Ad_Suba \<Rightarrow> (8, set_dar (8 + dst) (dv - src) s)
         | Ad_Cmpa \<Rightarrow> (6, set_cmp_flags src dv (dv - src) Size_Long s))"

definition op_add_subx :: "nat \<Rightarrow> nat \<Rightarrow> opsize \<Rightarrow> bool \<Rightarrow> 'a cpu_core_scheme \<Rightarrow> int \<times> 'a cpu_core_scheme" where
  "op_add_subx src dst sz is_sub s =
     (let sv = dar s src AND size_mask sz; dv = dar s dst AND size_mask sz;
          (r, s) = (if is_sub then exec_subx sz sv dv s else exec_addx sz sv dv s);
          s = write_data_reg dst sz r s
      in (if is_pre_68020 s \<and> sz = Size_Long then 8 else 4, s))"

definition op_bit :: "bit_op \<Rightarrow> nat \<Rightarrow> nat \<Rightarrow> 'a cpu_core_scheme \<Rightarrow> int \<times> 'a cpu_core_scheme" where
  "op_bit b bit_reg dst s =
     (let n = unat (dar s bit_reg AND 31); m = push_bit n 1; v = dar s dst;
          s = s\<lparr> not_z_flag := (if v AND m \<noteq> 0 then 1 else 0) \<rparr>;
          extra = (if is_pre_68020 s \<and> 16 \<le> n then 2 else 0);
          cycles = (\<lambda>early late. if is_pre_68020 s then early + extra else late)
      in case b of
           Bit_Test \<Rightarrow> (6, s)
         | Bit_Change \<Rightarrow> (cycles 6 8, set_dar dst (v XOR m) s)
         | Bit_Clear \<Rightarrow> (cycles 8 10, set_dar dst (v AND NOT m) s)
         | Bit_Set \<Rightarrow> (cycles 6 8, set_dar dst (v OR m) s))"

definition op_shift :: "nat \<Rightarrow> opsize \<Rightarrow> nat \<Rightarrow> bool \<Rightarrow> nat \<Rightarrow> nat \<Rightarrow> 'a cpu_core_scheme \<Rightarrow> (int \<times> 'a cpu_core_scheme) option" where
  "op_shift reg sz count_or_reg count_is_register direction op s =
     (let count = (if count_is_register then dar s count_or_reg AND 63
                   else if count_or_reg = 0 then 8 else word_of_nat count_or_reg);
          v = dar s reg AND size_mask sz;
          run = (\<lambda>f. let ((r, cycles), s) = f sz count v s
                     in Some (cycles, set_dar reg ((dar s reg AND NOT (size_mask sz)) OR r) s))
      in if direction = 0 then
           if op = 0 then run exec_asr else if op = 1 then run exec_lsr
           else if op = 2 then run exec_roxr else if op = 3 then run exec_ror else None
         else if direction = 1 then
           if op = 0 then run exec_asl else if op = 1 then run exec_lsl
           else if op = 2 then run exec_roxl else if op = 3 then run exec_rol else None
         else None)"

definition op_branch :: "u8 \<Rightarrow> u8 \<Rightarrow> 'a cpu_core_scheme \<Rightarrow> int \<times> 'a cpu_core_scheme" where
  "op_branch condition displacement s =
     (if condition = 0 \<or> test_condition condition s then (10, s\<lparr> change_of_flow := True, pc := pc s + scast displacement \<rparr>)
      else (8, s))"

definition op_move :: "direct_reg \<Rightarrow> direct_reg \<Rightarrow> opsize \<Rightarrow> 'a cpu_core_scheme \<Rightarrow> 'a cpu_core_scheme" where
  "op_move src dst sz s =
     (let v = read_direct_reg src sz s
      in case dst of
           DR_Data n \<Rightarrow> set_logic_flags v sz (write_data_reg n sz v s)
         | DR_Addr n \<Rightarrow> set_dar (8 + n) (if sz = Size_Word then sext16 v else v) s)"

fun execute_simple :: "'b address_bus \<Rightarrow> 'b delivery \<Rightarrow> simple_op \<Rightarrow> 'b machine \<Rightarrow> (int \<times> 'b machine) option" where
  "execute_simple B dl Op_Nop s = Some (4, s)"
| "execute_simple B dl (Op_MoveReg src dst sz) s = Some (4, op_move src dst sz s)"
| "execute_simple B dl (Op_Moveq reg data) s =
     Some (4, (set_dar reg data s)\<lparr> n_flag := (if sint data < 0 then 0x80 else 0), not_z_flag := data,
       v_flag := 0, c_flag := 0 \<rparr>)"
| "execute_simple B dl (Op_UnaryDataReg u reg sz) s = Some (op_unary u reg sz s)"
| "execute_simple B dl (Op_Swap reg) s = exec_swap B dl reg s"
| "execute_simple B dl (Op_Ext reg sz) s = Some (exec_ext sz reg s)"
| "execute_simple B dl (Op_Extb reg) s = Some (exec_extb reg s)"
| "execute_simple B dl (Op_AddqSubqAddr reg data is_sub) s =
     (let v = dar s (8 + reg)
      in Some (if is_pre_68020 s then 8 else 4, set_dar (8 + reg) (if is_sub then v - data else v + data) s))"
| "execute_simple B dl (Op_AddqSubqReg reg data sz is_sub) s = Some (op_addq_subq reg data sz is_sub s)"
| "execute_simple B dl (Op_BinaryDataReg b src dst sz cycles) s = Some (cycles, op_binary b src dst sz s)"
| "execute_simple B dl (Op_MulWordDataReg src dst is_signed m68000_timing) s =
     Some (op_mul_word src dst is_signed m68000_timing s)"
| "execute_simple B dl (Op_AddrDataReg a src dst sz) s = Some (op_addr a src dst sz s)"
| "execute_simple B dl (Op_AddSubxReg src dst sz is_sub) s = Some (op_add_subx src dst sz is_sub s)"
| "execute_simple B dl (Op_BitReg b bit_reg dst) s = Some (op_bit b bit_reg dst s)"
| "execute_simple B dl (Op_BcdReg src dst is_sub) s =
     (if is_sub then exec_sbcd_rr B dl src dst s else exec_abcd_rr B dl src dst s)"
| "execute_simple B dl (Op_Exg opcode) s = exec_exg B dl opcode s"
| "execute_simple B dl (Op_SccDataReg condition reg) s =
     (let v = (if test_condition condition s then 0xFF else 0); t = write_data_reg reg Size_Byte v s
      in Some (if is_pre_68020 t \<and> v \<noteq> 0 then 6 else 4, t))"
| "execute_simple B dl (Op_ShiftReg reg sz count_or_reg count_is_register direction op) s =
     op_shift reg sz count_or_reg count_is_register direction op s"
| "execute_simple B dl (Op_BranchShort condition displacement) s = Some (op_branch condition displacement s)"

text \<open>The batch runner uses decoded operations only outside of traces, faults, stops and interrupts.\<close>

definition can_run_decoded_simple_ops :: "'a cpu_core_scheme \<Rightarrow> bool" where
  "can_run_decoded_simple_ops s \<longleftrightarrow>
     run_mode s = RUN_MODE_NORMAL \<and> stopped s = 0 \<and> int_level s = 0 \<and> t1_flag s = 0 \<and> t0_flag s = 0"

end
