(* ===== verification/Timing_060.thy ===== *)
theory Timing_060
  imports Cpu_State
begin

unbundle bit_operations_syntax

text \<open>
  The instruction costs of the 68060 (\<open>src/core/timing_060.rs\<close>) and of the 68040
  (\<open>src/core/timing_040.rs\<close>): the classification of opcodes, the registers an opcode uses and
  defines, the pairing of two instructions in one clock, and branches with and without the branch
  cache. The table of 65536 entries is the function that fills it.
\<close>

section \<open>Packed entries\<close>

datatype oep_class = PoepSoep | PoepOnly | PoepUntilLast | PoepButAllowsSoep

type_synonym info060 = u16

definition F_BRANCH :: u16 where "F_BRANCH = 2 ^ 7"
definition F_DBCC :: u16 where "F_DBCC = 2 ^ 8"
definition F_VARIABLE :: u16 where "F_VARIABLE = 2 ^ 9"
definition F_DEFINES_CCR :: u16 where "F_DEFINES_CCR = 2 ^ 10"
definition F_USES_CCR_LATE :: u16 where "F_USES_CCR_LATE = 2 ^ 11"
definition F_EA_INDEXED :: u16 where "F_EA_INDEXED = 2 ^ 12"
definition F_UNCLASSIFIED :: u16 where "F_UNCLASSIFIED = 2 ^ 13"
definition F_READS_MEM :: u16 where "F_READS_MEM = 2 ^ 14"
definition F_WRITES_MEM :: u16 where "F_WRITES_MEM = 2 ^ 15"

lemmas info_flags = F_BRANCH_def F_DBCC_def F_VARIABLE_def F_DEFINES_CCR_def F_USES_CCR_LATE_def
  F_EA_INDEXED_def F_UNCLASSIFIED_def F_READS_MEM_def F_WRITES_MEM_def

fun oep_code :: "oep_class \<Rightarrow> u16" where
  "oep_code PoepSoep = 0"
| "oep_code PoepOnly = 1"
| "oep_code PoepUntilLast = 2"
| "oep_code PoepButAllowsSoep = 3"

definition info_new :: "oep_class \<Rightarrow> u16 \<Rightarrow> u16 \<Rightarrow> info060" where
  "info_new cl cycles flags = oep_code cl OR push_bit 2 (cycles AND 0x1F) OR flags"

definition info_class :: "info060 \<Rightarrow> oep_class" where
  "info_class i = (let c = i AND 3 in if c = 0 then PoepSoep else if c = 1 then PoepOnly
     else if c = 2 then PoepUntilLast else PoepButAllowsSoep)"

definition info_cycles :: "info060 \<Rightarrow> int" where
  "info_cycles i = uint (drop_bit 2 i AND 0x1F)"

definition info_has :: "info060 \<Rightarrow> u16 \<Rightarrow> bool" where
  "info_has i flag \<longleftrightarrow> i AND flag \<noteq> 0"

section \<open>Classification\<close>

definition ea_flags :: "u16 \<Rightarrow> u16 \<Rightarrow> bool \<Rightarrow> bool \<Rightarrow> u16" where
  "ea_flags m reg reads writes =
     (let is_mem = (2 \<le> m \<and> \<not> (m = 7 \<and> reg = 4))
      in (if is_mem \<and> reads then F_READS_MEM else 0) OR (if is_mem \<and> writes then F_WRITES_MEM else 0) OR
         (if m = 6 \<or> m = 7 \<and> reg = 3 then F_EA_INDEXED else 0))"

definition alu060 :: "u16 \<Rightarrow> u16 \<Rightarrow> bool \<Rightarrow> bool \<Rightarrow> info060" where
  "alu060 m reg reads writes = info_new PoepSoep 1 (F_DEFINES_CCR OR ea_flags m reg reads writes)"

definition unclassified060 :: info060 where
  "unclassified060 = info_new PoepOnly 1 (F_UNCLASSIFIED OR F_VARIABLE)"

definition classify_group_0 :: "u16 \<Rightarrow> info060" where
  "classify_group_0 op =
     (let m = drop_bit 3 op AND 7; reg = op AND 7
      in if op AND 0x0100 \<noteq> 0 \<or> op AND 0x0F00 = 0x0800 then
           info_new PoepOnly 1 (F_DEFINES_CCR OR ea_flags m reg True (op AND 0x00C0 \<noteq> 0))
         else if op AND 0x0FC0 = 0x00C0 \<or> op AND 0x09C0 = 0x08C0 then unclassified060
         else if m = 7 \<and> reg = 4 then info_new PoepOnly 1 F_VARIABLE
         else alu060 m reg True (op AND 0x0F00 \<noteq> 0x0C00))"

definition classify_group_4 :: "u16 \<Rightarrow> info060" where
  "classify_group_4 op =
     (let m = drop_bit 3 op AND 7; reg = op AND 7
      in if op AND 0x0FC0 \<in> {0x00C0, 0x02C0, 0x04C0, 0x06C0} then info_new PoepOnly 1 F_VARIABLE
         else if op AND 0x0B80 = 0x0880 \<and> m \<noteq> 0 then
           info_new PoepUntilLast 2 (F_VARIABLE OR F_READS_MEM OR F_WRITES_MEM)
         else if op AND 0x0FC0 = 0x0AC0 then
           info_new PoepOnly 2 (F_DEFINES_CCR OR F_READS_MEM OR F_WRITES_MEM)
         else if op AND 0x0F80 = 0x0C00 then info_new PoepOnly 2 (F_DEFINES_CCR OR F_VARIABLE)
         else if op AND 0x0FF8 = 0x0840 then alu060 0 0 False False
         else if op AND 0x0E00 = 0x0800 \<and> op AND 0x00C0 \<noteq> 0x0040 then alu060 m reg True True
         else if op AND 0x0F00 \<in> {0x0200, 0x0000, 0x0400, 0x0600} then alu060 m reg True True
         else if op AND 0x01C0 = 0x01C0 then info_new PoepSoep 1 (ea_flags m reg False False)
         else if op AND 0x01C0 = 0x0180 then info_new PoepOnly 2 F_VARIABLE
         else if op AND 0x0F00 = 0x0A00 then alu060 m reg True False
         else info_new PoepOnly 1 F_VARIABLE)"

definition classify_060_opcode :: "u16 \<Rightarrow> info060" where
  "classify_060_opcode op =
     (let group = drop_bit 12 op; m = drop_bit 3 op AND 7; reg = op AND 7
      in if group = 0x0 then classify_group_0 op
         else if group \<in> {0x1, 0x2, 0x3} then
           info_new PoepSoep 1 (F_DEFINES_CCR OR ea_flags m reg True False OR
             ea_flags (drop_bit 6 op AND 7) (drop_bit 9 op AND 7) False True)
         else if group = 0x4 then classify_group_4 op
         else if group = 0x5 then
           if op AND 0x00F8 = 0x00C8 then info_new PoepOnly 3 (F_BRANCH OR F_DBCC OR F_USES_CCR_LATE)
           else if op AND 0x00C0 = 0x00C0 then
             info_new PoepSoep 1 (F_USES_CCR_LATE OR ea_flags m reg False True)
           else alu060 m reg True True
         else if group = 0x6 then
           info_new PoepOnly 7 (F_BRANCH OR (if op AND 0x0F00 \<noteq> 0 then F_USES_CCR_LATE else 0))
         else if group = 0x7 then info_new PoepSoep 1 F_DEFINES_CCR
         else if group = 0x8 then
           if op AND 0x00C0 = 0x00C0 then info_new PoepOnly 2 (F_DEFINES_CCR OR F_VARIABLE)
           else if op AND 0x01F0 \<in> {0x0100, 0x0140} then info_new PoepOnly 2 (F_DEFINES_CCR OR F_VARIABLE)
           else alu060 m reg True (op AND 0x0100 \<noteq> 0)
         else if group \<in> {0x9, 0xD} then
           if op AND 0x0130 = 0x0100 \<and> m \<le> 1 then
             info_new PoepOnly 1 (F_DEFINES_CCR OR F_USES_CCR_LATE OR ea_flags m reg True True)
           else alu060 m reg True (op AND 0x0100 \<noteq> 0 \<and> op AND 0x00C0 \<noteq> 0x00C0)
         else if group = 0xB then alu060 m reg True (op AND 0x0100 \<noteq> 0 \<and> op AND 0x00C0 \<noteq> 0x00C0)
         else if group = 0xC then
           if op AND 0x00C0 = 0x00C0 then info_new PoepOnly 2 F_DEFINES_CCR
           else if op AND 0x01F0 = 0x0100 then info_new PoepOnly 2 (F_DEFINES_CCR OR F_VARIABLE)
           else if op AND 0x01F8 \<in> {0x0140, 0x0148, 0x0188} then info_new PoepOnly 1 0
           else alu060 m reg True (op AND 0x0100 \<noteq> 0)
         else if group = 0xE then
           if op AND 0x08C0 = 0x08C0 then unclassified060
           else if op AND 0x00C0 = 0x00C0 then
             info_new PoepSoep 1 (F_DEFINES_CCR OR F_READS_MEM OR F_WRITES_MEM)
           else if op AND 0x0018 = 0x0010 then info_new PoepOnly 1 (F_DEFINES_CCR OR F_USES_CCR_LATE)
           else info_new PoepSoep 1 F_DEFINES_CCR
         else unclassified060)"

definition info_060 :: "u16 \<Rightarrow> info060" where
  "info_060 op = classify_060_opcode op"

section \<open>Registers used and defined\<close>

definition ea_masks :: "u16 \<Rightarrow> u16 \<Rightarrow> u16 \<times> u16" where
  "ea_masks m reg =
     (let dn = push_bit (unat reg) 1; an = push_bit (8 + unat reg) 1
      in if m = 0 then (dn, 0)
         else if m = 1 \<or> m = 2 \<or> m = 5 then (an, 0)
         else if m = 3 \<or> m = 4 then (an, an)
         else if m = 6 then (0xFFFF, 0)
         else (0, 0))"

text \<open>The register an operand in a register defines.\<close>

definition operand_def :: "u16 \<Rightarrow> u16 \<Rightarrow> u16" where
  "operand_def m reg = (if m = 0 then push_bit (unat reg) 1 else if m = 1 then push_bit (8 + unat reg) 1 else 0)"

definition reg_masks_060 :: "u16 \<Rightarrow> u16 \<times> u16" where
  "reg_masks_060 op =
     (let group = drop_bit 12 op; m = drop_bit 3 op AND 7; reg = op AND 7; hi = drop_bit 9 op AND 7;
          (eu, ed) = ea_masks m reg; dn = push_bit (unat hi) 1; an = push_bit (8 + unat hi) 1; opmode = drop_bit 6 op AND 7
      in if group \<in> {0x1, 0x2, 0x3} then
           let (du, dd) = ea_masks opmode hi in (eu OR du, ed OR dd OR operand_def opmode hi)
         else if group = 0x7 then (0, dn)
         else if group \<in> {0x8, 0x9, 0xB, 0xC, 0xD} then
           if opmode \<le> 2 then (eu OR dn, ed OR dn)
           else if opmode = 3 \<or> opmode = 7 then (eu OR an, ed OR an)
           else (dn OR eu, ed)
         else if group = 0x5 then (eu, ed OR operand_def m reg)
         else if group = 0xE \<and> op AND 0x00C0 \<noteq> 0x00C0 then
           (push_bit (unat reg) 1 OR (if op AND 0x0020 \<noteq> 0 then dn else 0), push_bit (unat reg) 1)
         else if group = 0x4 then
           if op AND 0x01C0 = 0x01C0 then (eu, an)
           else if op AND 0x0F00 < 0x0700 \<or> op AND 0x0F00 = 0x0A00 then
             (eu, ed OR (if m = 0 then push_bit (unat reg) 1 else 0))
           else (0xFFFF, 0xFFFF)
         else (0xFFFF, 0xFFFF))"

section \<open>The cost of an instruction of the 68060\<close>

definition fallback_cycles :: "int \<Rightarrow> int" where
  "fallback_cycles raw = max (raw sdiv 4) 1"

definition set_pending_head :: "pending_head060 option \<Rightarrow> 'a cpu_core_scheme \<Rightarrow> 'a cpu_core_scheme" where
  "set_pending_head h s = s\<lparr> oep060 := (oep060 s)\<lparr> pending_head := h \<rparr> \<rparr>"

text \<open>CACR bit 23 enables the branch cache, PCR bit 0 the superscalar dispatch.\<close>

definition branch_cost_060 :: "bool \<Rightarrow> bool \<Rightarrow> bool \<Rightarrow> bool \<Rightarrow> 'a cpu_core_scheme \<Rightarrow> int \<times> 'a cpu_core_scheme" where
  "branch_cost_060 taken is_dbcc fetch_cached fold_target_open s =
     (if cacr s AND 2 ^ 23 = 0 \<or> \<not> fetch_cached then
        (if is_dbcc then if taken then 2 else 3 else if taken then 7 else 1, s)
      else
        let predicted_taken = (case bc_predict (branch_cache (oep060 s)) (ppc s) of Some t \<Rightarrow> t | None \<Rightarrow> False);
            cost = (if predicted_taken \<and> taken then if fold_target_open then 0 else 1
                    else if \<not> predicted_taken \<and> \<not> taken then 1 else 7)
        in (cost, update_branch_cache (bc_update (ppc s) taken (\<not> is_supervisor s)) s))"

definition soep_dispatch_test ::
  "pending_head060 \<Rightarrow> info060 \<Rightarrow> u16 \<Rightarrow> u16 \<Rightarrow> bool \<Rightarrow> 'a cpu_core_scheme \<Rightarrow> bool" where
  "soep_dispatch_test head i use_mask def_mask fetch_cached s \<longleftrightarrow>
     pcr s AND 1 \<noteq> 0 \<and> ph_head_cached head \<and> fetch_cached \<and>
     info_class i = PoepSoep \<and> \<not> info_has i F_EA_INDEXED \<and> \<not> info_has i F_UNCLASSIFIED \<and> \<not> info_has i F_VARIABLE \<and>
     (use_mask OR def_mask) AND ph_def_mask head = 0 \<and>
     \<not> (info_has i F_USES_CCR_LATE \<and> ph_defines_ccr head) \<and>
     \<not> (ph_accessed_mem head \<and> (info_has i F_READS_MEM \<or> info_has i F_WRITES_MEM))"

definition class_cost :: "int \<Rightarrow> info060 \<Rightarrow> int" where
  "class_cost raw i =
     (if info_has i F_VARIABLE \<or> info_has i F_UNCLASSIFIED then fallback_cycles raw else info_cycles i) +
     (if info_has i F_EA_INDEXED then 1 else 0)"

definition cycles_060 :: "int \<Rightarrow> bool \<Rightarrow> 'a cpu_core_scheme \<Rightarrow> int \<times> 'a cpu_core_scheme" where
  "cycles_060 raw fetch_cached s =
     (let op = ucast (ir s) :: u16; i = info_060 op
      in if info_has i F_BRANCH then
           let taken = (if info_has i F_DBCC then pc s \<noteq> ppc s + 4 else change_of_flow s);
               fold_target_open = (pending_head (oep060 s) \<noteq> None)
           in branch_cost_060 taken (info_has i F_DBCC) fetch_cached fold_target_open (set_pending_head None s)
         else if change_of_flow s then (max (fallback_cycles raw) 5, set_pending_head None s)
         else
           let cycles = class_cost raw i; (use_mask, def_mask) = reg_masks_060 op;
               pairs = (case pending_head (oep060 s) of None \<Rightarrow> False
                  | Some head \<Rightarrow> soep_dispatch_test head i use_mask def_mask fetch_cached s);
               head = (if info_class i = PoepOnly then None
                  else Some \<lparr> ph_def_mask = def_mask, ph_defines_ccr = info_has i F_DEFINES_CCR,
                     ph_accessed_mem = (info_has i F_READS_MEM \<or> info_has i F_WRITES_MEM),
                     ph_head_cached = fetch_cached \<rparr>)
           in if pairs then (max (cycles - 1) 0, set_pending_head None s)
              else (cycles, set_pending_head head s))"

definition break_060_pipeline :: "'a cpu_core_scheme \<Rightarrow> 'a cpu_core_scheme" where
  "break_060_pipeline s = set_pending_head None s"

section \<open>The cost of an instruction of the 68040\<close>

definition cycles_040 :: "int \<Rightarrow> 'a cpu_core_scheme \<Rightarrow> int" where
  "cycles_040 raw s =
     (if instruction_exception_vector s \<noteq> None then scale_cycles_for_cpu_type raw s
      else
        let op = ucast (ir s) :: u16; i = info_060 op
        in if info_has i F_BRANCH then
             let taken = (if info_has i F_DBCC then pc s \<noteq> ppc s + 4 else change_of_flow s)
             in if info_has i F_DBCC then 3 else if taken then 3 else 2
           else if change_of_flow s then max (fallback_cycles raw) 4
           else if op AND 0xFF00 = 0xF400 then max (fallback_cycles raw) 12
           else
             let is_muldiv = (op AND 0xF1C0 \<in> {0xC0C0, 0xC1C0, 0x80C0, 0x81C0} \<or> op AND 0xFFC0 \<in> {0x4C00, 0x4C40})
             in (if is_muldiv \<or> info_has i F_VARIABLE \<or> info_has i F_UNCLASSIFIED then fallback_cycles raw
                 else info_cycles i) + (if info_has i F_EA_INDEXED then 1 else 0))"

section \<open>Progress\<close>

definition high_flags :: "u16 \<Rightarrow> bool" where
  "high_flags f \<longleftrightarrow> take_bit 7 f = 0"

lemma high_flags_intros [simp, intro]:
  "high_flags 0" "high_flags F_BRANCH" "high_flags F_DBCC" "high_flags F_VARIABLE" "high_flags F_DEFINES_CCR"
  "high_flags F_USES_CCR_LATE" "high_flags F_EA_INDEXED" "high_flags F_UNCLASSIFIED" "high_flags F_READS_MEM"
  "high_flags F_WRITES_MEM"
  by (simp_all add: high_flags_def info_flags)

lemma high_flags_or [simp]: "high_flags (f OR g) \<longleftrightarrow> high_flags f \<and> high_flags g"
  by (simp only: high_flags_def take_bit_or or_eq_0_iff)

lemma high_flags_if: "high_flags f \<Longrightarrow> high_flags g \<Longrightarrow> high_flags (if b then f else g)"
  by simp

lemma high_flags_ea [simp]: "high_flags (ea_flags m reg r w)"
  unfolding ea_flags_def Let_def high_flags_or by (intro conjI high_flags_if high_flags_intros)

lemma info_new_cycles:
  assumes "high_flags f"
  shows "info_cycles (info_new cl c f) = uint (c AND 0x1F)"
proof -
  have "drop_bit 2 (info_new cl c f) AND 0x1F = c AND 0x1F"
  proof (rule bit_word_eqI)
    fix n assume "n < LENGTH(16)"
    have "\<not> bit f (2 + n)" if "n < 5"
      using assms that by (auto simp: high_flags_def bit_eq_iff bit_take_bit_iff)
    moreover have "bit (0x1F :: u16) n \<longleftrightarrow> n < 5"
      using bit_mask_iff [where ?'a = "16 word", of 5 n] \<open>n < LENGTH(16)\<close> by (auto simp: mask_eq_exp_minus_1)
    ultimately show "bit (drop_bit 2 (info_new cl c f) AND 0x1F) n = bit (c AND 0x1F) n"
      using \<open>n < LENGTH(16)\<close> by (cases cl) (auto simp: info_new_def bit_simps)
  qed
  then show ?thesis by (simp add: info_cycles_def)
qed

definition costed :: "info060 \<Rightarrow> bool" where
  "costed i \<longleftrightarrow> 1 \<le> info_cycles i"

lemma costed_new: "high_flags f \<Longrightarrow> c \<in> {1, 2, 3, 7} \<Longrightarrow> costed (info_new cl c f)"
  by (auto simp: costed_def info_new_cycles)

lemma costed_if: "costed i \<Longrightarrow> costed j \<Longrightarrow> costed (if b then i else j)"
  by simp

lemma costed_alu: "costed (alu060 m reg r w)"
  unfolding alu060_def by (rule costed_new) simp_all

lemma costed_060: "costed (info_060 op)"
proof -
  have "costed (classify_group_0 op)"
    unfolding classify_group_0_def Let_def unclassified060_def
    by (intro costed_if costed_alu costed_new) simp_all
  moreover have "costed (classify_group_4 op)"
    unfolding classify_group_4_def Let_def
    by (intro costed_if costed_alu costed_new) simp_all
  ultimately show ?thesis
    unfolding info_060_def classify_060_opcode_def Let_def unclassified060_def
    by (intro costed_if costed_alu costed_new) simp_all
qed

lemma class_cost_pos: "1 \<le> class_cost raw (info_060 op)"
proof -
  have "1 \<le> fallback_cycles raw" unfolding fallback_cycles_def by (rule max.cobounded2)
  then show ?thesis using costed_060 [of op] by (simp add: class_cost_def costed_def)
qed

lemma set_pending_head_simps [simp]:
  "pending_head (oep060 (set_pending_head h s)) = h"
  "pending_head (oep060 (update_branch_cache f s)) = pending_head (oep060 s)"
  by (simp_all add: set_pending_head_def update_branch_cache_def)

lemma branch_cost_060_bounds:
  assumes "branch_cost_060 taken is_dbcc cached target_open s = (n, s')"
  shows "0 \<le> n" and "n = 0 \<Longrightarrow> target_open" and "pending_head (oep060 s') = pending_head (oep060 s)"
  using assms by (auto simp: branch_cost_060_def Let_def split: if_splits)

lemma cycles_060_step:
  assumes "cycles_060 raw cached s = (n, s')"
  shows "0 \<le> n \<and> (n = 0 \<longrightarrow> pending_head (oep060 s) \<noteq> None \<and> pending_head (oep060 s') = None)"
proof (cases "info_has (info_060 (ucast (ir s))) F_BRANCH")
  case True
  obtain taken where run: "branch_cost_060 taken (info_has (info_060 (ucast (ir s))) F_DBCC) cached
      (pending_head (oep060 s) \<noteq> None) (set_pending_head None s) = (n, s')"
    using assms True by (auto simp: cycles_060_def Let_def)
  show ?thesis using branch_cost_060_bounds [OF run] by auto
next
  case False
  show ?thesis
  proof (cases "change_of_flow s")
    case True
    then show ?thesis using assms False by (auto simp: cycles_060_def Let_def)
  next
    case flow: False
    have "1 \<le> class_cost raw (info_060 (ucast (ir s)))" by (rule class_cost_pos)
    then show ?thesis using assms False flow
      by (auto simp: cycles_060_def Let_def split: if_splits prod.splits option.splits)
  qed
qed

text \<open>
  C99. Emulated time goes on: whatever two instructions the 68060 retires one after the other, with
  any prediction, pairing and fetch hits, they cost at least one clock together. A free instruction
  is one that was folded or paired into an open slot, which it closes; in between the slot can only
  be closed, never opened, so even an idle loop of one predicted branch advances the clock.
\<close>

theorem time_advances_060:
  assumes "cycles_060 raw1 cached1 s1 = (n1, s2)" and "cycles_060 raw2 cached2 s3 = (n2, s4)"
    and "pending_head (oep060 s3) \<in> {pending_head (oep060 s2), None}"
  shows "1 \<le> n1 + n2"
  using cycles_060_step [OF assms(1)] cycles_060_step [OF assms(2)] assms(3) by auto

text \<open>MOVEQ to D0 and MOVEQ to D1 on a superscalar 68060.\<close>

definition moveq_060 :: "unit machine" where
  "moveq_060 = (set_cpu_type M68060 (cpu_new ()))\<lparr> ir := 0x7001, pcr := 1 \<rparr>"

lemma time_advances_060_witness:
  "1 \<le> fst (cycles_060 4 True moveq_060) +
     fst (cycles_060 4 True (snd (cycles_060 4 True moveq_060)\<lparr> ir := 0x7201 \<rparr>))"
proof (rule time_advances_060)
  show "cycles_060 4 True moveq_060 = (fst (cycles_060 4 True moveq_060), snd (cycles_060 4 True moveq_060))"
    by simp
  show "cycles_060 4 True (snd (cycles_060 4 True moveq_060)\<lparr> ir := 0x7201 \<rparr>) =
    (fst (cycles_060 4 True (snd (cycles_060 4 True moveq_060)\<lparr> ir := 0x7201 \<rparr>)),
     snd (cycles_060 4 True (snd (cycles_060 4 True moveq_060)\<lparr> ir := 0x7201 \<rparr>)))"
    by simp
qed simp

end
