(* ===== verification/Timing_020.thy ===== *)
theory Timing_020
  imports Cpu_State
begin

unbundle bit_operations_syntax

text \<open>
  The instruction costs of the 68020 and 68030 (\<open>src/core/timing_020.rs\<close>): the tables of effective
  addresses, the rows and columns of MOVE, and the costs of every group, each in the two cases of a
  cached and an uncached instruction stream. None falls back to the scaled count.
\<close>

section \<open>Tables\<close>

type_synonym timing_case = "int \<times> int"

definition pick :: "timing_case \<Rightarrow> bool \<Rightarrow> int" where
  "pick c cached = (if cached then fst c else snd c)"

definition case_add :: "timing_case \<Rightarrow> timing_case \<Rightarrow> timing_case" where
  "case_add a b = (fst a + fst b, snd a + snd b)"

definition size_00 :: "u16 \<Rightarrow> opsize" where
  "size_00 b = (if b = 0 then Size_Byte else if b = 1 then Size_Word else Size_Long)"

definition fetch_ea :: "u16 \<Rightarrow> u16 \<Rightarrow> opsize \<Rightarrow> timing_case" where
  "fetch_ea m reg sz =
     (if m \<le> 1 then (0, 0) else if m \<le> 3 then (4, 4) else if m = 4 then (5, 5)
      else if m = 5 \<or> m = 7 \<and> reg = 2 then (5, 6) else if m = 6 \<or> m = 7 \<and> reg = 3 then (7, 8)
      else if m = 7 \<and> reg = 0 then (4, 6) else if m = 7 \<and> reg = 1 then (4, 7)
      else if m = 7 \<and> reg = 4 then if sz = Size_Long then (4, 5) else (2, 3)
      else (0, 0))"

definition fetch_immediate_ea :: "u16 \<Rightarrow> u16 \<Rightarrow> opsize \<Rightarrow> timing_case" where
  "fetch_immediate_ea m reg sz =
     (let long = (sz = Size_Long)
      in if m \<le> 1 then if long then (4, 5) else (2, 3)
         else if m = 2 then if long then (4, 7) else (4, 4)
         else if m = 3 then if long then (8, 9) else (6, 7)
         else if m = 4 then if long then (7, 8) else (5, 6)
         else if m = 5 \<or> m = 7 \<and> reg = 0 then if long then (7, 10) else (5, 7)
         else if m = 6 \<or> m = 7 \<and> reg = 3 then if long then (11, 13) else (9, 11)
         else if m = 7 \<and> reg = 1 then if long then (8, 12) else (6, 10)
         else (0, 0))"

definition calculate_ea :: "u16 \<Rightarrow> u16 \<Rightarrow> timing_case" where
  "calculate_ea m reg =
     (if m \<le> 1 then (0, 0) else if m \<le> 4 then (2, 2)
      else if m = 5 \<or> m = 7 \<and> reg \<in> {0, 2} then (2, 3)
      else if m = 6 \<or> m = 7 \<and> reg = 3 then (4, 5) else if m = 7 \<and> reg = 1 then (4, 5) else (0, 0))"

definition jump_ea :: "u16 \<Rightarrow> u16 \<Rightarrow> timing_case" where
  "jump_ea m reg =
     (if m = 2 then (2, 2) else if m = 5 \<or> m = 7 \<and> reg = 2 then (4, 4)
      else if m = 6 \<or> m = 7 \<and> reg = 3 then (6, 6) else if m = 7 \<and> reg \<le> 1 then (2, 2) else (0, 0))"

definition calculate_immediate_ea :: "u16 \<Rightarrow> u16 \<Rightarrow> opsize \<Rightarrow> timing_case" where
  "calculate_immediate_ea m reg sz =
     (let long = (sz = Size_Long)
      in if m \<le> 2 then if long then (4, 5) else (2, 3)
         else if m \<le> 4 then if long then (6, 7) else (4, 5)
         else if m = 5 \<or> m = 7 \<and> reg = 0 then if long then (6, 8) else (4, 5)
         else if m = 6 \<or> m = 7 \<and> reg = 3 then if long then (8, 10) else (6, 8)
         else if m = 7 \<and> reg = 1 then if long then (8, 10) else (4, 6)
         else (0, 0))"

definition move_source_row :: "u16 \<Rightarrow> u16 \<Rightarrow> opsize \<Rightarrow> nat" where
  "move_source_row m reg sz =
     (if m \<le> 1 then 0 else if m = 2 then 3 else if m = 3 then 4 else if m = 4 then 5
      else if m = 5 \<or> m = 7 \<and> reg = 2 then 6 else if m = 7 \<and> reg = 0 then 7 else if m = 7 \<and> reg = 1 then 8
      else if m = 6 \<or> m = 7 \<and> reg = 3 then 9
      else if m = 7 \<and> reg = 4 then if sz = Size_Long then 2 else 1
      else 0)"

definition move_destination_col :: "u16 \<Rightarrow> u16 \<Rightarrow> nat" where
  "move_destination_col m reg =
     (if m \<le> 1 then 0 else if m = 2 then 1 else if m = 3 then 2 else if m = 4 then 3 else if m = 5 then 4
      else if m = 7 \<and> reg = 0 then 5 else if m = 7 \<and> reg = 1 then 6 else if m = 6 then 7 else 0)"

definition MOVE_CACHE :: "int list list" where
  "MOVE_CACHE =
    [[2, 4, 4, 5, 5, 4, 6, 7], [4, 6, 6, 7, 7, 6, 8, 7], [6, 8, 8, 9, 9, 8, 10, 9], [6, 7, 7, 7, 7, 7, 9, 9],
     [6, 7, 7, 7, 7, 7, 9, 9], [7, 8, 8, 8, 8, 8, 10, 10], [7, 8, 8, 8, 8, 8, 10, 10], [6, 7, 7, 7, 7, 7, 9, 9],
     [6, 7, 7, 7, 7, 7, 9, 9], [9, 10, 10, 10, 10, 10, 12, 12]]"

definition MOVE_WORST :: "int list list" where
  "MOVE_WORST =
    [[3, 5, 5, 6, 7, 7, 9, 9], [3, 5, 8, 6, 7, 7, 9, 9], [5, 7, 7, 8, 9, 9, 11, 11], [7, 9, 9, 9, 11, 11, 13, 11],
     [7, 9, 9, 9, 11, 11, 13, 11], [8, 10, 10, 10, 12, 12, 14, 12], [9, 11, 11, 11, 13, 13, 15, 13],
     [8, 10, 10, 10, 12, 12, 14, 12], [10, 12, 12, 12, 14, 14, 16, 14], [11, 13, 13, 13, 15, 15, 17, 15]]"

definition ea_m :: "u16 \<Rightarrow> u16" where "ea_m op = drop_bit 3 op AND 7"
definition ea_r :: "u16 \<Rightarrow> u16" where "ea_r op = op AND 7"

definition move_cycles :: "u16 \<Rightarrow> opsize \<Rightarrow> bool \<Rightarrow> int" where
  "move_cycles op sz cached =
     (let row = move_source_row (ea_m op) (ea_r op) sz;
          col = move_destination_col (drop_bit 6 op AND 7) (drop_bit 9 op AND 7)
      in (if cached then MOVE_CACHE else MOVE_WORST) ! row ! col)"

definition legacy_fallback :: "int \<Rightarrow> int" where
  "legacy_fallback raw = max ((raw * 5 + 7) sdiv 8) 2"

text \<open>A base cost with the cost of an effective address.\<close>

definition base_ea :: "timing_case \<Rightarrow> timing_case \<Rightarrow> bool \<Rightarrow> int option" where
  "base_ea base ea cached = Some (pick (case_add base ea) cached)"

definition fixed :: "timing_case \<Rightarrow> bool \<Rightarrow> int option" where
  "fixed c cached = Some (pick c cached)"

section \<open>Exceptions and groups\<close>

definition exception_cycles_020 :: "int \<Rightarrow> bool \<Rightarrow> 'a cpu_core_scheme \<Rightarrow> int option" where
  "exception_cycles_020 raw cached s =
     (case instruction_exception_vector s of
        None \<Rightarrow> None
      | Some vector \<Rightarrow>
          (let op = ucast (ir s) :: u16
           in if vector \<in> {4, 8, 10, 11} then fixed (20, 27) cached
              else if vector = 7 \<and> op = 0x4E76 then fixed (25, 32) cached
              else if vector = 7 \<and> drop_bit 12 op = 5 then
                fixed (if op AND 7 \<in> {2, 3} then (25, 33) else (25, 32)) cached
              else Some (legacy_fallback raw)))"

definition group_0_020 :: "u16 \<Rightarrow> bool \<Rightarrow> 'a cpu_core_scheme \<Rightarrow> int option" where
  "group_0_020 op cached s =
     (let m = ea_m op; reg = ea_r op; dynamic_bit = (op AND 0x0100 \<noteq> 0); static_bit = (op AND 0x0F00 = 0x0800);
          subop = drop_bit 8 op AND 0xF
      in if op = 0x0CFC \<or> op = 0x0EFC then fixed (if flag_z s then (25, 28) else (22, 25)) cached
         else if op AND 0x0FC0 \<in> {0x0AC0, 0x0CC0, 0x0EC0} then
           base_ea (if flag_z s then (15, 16) else (12, 13)) (calculate_immediate_ea m reg Size_Word) cached
         else if op AND 0xFF00 = 0x0E00 then base_ea (7, 8) (calculate_immediate_ea m reg Size_Word) cached
         else if op AND 0xFFF0 = 0x06C0 then fixed (32, 35) cached
         else if op AND 0xFFC0 = 0x06C0 then base_ea (57, 64) (fetch_immediate_ea m reg Size_Word) cached
         else if op AND 0x0800 = 0 \<and> op AND 0x0100 = 0 \<and> op AND 0x00C0 = 0x00C0 \<and> drop_bit 9 op AND 3 \<noteq> 3 then
           base_ea (18, 18) (fetch_immediate_ea m reg Size_Word) cached
         else if op AND 0xF138 = 0x0108 then
           fixed (if op AND 0x0080 \<noteq> 0 then if op AND 0x0040 \<noteq> 0 then (17, 17) else (11, 11)
                  else if op AND 0x0040 \<noteq> 0 then (18, 18) else (12, 12)) cached
         else if dynamic_bit \<or> static_bit then
           if m = 0 then fixed (4, 5) cached
           else base_ea (4, 5) (if static_bit then fetch_immediate_ea m reg Size_Word else fetch_ea m reg Size_Byte) cached
         else if op \<in> {0x003C, 0x007C, 0x023C, 0x027C, 0x0A3C, 0x0A7C} then fixed (12, 15) cached
         else if subop \<in> {0x0, 0x2, 0x4, 0x6, 0xA, 0xC} then
           base_ea (if m = 0 \<or> subop = 0xC then (2, 3) else (4, 6))
             (fetch_immediate_ea m reg (size_00 (drop_bit 6 op AND 3))) cached
         else None)"

definition saturating_sub_i32 :: "int \<Rightarrow> int \<Rightarrow> int" where
  "saturating_sub_i32 a b = max (- (2 ^ 31)) (min (2 ^ 31 - 1) (a - b))"

definition movem_cycles_020 :: "u16 \<Rightarrow> int \<Rightarrow> timing_case" where
  "movem_cycles_020 op raw =
     (let transfer_cost = (if op AND 0x0040 \<noteq> 0 then 8 else 4)
      in if op AND 0x0400 \<noteq> 0 then
           let count = saturating_sub_i32 raw 12 sdiv transfer_cost in (8 + 4 * count, 9 + 4 * count)
         else
           let count = saturating_sub_i32 raw 8 sdiv transfer_cost in (4 + 3 * count, 5 + 3 * count))"

text \<open>The instructions of group 4 with a fixed opcode.\<close>

definition fixed_4e_020 :: "u16 \<Rightarrow> int \<Rightarrow> timing_case option" where
  "fixed_4e_020 op raw =
     (if op = 0x4E70 then Some (518, 519) else if op = 0x4E71 then Some (2, 3)
      else if op = 0x4E72 then Some (8, 8)
      else if op = 0x4E73 then
        Some (if raw = 15 then (16, 39) else if raw = 31 then (32, 33) else if raw = 42 then (43, 45)
              else if raw = 91 then (92, 94) else (21, 24))
      else if op = 0x4E74 then Some (10, 12) else if op = 0x4E75 then Some (10, 12)
      else if op = 0x4E76 then Some (4, 5) else if op = 0x4E77 then Some (14, 15) else None)"

definition group_4_unary_020 :: "u16 \<Rightarrow> bool \<Rightarrow> int option" where
  "group_4_unary_020 op cached =
     (let m = ea_m op; reg = ea_r op; sz = size_00 (drop_bit 6 op AND 3)
      in if op AND 0xFFC0 = 0x4840 \<and> m \<noteq> 0 then base_ea (5, 6) (calculate_ea m reg) cached
         else if op AND 0xFFF8 = 0x4840 then fixed (4, 4) cached
         else if op AND 0xFFF8 \<in> {0x4880, 0x48C0, 0x49C0} then fixed (4, 4) cached
         else if op AND 0xFFC0 = 0x4AC0 then
           if m = 0 then fixed (4, 4) cached else base_ea (12, 13) (calculate_ea m reg) cached
         else if op AND 0xFF00 = 0x4A00 then base_ea (2, 3) (fetch_ea m reg sz) cached
         else if op AND 0xFF00 \<in> {0x4000, 0x4200, 0x4400, 0x4600} then
           if m = 0 then fixed (2, 3) cached
           else base_ea (4, 6) (if op AND 0xFF00 = 0x4200 then calculate_ea m reg else fetch_ea m reg sz) cached
         else if op AND 0xFFC0 = 0x4800 \<and> m = 0 then fixed (6, 6) cached
         else None)"

definition group_4_020 :: "u16 \<Rightarrow> int \<Rightarrow> bool \<Rightarrow> int option" where
  "group_4_020 op raw cached =
     (let m = ea_m op; reg = ea_r op; chk_opmode = drop_bit 6 op AND 7
      in if op AND 0xFFC0 = 0x4C00 then base_ea (43, 44) (fetch_immediate_ea m reg Size_Word) cached
         else if op AND 0xFFC0 = 0x4C40 then base_ea (90, 91) (fetch_immediate_ea m reg Size_Word) cached
         else if op AND 0xFFC0 \<in> {0x40C0, 0x42C0} then
           if m = 0 then fixed (4, 5) cached else base_ea (5, 7) (calculate_ea m reg) cached
         else if op AND 0xFFC0 \<in> {0x44C0, 0x46C0} then
           base_ea (if op AND 0x0200 = 0 then (4, 5) else (8, 11)) (fetch_ea m reg Size_Word) cached
         else if op AND 0xFB80 = 0x4880 \<and> m \<noteq> 0 then
           base_ea (movem_cycles_020 op raw) (calculate_immediate_ea m reg Size_Word) cached
         else if op AND 0xF1C0 = 0x41C0 then base_ea (2, 3) (calculate_ea m reg) cached
         else if chk_opmode \<in> {4, 6} then
           base_ea (8, 8) (fetch_ea m reg (if chk_opmode = 4 then Size_Long else Size_Word)) cached
         else if op AND 0xFFC0 = 0x4E80 then base_ea (5, 11) (jump_ea m reg) cached
         else if op AND 0xFFC0 = 0x4EC0 then base_ea (4, 7) (jump_ea m reg) cached
         else if op AND 0xFFF8 = 0x4808 then fixed (6, 10) cached
         else if op AND 0xFFF8 = 0x4E50 then fixed (5, 7) cached
         else if op AND 0xFFF8 = 0x4E58 then fixed (6, 7) cached
         else if op AND 0xFFF0 = 0x4E60 then fixed (2, 3) cached
         else if op = 0x4E7A then fixed (6, 7) cached
         else if op = 0x4E7B then fixed (12, 13) cached
         else case fixed_4e_020 op raw of Some c \<Rightarrow> fixed c cached | None \<Rightarrow> group_4_unary_020 op cached)"

definition dyadic_020 :: "u16 \<Rightarrow> bool \<Rightarrow> int option" where
  "dyadic_020 op cached =
     (let group = drop_bit 12 op; opmode = drop_bit 6 op AND 7; m = ea_m op; reg = ea_r op; x = (4 \<le> opmode \<and> opmode \<le> 6)
      in if group \<in> {0x8, 0xC} \<and> opmode = 4 \<and> m \<le> 1 then fixed (if m = 0 then (4, 5) else (16, 17)) cached
         else if group \<in> {0x9, 0xD} \<and> x \<and> m \<le> 1 then fixed (if m = 0 then (2, 3) else (12, 13)) cached
         else if group = 0xB \<and> x \<and> m = 1 then fixed (9, 10) cached
         else if group = 0xB \<and> x \<and> m = 0 then fixed (2, 3) cached
         else if group = 0x8 \<and> opmode = 5 \<and> m \<le> 1 then fixed (if m = 0 then (6, 7) else (13, 13)) cached
         else if group = 0x8 \<and> opmode = 6 \<and> m \<le> 1 then fixed (if m = 0 then (8, 9) else (13, 13)) cached
         else if group = 0xC \<and> x \<and> drop_bit 3 op AND 0x1F \<in> {0x08, 0x09, 0x11} then fixed (2, 3) cached
         else if group = 0xC \<and> opmode \<in> {3, 7} then base_ea (27, 28) (fetch_ea m reg Size_Word) cached
         else if group = 0x8 \<and> opmode = 3 then base_ea (44, 44) (fetch_ea m reg Size_Word) cached
         else if group = 0x8 \<and> opmode = 7 then base_ea (56, 57) (fetch_ea m reg Size_Word) cached
         else if opmode \<le> 2 then base_ea (2, 3) (fetch_ea m reg (size_00 opmode)) cached
         else if opmode \<in> {3, 7} \<and> group \<in> {0x9, 0xB, 0xD} then
           base_ea (if group = 0xB then (4, 4) else (2, 3))
             (fetch_ea m reg (if opmode = 3 then Size_Word else Size_Long)) cached
         else if x then base_ea (4, 6) (fetch_ea m reg (size_00 (opmode - 4))) cached
         else None)"

definition taken_branch_refill :: "'a cpu_core_scheme \<Rightarrow> int" where
  "taken_branch_refill s = (if ppc s mod 4 = 0 then 1 else 0)"

definition group_5_020 :: "u16 \<Rightarrow> bool \<Rightarrow> 'a cpu_core_scheme \<Rightarrow> int option" where
  "group_5_020 op cached s =
     (let m = ea_m op; reg = ea_r op; size_bits = drop_bit 6 op AND 3
      in if size_bits = 3 \<and> m = 7 \<and> reg \<in> {2, 3, 4} then
           fixed (if reg = 2 then (6, 7) else if reg = 3 then (8, 10) else (4, 5)) cached
         else if size_bits = 3 \<and> m = 1 then
           fixed (if test_condition (ucast (drop_bit 8 op AND 0xF)) s then (6, 7)
                  else if (ucast (d_reg (unat reg) s) :: u16) = 0xFFFF then (10, 10)
                  else (6 + taken_branch_refill s, 9 + taken_branch_refill s)) cached
         else if size_bits = 3 then
           if m = 0 then fixed (4, 4) cached else base_ea (6, 6) (calculate_ea m reg) cached
         else if m \<le> 1 then fixed (2, 3) cached
         else base_ea (4, 6) (fetch_ea m reg (size_00 size_bits)) cached)"

definition group_6_020 :: "u16 \<Rightarrow> bool \<Rightarrow> 'a cpu_core_scheme \<Rightarrow> int" where
  "group_6_020 op cached s =
     (let condition = drop_bit 8 op AND 0xF; disp = op AND 0xFF
      in if condition = 1 then pick (7, 13) cached + 1
         else if condition = 0 \<or> change_of_flow s then pick (6, 9) cached + 1
         else if disp = 0 then pick (6, 7) cached
         else if disp = 0xFF then pick (6, 9) cached
         else pick (4, 5) cached)"

text \<open>The cost of a bit field instruction in a register, in five bytes and in at most four bytes.\<close>

definition bitfield_case :: "u16 \<Rightarrow> timing_case list \<Rightarrow> timing_case option" where
  "bitfield_case selector row =
     (if selector = 0x8 then Some (row ! 0) else if selector \<in> {0x9, 0xB} then Some (row ! 1)
      else if selector \<in> {0xA, 0xC, 0xE} then Some (row ! 2) else if selector = 0xD then Some (row ! 3)
      else if selector = 0xF then Some (row ! 4) else None)"

definition group_e_020 :: "u16 \<Rightarrow> bool \<Rightarrow> 'a cpu_core_scheme \<Rightarrow> int option" where
  "group_e_020 op cached s =
     (let m = ea_m op; reg = ea_r op; selector = drop_bit 8 op AND 0xF
      in if op AND 0x00C0 = 0x00C0 \<and> 8 \<le> selector then
           map_option (\<lambda>base. pick (if m = 0 then base else case_add base (calculate_immediate_ea m reg Size_Word)) cached)
             (bitfield_case selector
               (if m = 0 then [(6, 7), (8, 8), (14, 14), (18, 18), (10, 10)]
                else if bitfield_mem_wide_span s then [(26, 27), (30, 30), (34, 34), (42, 42), (34, 34)]
                else [(14, 15), (18, 18), (22, 22), (30, 30), (22, 22)]))
         else if drop_bit 6 op AND 3 = 3 then
           let kind = drop_bit 9 op AND 3
           in base_ea (if kind = 0 \<and> op AND 0x0100 \<noteq> 0 then (6, 7) else if kind \<le> 2 then (5, 6) else (7, 7))
                (fetch_ea m reg Size_Word) cached
         else
           let kind = drop_bit 3 op AND 3
           in fixed (if kind = 0 then if op AND 0x0100 \<noteq> 0 then (8, 8) else (6, 6)
                     else if kind = 1 then if op AND 0x0020 \<noteq> 0 then (6, 6) else (4, 4)
                     else if kind = 2 then (12, 12) else (8, 8)) cached)"

definition cycles_020 :: "int \<Rightarrow> bool \<Rightarrow> 'a cpu_core_scheme \<Rightarrow> int" where
  "cycles_020 raw fetch_cached s =
     (case exception_cycles_020 raw fetch_cached s of
        Some c \<Rightarrow> c
      | None \<Rightarrow>
          (let op = ucast (ir s) :: u16; group = drop_bit 12 op;
               cycles =
                 (if group = 0x0 then group_0_020 op fetch_cached s
                  else if group = 0x1 then Some (move_cycles op Size_Byte fetch_cached)
                  else if group = 0x2 then Some (move_cycles op Size_Long fetch_cached)
                  else if group = 0x3 then Some (move_cycles op Size_Word fetch_cached)
                  else if group = 0x4 then group_4_020 op raw fetch_cached
                  else if group = 0x5 then group_5_020 op fetch_cached s
                  else if group = 0x6 then Some (group_6_020 op fetch_cached s)
                  else if group = 0x7 then fixed (2, 3) fetch_cached
                  else if group \<in> {0x8, 0x9, 0xB, 0xC, 0xD} then dyadic_020 op fetch_cached
                  else if group = 0xE then group_e_020 op fetch_cached s
                  else None)
           in case cycles of Some c \<Rightarrow> c | None \<Rightarrow> legacy_fallback raw))"

end
