(* ===== verification/Spec2Isabelle.thy ===== *)
theory Spec2Isabelle
  imports Bus Atc Cpu_State Mmu Delivery Ea Arith Flat_Ram Data_Movement Logic Shift Bcd Mul_Div
    Bitfield Compare_Swap Block_Moves Control Float_Add Float_Sqrt Group_F Fpu_Theorems Op_Cache Timing_060 Timing_020
begin

text \<open>
A verification library for the m68k emulator core: the interpreter of the Motorola 68000
  family under \<open>src/core\<close>, its memory management units under \<open>src/mmu\<close> and the extended
  floating point arithmetic of its coprocessor under \<open>src/fpu\<close>.

  \<^bold>\<open>How the program works.\<close> \<open>CpuCore\<close> (\<open>src/core/cpu.rs\<close>) is one large mutable state: the
  register file with three banked stack pointers, the status register kept as separate flag
  words, the prefetch queue, the MMU registers with their translation cache, and the
  bookkeeping of a fault being taken. An instruction is fetched through the queue, dispatched on
  the top four bits of its opcode (\<open>decode.rs\<close>), and executed by a handler of
  \<open>src/core/instructions\<close>, which resolves effective addresses (\<open>ea.rs\<close>) and accesses memory
  (\<open>memory.rs\<close>, \<open>cpu.rs\<close>) through the MMU (\<open>src/mmu\<close>) on a bus the embedding program
  supplies. An access that fails does not return an error: it takes the exception at once
  (\<open>exceptions.rs\<close>), marks the run mode, and the handler that was interrupted finds the mark and
  stops with a cycle count of 50.

  \<^bold>\<open>How the model follows it.\<close> Every theory models one source file or one group of its
  functions, with the names of the source; a function on \<open>&mut self\<close> is a HOL function that
  returns the changed state, an early return is a branch, the widths of the integers are those of
  the source. The state \<open>'b machine\<close> is a record with the fields of \<open>CpuCore\<close> and, as its
  last field, the state \<open>'b\<close> of the bus; the trait \<open>AddressBus\<close> is a record \<open>'b address_bus\<close> of
  its methods, so it is an argument of every definition that touches memory.
  The accesses and the exceptions call each other: a fault pushes a frame, which is an access
  that can fault. \<open>deliver n\<close> (\<open>Exceptions\<close>) unrolls this cycle to \<open>n\<close> levels, and every
  definition that can fault takes the delivery as the parameter \<open>dl\<close>. None stands for a run that
  does not come back: a level of delivery that is not there, or a panic of the source.
  \<open>Delivery\<close> shows that four levels are enough on every machine whose vector base is even, and
  that with an odd vector base no number is.

  \<^bold>\<open>The theories.\<close>
  \<open>Prelude\<close> and \<open>Types\<close>: lemmas on words and masks; operand sizes, processor models, the
  results of a step (\<open>types.rs\<close>).
  \<open>Bus\<close>: the bus trait with its default methods and the linear test memory (\<open>memory.rs\<close>).
  \<open>Atc\<close>, \<open>Mmu\<close>: the translation cache, transparent translation, and the table walks of the
  68030 and the 68040 (\<open>src/mmu\<close>); the cache answers only what a walk would.
  \<open>Cpu_State\<close>: registers, status register and stack banking (\<open>cpu.rs\<close>).
  \<open>Memory\<close>, \<open>Exceptions\<close>, \<open>Delivery\<close>: accesses with their faults, stack frames, exception
  entry and interrupts (\<open>cpu.rs\<close>, \<open>exceptions.rs\<close>), and the termination of fault delivery.
  \<open>Ea\<close>: prefetch, immediates and addressing modes (\<open>ea.rs\<close>, \<open>addressing.rs\<close>).
  \<open>Arith\<close>, \<open>Data_Movement\<close>, \<open>Logic\<close>, \<open>Shift\<close>, \<open>Bcd\<close>, \<open>Mul_Div\<close>, \<open>Bitfield\<close>, \<open>Compare_Swap\<close>,
  \<open>Block_Moves\<close>: the instruction handlers of \<open>src/core/instructions\<close>. Their theorems give the
  arithmetic meaning of results and flags, for multi-precision chains too, closed forms of the
  loops, round trips, and what reaches memory on the flat memory of \<open>Flat_Ram\<close>.
  \<open>Decode\<close>: the dispatch of the computing instruction groups (\<open>decode.rs\<close>).
  \<open>Float_X80\<close>, \<open>Softfloat\<close>: the 80-bit format and its arithmetic (\<open>types.rs\<close>, \<open>softfloat.rs\<close> of
  \<open>src/fpu\<close>). \<open>Rounding\<close> states over the reals what correct rounding is, \<open>Softfloat_Correct\<close>
  shows that the packing path meets it, and \<open>Float_Arith\<close>, \<open>Float_Add\<close> and \<open>Float_Sqrt\<close> that the
  operations do, with the exact exception of division and square root to nearest in extended
  precision.

  \<^bold>\<open>Bounds and fuel.\<close> \<open>deliver\<close>: four levels, proved sufficient in \<open>Delivery\<close>. The refill of the
  prefetch queue runs at most its two entries. The digit loop of the integer square root has 65
  rounds for the 64 digits of a 128-bit number (\<open>isqrt128_correct\<close>), the powers of ten 32 for the
  bits of their exponent.

  \<^bold>\<open>Interfaces.\<close> The locales of the library are the contracts between components, each interpreted
  on the definitions of the model: the linear memory as a store, the caches over the walks, the
  access functions over the bus.

  \<^bold>\<open>Not modelled.\<close> The trace compiler and the profiler, which emit host machine code; the operation
  cache and the fast paths of the memory window, which duplicate the interpreter for speed; the
  disassembler, which formats strings; the coprocessor instructions of group F with the packed
  decimal and transcendental functions; the conversion of cycle counts for the later processors;
  and the groups 0 and 4 and the run loops, which the later part of the plan adds.
\<close>

end
